(* ===== verification/Json.thy ===== *)
theory Json
  imports Prelude
begin

text \<open>
  What the operator uses of Go's \<^verbatim>\<open>encoding/json\<close>: the text format, written compactly as
  \<^verbatim>\<open>json.Marshal\<close> does and read as its scanner does, and the rules by which a document is
  decoded into a struct (a missing or null member leaves the field alone, an unknown member
  is ignored, a member of the wrong type is an error, names match without regard to case,
  a repeated member is decoded again over the first). A number keeps its literal until it is
  decoded, so that \<open>1.5\<close> or \<open>1e3\<close> is refused for an integer field as Go refuses it.

  Bytes above 127 pass through unchanged: the strings of the Kubernetes API are valid UTF-8,
  and the replacement of invalid sequences is not modelled.
\<close>

datatype json =
    JNull
  | JBool bool
  | JNum string
  | JStr string
  | JArr "json list"
  | JObj "(string \<times> json) list"

section \<open>Writing\<close>

definition escape_char :: "char \<Rightarrow> string" where
  "escape_char c =
     (let n = of_char c :: nat in
      if n = 34 then [CHR 0x5C, CHR 0x22]
      else if n = 92 then [CHR 0x5C, CHR 0x5C]
      else if n = 8 then [CHR 0x5C, CHR ''b'']
      else if n = 12 then [CHR 0x5C, CHR ''f'']
      else if n = 10 then [CHR 0x5C, CHR ''n'']
      else if n = 13 then [CHR 0x5C, CHR ''r'']
      else if n = 9 then [CHR 0x5C, CHR ''t'']
      else if n < 32 \<or> n = 60 \<or> n = 62 \<or> n = 38
        then [CHR 0x5C, CHR ''u'', CHR ''0'', CHR ''0'', hex_lower (n div 16), hex_lower (n mod 16)]
      else [c])"

definition render_str :: "string \<Rightarrow> string" where
  "render_str s = [CHR 0x22] @ concat (map escape_char s) @ [CHR 0x22]"

primrec render :: "json \<Rightarrow> string"
  and render_elems :: "json list \<Rightarrow> string"
  and render_members :: "(string \<times> json) list \<Rightarrow> string"
  and render_member :: "string \<times> json \<Rightarrow> string" where
  "render JNull = ''null''"
| "render (JBool b) = (if b then ''true'' else ''false'')"
| "render (JNum s) = s"
| "render (JStr s) = render_str s"
| "render (JArr xs) = CHR ''['' # (if xs = [] then '']'' else render_elems xs)"
| "render (JObj ms) = CHR ''{'' # (if ms = [] then ''}'' else render_members ms)"
| "render_elems [] = []"
| "render_elems (x # xs) = render x @ (if xs = [] then '']'' else CHR '','' # render_elems xs)"
| "render_members [] = []"
| "render_members (m # ms) = render_member m @ (if ms = [] then ''}'' else CHR '','' # render_members ms)"
| "render_member (k, v) = render_str k @ CHR '':'' # render v"

section \<open>Reading\<close>

definition is_json_ws :: "char \<Rightarrow> bool" where
  "is_json_ws c = (of_char c \<in> {9, 10, 13, 32 :: nat})"

abbreviation skip_ws :: "string \<Rightarrow> string" where
  "skip_ws \<equiv> dropWhile is_json_ws"

text \<open>The UTF-8 form of a code point.\<close>

definition utf8 :: "nat \<Rightarrow> string" where
  "utf8 n =
     (if n < 128 then [char_of n]
      else if n < 2048 then [char_of (192 + n div 64), char_of (128 + n mod 64)]
      else if n < 65536
        then [char_of (224 + n div 4096), char_of (128 + n div 64 mod 64), char_of (128 + n mod 64)]
      else [char_of (240 + n div 262144), char_of (128 + n div 4096 mod 64),
            char_of (128 + n div 64 mod 64), char_of (128 + n mod 64)])"

definition hex4 :: "char \<Rightarrow> char \<Rightarrow> char \<Rightarrow> char \<Rightarrow> nat option" where
  "hex4 a b c d =
     (case (hex_val a, hex_val b, hex_val c, hex_val d) of
        (Some i, Some j, Some k, Some l) \<Rightarrow> Some (4096 * i + 256 * j + 16 * k + l)
      | _ \<Rightarrow> None)"

text \<open>A four-digit escape at the head of the input, and what follows it.\<close>

fun read_u4 :: "string \<Rightarrow> (nat \<times> string) option" where
  "read_u4 (a # b # c # d # r) = map_option (\<lambda>n. (n, r)) (hex4 a b c d)"
| "read_u4 _ = None"

text \<open>A second escape that completes a surrogate pair begun by \<open>hi\<close>.\<close>

fun low_surrogate :: "string \<Rightarrow> (nat \<times> string) option" where
  "low_surrogate (b # u # r) =
     (if b = CHR 0x5C \<and> u = CHR ''u''
      then (case read_u4 r of
              Some (n, r') \<Rightarrow> (if 56320 \<le> n \<and> n < 57344 then Some (n, r') else None)
            | None \<Rightarrow> None)
      else None)"
| "low_surrogate _ = None"

text \<open>One escape, the reverse solidus already read: the bytes it stands for and the rest.\<close>

fun read_escape :: "string \<Rightarrow> (string \<times> string) option" where
  "read_escape [] = None"
| "read_escape (e # r) =
     (if e = CHR 0x22 \<or> e = CHR 0x5C \<or> e = CHR ''/'' then Some ([e], r)
      else if e = CHR ''b'' then Some ([CHR 0x08], r)
      else if e = CHR ''f'' then Some ([CHR 0x0C], r)
      else if e = CHR ''n'' then Some ([CHR 0x0A], r)
      else if e = CHR ''r'' then Some ([CHR 0x0D], r)
      else if e = CHR ''t'' then Some ([CHR 0x09], r)
      else if e = CHR ''u'' then
        (case read_u4 r of
           None \<Rightarrow> None
         | Some (n, r') \<Rightarrow>
             (if 55296 \<le> n \<and> n < 56320 then
                (case low_surrogate r' of
                   Some (m, r'') \<Rightarrow> Some (utf8 (65536 + 1024 * (n - 55296) + (m - 56320)), r'')
                 | None \<Rightarrow> Some (utf8 65533, r'))
              else if 56320 \<le> n \<and> n < 57344 then Some (utf8 65533, r')
              else Some (utf8 n, r')))
      else None)"

lemma read_u4_length: "read_u4 s = Some (n, r) \<Longrightarrow> length r < length s"
  by (induction s rule: read_u4.induct) auto

lemma low_surrogate_length: "low_surrogate s = Some (n, r) \<Longrightarrow> length r < length s"
  by (induction s rule: low_surrogate.induct)
     (auto split: if_splits option.splits dest: read_u4_length)

lemma read_escape_length: "read_escape s = Some (b, r) \<Longrightarrow> length r < length s"
  by (induction s rule: read_escape.induct)
     (auto split: if_splits option.splits dest!: read_u4_length low_surrogate_length)

function parse_str :: "string \<Rightarrow> (string \<times> string) option" where
  "parse_str [] = None"
| "parse_str (c # cs) =
     (if c = CHR 0x22 then Some ([], cs)
      else if c = CHR 0x5C then
        (case read_escape cs of
           None \<Rightarrow> None
         | Some (b, r) \<Rightarrow> map_option (\<lambda>(t, r'). (b @ t, r')) (parse_str r))
      else if (of_char c :: nat) < 32 then None
      else map_option (\<lambda>(t, r). (c # t, r)) (parse_str cs))"
  by pat_completeness auto
termination
  by (relation "measure length") (auto dest: read_escape_length)

text \<open>The longest number literal at the head of the input.\<close>

definition scan_frac :: "string \<Rightarrow> (string \<times> string) option" where
  "scan_frac s =
     (case s of
        c # r \<Rightarrow>
          (if c = CHR ''.'' then
             (let ds = takeWhile is_digit r in
              if ds = [] then None else Some (c # ds, dropWhile is_digit r))
           else Some ([], s))
      | [] \<Rightarrow> Some ([], s))"

definition scan_exp :: "string \<Rightarrow> (string \<times> string) option" where
  "scan_exp s =
     (case s of
        c # r \<Rightarrow>
          (if c = CHR ''e'' \<or> c = CHR ''E'' then
             (let (sg, r') = (case r of
                   d # q \<Rightarrow> if d = CHR ''+'' \<or> d = CHR ''-'' then ([d], q) else ([], r)
                 | [] \<Rightarrow> ([], r));
                  ds = takeWhile is_digit r' in
              if ds = [] then None else Some (c # sg @ ds, dropWhile is_digit r'))
           else Some ([], s))
      | [] \<Rightarrow> Some ([], s))"

definition scan_int :: "string \<Rightarrow> (string \<times> string) option" where
  "scan_int s =
     (case s of
        c # r \<Rightarrow>
          (if c = CHR ''0'' then Some ([c], r)
           else if is_digit c then Some (c # takeWhile is_digit r, dropWhile is_digit r)
           else None)
      | [] \<Rightarrow> None)"

definition scan_num :: "string \<Rightarrow> (string \<times> string) option" where
  "scan_num s =
     (let (sg, r) = (case s of c # q \<Rightarrow> if c = CHR ''-'' then ([c], q) else ([], s) | [] \<Rightarrow> ([], s)) in
      case scan_int r of
        None \<Rightarrow> None
      | Some (i, r1) \<Rightarrow>
          (case scan_frac r1 of
             None \<Rightarrow> None
           | Some (f, r2) \<Rightarrow>
               (case scan_exp r2 of
                  None \<Rightarrow> None
                | Some (e, r3) \<Rightarrow> Some (sg @ i @ f @ e, r3))))"

definition scan_lit :: "string \<Rightarrow> json \<Rightarrow> string \<Rightarrow> (json \<times> string) option" where
  "scan_lit l v s = (if HasPrefix s l then Some (v, drop (length l) s) else None)"

text \<open>
  The parser descends with a fuel parameter; \<open>fuel_of\<close> below is enough for any input, since a
  value costs at least one byte for every two levels of descent.
\<close>

fun parse_val :: "nat \<Rightarrow> string \<Rightarrow> (json \<times> string) option"
  and parse_elems :: "nat \<Rightarrow> string \<Rightarrow> (json list \<times> string) option"
  and parse_members :: "nat \<Rightarrow> string \<Rightarrow> ((string \<times> json) list \<times> string) option" where
  "parse_val 0 s = None"
| "parse_val (Suc n) s =
     (case skip_ws s of
        [] \<Rightarrow> None
      | c # cs \<Rightarrow>
          (if c = CHR ''['' then
             (case skip_ws cs of
                [] \<Rightarrow> None
              | d # ds \<Rightarrow> (if d = CHR '']'' then Some (JArr [], ds)
                           else map_option (\<lambda>(xs, r). (JArr xs, r)) (parse_elems n cs)))
           else if c = CHR ''{'' then
             (case skip_ws cs of
                [] \<Rightarrow> None
              | d # ds \<Rightarrow> (if d = CHR ''}'' then Some (JObj [], ds)
                           else map_option (\<lambda>(ms, r). (JObj ms, r)) (parse_members n cs)))
           else if c = CHR 0x22 then map_option (\<lambda>(t, r). (JStr t, r)) (parse_str cs)
           else if c = CHR ''n'' then scan_lit ''null'' JNull (c # cs)
           else if c = CHR ''t'' then scan_lit ''true'' (JBool True) (c # cs)
           else if c = CHR ''f'' then scan_lit ''false'' (JBool False) (c # cs)
           else map_option (\<lambda>(l, r). (JNum l, r)) (scan_num (c # cs))))"
| "parse_elems 0 s = None"
| "parse_elems (Suc n) s =
     (case parse_val n s of
        None \<Rightarrow> None
      | Some (x, r) \<Rightarrow>
          (case skip_ws r of
             [] \<Rightarrow> None
           | c # cs \<Rightarrow>
               (if c = CHR '']'' then Some ([x], cs)
                else if c = CHR '','' then map_option (\<lambda>(xs, q). (x # xs, q)) (parse_elems n cs)
                else None)))"
| "parse_members 0 s = None"
| "parse_members (Suc n) s =
     (case skip_ws s of
        [] \<Rightarrow> None
      | c # cs \<Rightarrow>
          (if c \<noteq> CHR 0x22 then None
           else (case parse_str cs of
              None \<Rightarrow> None
            | Some (k, r) \<Rightarrow>
                (case skip_ws r of
                   [] \<Rightarrow> None
                 | d # ds \<Rightarrow>
                     (if d \<noteq> CHR '':'' then None
                      else (case parse_val n ds of
                         None \<Rightarrow> None
                       | Some (v, q) \<Rightarrow>
                           (case skip_ws q of
                              [] \<Rightarrow> None
                            | e # es \<Rightarrow>
                                (if e = CHR ''}'' then Some ([(k, v)], es)
                                 else if e = CHR '','' then
                                   map_option (\<lambda>(ms, p). ((k, v) # ms, p)) (parse_members n es)
                                 else None))))))))"

definition fuel_of :: "string \<Rightarrow> nat" where
  "fuel_of s = 2 * length s + 2"

text \<open>
  How deep arrays and objects are nested. Go's scanner gives up beyond ten thousand levels
  (\<^verbatim>\<open>maxNestingDepth\<close>); a text that is refused for another reason is refused either way.
\<close>

primrec json_depth :: "json \<Rightarrow> nat"
  and elems_depth :: "json list \<Rightarrow> nat"
  and members_depth :: "(string \<times> json) list \<Rightarrow> nat"
  and member_depth :: "string \<times> json \<Rightarrow> nat" where
  "json_depth JNull = 0"
| "json_depth (JBool b) = 0"
| "json_depth (JNum s) = 0"
| "json_depth (JStr s) = 0"
| "json_depth (JArr xs) = Suc (elems_depth xs)"
| "json_depth (JObj ms) = Suc (members_depth ms)"
| "elems_depth [] = 0"
| "elems_depth (x # xs) = max (json_depth x) (elems_depth xs)"
| "members_depth [] = 0"
| "members_depth (m # ms) = max (member_depth m) (members_depth ms)"
| "member_depth (k, v) = json_depth v"

definition max_nesting_depth :: nat where
  "max_nesting_depth = 10000"

definition scanned :: "json \<times> string \<Rightarrow> (json \<times> string) option" where
  "scanned x = (if json_depth (fst x) \<le> max_nesting_depth then Some x else None)"

text \<open>
  \<^verbatim>\<open>json.Unmarshal\<close> wants the whole input to be one value; \<^verbatim>\<open>Decoder.Decode\<close> reads the
  first value of the stream and leaves the rest unread.
\<close>

definition parse_all :: "string \<Rightarrow> json option" where
  "parse_all s =
     (case Option.bind (parse_val (fuel_of s) s) scanned of
        Some (v, r) \<Rightarrow> (if skip_ws r = [] then Some v else None)
      | None \<Rightarrow> None)"

definition parse_first :: "string \<Rightarrow> json option" where
  "parse_first s = map_option fst (Option.bind (parse_val (fuel_of s) s) scanned)"

section \<open>Decoding into Go values\<close>

type_synonym 'a decoder = "json \<Rightarrow> 'a \<Rightarrow> 'a option"

definition dec_str :: "string decoder" where
  "dec_str j cur = (case j of JNull \<Rightarrow> Some cur | JStr s \<Rightarrow> Some s | _ \<Rightarrow> None)"

definition dec_bool :: "bool decoder" where
  "dec_bool j cur = (case j of JNull \<Rightarrow> Some cur | JBool b \<Rightarrow> Some b | _ \<Rightarrow> None)"

text \<open>\<^verbatim>\<open>strconv.ParseInt(lit, 10, 64)\<close> on a JSON number literal.\<close>

definition ParseInt64 :: "string \<Rightarrow> int option" where
  "ParseInt64 l =
     (let (neg, ds) = (case l of c # r \<Rightarrow> if c = CHR ''-'' then (True, r) else (False, l) | [] \<Rightarrow> (False, []));
          i = (if neg then - int (read_nat ds) else int (read_nat ds)) in
      if ds \<noteq> [] \<and> list_all is_digit ds \<and> - (2 ^ 63) \<le> i \<and> i < 2 ^ 63 then Some i else None)"

definition dec_int :: "int decoder" where
  "dec_int j cur = (case j of JNull \<Rightarrow> Some cur | JNum l \<Rightarrow> ParseInt64 l | _ \<Rightarrow> None)"

text \<open>A pointer field: null sets it to nil, anything else is decoded into a fresh or the current value.\<close>

definition dec_ptr :: "'a decoder \<Rightarrow> 'a \<Rightarrow> 'a option decoder" where
  "dec_ptr d zero j cur =
     (case j of JNull \<Rightarrow> Some None
      | _ \<Rightarrow> map_option Some (d j (case cur of None \<Rightarrow> zero | Some x \<Rightarrow> x)))"

fun dec_elems :: "'a decoder \<Rightarrow> 'a \<Rightarrow> json list \<Rightarrow> 'a list option" where
  "dec_elems d zero [] = Some []"
| "dec_elems d zero (j # js) =
     (case d j zero of None \<Rightarrow> None | Some x \<Rightarrow> map_option ((#) x) (dec_elems d zero js))"

definition dec_list :: "'a decoder \<Rightarrow> 'a \<Rightarrow> 'a list decoder" where
  "dec_list d zero j cur =
     (case j of JNull \<Rightarrow> Some [] | JArr js \<Rightarrow> dec_elems d zero js | _ \<Rightarrow> None)"

definition lower_char :: "char \<Rightarrow> char" where
  "lower_char c = (if 65 \<le> (of_char c :: nat) \<and> (of_char c :: nat) \<le> 90 then char_of ((of_char c :: nat) + 32) else c)"

text \<open>Every member that names the field, in document order, decoded over the value so far.\<close>

fun dec_member :: "'a decoder \<Rightarrow> string \<Rightarrow> (string \<times> json) list \<Rightarrow> 'a \<Rightarrow> 'a option" where
  "dec_member d n [] cur = Some cur"
| "dec_member d n ((k, v) # ms) cur =
     (if map lower_char k = n
      then (case d v cur of None \<Rightarrow> None | Some x \<Rightarrow> dec_member d n ms x)
      else dec_member d n ms cur)"

definition dec_struct :: "((string \<times> json) list \<Rightarrow> 'a \<Rightarrow> 'a option) \<Rightarrow> 'a decoder" where
  "dec_struct f j cur = (case j of JNull \<Rightarrow> Some cur | JObj ms \<Rightarrow> f ms cur | _ \<Rightarrow> None)"

section \<open>Encoding Go values\<close>

definition jint :: "int \<Rightarrow> json" where
  "jint i = JNum (Itoa i)"

text \<open>The members of a struct: always written, or left out when empty (\<^verbatim>\<open>omitempty\<close>).\<close>

type_synonym members = "(string \<times> json) list"

definition omit_str :: "string \<Rightarrow> string \<Rightarrow> members" where
  "omit_str n s = (if s = [] then [] else [(n, JStr s)])"

definition omit_int :: "string \<Rightarrow> int \<Rightarrow> members" where
  "omit_int n i = (if i = 0 then [] else [(n, jint i)])"

definition omit_nil :: "string \<Rightarrow> ('a \<Rightarrow> json) \<Rightarrow> 'a option \<Rightarrow> members" where
  "omit_nil n f x = (case x of None \<Rightarrow> [] | Some v \<Rightarrow> [(n, f v)])"

section \<open>Lemmas\<close>

subsection \<open>Reading back a string\<close>

lemma hex_val_hex_lower: "k < 16 \<Longrightarrow> hex_val (hex_lower k) = Some k"
  by (auto simp: hex_val_def hex_lower_def Let_def)

lemma hex4_low:
  assumes "n < 128"
  shows "hex4 (CHR ''0'') (CHR ''0'') (hex_lower (n div 16)) (hex_lower (n mod 16)) = Some n"
proof -
  have zero: "hex_val (CHR ''0'') = Some 0" by (simp add: hex_val_def Let_def)
  have "n div 16 < 16" using assms by simp
  then show ?thesis by (simp add: hex4_def zero hex_val_hex_lower)
qed

lemma char_eq_of_nat: "(of_char c :: nat) = n \<Longrightarrow> c = char_of n"
  by (metis char_of_char)

lemma parse_str_escape:
  "parse_str (escape_char c @ t) = map_option (\<lambda>(u, r). (c # u, r)) (parse_str t)"
proof -
  define n where "n = (of_char c :: nat)"
  have c: "c = char_of n" by (simp add: n_def)
  have special: ?thesis if "n \<in> {34, 92, 8, 12, 10, 13, 9}"
  proof -
    have "c = d" if "(of_char d :: nat) = n" for d using that n_def by simp
    with that have "c \<in> {CHR 0x22, CHR 0x5C, CHR 0x08, CHR 0x0C, CHR 0x0A, CHR 0x0D, CHR 0x09}"
      by auto
    then show ?thesis by (elim insertE emptyE) (simp_all add: escape_char_def)
  qed
  have unicode: ?thesis if "n < 32 \<or> n = 60 \<or> n = 62 \<or> n = 38" "n \<notin> {34, 92, 8, 12, 10, 13, 9}"
  proof -
    have n: "n < 128" using that by auto
    then have "escape_char c = [CHR 0x5C, CHR ''u'', CHR ''0'', CHR ''0'', hex_lower (n div 16), hex_lower (n mod 16)]"
      using that by (auto simp: c escape_char_def Let_def)
    then show ?thesis using n by (simp add: hex4_low utf8_def c)
  qed
  have plain: ?thesis if "\<not> (n < 32 \<or> n = 60 \<or> n = 62 \<or> n = 38)" "n \<notin> {34, 92, 8, 12, 10, 13, 9}"
  proof -
    have "escape_char c = [c]"
      using that n_def by (auto simp: escape_char_def Let_def)
    moreover have "c \<noteq> CHR 0x22" "c \<noteq> CHR 0x5C" using that n_def by auto
    moreover have "\<not> (of_char c :: nat) < 32" using that n_def by auto
    ultimately show ?thesis by simp
  qed
  show ?thesis using special unicode plain by blast
qed

lemma parse_str_render: "parse_str (concat (map escape_char s) @ CHR 0x22 # r) = Some (s, r)"
  by (induction s) (simp_all add: parse_str_escape)

lemma render_str_Cons: "render_str s @ r = CHR 0x22 # (concat (map escape_char s) @ CHR 0x22 # r)"
  by (simp add: render_str_def)

subsection \<open>Reading back an integer\<close>

definition no_num_char :: "string \<Rightarrow> bool" where
  "no_num_char r = (case r of [] \<Rightarrow> True | c # _ \<Rightarrow> \<not> is_digit c \<and> c \<notin> {CHR ''.'', CHR ''e'', CHR ''E''})"

lemma show_nat_hd:
  "0 < n \<Longrightarrow> hd (show_nat n) \<noteq> CHR ''0''"
proof (induction n rule: show_nat.induct)
  case (1 n)
  show ?case
  proof (cases "n < 10")
    case True
    with 1 have "digit_val (hd (show_nat n)) = n" by (simp add: show_nat.simps [of n])
    with 1 show ?thesis by (auto simp: digit_val_def)
  next
    case False
    with 1 have "hd (show_nat (n div 10)) \<noteq> CHR ''0''" by simp
    with False show ?thesis by (simp add: show_nat.simps [of n] hd_append)
  qed
qed

lemma show_nat_0: "show_nat 0 = ''0''"
  by (simp add: show_nat.simps digit_char_def char_of_eq_iff)

lemma takeWhile_digits:
  assumes "\<And>c. c \<in> set ds \<Longrightarrow> is_digit c" and "no_num_char r"
  shows "takeWhile is_digit (ds @ r) = ds" and "dropWhile is_digit (ds @ r) = r"
  using assms by (induction ds) (auto simp: no_num_char_def split: list.splits)

lemma scan_int_show:
  assumes "no_num_char r"
  shows "scan_int (show_nat n @ r) = Some (show_nat n, r)"
proof (cases "n = 0")
  case True
  then show ?thesis by (simp add: show_nat_0 scan_int_def)
next
  case False
  obtain d ds where s: "show_nat n = d # ds" by (cases "show_nat n") auto
  have "d \<noteq> CHR ''0''" using show_nat_hd [of n] False s by simp
  moreover have "is_digit d" and "\<And>c. c \<in> set ds \<Longrightarrow> is_digit c"
    using show_nat_digits [of _ n] s by auto
  ultimately show ?thesis
    using takeWhile_digits [of ds r] assms by (simp add: s scan_int_def del: takeWhile_append dropWhile_append)
qed

lemma scan_tail:
  assumes "no_num_char r"
  shows "scan_frac r = Some ([], r)" and "scan_exp r = Some ([], r)"
  using assms by (auto simp: no_num_char_def scan_frac_def scan_exp_def split: list.splits)

lemma show_nat_hd_digit: "is_digit (hd (show_nat n))"
  by (rule show_nat_digits [of _ n]) simp

lemma scan_num_Itoa:
  assumes "no_num_char r"
  shows "scan_num (Itoa i @ r) = Some (Itoa i, r)"
proof (cases "i < 0")
  case True
  then show ?thesis
    using assms by (simp add: Itoa_def scan_num_def scan_int_show scan_tail)
next
  case False
  obtain d ds where s: "show_nat (nat i) = d # ds" by (cases "show_nat (nat i)") auto
  have "is_digit d" using show_nat_hd_digit [of "nat i"] s by simp
  then have "d \<noteq> CHR ''-''" by (auto simp: is_digit_def)
  with False s have "scan_num (Itoa i @ r) =
      (case scan_int (show_nat (nat i) @ r) of
        None \<Rightarrow> None
      | Some (i, r1) \<Rightarrow>
          (case scan_frac r1 of
             None \<Rightarrow> None
           | Some (f, r2) \<Rightarrow>
               (case scan_exp r2 of None \<Rightarrow> None | Some (e, r3) \<Rightarrow> Some (i @ f @ e, r3))))"
    by (simp add: scan_num_def Itoa_def split: option.split prod.split)
  with False assms show ?thesis by (simp add: scan_int_show scan_tail Itoa_def)
qed

lemma Itoa_not_ws: "\<exists>d ds. Itoa i = d # ds \<and> (is_digit d \<or> d = CHR ''-'')"
  by (metis Itoa_def list.collapse show_nat_hd_digit show_nat_nonempty)

lemma ParseInt64_Itoa:
  assumes "- (2 ^ 63) \<le> i" and "i < 2 ^ 63"
  shows "ParseInt64 (Itoa i) = Some i"
proof (cases "i < 0")
  case True
  then show ?thesis
    using assms by (auto simp: ParseInt64_def Itoa_def Let_def list_all_iff dest: show_nat_digits)
next
  case False
  obtain d ds where s: "show_nat (nat i) = d # ds" by (cases "show_nat (nat i)") auto
  have "is_digit d" using show_nat_hd_digit [of "nat i"] s by simp
  then have d: "d \<noteq> CHR ''-''" by (auto simp: is_digit_def)
  have dig: "\<And>c. c \<in> set (d # ds) \<Longrightarrow> is_digit c" using show_nat_digits [of _ "nat i"] s by auto
  have val: "int (read_nat (d # ds)) = i" using read_show_nat [of "nat i"] s False by simp
  show ?thesis
    using assms False d dig val by (auto simp: ParseInt64_def Itoa_def s Let_def list_all_iff)
qed

subsection \<open>Reading back a document\<close>

text \<open>
  The documents the operator writes: every number is the literal of an integer.
\<close>

primrec wf_json :: "json \<Rightarrow> bool"
  and wf_elems :: "json list \<Rightarrow> bool"
  and wf_members :: "(string \<times> json) list \<Rightarrow> bool"
  and wf_member :: "string \<times> json \<Rightarrow> bool" where
  "wf_json JNull = True"
| "wf_json (JBool b) = True"
| "wf_json (JNum s) = (case ParseInt64 s of None \<Rightarrow> False | Some i \<Rightarrow> s = Itoa i)"
| "wf_json (JStr s) = True"
| "wf_json (JArr xs) = wf_elems xs"
| "wf_json (JObj ms) = wf_members ms"
| "wf_elems [] = True"
| "wf_elems (x # xs) = (wf_json x \<and> wf_elems xs)"
| "wf_members [] = True"
| "wf_members (m # ms) = (wf_member m \<and> wf_members ms)"
| "wf_member (k, v) = wf_json v"

lemma wf_jint: "- (2 ^ 63) \<le> i \<Longrightarrow> i < 2 ^ 63 \<Longrightarrow> wf_json (jint i)"
  by (simp add: jint_def ParseInt64_Itoa)

lemma not_json_ws [simp]:
  "\<not> is_json_ws (CHR ''['')" "\<not> is_json_ws (CHR ''{'')" "\<not> is_json_ws (CHR 0x22)"
  "\<not> is_json_ws (CHR '']'')" "\<not> is_json_ws (CHR ''}'')" "\<not> is_json_ws (CHR '','')"
  "\<not> is_json_ws (CHR '':'')" "\<not> is_json_ws (CHR ''n'')" "\<not> is_json_ws (CHR ''t'')"
  "\<not> is_json_ws (CHR ''f'')"
  by (simp_all add: is_json_ws_def)

lemma no_num_char_delim [simp]:
  "no_num_char []" "no_num_char (CHR '']'' # r)" "no_num_char (CHR ''}'' # r)" "no_num_char (CHR '','' # r)"
  by (simp_all add: no_num_char_def is_digit_def)

text \<open>A rendered value starts with no white space and with none of the closing brackets.\<close>

lemma render_head:
  assumes "wf_json v"
  shows "\<exists>c cs. render v = c # cs \<and> \<not> is_json_ws c \<and> c \<noteq> CHR '']'' \<and> c \<noteq> CHR ''}''"
proof (cases v)
  case (JNum s)
  with assms obtain i where "s = Itoa i" by (auto split: option.splits)
  with Itoa_not_ws [of i] JNum show ?thesis by (auto simp: is_digit_def is_json_ws_def)
qed (auto simp: render_str_def)

lemma parse_val_num:
  assumes "no_num_char r"
  shows "parse_val (Suc n) (Itoa i @ r) = Some (JNum (Itoa i), r)"
proof -
  obtain d ds where s: "Itoa i = d # ds" and d: "is_digit d \<or> d = CHR ''-''"
    using Itoa_not_ws by blast
  then have "\<not> is_json_ws d" and
    "d \<notin> {CHR ''['', CHR ''{'', CHR 0x22, CHR ''n'', CHR ''t'', CHR ''f''}"
    by (auto simp: is_digit_def is_json_ws_def)
  with s scan_num_Itoa [OF assms, of i] show ?thesis by simp
qed

lemma parse_elems_render:
  assumes "\<And>x n r. x \<in> set xs \<Longrightarrow> wf_json x \<Longrightarrow> no_num_char r \<Longrightarrow> 2 * length (render x) \<le> n \<Longrightarrow>
      parse_val n (render x @ r) = Some (x, r)"
    and "wf_elems xs" and "xs \<noteq> []" and "2 * length (render_elems xs) \<le> n"
  shows "parse_elems n (render_elems xs @ r) = Some (xs, r)"
  using assms
proof (induction xs arbitrary: n)
  case Nil
  then show ?case by simp
next
  case (Cons x xs)
  from Cons.prems(4) obtain m where n: "n = Suc m" by (cases n) (auto split: if_splits)
  have fuel: "2 * length (render x) \<le> m" using Cons.prems(4) n by (auto split: if_splits)
  have x: "parse_val m (render x @ t) = Some (x, t)" if "no_num_char t" for t
    using Cons.prems(1) [of x t m] Cons.prems(2) that fuel by simp
  show ?case
  proof (cases "xs = []")
    case True
    then show ?thesis by (simp add: n x)
  next
    case False
    have "parse_elems m (render_elems xs @ r) = Some (xs, r)"
      by (rule Cons.IH) (use Cons.prems False n in auto)
    with False show ?thesis by (simp add: n x)
  qed
qed

lemma parse_members_render:
  assumes "\<And>k v n r. (k, v) \<in> set ms \<Longrightarrow> wf_json v \<Longrightarrow> no_num_char r \<Longrightarrow> 2 * length (render v) \<le> n \<Longrightarrow>
      parse_val n (render v @ r) = Some (v, r)"
    and "wf_members ms" and "ms \<noteq> []" and "2 * length (render_members ms) \<le> n"
  shows "parse_members n (render_members ms @ r) = Some (ms, r)"
  using assms
proof (induction ms arbitrary: n)
  case Nil
  then show ?case by simp
next
  case (Cons m ms)
  obtain k v where m: "m = (k, v)" by (cases m)
  from Cons.prems(4) obtain j where n: "n = Suc j" by (cases n) (auto simp: m split: if_splits)
  have fuel: "2 * length (render v) \<le> j" using Cons.prems(4) n m by (auto split: if_splits)
  have v: "parse_val j (render v @ t) = Some (v, t)" if "no_num_char t" for t
    using Cons.prems(1) [of k v t j] Cons.prems(2) that fuel m by simp
  show ?case
  proof (cases "ms = []")
    case True
    then show ?thesis by (simp add: n m v render_str_def parse_str_render)
  next
    case False
    have "parse_members j (render_members ms @ r) = Some (ms, r)"
      by (rule Cons.IH) (use Cons.prems False n m in \<open>auto\<close>)
    with False show ?thesis by (simp add: n m v render_str_def parse_str_render)
  qed
qed

lemma parse_val_render:
  "wf_json v \<Longrightarrow> no_num_char r \<Longrightarrow> 2 * length (render v) \<le> n \<Longrightarrow> parse_val n (render v @ r) = Some (v, r)"
proof (induction v arbitrary: n r)
  case JNull
  then obtain m where "n = Suc m" by (cases n) auto
  then show ?case by (simp add: scan_lit_def HasPrefix_def)
next
  case (JBool b)
  then obtain m where "n = Suc m" by (cases n) (auto split: if_splits)
  then show ?case by (simp add: scan_lit_def HasPrefix_def)
next
  case (JNum s)
  then obtain i where s: "s = Itoa i" by (auto split: option.splits)
  have "n \<noteq> 0" using JNum.prems s Itoa_not_ws [of i] by auto
  then show ?case using JNum.prems s parse_val_num by (metis not0_implies_Suc render.simps(3))
next
  case (JStr s)
  then obtain m where "n = Suc m" by (cases n) (auto simp: render_str_def)
  then show ?case by (simp add: render_str_def parse_str_render)
next
  case (JArr xs)
  then obtain m where n: "n = Suc m" by (cases n) auto
  show ?case
  proof (cases "xs = []")
    case True
    then show ?thesis by (simp add: n)
  next
    case False
    have p: "parse_elems m (render_elems xs @ r) = Some (xs, r)"
      by (rule parse_elems_render) (use JArr n False in auto)
    from False obtain x ys where xs: "xs = x # ys" by (cases xs) auto
    obtain c cs where "render x = c # cs" "\<not> is_json_ws c" "c \<noteq> CHR '']''"
      using render_head [of x] JArr.prems xs by auto
    with p show ?thesis by (simp add: n xs)
  qed
next
  case (JObj ms)
  then obtain m where n: "n = Suc m" by (cases n) auto
  show ?case
  proof (cases "ms = []")
    case True
    then show ?thesis by (simp add: n)
  next
    case False
    have p: "parse_members m (render_members ms @ r) = Some (ms, r)"
      by (rule parse_members_render) (use JObj n False in \<open>auto simp: snds.simps\<close>)
    from False obtain k v ys where ms: "ms = (k, v) # ys" by (cases ms) auto
    from p show ?thesis by (simp add: n ms render_str_def)
  qed
qed

text \<open>The documents of the operator and of the platform are a few levels deep.\<close>

definition shallow :: "json \<Rightarrow> bool" where
  "shallow v = (json_depth v \<le> max_nesting_depth)"

lemma scanned_shallow [simp]: "shallow v \<Longrightarrow> scanned (v, r) = Some (v, r)"
  by (simp add: scanned_def shallow_def)

lemma shallow_depth [simp]: "json_depth v \<le> 9 \<Longrightarrow> shallow v"
  by (simp add: shallow_def max_nesting_depth_def)

lemma depth_append [simp]: "members_depth (ms @ ns) = max (members_depth ms) (members_depth ns)"
  by (induction ms) simp_all

lemma depth_jint [simp]: "json_depth (jint i) = 0"
  by (simp add: jint_def)

lemma depth_omit [simp]:
  "members_depth (omit_str k s) = 0" "members_depth (omit_int k i) = 0"
  "(\<And>y. json_depth (f y) = 0) \<Longrightarrow> members_depth (omit_nil k f x) = 0"
  by (simp_all add: omit_str_def omit_int_def omit_nil_def split: option.split)

lemma depth_map [simp]: "(\<And>x. json_depth (f x) \<le> n) \<Longrightarrow> elems_depth (map f xs) \<le> n"
  by (induction xs) simp_all

lemma parse_all_render [simp]: "wf_json v \<Longrightarrow> shallow v \<Longrightarrow> parse_all (render v) = Some v"
  using parse_val_render [of v "[]" "fuel_of (render v)"] by (simp add: parse_all_def fuel_of_def)

lemma parse_first_render [simp]: "wf_json v \<Longrightarrow> shallow v \<Longrightarrow> parse_first (render v) = Some v"
  using parse_val_render [of v "[]" "fuel_of (render v)"] by (simp add: parse_first_def fuel_of_def)

text \<open>\<^verbatim>\<open>Encoder.Encode\<close> ends the document with a newline, which \<^verbatim>\<open>Decode\<close> does not read.\<close>

lemma parse_first_render_line [simp]: "wf_json v \<Longrightarrow> shallow v \<Longrightarrow> parse_first (render v @ [CHR 0x0A]) = Some v"
  using parse_val_render [of v "[CHR 0x0A]" "fuel_of (render v @ [CHR 0x0A])"]
  by (simp add: parse_first_def fuel_of_def no_num_char_def is_digit_def)

end
