(* ===== verification/Api_Types.thy ===== *)
theory Api_Types
  imports Json "HOL-Library.Word"
begin

text \<open>
  The objects of \<^verbatim>\<open>api/v1alpha1\<close> (Tunnel, TunnelRoute and their parts) and the fields of the
  Kubernetes objects the operator reads or writes. A Go pointer field is an \<open>option\<close>, a slice a
  list, a map a HOL map; \<^verbatim>\<open>int32\<close> fields are 32-bit words read as signed. Values the operator only
  copies from one object into another (resource requirements, tolerations) stay the JSON they
  are written as. The time stamp of a condition, which the library maintains and no code here
  reads, is left out.

  The CRD's validation rules, which the generated schema makes the API server enforce, are the
  predicates at the end.
\<close>

section \<open>Kubernetes metadata\<close>

type_synonym int32 = "32 word"

record NamespacedName =
  nn_Namespace :: string
  nn_Name :: string

definition nn :: "string \<Rightarrow> string \<Rightarrow> NamespacedName" where
  "nn ns name = \<lparr>nn_Namespace = ns, nn_Name = name\<rparr>"

text \<open>\<^verbatim>\<open>NamespacedName.String()\<close>.\<close>

definition nn_text :: "NamespacedName \<Rightarrow> string" where
  "nn_text k = nn_Namespace k @ ''/'' @ nn_Name k"

record OwnerReference =
  or_Kind :: string
  or_Name :: string
  or_UID :: string
  or_Controller :: bool

record ObjectMeta =
  om_Name :: string
  om_Namespace :: string
  om_UID :: string
  om_ResourceVersion :: string
  om_Generation :: int
  om_DeletionTimestamp :: "string option"
  om_Finalizers :: "string list"
  om_Labels :: "string \<rightharpoonup> string"
  om_OwnerReferences :: "OwnerReference list"

definition zero_meta :: ObjectMeta where
  "zero_meta = \<lparr>om_Name = [], om_Namespace = [], om_UID = [], om_ResourceVersion = [],
     om_Generation = 0, om_DeletionTimestamp = None, om_Finalizers = [],
     om_Labels = Map.empty, om_OwnerReferences = []\<rparr>"

definition key_of :: "ObjectMeta \<Rightarrow> NamespacedName" where
  "key_of m = nn (om_Namespace m) (om_Name m)"

record Condition =
  c_Type :: string
  c_Status :: string
  c_Reason :: string
  c_Message :: string
  c_ObservedGeneration :: int

definition ConditionTrue :: string where "ConditionTrue = ''True''"
definition ConditionFalse :: string where "ConditionFalse = ''False''"

section \<open>Tunnel\<close>

definition TunnelConditionSynced :: string where
  "TunnelConditionSynced = ''Synced''"

definition TunnelConditionAgentAvailable :: string where
  "TunnelConditionAgentAvailable = ''AgentAvailable''"

definition TunnelConditionReady :: string where
  "TunnelConditionReady = ''Ready''"

definition TunnelFinalizer :: string where
  "TunnelFinalizer = ''tunnel.nubulusnetwork.es/finalizer''"

record CredentialsReference =
  cr_Name :: string
  cr_ClientIDKey :: string
  cr_ClientSecretKey :: string

record AgentSpec =
  ag_Image :: string
  ag_ImagePullPolicy :: string
  ag_ImagePullSecrets :: "string list"
  ag_Resources :: json
  ag_LogLevel :: string
  ag_NodeSelector :: "string \<rightharpoonup> string"
  ag_Tolerations :: "json list"

record EndpointsSpec =
  ep_TokenURL :: string
  ep_API :: string
  ep_ProjectID :: string

record TunnelSpec =
  ts_Credentials :: CredentialsReference
  ts_DisplayName :: string
  ts_Agent :: AgentSpec
  ts_Endpoints :: "EndpointsSpec option"

record TunnelStatus =
  st_TunnelID :: string
  st_ExternalID :: string
  st_Subdomain :: string
  st_CNAMETarget :: string
  st_WireGuardIP :: string
  st_CredentialSecret :: string
  st_OnlineStatus :: string
  st_ObservedGeneration :: int
  st_Conditions :: "Condition list"

record Tunnel =
  tn_Meta :: ObjectMeta
  tn_Spec :: TunnelSpec
  tn_Status :: TunnelStatus

section \<open>TunnelRoute\<close>

definition TunnelRouteConditionResolved :: string where
  "TunnelRouteConditionResolved = ''Resolved''"

definition TunnelRouteConditionSynced :: string where
  "TunnelRouteConditionSynced = ''Synced''"

definition TunnelRouteConditionReady :: string where
  "TunnelRouteConditionReady = ''Ready''"

definition RouteTypeHost :: string where "RouteTypeHost = ''host''"
definition RouteTypePath :: string where "RouteTypePath = ''path''"
definition SchemeHTTP :: string where "SchemeHTTP = ''http''"
definition SchemeHTTPS :: string where "SchemeHTTPS = ''https''"

definition TunnelRouteFinalizer :: string where
  "TunnelRouteFinalizer = ''tunnel.nubulusnetwork.es/finalizer''"

text \<open>\<^verbatim>\<open>intstr.IntOrString\<close>.\<close>

datatype IntOrString = IntVal int32 | StrVal string

record ServiceTarget =
  sv_Name :: string
  sv_Port :: IntOrString

record UpstreamTarget =
  up_Host :: string
  up_Port :: int32

record TunnelRouteSpec =
  rs_TunnelRef :: string
  rs_Hostname :: string
  rs_Type :: string
  rs_PathPrefix :: string
  rs_Service :: "ServiceTarget option"
  rs_Upstream :: "UpstreamTarget option"
  rs_Scheme :: string
  rs_StripPrefix :: bool
  rs_Priority :: "int32 option"
  rs_Enabled :: "bool option"

record TunnelRouteStatus =
  rt_RouteID :: string
  rt_TunnelID :: string
  rt_UpstreamHost :: string
  rt_UpstreamPort :: int32
  rt_ObservedGeneration :: int
  rt_Conditions :: "Condition list"

record TunnelRoute =
  tr_Meta :: ObjectMeta
  tr_Spec :: TunnelRouteSpec
  tr_Status :: TunnelRouteStatus

section \<open>Core and apps objects\<close>

record ServicePort =
  sp_Name :: string
  sp_Port :: int32

record Service =
  svc_Meta :: ObjectMeta
  svc_Ports :: "ServicePort list"

record Secret =
  sec_Meta :: ObjectMeta
  sec_Type :: string
  sec_Data :: "string \<rightharpoonup> string"

record EnvVar =
  ev_Name :: string
  ev_Value :: string
  ev_SecretKeyRef :: "(string \<times> string) option"

record ContainerPort =
  cp_Name :: string
  cp_ContainerPort :: int

record SecurityContext =
  sx_AllowPrivilegeEscalation :: "bool option"
  sx_ReadOnlyRootFilesystem :: "bool option"
  sx_Privileged :: "bool option"
  sx_CapabilitiesDrop :: "string list"

record Probe =
  pb_Path :: string
  pb_Port :: IntOrString
  pb_InitialDelaySeconds :: int
  pb_PeriodSeconds :: int
  pb_TimeoutSeconds :: int
  pb_FailureThreshold :: int

record Container =
  ct_Name :: string
  ct_Image :: string
  ct_ImagePullPolicy :: string
  ct_Env :: "EnvVar list"
  ct_Resources :: json
  ct_Ports :: "ContainerPort list"
  ct_SecurityContext :: "SecurityContext option"
  ct_LivenessProbe :: "Probe option"

record PodSecurityContext =
  px_RunAsNonRoot :: "bool option"
  px_RunAsUser :: "int option"
  px_RunAsGroup :: "int option"
  px_SeccompProfile :: "string option"

record PodTemplateSpec =
  pt_Labels :: "string \<rightharpoonup> string"
  pt_Annotations :: "string \<rightharpoonup> string"
  pt_ImagePullSecrets :: "string list"
  pt_NodeSelector :: "string \<rightharpoonup> string"
  pt_Tolerations :: "json list"
  pt_SecurityContext :: "PodSecurityContext option"
  pt_Containers :: "Container list"

record DeploymentSpec =
  ds_Replicas :: "int option"
  ds_StrategyType :: string
  ds_Selector :: "(string \<rightharpoonup> string) option"
  ds_Template :: PodTemplateSpec

record Deployment =
  dp_Meta :: ObjectMeta
  dp_Spec :: DeploymentSpec
  dp_AvailableReplicas :: int

section \<open>The CRD's validation rules\<close>

definition is_letter :: "char \<Rightarrow> bool" where
  "is_letter c = (is_alnum c \<and> \<not> is_digit c)"

text \<open>
  The pattern of \<^verbatim>\<open>hostname\<close>: labels, each closed by a dot, and a last one of two letters or
  more. No label has a dot in it, so the text is cut at its dots.
\<close>

definition hostname_label :: "string \<Rightarrow> bool" where
  "hostname_label l =
     (l \<noteq> [] \<and> (is_alnum (hd l) \<or> hd l = CHR ''_'')
      \<and> list_all (\<lambda>c. is_alnum c \<or> c = CHR ''_'' \<or> c = CHR ''-'') l
      \<and> (length l = 1 \<or> is_alnum (last l)))"

definition hostname_pattern :: "string \<Rightarrow> bool" where
  "hostname_pattern h =
     (let ls = split_on (CHR ''.'') h in
      2 \<le> length ls \<and> list_all hostname_label (butlast ls)
      \<and> 2 \<le> length (last ls) \<and> list_all is_letter (last ls))"

text \<open>The pattern \<^verbatim>\<open>^/.*$\<close> of \<^verbatim>\<open>pathPrefix\<close>, which an absent (empty) field does not meet.\<close>

definition path_pattern :: "string \<Rightarrow> bool" where
  "path_pattern p = (p \<noteq> [] \<and> hd p = CHR ''/'' \<and> CHR 0x0A \<notin> set p)"

text \<open>
  The three XValidation rules with the enums and bounds of the fields. An omitted string field
  is the empty string in the Go object, so \<open>has(self.pathPrefix)\<close> is \<open>rs_PathPrefix s \<noteq> []\<close>.
\<close>

definition valid_route_spec :: "TunnelRouteSpec \<Rightarrow> bool" where
  "valid_route_spec s =
     ((rs_Service s \<noteq> None) \<noteq> (rs_Upstream s \<noteq> None)
      \<and> (rs_Type s \<noteq> RouteTypePath \<or> (rs_PathPrefix s \<noteq> [] \<and> rs_PathPrefix s \<noteq> ''/''))
      \<and> (rs_Type s \<noteq> RouteTypeHost \<or> rs_PathPrefix s = [] \<or> rs_PathPrefix s = ''/'')
      \<and> rs_Type s \<in> {RouteTypeHost, RouteTypePath}
      \<and> rs_Scheme s \<in> {SchemeHTTP, SchemeHTTPS}
      \<and> (rs_PathPrefix s = [] \<or> path_pattern (rs_PathPrefix s))
      \<and> rs_TunnelRef s \<noteq> []
      \<and> hostname_pattern (rs_Hostname s)
      \<and> (case rs_Service s of None \<Rightarrow> True | Some t \<Rightarrow> sv_Name t \<noteq> [])
      \<and> (case rs_Upstream s of None \<Rightarrow> True
         | Some u \<Rightarrow> up_Host u \<noteq> [] \<and> 1 \<le> sint (up_Port u) \<and> sint (up_Port u) \<le> 65535)
      \<and> (case rs_Priority s of None \<Rightarrow> True | Some p \<Rightarrow> 0 \<le> sint p))"

section \<open>Lemmas\<close>

lemma nn_inject [simp]: "nn a b = nn c d \<longleftrightarrow> a = c \<and> b = d"
  by (simp add: nn_def)

lemma nn_sel [simp]: "nn_Namespace (nn a b) = a" "nn_Name (nn a b) = b"
  by (simp_all add: nn_def)

lemma condition_types_distinct [simp]:
  "TunnelConditionSynced \<noteq> TunnelConditionReady" "TunnelConditionReady \<noteq> TunnelConditionSynced"
  "TunnelConditionSynced \<noteq> TunnelConditionAgentAvailable" "TunnelConditionAgentAvailable \<noteq> TunnelConditionSynced"
  "TunnelConditionAgentAvailable \<noteq> TunnelConditionReady" "TunnelConditionReady \<noteq> TunnelConditionAgentAvailable"
  "TunnelRouteConditionResolved \<noteq> TunnelRouteConditionSynced" "TunnelRouteConditionSynced \<noteq> TunnelRouteConditionResolved"
  "TunnelRouteConditionResolved \<noteq> TunnelRouteConditionReady" "TunnelRouteConditionReady \<noteq> TunnelRouteConditionResolved"
  "TunnelRouteConditionSynced \<noteq> TunnelRouteConditionReady" "TunnelRouteConditionReady \<noteq> TunnelRouteConditionSynced"
  by (simp_all add: TunnelConditionSynced_def TunnelConditionReady_def TunnelConditionAgentAvailable_def
      TunnelRouteConditionResolved_def TunnelRouteConditionSynced_def TunnelRouteConditionReady_def)

lemma condition_status_distinct [simp]:
  "ConditionFalse \<noteq> ConditionTrue" "ConditionTrue \<noteq> ConditionFalse"
  by (simp_all add: ConditionTrue_def ConditionFalse_def)

lemma key_of_finalizers [simp]: "key_of (m\<lparr>om_Finalizers := fs\<rparr>) = key_of m"
  by (simp add: key_of_def)

end
