(* ===== verification/Errors.thy ===== *)
theory Errors
  imports Json
begin

text \<open>
  \<^verbatim>\<open>internal/nubulus/errors.go\<close>: the error values of the operator and their classification into a
  retry decision. A Go error value is a term of \<open>gerr\<close>, whose constructors are the ways the
  program makes one; \<^verbatim>\<open>errors.As\<close> is the walk down the chain of wrapped errors. An error of the
  Kubernetes client is opaque: a reason and a text.
\<close>

section \<open>Error values\<close>

record APIError =
  ae_Status :: int
  ae_Code :: string
  ae_Message :: string
  ae_Method :: string
  ae_URL :: string

record KubeError =
  ke_Reason :: string
  ke_Message :: string

datatype gerr =
    ErrText string
  | ErrWrap string gerr
  | ErrAPI APIError
  | ErrTransport string string gerr
  | ErrKube KubeError

text \<open>\<^verbatim>\<open>(*APIError).Error\<close>: the code when there is one, else the text, else the bare status.\<close>

definition APIError_Error :: "APIError \<Rightarrow> string" where
  "APIError_Error e =
     (let pre = ae_Method e @ '' '' @ ae_URL e @ '': HTTP '' @ Itoa (ae_Status e) in
      if ae_Code e \<noteq> [] then pre @ '' '' @ ae_Code e @ '': '' @ ae_Message e
      else if ae_Message e \<noteq> [] then pre @ '': '' @ ae_Message e
      else pre)"

fun Error :: "gerr \<Rightarrow> string" where
  "Error (ErrText s) = s"
| "Error (ErrWrap s e) = s @ Error e"
| "Error (ErrAPI a) = APIError_Error a"
| "Error (ErrTransport m u e) = m @ '' '' @ u @ '': '' @ Error e"
| "Error (ErrKube k) = ke_Message k"

fun Unwrap :: "gerr \<Rightarrow> gerr option" where
  "Unwrap (ErrWrap s e) = Some e"
| "Unwrap (ErrTransport m u e) = Some e"
| "Unwrap _ = None"

text \<open>\<^verbatim>\<open>errors.As\<close> for the two error types of this package: the first of that type along the chain.\<close>

fun as_transport :: "gerr \<Rightarrow> gerr option" where
  "as_transport (ErrTransport m u e) = Some (ErrTransport m u e)"
| "as_transport (ErrWrap s e) = as_transport e"
| "as_transport _ = None"

fun as_api :: "gerr \<Rightarrow> APIError option" where
  "as_api (ErrAPI a) = Some a"
| "as_api (ErrWrap s e) = as_api e"
| "as_api (ErrTransport m u e) = as_api e"
| "as_api _ = None"

section \<open>Error codes\<close>

definition CodeNoAccountRole :: string where "CodeNoAccountRole = ''NO_ACCOUNT_ROLE''"
definition CodeNoAccount :: string where "CodeNoAccount = ''NO_ACCOUNT''"
definition CodeNotFound :: string where "CodeNotFound = ''NOT_FOUND''"
definition CodeInvalidInput :: string where "CodeInvalidInput = ''INVALID_INPUT''"
definition CodeHostnameConflict :: string where "CodeHostnameConflict = ''HOSTNAME_CONFLICT''"
definition CodeQuotaExceeded :: string where "CodeQuotaExceeded = ''QUOTA_EXCEEDED''"
definition CodeTunnelInactive :: string where "CodeTunnelInactive = ''TUNNEL_INACTIVE''"

section \<open>Parsing a failed answer\<close>

text \<open>
  An HTTP answer: its status, the bytes of its body, and whether the stream breaks after them
  instead of ending.
\<close>

record http_response =
  resp_StatusCode :: int
  resp_Body :: string
  resp_Broken :: bool

definition error_read_limit :: nat where
  "error_read_limit = 65536"

text \<open>The envelope \<^verbatim>\<open>{"error": ..., "message": ...}\<close>, when the bytes are a document that decodes into it.\<close>

definition dec_envelope :: "(string \<times> string) decoder" where
  "dec_envelope = dec_struct (\<lambda>ms cur.
     (case dec_member dec_str ''error'' ms (fst cur) of
        None \<Rightarrow> None
      | Some e \<Rightarrow>
          (case dec_member dec_str ''message'' ms (snd cur) of
             None \<Rightarrow> None
           | Some m \<Rightarrow> Some (e, m))))"

definition parse_envelope :: "string \<Rightarrow> (string \<times> string) option" where
  "parse_envelope raw =
     (case parse_all raw of None \<Rightarrow> None | Some j \<Rightarrow> dec_envelope j ([], []))"

definition parseAPIError :: "string \<Rightarrow> string \<Rightarrow> http_response \<Rightarrow> APIError" where
  "parseAPIError method url resp =
     (let apiErr = \<lparr>ae_Status = resp_StatusCode resp, ae_Code = [], ae_Message = [],
                    ae_Method = method, ae_URL = url\<rparr>;
          raw = take error_read_limit (resp_Body resp);
          err = resp_Broken resp \<and> length (resp_Body resp) < error_read_limit in
      if err \<or> raw = [] then apiErr
      else (case parse_envelope raw of
              Some (e, m) \<Rightarrow>
                (if e \<noteq> [] then apiErr\<lparr>ae_Code := e, ae_Message := m\<rparr>
                 else apiErr\<lparr>ae_Message := TrimSpace raw\<rparr>)
            | None \<Rightarrow> apiErr\<lparr>ae_Message := TrimSpace raw\<rparr>))"

section \<open>Reading an error\<close>

definition StatusOf :: "gerr \<Rightarrow> int" where
  "StatusOf err = (case as_api err of Some a \<Rightarrow> ae_Status a | None \<Rightarrow> 0)"

definition CodeOf :: "gerr \<Rightarrow> string" where
  "CodeOf err = (case as_api err of Some a \<Rightarrow> ae_Code a | None \<Rightarrow> [])"

definition IsNotFound :: "gerr \<Rightarrow> bool" where
  "IsNotFound err = (StatusOf err = 404)"

record Failure =
  f_Permanent :: bool
  f_Reason :: string
  f_Message :: string

definition Classify :: "gerr \<Rightarrow> Failure" where
  "Classify err =
     (case as_transport err of
        Some t \<Rightarrow>
          \<lparr>f_Permanent = False, f_Reason = ''EndpointUnreachable'',
           f_Message = ''The API did not answer at all. Check that it is reachable from this cluster: '' @ Error t\<rparr>
      | None \<Rightarrow>
     (case as_api err of
        None \<Rightarrow> \<lparr>f_Permanent = False, f_Reason = ''Error'', f_Message = Error err\<rparr>
      | Some a \<Rightarrow>
          if ae_Code a = CodeNoAccountRole then
            \<lparr>f_Permanent = True, f_Reason = ''CredentialMissingRoleScope'',
             f_Message = ''The credential was accepted but carries no role claim, so the API refuses every '' @
               ''request made with it. This is the token and not the account's permissions: an '' @
               ''application token only carries roles when it was requested with the scope '' @
               ''urn:zitadel:iam:org:projects:roles ('' @ [CHR 0x22] @ ''projects'' @ [CHR 0x22] @
               '', plural). The operator asks for it, '' @
               ''so a failure here means the client_id and client_secret are not an application token.''\<rparr>
          else if ae_Code a = CodeNoAccount then
            \<lparr>f_Permanent = True, f_Reason = ''CredentialNotMappedToAccount'',
             f_Message = ''The credential is valid but the organization it was issued in maps to no account. '' @
               ''This usually means it belongs to a different environment than the endpoint it is '' @
               ''being used against.''\<rparr>
          else if ae_Code a = CodeInvalidInput then
            \<lparr>f_Permanent = True, f_Reason = ''InvalidSpec'',
             f_Message = ''The API refused the request as malformed, so this is the spec: '' @ ae_Message a\<rparr>
          else if ae_Code a = CodeHostnameConflict then
            \<lparr>f_Permanent = True, f_Reason = ''HostnameConflict'',
             f_Message = ''A hostname may only be routed by one account, and this one is held elsewhere. '' @
               ''Nothing in this account is holding it, so it cannot be found or freed from here.''\<rparr>
          else if ae_Code a = CodeQuotaExceeded then
            \<lparr>f_Permanent = False, f_Reason = ''QuotaExceeded'',
             f_Message = ''The account has reached the number of tunnels it may have.''\<rparr>
          else if ae_Code a = CodeTunnelInactive then
            \<lparr>f_Permanent = False, f_Reason = ''TunnelNotActive'',
             f_Message = ''Routes live inside an active tunnel, and this one is not active yet.''\<rparr>
          else if ae_Status a = 401 \<or> ae_Status a = 403 then
            (if ae_Code a = [] then
               \<lparr>f_Permanent = False, f_Reason = ''RefusedBeforeReachingAPI'',
                f_Message = ''HTTP '' @ Itoa (ae_Status a) @ '' with no error code, which means the request was refused '' @
                  ''before it reached the API. Check what this cluster's traffic goes through on the '' @
                  ''way out.''\<rparr>
             else \<lparr>f_Permanent = True, f_Reason = ''Forbidden'', f_Message = APIError_Error a\<rparr>)
          else if ae_Status a = 429 then
            \<lparr>f_Permanent = False, f_Reason = ''RateLimited'',
             f_Message = ''The API is rate limiting this account. Backing off.''\<rparr>
          else if ae_Status a \<ge> 500 then
            \<lparr>f_Permanent = False, f_Reason = ''APIError'', f_Message = APIError_Error a\<rparr>
          else \<lparr>f_Permanent = True, f_Reason = ''Rejected'', f_Message = APIError_Error a\<rparr>))"

section \<open>Lemmas\<close>

lemmas code_defs = CodeNoAccountRole_def CodeNoAccount_def CodeNotFound_def CodeInvalidInput_def
  CodeHostnameConflict_def CodeQuotaExceeded_def CodeTunnelInactive_def

lemma as_api_no_transport: "as_transport e = None \<Longrightarrow> as_api (ErrWrap s e) = as_api e"
  by simp

text \<open>The codes whose reading does not depend on the status, and the retry decision of each.\<close>

definition permanent_codes :: "string set" where
  "permanent_codes = {CodeNoAccountRole, CodeNoAccount, CodeInvalidInput, CodeHostnameConflict}"

definition transient_codes :: "string set" where
  "transient_codes = {CodeQuotaExceeded, CodeTunnelInactive}"

lemma codes_disjoint: "permanent_codes \<inter> transient_codes = {}"
  by (simp add: permanent_codes_def transient_codes_def code_defs)

lemma codes_nonempty [simp]: "[] \<notin> permanent_codes" "[] \<notin> transient_codes"
  by (simp_all add: permanent_codes_def transient_codes_def code_defs)

lemma Classify_transport: "as_transport e = Some t \<Longrightarrow> f_Permanent (Classify e) = False"
  by (simp add: Classify_def)

lemma Classify_opaque: "as_transport e = None \<Longrightarrow> as_api e = None \<Longrightarrow> f_Permanent (Classify e) = False"
  by (simp add: Classify_def)

lemma Classify_api:
  assumes "as_transport e = None" and "as_api e = Some a"
  shows "f_Permanent (Classify e) \<longleftrightarrow>
     ae_Code a \<in> permanent_codes
     \<or> (ae_Code a \<notin> transient_codes
        \<and> (if ae_Status a \<in> {401, 403} then ae_Code a \<noteq> []
           else ae_Status a \<noteq> 429 \<and> ae_Status a < 500))"
  using assms
  by (auto simp: Classify_def permanent_codes_def transient_codes_def code_defs)

text \<open>
  C25. The retry decision of \<open>Classify\<close>, on every error value: a failure is permanent exactly
  when the error is an answer of the API (no transport error along the chain) whose code is one
  of the four that name the caller's mistake, or, with none of the two self-clearing codes, whose
  status is a client error other than 429, and not a bare 401 or 403 from something in front of
  the API.
\<close>

theorem Classify_permanent_iff:
  "f_Permanent (Classify e) \<longleftrightarrow>
     as_transport e = None \<and>
     (case as_api e of
        None \<Rightarrow> False
      | Some a \<Rightarrow>
          ae_Code a \<in> permanent_codes
          \<or> (ae_Code a \<notin> transient_codes
             \<and> (if ae_Status a \<in> {401, 403} then ae_Code a \<noteq> []
                else ae_Status a \<noteq> 429 \<and> ae_Status a < 500)))"
proof (cases "as_transport e")
  case (Some t)
  then show ?thesis by (simp add: Classify_transport)
next
  case None
  then show ?thesis
    using Classify_opaque [OF None] Classify_api [OF None] by (cases "as_api e") auto
qed

end
