(* ===== verification/External.thy ===== *)
theory External
  imports Api_Types Errors
begin

text \<open>
  The boundary of the program. Everything the operator calls that is not in the repository is a
  field of the record \<open>env\<close>, an argument of every definition that uses it: the Kubernetes API
  server behind controller-runtime's client, the small helpers of apimachinery and controllerutil,
  and the HTTP transport to the platform. The theorems hold for every such environment, or under
  the laws stated here as locales (\<open>finalizer_lib\<close>, \<open>condition_lib\<close>, \<open>notfound_lib\<close>), which are the documented
  behaviour of those helpers.

  An environment acts on a state of its own (type \<open>'x\<close>), of which nothing is assumed: between
  two calls it may have changed in any way, which is how other controllers, users and the
  platform's own life show up. \<open>world\<close> adds the operator's own memory (the cache of clients) and
  the trace of the calls made so far with their answers, over which ordering properties are
  stated.
\<close>

section \<open>Handles and requests\<close>

text \<open>The OAuth2 client-credentials transport, or one handed in whole (\<^verbatim>\<open>Config.HTTPClient\<close>).\<close>

record OAuthConfig =
  oa_ClientID :: string
  oa_ClientSecret :: string
  oa_TokenURL :: string
  oa_Scopes :: "string list"

datatype HTTPClient = OAuthClient OAuthConfig | GivenClient string

record http_request =
  rq_Method :: string
  rq_URL :: string
  rq_Headers :: "(string \<times> string) list"
  rq_Body :: "string option"

text \<open>\<^verbatim>\<open>service\<close>, \<^verbatim>\<open>TunnelClient\<close> (which embeds it) and \<^verbatim>\<open>Client\<close> of \<^verbatim>\<open>internal/nubulus\<close>.\<close>

record service =
  srv_base :: string
  srv_http :: HTTPClient
  srv_userAgent :: string

record Client =
  cl_Tunnel :: service

section \<open>The environment\<close>

record klib =
  AddFinalizer :: "string list \<Rightarrow> string \<Rightarrow> bool \<times> string list"
  RemoveFinalizer :: "string list \<Rightarrow> string \<Rightarrow> string list"
  ContainsFinalizer :: "string list \<Rightarrow> string \<Rightarrow> bool"
  SetStatusCondition :: "Condition list \<Rightarrow> Condition \<Rightarrow> Condition list"
  IsStatusConditionTrue :: "Condition list \<Rightarrow> string \<Rightarrow> bool"
  kIsNotFound :: "gerr \<Rightarrow> bool"
  IgnoreNotFound :: "gerr \<Rightarrow> gerr option"
  SetControllerReference :: "ObjectMeta \<Rightarrow> ObjectMeta \<Rightarrow> KubeError + ObjectMeta"
  bad_url :: "string \<Rightarrow> string option"
  json_error :: "string \<Rightarrow> string"

record 'x env = klib +
  k_get_tunnel :: "NamespacedName \<Rightarrow> 'x \<Rightarrow> (KubeError + Tunnel) \<times> 'x"
  k_get_route :: "NamespacedName \<Rightarrow> 'x \<Rightarrow> (KubeError + TunnelRoute) \<times> 'x"
  k_get_secret :: "NamespacedName \<Rightarrow> 'x \<Rightarrow> (KubeError + Secret) \<times> 'x"
  k_get_service :: "NamespacedName \<Rightarrow> 'x \<Rightarrow> (KubeError + Service) \<times> 'x"
  k_list_routes :: "string \<Rightarrow> string option \<Rightarrow> 'x \<Rightarrow> (KubeError + TunnelRoute list) \<times> 'x"
  k_update_tunnel :: "Tunnel \<Rightarrow> 'x \<Rightarrow> (KubeError + Tunnel) \<times> 'x"
  k_status_tunnel :: "Tunnel \<Rightarrow> 'x \<Rightarrow> (KubeError + Tunnel) \<times> 'x"
  k_update_route :: "TunnelRoute \<Rightarrow> 'x \<Rightarrow> (KubeError + TunnelRoute) \<times> 'x"
  k_status_route :: "TunnelRoute \<Rightarrow> 'x \<Rightarrow> (KubeError + TunnelRoute) \<times> 'x"
  k_apply_secret :: "Secret \<Rightarrow> (Secret \<Rightarrow> KubeError + Secret) \<Rightarrow> 'x \<Rightarrow> (KubeError + Secret) \<times> 'x"
  k_apply_deployment :: "Deployment \<Rightarrow> (Deployment \<Rightarrow> KubeError + Deployment) \<Rightarrow> 'x \<Rightarrow> (KubeError + Deployment) \<times> 'x"
  http_do :: "HTTPClient \<Rightarrow> http_request \<Rightarrow> 'x \<Rightarrow> (string + http_response) \<times> 'x"

section \<open>Calls and the world\<close>

datatype call =
    CGetTunnel NamespacedName "gerr + Tunnel"
  | CGetRoute NamespacedName "gerr + TunnelRoute"
  | CGetSecret NamespacedName "gerr + Secret"
  | CGetService NamespacedName "gerr + Service"
  | CListRoutes string "string option" "gerr + TunnelRoute list"
  | CUpdateTunnel Tunnel "gerr + Tunnel"
  | CStatusTunnel Tunnel "gerr + Tunnel"
  | CUpdateRoute TunnelRoute "gerr + TunnelRoute"
  | CStatusRoute TunnelRoute "gerr + TunnelRoute"
  | CApplySecret Secret "gerr + Secret"
  | CApplyDeployment Deployment "gerr + Deployment"
  | CHttp HTTPClient http_request "string + http_response"
  | CEvent NamespacedName string string string string

record 'x world =
  ext :: 'x
  trace :: "call list"
  clients :: "string \<rightharpoonup> Client"

type_synonym ('x, 'a) io = "('x world, 'a) state"

text \<open>One call of the environment, entered in the trace with its answer.\<close>

definition ext_call :: "('x \<Rightarrow> 'r \<times> 'x) \<Rightarrow> ('r \<Rightarrow> call) \<Rightarrow> ('x, 'r) io" where
  "ext_call f ev = State (\<lambda>w. case f (ext w) of (r, x) \<Rightarrow> (r, w\<lparr>ext := x, trace := trace w @ [ev r]\<rparr>))"

definition kube_call :: "('x \<Rightarrow> (KubeError + 'a) \<times> 'x) \<Rightarrow> ((gerr + 'a) \<Rightarrow> call) \<Rightarrow> ('x, gerr + 'a) io" where
  "kube_call f = ext_call (\<lambda>x. case f x of (r, x') \<Rightarrow> (map_sum ErrKube id r, x'))"

definition Get_Tunnel :: "'x env \<Rightarrow> NamespacedName \<Rightarrow> ('x, gerr + Tunnel) io" where
  "Get_Tunnel env k = kube_call (k_get_tunnel env k) (CGetTunnel k)"

definition Get_TunnelRoute :: "'x env \<Rightarrow> NamespacedName \<Rightarrow> ('x, gerr + TunnelRoute) io" where
  "Get_TunnelRoute env k = kube_call (k_get_route env k) (CGetRoute k)"

definition Get_Secret :: "'x env \<Rightarrow> NamespacedName \<Rightarrow> ('x, gerr + Secret) io" where
  "Get_Secret env k = kube_call (k_get_secret env k) (CGetSecret k)"

definition Get_Service :: "'x env \<Rightarrow> NamespacedName \<Rightarrow> ('x, gerr + Service) io" where
  "Get_Service env k = kube_call (k_get_service env k) (CGetService k)"

definition List_TunnelRoutes :: "'x env \<Rightarrow> string \<Rightarrow> string option \<Rightarrow> ('x, gerr + TunnelRoute list) io" where
  "List_TunnelRoutes env ns idx = kube_call (k_list_routes env ns idx) (CListRoutes ns idx)"

definition Update_Tunnel :: "'x env \<Rightarrow> Tunnel \<Rightarrow> ('x, gerr + Tunnel) io" where
  "Update_Tunnel env t = kube_call (k_update_tunnel env t) (CUpdateTunnel t)"

definition StatusUpdate_Tunnel :: "'x env \<Rightarrow> Tunnel \<Rightarrow> ('x, gerr + Tunnel) io" where
  "StatusUpdate_Tunnel env t = kube_call (k_status_tunnel env t) (CStatusTunnel t)"

definition Update_TunnelRoute :: "'x env \<Rightarrow> TunnelRoute \<Rightarrow> ('x, gerr + TunnelRoute) io" where
  "Update_TunnelRoute env r = kube_call (k_update_route env r) (CUpdateRoute r)"

definition StatusUpdate_TunnelRoute :: "'x env \<Rightarrow> TunnelRoute \<Rightarrow> ('x, gerr + TunnelRoute) io" where
  "StatusUpdate_TunnelRoute env r = kube_call (k_status_route env r) (CStatusRoute r)"

text \<open>\<^verbatim>\<open>controllerutil.CreateOrUpdate\<close>: the named object, read or blank, changed by the callback and written.\<close>

definition CreateOrUpdate_Secret ::
  "'x env \<Rightarrow> Secret \<Rightarrow> (Secret \<Rightarrow> KubeError + Secret) \<Rightarrow> ('x, gerr + Secret) io" where
  "CreateOrUpdate_Secret env s f = kube_call (k_apply_secret env s f) (CApplySecret s)"

definition CreateOrUpdate_Deployment ::
  "'x env \<Rightarrow> Deployment \<Rightarrow> (Deployment \<Rightarrow> KubeError + Deployment) \<Rightarrow> ('x, gerr + Deployment) io" where
  "CreateOrUpdate_Deployment env d f = kube_call (k_apply_deployment env d f) (CApplyDeployment d)"

definition HTTP_Do :: "'x env \<Rightarrow> HTTPClient \<Rightarrow> http_request \<Rightarrow> ('x, string + http_response) io" where
  "HTTP_Do env c rq = ext_call (http_do env c rq) (CHttp c rq)"

definition Eventf :: "NamespacedName \<Rightarrow> string \<Rightarrow> string \<Rightarrow> string \<Rightarrow> string \<Rightarrow> ('x, unit) io" where
  "Eventf obj etype reason action note =
     State (\<lambda>w. ((), w\<lparr>trace := trace w @ [CEvent obj etype reason action note]\<rparr>))"

section \<open>Contracts of the helpers\<close>

text \<open>The condition of a type in a list kept as a map by type.\<close>

definition find_cond :: "Condition list \<Rightarrow> string \<Rightarrow> Condition option" where
  "find_cond cs t = find (\<lambda>c. c_Type c = t) cs"

definition cond_true :: "Condition list \<Rightarrow> string \<Rightarrow> bool" where
  "cond_true cs t = (case find_cond cs t of Some c \<Rightarrow> c_Status c = ConditionTrue | None \<Rightarrow> False)"

locale finalizer_lib =
  fixes add :: "string list \<Rightarrow> string \<Rightarrow> bool \<times> string list"
    and remove :: "string list \<Rightarrow> string \<Rightarrow> string list"
    and contains :: "string list \<Rightarrow> string \<Rightarrow> bool"
  assumes add_changed: "fst (add fs f) \<longleftrightarrow> f \<notin> set fs"
    and add_set: "set (snd (add fs f)) = insert f (set fs)"
    and remove_set: "set (remove fs f) = set fs - {f}"
    and contains_iff: "contains fs f \<longleftrightarrow> f \<in> set fs"
begin

lemma add_present: "f \<in> set (snd (add fs f))"
  by (simp add: add_set)

lemma add_unchanged: "\<not> fst (add fs f) \<Longrightarrow> f \<in> set fs"
  using add_changed by blast

lemma contains_add: "contains (snd (add fs f)) f"
  by (simp add: contains_iff add_set)

lemma not_contains_remove: "\<not> contains (remove fs f) f"
  by (simp add: contains_iff remove_set)

lemma remove_keeps: "g \<noteq> f \<Longrightarrow> contains (remove fs f) g = contains fs g"
  by (simp add: contains_iff remove_set)

end

locale condition_lib =
  fixes set_cond :: "Condition list \<Rightarrow> Condition \<Rightarrow> Condition list"
    and is_true :: "Condition list \<Rightarrow> string \<Rightarrow> bool"
  assumes find_set: "find_cond (set_cond cs c) t = (if t = c_Type c then Some c else find_cond cs t)"
    and is_true_iff: "is_true cs t = cond_true cs t"
begin

lemma is_true_set: "is_true (set_cond cs c) t = (if t = c_Type c then c_Status c = ConditionTrue else is_true cs t)"
  by (simp add: is_true_iff cond_true_def find_set)

lemma cond_true_set: "cond_true (set_cond cs c) t = (if t = c_Type c then c_Status c = ConditionTrue else cond_true cs t)"
  by (simp add: cond_true_def find_set)

end

locale notfound_lib =
  fixes is_not_found :: "gerr \<Rightarrow> bool"
    and ignore :: "gerr \<Rightarrow> gerr option"
  assumes ignore_iff: "ignore e = (if is_not_found e then None else Some e)"
begin

lemma ignore_None: "ignore e = None \<longleftrightarrow> is_not_found e"
  by (simp add: ignore_iff)

end

text \<open>The API server answers with the object it was asked for, and a write never renames an object.\<close>

locale object_names =
  fixes env :: "'x env"
  assumes get_tunnel_key: "k_get_tunnel env k x = (Inr t, x') \<Longrightarrow> key_of (tn_Meta t) = k"
    and update_tunnel_key: "k_update_tunnel env t x = (Inr t', x') \<Longrightarrow> key_of (tn_Meta t') = key_of (tn_Meta t)"
    and status_tunnel_key: "k_status_tunnel env t x = (Inr t', x') \<Longrightarrow> key_of (tn_Meta t') = key_of (tn_Meta t)"
    and get_route_key: "k_get_route env k x = (Inr rt, x') \<Longrightarrow> key_of (tr_Meta rt) = k"
    and update_route_key: "k_update_route env rt x = (Inr rt', x') \<Longrightarrow> key_of (tr_Meta rt') = key_of (tr_Meta rt)"

text \<open>Reference implementations, as the library's documentation describes them.\<close>

definition ref_AddFinalizer :: "string list \<Rightarrow> string \<Rightarrow> bool \<times> string list" where
  "ref_AddFinalizer fs f = (if f \<in> set fs then (False, fs) else (True, fs @ [f]))"

definition ref_RemoveFinalizer :: "string list \<Rightarrow> string \<Rightarrow> string list" where
  "ref_RemoveFinalizer fs f = filter (\<lambda>g. g \<noteq> f) fs"

definition ref_ContainsFinalizer :: "string list \<Rightarrow> string \<Rightarrow> bool" where
  "ref_ContainsFinalizer fs f = (f \<in> set fs)"

fun ref_SetStatusCondition :: "Condition list \<Rightarrow> Condition \<Rightarrow> Condition list" where
  "ref_SetStatusCondition [] c = [c]"
| "ref_SetStatusCondition (d # ds) c =
     (if c_Type d = c_Type c then c # ds else d # ref_SetStatusCondition ds c)"

definition ref_IsNotFound :: "gerr \<Rightarrow> bool" where
  "ref_IsNotFound e = (case e of ErrKube k \<Rightarrow> ke_Reason k = ''NotFound'' | _ \<Rightarrow> False)"

definition ref_IgnoreNotFound :: "gerr \<Rightarrow> gerr option" where
  "ref_IgnoreNotFound e = (if ref_IsNotFound e then None else Some e)"

interpretation ref_fin: finalizer_lib ref_AddFinalizer ref_RemoveFinalizer ref_ContainsFinalizer
  by unfold_locales (auto simp: ref_AddFinalizer_def ref_RemoveFinalizer_def ref_ContainsFinalizer_def)

lemma find_ref_set:
  "find_cond (ref_SetStatusCondition cs c) t = (if t = c_Type c then Some c else find_cond cs t)"
  by (induction cs) (auto simp: find_cond_def)

interpretation ref_cond: condition_lib ref_SetStatusCondition cond_true
  by unfold_locales (simp_all add: find_ref_set)

interpretation ref_nf: notfound_lib ref_IsNotFound ref_IgnoreNotFound
  by unfold_locales (simp add: ref_IgnoreNotFound_def)

section \<open>Weakest preconditions of the calls\<close>

text \<open>
  The rules below forget what the environment answers: a property proved with them holds for
  every answer. \<open>emit\<close> is the world after one more call.
\<close>

definition emit :: "'x \<Rightarrow> call \<Rightarrow> 'x world \<Rightarrow> 'x world" where
  "emit x c w = w\<lparr>ext := x, trace := trace w @ [c]\<rparr>"

lemma trace_emit [simp]: "trace (emit x c w) = trace w @ [c]"
  by (simp add: emit_def)

lemma clients_emit [simp]: "clients (emit x c w) = clients w"
  by (simp add: emit_def)

lemma ext_emit [simp]: "ext (emit x c w) = x"
  by (simp add: emit_def)

lemma run_ext_call: "run_state (ext_call f ev) w = (case f (ext w) of (r, x) \<Rightarrow> (r, emit x (ev r) w))"
  by (simp add: ext_call_def emit_def)

lemma run_kube_call:
  "run_state (kube_call f ev) w =
     (case f (ext w) of (r, x) \<Rightarrow> (map_sum ErrKube id r, emit x (ev (map_sum ErrKube id r)) w))"
  by (simp add: kube_call_def run_ext_call split: prod.split)

lemma wp_ext_call: "(\<And>r x. Q r (emit x (ev r) w)) \<Longrightarrow> wp (ext_call f ev) Q w"
  by (simp add: wp_def run_ext_call split: prod.split)

lemma wp_kube_call: "(\<And>r x. Q r (emit x (ev r) w)) \<Longrightarrow> wp (kube_call f ev) Q w"
  by (simp add: kube_call_def wp_ext_call)

lemma wp_Eventf [wp_simps]: "wp (Eventf obj etype reason action note) Q w = Q () (emit (ext w) (CEvent obj etype reason action note) w)"
  by (simp add: wp_def Eventf_def emit_def)

section \<open>Trace specifications\<close>

text \<open>
  \<open>emits m R\<close>: whatever the environment answers, a run of \<open>m\<close> adds to the trace a list \<open>es\<close> of calls
  that is related by \<open>R\<close> to its result. The rules run a program symbolically: one rule per way a
  program begins.
\<close>

definition emits :: "('x, 'a) io \<Rightarrow> ('a \<Rightarrow> call list \<Rightarrow> bool) \<Rightarrow> bool" where
  "emits m R = (\<forall>w. wp m (\<lambda>a w'. \<exists>es. trace w' = trace w @ es \<and> R a es) w)"

lemma emits_run:
  assumes "emits m R" and "run_state m w = (a, w')"
  shows "\<exists>es. trace w' = trace w @ es \<and> R a es"
proof -
  from assms(1) have "wp m (\<lambda>a w'. \<exists>es. trace w' = trace w @ es \<and> R a es) w"
    by (simp add: emits_def)
  with assms(2) show ?thesis by (simp add: wp_def)
qed

lemma emits_ret [intro!]: "R x [] \<Longrightarrow> emits (ret x) R"
  by (simp add: emits_def wp_simps)

lemma emits_bind:
  assumes "emits m S" and "\<And>a es. S a es \<Longrightarrow> emits (f a) (\<lambda>b es'. R b (es @ es'))"
  shows "emits (State_Monad.bind m f) R"
  unfolding emits_def
proof
  fix w
  obtain a w1 where r: "run_state m w = (a, w1)" by fastforce
  obtain es where es: "trace w1 = trace w @ es" "S a es"
    using emits_run [OF assms(1) r] by blast
  obtain b w2 where r2: "run_state (f a) w1 = (b, w2)" by fastforce
  obtain es' where "trace w2 = trace w1 @ es'" "R b (es @ es')"
    using emits_run [OF assms(2) [OF es(2)] r2] by blast
  with es r r2 show "wp (State_Monad.bind m f) (\<lambda>a w'. \<exists>es. trace w' = trace w @ es \<and> R a es) w"
    by (simp add: wp_def)
qed

lemma emits_mono: "emits m S \<Longrightarrow> (\<And>a es. S a es \<Longrightarrow> R a es) \<Longrightarrow> emits m R"
  unfolding emits_def by (blast intro: wp_mono)

lemma emits_conj: "emits m R \<Longrightarrow> emits m S \<Longrightarrow> emits m (\<lambda>a es. R a es \<and> S a es)"
  unfolding emits_def wp_def by (fastforce split: prod.splits)

lemma emits_ext_call: "(\<And>r. R r [ev r]) \<Longrightarrow> emits (ext_call f ev) R"
  unfolding emits_def by (auto intro: wp_ext_call)

lemma emits_kube_call: "(\<And>r. R r [ev r]) \<Longrightarrow> emits (kube_call f ev) R"
  by (simp add: kube_call_def emits_ext_call)

text \<open>The same with what the environment's answer is known to satisfy.\<close>

lemma emits_kube_call_ans:
  assumes "\<And>r x x'. f x = (r, x') \<Longrightarrow> R (map_sum ErrKube id r) [ev (map_sum ErrKube id r)]"
  shows "emits (kube_call f ev) R"
  using assms by (auto simp: emits_def wp_def run_kube_call split: prod.split)

lemma emits_bind_ext_call:
  "(\<And>r. emits (g r) (\<lambda>b es. R b (ev r # es))) \<Longrightarrow> emits (State_Monad.bind (ext_call f ev) g) R"
  by (rule emits_bind [where S = "\<lambda>r es. es = [ev r]"]) (auto intro: emits_ext_call)

lemma emits_bind_kube_call:
  "(\<And>r. emits (g r) (\<lambda>b es. R b (ev r # es))) \<Longrightarrow> emits (State_Monad.bind (kube_call f ev) g) R"
  by (simp add: kube_call_def emits_bind_ext_call)

lemma emits_bind_kube_call_ans:
  assumes "\<And>r x x'. f x = (r, x') \<Longrightarrow>
    emits (g (map_sum ErrKube id r)) (\<lambda>b es. R b (ev (map_sum ErrKube id r) # es))"
  shows "emits (State_Monad.bind (kube_call f ev) g) R"
  by (rule emits_bind [OF emits_kube_call_ans [where R = "\<lambda>a es. es = [ev a] \<and> (\<exists>x r x'. f x = (r, x') \<and> a = map_sum ErrKube id r)"]])
     (use assms in auto)

lemma emits_bind_Eventf:
  "emits (g ()) (\<lambda>b es. R b (CEvent obj etype reason action note # es)) \<Longrightarrow>
     emits (State_Monad.bind (Eventf obj etype reason action note) g) R"
  by (rule emits_bind [where S = "\<lambda>_ es. es = [CEvent obj etype reason action note]"])
     (auto simp: emits_def wp_simps)

lemma emitsD:
  assumes "emits m R" and "run_state m w = (a, w')"
  obtains es where "trace w' = trace w @ es" and "R a es"
  using emits_run [OF assms] by blast

text \<open>Every program of the model only ever adds to the trace.\<close>

named_theorems grows_intro \<open>programs that only add to the trace\<close>

definition grows :: "('x, 'a) io \<Rightarrow> bool" where
  "grows m = emits m (\<lambda>_ _. True)"

lemma grows_emits: "emits m R \<Longrightarrow> grows m"
  unfolding grows_def by (rule emits_mono) auto

lemma emits_trivial: "grows m \<Longrightarrow> (\<And>a es. R a es) \<Longrightarrow> emits m R"
  unfolding grows_def by (rule emits_mono) auto

lemma grows_ret [grows_intro]: "grows (ret x)"
  unfolding grows_def by (rule emits_ret) simp

lemma grows_bind [grows_intro]: "grows m \<Longrightarrow> (\<And>a. grows (f a)) \<Longrightarrow> grows (State_Monad.bind m f)"
  unfolding grows_def by (rule emits_bind) auto

lemma grows_ext_call [grows_intro]: "grows (ext_call f ev)"
  unfolding grows_def by (rule emits_ext_call) simp

lemma grows_kube_call [grows_intro]: "grows (kube_call f ev)"
  unfolding grows_def by (rule emits_kube_call) simp

lemma grows_Eventf [grows_intro]: "grows (Eventf obj etype reason action note)"
  by (auto simp: grows_def emits_def wp_simps)

lemmas call_defs = Get_Tunnel_def Get_TunnelRoute_def Get_Secret_def Get_Service_def List_TunnelRoutes_def
  Update_Tunnel_def StatusUpdate_Tunnel_def Update_TunnelRoute_def StatusUpdate_TunnelRoute_def
  CreateOrUpdate_Secret_def CreateOrUpdate_Deployment_def

lemma grows_calls [grows_intro]:
  "grows (Get_Tunnel env k)" "grows (Get_TunnelRoute env k)" "grows (Get_Secret env k)"
  "grows (Get_Service env k)" "grows (List_TunnelRoutes env ns idx)" "grows (Update_Tunnel env t)"
  "grows (StatusUpdate_Tunnel env t)" "grows (Update_TunnelRoute env r)"
  "grows (StatusUpdate_TunnelRoute env r)" "grows (CreateOrUpdate_Secret env s f)"
  "grows (CreateOrUpdate_Deployment env d g)"
  by (simp_all add: call_defs grows_kube_call)

lemmas emits_calls = emits_ret emits_kube_call emits_bind_kube_call emits_bind_Eventf

text \<open>\<open>only P m\<close>: every call a run of \<open>m\<close> makes satisfies \<open>P\<close>.\<close>

named_theorems only_intro \<open>programs all of whose calls satisfy a predicate\<close>

definition only :: "(call \<Rightarrow> bool) \<Rightarrow> ('x, 'a) io \<Rightarrow> bool" where
  "only P m = emits m (\<lambda>_ es. \<forall>c \<in> set es. P c)"

lemma only_ret [only_intro]: "only P (ret x)"
  unfolding only_def by (rule emits_ret) simp

lemma only_bind [only_intro]:
  assumes "only P m" and "\<And>a. only P (f a)"
  shows "only P (State_Monad.bind m f)"
  unfolding only_def
  by (rule emits_bind [OF assms(1) [unfolded only_def]], rule emits_mono [OF assms(2) [unfolded only_def]]) auto

text \<open>The same where the rest relies on a fact of the first result.\<close>

lemma only_bind_fact:
  assumes "emits m (\<lambda>a es. K a \<and> (\<forall>c \<in> set es. P c))" and "\<And>a. K a \<Longrightarrow> only P (f a)"
  shows "only P (State_Monad.bind m f)"
  unfolding only_def
proof (rule emits_bind [OF assms(1)])
  fix a es
  assume "K a \<and> (\<forall>c \<in> set es. P c)"
  with assms(2) [of a] show "emits (f a) (\<lambda>_ es'. \<forall>c \<in> set (es @ es'). P c)"
    unfolding only_def by (auto elim!: emits_mono)
qed

lemma only_ext_call [only_intro]: "(\<And>r. P (ev r)) \<Longrightarrow> only P (ext_call f ev)"
  unfolding only_def by (rule emits_ext_call) simp

lemma only_kube_call [only_intro]: "(\<And>r. P (ev r)) \<Longrightarrow> only P (kube_call f ev)"
  by (simp add: kube_call_def only_ext_call)

lemma only_Eventf [only_intro]: "P (CEvent obj etype reason action note) \<Longrightarrow> only P (Eventf obj etype reason action note)"
  by (auto simp: only_def emits_def wp_simps)

lemma only_mono: "only P m \<Longrightarrow> (\<And>c. P c \<Longrightarrow> Q c) \<Longrightarrow> only Q m"
  unfolding only_def by (erule emits_mono) auto

lemma only_grows: "only P m \<Longrightarrow> grows m"
  unfolding only_def by (rule grows_emits)

lemma only_guarded: "only (\<lambda>c. \<not> bad c) m \<Longrightarrow> emits m (\<lambda>_ es. guarded good bad es)"
  unfolding only_def by (erule emits_mono) (auto intro: guarded_no_bad)

text \<open>
  A guarded program followed by another: the second may rely on a fact \<open>K\<close> of the result wherever
  the first has not seen a good call.
\<close>

lemma emits_guarded_bind:
  assumes "emits m (\<lambda>a es. guarded good bad es \<and> (K a \<or> (\<exists>e \<in> set es. good e)))"
    and "\<And>a. K a \<Longrightarrow> emits (f a) (\<lambda>_ es. guarded good bad es)"
    and "\<And>a. grows (f a)"
  shows "emits (State_Monad.bind m f) (\<lambda>_ es. guarded good bad es)"
proof (rule emits_bind [OF assms(1)])
  fix a es
  assume a: "guarded good bad es \<and> (K a \<or> (\<exists>e \<in> set es. good e))"
  show "emits (f a) (\<lambda>_ es'. guarded good bad (es @ es'))"
  proof (cases "\<exists>e \<in> set es. good e")
    case True
    with a show ?thesis by (intro emits_trivial [OF assms(3)]) (simp add: guarded_append)
  next
    case False
    with a have "K a" by blast
    from assms(2) [OF this] False a show ?thesis
      by (simp add: guarded_append)
  qed
qed

lemma emits_guarded_quiet_bind:
  assumes "only (\<lambda>c. \<not> bad c) m" and "\<And>a. emits (f a) (\<lambda>_ es. guarded good bad es)"
  shows "emits (State_Monad.bind m f) (\<lambda>_ es. guarded good bad es)"
  by (rule emits_guarded_bind [where K = "\<lambda>_. True"])
     (use assms in \<open>auto intro: emits_mono [OF only_guarded] grows_emits\<close>)

lemma emits_guarded_bind_quiet:
  assumes "emits m (\<lambda>_ es. guarded good bad es)" and "\<And>a. only (\<lambda>c. \<not> bad c) (f a)"
  shows "emits (State_Monad.bind m f) (\<lambda>_ es. guarded good bad es)"
  by (rule emits_guarded_bind [where K = "\<lambda>_. True"])
     (use assms in \<open>auto intro: only_guarded only_grows\<close>)

end
