(* ===== verification/Url.thy ===== *)
theory Url
  imports Prelude
begin

text \<open>
  What the client uses of Go's \<^verbatim>\<open>net/url\<close>: escaping of a path segment and of a query value, and
  the reverse, with the facts that make the paths the client builds unambiguous.
\<close>

definition unreserved :: "char \<Rightarrow> bool" where
  "unreserved c = (is_alnum c \<or> c \<in> {CHR ''-'', CHR ''_'', CHR ''.'', CHR ''~''})"

definition keep_in_path :: "char \<Rightarrow> bool" where
  "keep_in_path c = (unreserved c \<or> c \<in> {CHR ''$'', CHR ''&'', CHR ''+'', CHR ''='', CHR '':'', CHR ''@''})"

definition percent :: "char \<Rightarrow> string" where
  "percent c = (let n = of_char c :: nat in [CHR ''%'', hex_upper (n div 16), hex_upper (n mod 16)])"

definition PathEscape :: "string \<Rightarrow> string" where
  "PathEscape s = concat (map (\<lambda>c. if keep_in_path c then [c] else percent c) s)"

definition QueryEscape :: "string \<Rightarrow> string" where
  "QueryEscape s =
     concat (map (\<lambda>c. if unreserved c then [c] else if c = CHR '' '' then ''+'' else percent c) s)"

text \<open>The reverse, as the server side of \<^verbatim>\<open>net/http\<close> applies it to a path and to a query value.\<close>

fun unescape :: "bool \<Rightarrow> string \<Rightarrow> string option" where
  "unescape q [] = Some []"
| "unescape q (c # cs) =
     (if c = CHR ''%'' then
        (case cs of
           a # b # r \<Rightarrow>
             (case (hex_val a, hex_val b) of
                (Some i, Some j) \<Rightarrow> map_option ((#) (char_of (16 * i + j))) (unescape q r)
              | _ \<Rightarrow> None)
         | _ \<Rightarrow> None)
      else if q \<and> c = CHR ''+'' then map_option ((#) (CHR '' '')) (unescape q cs)
      else map_option ((#) c) (unescape q cs))"

section \<open>Lemmas\<close>

lemma hex_val_hex_upper [simp]: "k < 16 \<Longrightarrow> hex_val (hex_upper k) = Some k"
  by (auto simp: hex_val_def hex_upper_def Let_def)

lemma unescape_percent:
  "unescape q (percent c @ r) = map_option ((#) c) (unescape q r)"
proof -
  have lt: "(of_char c :: nat) < 256" by simp
  have "(of_char c :: nat) div 16 < 16" using lt by (simp add: div_less_iff_less_mult)
  moreover have "16 * ((of_char c :: nat) div 16) + of_char c mod 16 = of_char c"
    by (simp add: mult.commute)
  ultimately show ?thesis by (simp add: percent_def Let_def)
qed

lemma keep_in_path_not_special: "keep_in_path c \<Longrightarrow> c \<noteq> CHR ''%'' \<and> c \<noteq> CHR ''/'' \<and> c \<noteq> CHR ''?''"
  by (auto simp: keep_in_path_def unreserved_def is_alnum_def)

lemma unescape_PathEscape [simp]: "unescape False (PathEscape s) = Some s"
proof (induction s)
  case Nil
  then show ?case by (simp add: PathEscape_def)
next
  case (Cons c s)
  have "unescape False (PathEscape (c # s)) = map_option ((#) c) (unescape False (PathEscape s))"
    using keep_in_path_not_special [of c] by (auto simp: PathEscape_def unescape_percent)
  with Cons show ?case by simp
qed

lemma unreserved_not_special: "unreserved c \<Longrightarrow> c \<noteq> CHR ''%'' \<and> c \<noteq> CHR ''+'' \<and> c \<noteq> CHR ''&''"
  by (auto simp: unreserved_def is_alnum_def)

lemma unescape_QueryEscape [simp]: "unescape True (QueryEscape s) = Some s"
proof (induction s)
  case Nil
  then show ?case by (simp add: QueryEscape_def)
next
  case (Cons c s)
  have "unescape True (QueryEscape (c # s)) = map_option ((#) c) (unescape True (QueryEscape s))"
    using unreserved_not_special [of c] by (auto simp: QueryEscape_def unescape_percent)
  with Cons show ?case by simp
qed

lemma PathEscape_inject [simp]: "PathEscape s = PathEscape t \<longleftrightarrow> s = t"
  by (metis option.inject unescape_PathEscape)

lemma QueryEscape_inject [simp]: "QueryEscape s = QueryEscape t \<longleftrightarrow> s = t"
  by (metis option.inject unescape_QueryEscape)

lemma hex_upper_not_special: "k < 16 \<Longrightarrow> hex_upper k \<notin> {CHR ''/'', CHR ''?'', CHR ''%'', CHR ''&''}"
proof -
  assume "k < 16"
  then have "hex_val (hex_upper k) = Some k" by simp
  then show ?thesis by (auto simp: hex_val_def)
qed

lemma percent_chars: "d \<in> set (percent c) \<Longrightarrow> d \<noteq> CHR ''/'' \<and> d \<noteq> CHR ''?'' \<and> d \<noteq> CHR ''&''"
proof -
  have "(of_char c :: nat) div 16 < 16" by (simp add: div_less_iff_less_mult)
  then show "d \<in> set (percent c) \<Longrightarrow> ?thesis"
    using hex_upper_not_special [of "of_char c div 16"] hex_upper_not_special [of "of_char c mod 16"]
    by (auto simp: percent_def Let_def)
qed

lemma PathEscape_no_slash: "CHR ''/'' \<notin> set (PathEscape s)" "CHR ''?'' \<notin> set (PathEscape s)"
  by (auto simp: PathEscape_def dest: keep_in_path_not_special percent_chars split: if_splits)

lemma split_at_slash:
  assumes "a @ CHR ''/'' # b = c @ CHR ''/'' # d" and "CHR ''/'' \<notin> set a" and "CHR ''/'' \<notin> set c"
  shows "a = c \<and> b = d"
  using assms
proof (induction a arbitrary: c)
  case Nil
  then show ?case by (cases c) auto
next
  case (Cons x a)
  then show ?case by (cases c) auto
qed

lemma unescape_PathEscape_append: "unescape False (PathEscape s @ r) = map_option ((@) s) (unescape False r)"
proof (induction s)
  case Nil
  show ?case by (cases "unescape False r") (simp_all add: PathEscape_def)
next
  case (Cons c s)
  have split: "PathEscape (c # s) @ r = (if keep_in_path c then [c] else percent c) @ PathEscape s @ r"
    by (simp add: PathEscape_def)
  show ?case
    unfolding split using Cons
    by (auto simp: unescape_percent option.map_comp comp_def dest: keep_in_path_not_special)
qed

end
