(* ===== verification/Nubulus_Client.thy ===== *)
theory Nubulus_Client
  imports External Url
begin

text \<open>
  \<^verbatim>\<open>internal/nubulus/client.go\<close>: building the authenticated client from a configuration, and the one
  function every request goes through. Contexts are not modelled: a cancelled or expired one
  shows up as an error of the transport. That \<^verbatim>\<open>http.NewRequest\<close> refuses an address it cannot
  parse is the field \<open>bad_url\<close> of the environment, the text of a decoding error \<open>json_error\<close>.
\<close>

definition DefaultTokenURL :: string where
  "DefaultTokenURL = ''https://idp.nubulusnetwork.es/oauth/v2/token''"

definition DefaultTunnelEndpoint :: string where
  "DefaultTunnelEndpoint = ''https://tunel.api.nubulusnetwork.es''"

definition DefaultProjectID :: string where
  "DefaultProjectID = ''385111705782321341''"

definition Scopes :: "string \<Rightarrow> string list" where
  "Scopes projectID =
     [''openid'',
      ''urn:zitadel:iam:org:project:id:'' @ projectID @ '':aud'',
      ''urn:zitadel:iam:user:resourceowner'',
      ''urn:zitadel:iam:org:projects:roles'']"

record Config =
  cfg_ClientID :: string
  cfg_ClientSecret :: string
  cfg_TokenURL :: string
  cfg_ProjectID :: string
  cfg_TunnelEndpoint :: string
  cfg_UserAgent :: string
  cfg_HTTPClient :: "HTTPClient option"

definition New :: "Config \<Rightarrow> gerr + Client" where
  "New cfg =
     (let tokenURL = (if cfg_TokenURL cfg = [] then DefaultTokenURL else cfg_TokenURL cfg);
          projectID = (if cfg_ProjectID cfg = [] then DefaultProjectID else cfg_ProjectID cfg);
          endpoint = (if cfg_TunnelEndpoint cfg = [] then DefaultTunnelEndpoint else cfg_TunnelEndpoint cfg);
          build = (\<lambda>httpClient. \<lparr>cl_Tunnel = \<lparr>srv_base = TrimSuffix endpoint ''/'',
             srv_http = httpClient, srv_userAgent = cfg_UserAgent cfg\<rparr>\<rparr>) in
      case cfg_HTTPClient cfg of
        Some httpClient \<Rightarrow> Inr (build httpClient)
      | None \<Rightarrow>
          (if cfg_ClientID cfg = [] \<or> cfg_ClientSecret cfg = []
           then Inl (ErrText ''client_id and client_secret are required'')
           else Inr (build (OAuthClient \<lparr>oa_ClientID = cfg_ClientID cfg,
                  oa_ClientSecret = cfg_ClientSecret cfg, oa_TokenURL = tokenURL,
                  oa_Scopes = Scopes projectID\<rparr>))))"

text \<open>The headers of a request: \<open>in\<close> decides the content type, the user agent is sent when there is one.\<close>

definition request_headers :: "service \<Rightarrow> json option \<Rightarrow> (string \<times> string) list" where
  "request_headers s in_body =
     [(''Accept'', ''application/json'')]
     @ (if in_body \<noteq> None then [(''Content-Type'', ''application/json'')] else [])
     @ (if srv_userAgent s \<noteq> [] then [(''User-Agent'', srv_userAgent s)] else [])"

text \<open>The request \<^verbatim>\<open>do\<close> builds.\<close>

definition build_request :: "service \<Rightarrow> string \<Rightarrow> string \<Rightarrow> json option \<Rightarrow> http_request" where
  "build_request s method path in_body =
     \<lparr>rq_Method = method, rq_URL = srv_base s @ path,
      rq_Headers = request_headers s in_body, rq_Body = map_option render in_body\<rparr>"

text \<open>
  What \<^verbatim>\<open>do\<close> makes of the transport's answer. \<open>out\<close> is the decoder of the type \<^verbatim>\<open>out\<close> points to, \<open>zero\<close>
  the value it points at before the call and still points at when nothing is decoded.
\<close>

definition read_answer ::
  "'x env \<Rightarrow> service \<Rightarrow> string \<Rightarrow> string \<Rightarrow> 'a decoder option \<Rightarrow> 'a \<Rightarrow> (string + http_response) \<Rightarrow> gerr + 'a" where
  "read_answer env s method path out zero answer =
     (case answer of
        Inl msg \<Rightarrow> Inl (ErrTransport method (srv_base s @ path) (ErrText msg))
      | Inr resp \<Rightarrow>
          if resp_StatusCode resp \<ge> 400 then
            Inl (ErrAPI (parseAPIError method (srv_base s @ path) resp))
          else
            (case out of
               None \<Rightarrow> Inr zero
             | Some dec \<Rightarrow>
                 if resp_StatusCode resp = 204 then Inr zero
                 else
                   (case Option.bind (parse_first (resp_Body resp)) (\<lambda>j. dec j zero) of
                      Some v \<Rightarrow> Inr v
                    | None \<Rightarrow> Inl (ErrWrap (''decoding the answer of '' @ method @ '' '' @ path @ '': '')
                               (ErrText (json_error env (resp_Body resp)))))))"

text \<open>
  \<^verbatim>\<open>(*service).do\<close>. \<open>in_body\<close> is what \<^verbatim>\<open>json.Marshal\<close> makes of the argument \<^verbatim>\<open>in\<close> (which cannot fail for
  the structs used here).
\<close>

definition do_request ::
  "'x env \<Rightarrow> service \<Rightarrow> string \<Rightarrow> string \<Rightarrow> json option \<Rightarrow> 'a decoder option \<Rightarrow> 'a \<Rightarrow> ('x, gerr + 'a) io" where
  "do_request env s method path in_body out zero =
     (case bad_url env (srv_base s @ path) of
        Some msg \<Rightarrow> ret (Inl (ErrWrap ''building the request: '' (ErrText msg)))
      | None \<Rightarrow> do {
          answer \<leftarrow> HTTP_Do env (srv_http s) (build_request s method path in_body);
          ret (read_answer env s method path out zero answer)
        })"

section \<open>Lemmas\<close>

lemma New_fails_iff:
  "(\<exists>e. New cfg = Inl e) \<longleftrightarrow> cfg_HTTPClient cfg = None \<and> (cfg_ClientID cfg = [] \<or> cfg_ClientSecret cfg = [])"
  by (auto simp: New_def Let_def split: option.splits)

lemma New_oauth:
  assumes "New cfg = Inr c" and "cfg_HTTPClient cfg = None"
  shows "srv_http (cl_Tunnel c) = OAuthClient \<lparr>oa_ClientID = cfg_ClientID cfg,
      oa_ClientSecret = cfg_ClientSecret cfg,
      oa_TokenURL = (if cfg_TokenURL cfg = [] then DefaultTokenURL else cfg_TokenURL cfg),
      oa_Scopes = Scopes (if cfg_ProjectID cfg = [] then DefaultProjectID else cfg_ProjectID cfg)\<rparr>"
  using assms by (auto simp: New_def Let_def split: if_splits)

text \<open>
  What one request adds to the trace: nothing when the address is unusable, else itself, once,
  with the answer the result was read from.
\<close>

lemma emits_do_request:
  "emits (do_request env s method path in_body out zero)
     (\<lambda>r es. (es = [] \<and> (\<exists>msg. r = Inl (ErrWrap ''building the request: '' (ErrText msg)))) \<or>
        (\<exists>ans. es = [CHttp (srv_http s) (build_request s method path in_body) ans]
            \<and> r = read_answer env s method path out zero ans))"
  unfolding do_request_def HTTP_Do_def
  by (auto intro!: emits_bind_ext_call split: option.split)

lemma run_do_request:
  assumes "bad_url env (srv_base s @ path) = None"
    and "http_do env (srv_http s) (build_request s method path in_body) (ext w) = (ans, x)"
  shows "run_state (do_request env s method path in_body out zero) w =
    (read_answer env s method path out zero ans,
     emit x (CHttp (srv_http s) (build_request s method path in_body) ans) w)"
  using assms by (simp add: do_request_def HTTP_Do_def run_ext_call)

lemma read_answer_ok:
  assumes "resp_StatusCode resp < 400" and "resp_StatusCode resp \<noteq> 204" and "resp_Body resp = render j"
    and "wf_json j" and "shallow j" and "dec j zero = Some v"
  shows "read_answer env s method path (Some dec) zero (Inr resp) = Inr v"
  using assms by (simp add: read_answer_def)

end
