(* ===== verification/Tunnel_Client.thy ===== *)
theory Tunnel_Client
  imports Nubulus_Client
begin

text \<open>
  \<^verbatim>\<open>internal/nubulus/tunnel.go\<close>: the wire types of the tunnel API with their JSON forms, and the typed
  operations of the client. A time stamp is the RFC 3339 text it travels as; decoding refuses a
  text that is not one, as \<^verbatim>\<open>time.Time\<close> does. Go's \<^verbatim>\<open>int\<close> fields are integers that decoding keeps
  within 64 bits.
\<close>

section \<open>Time stamps\<close>

definition zero_time :: string where
  "zero_time = ''0001-01-01T00:00:00Z''"

definition num2 :: "char \<Rightarrow> char \<Rightarrow> nat option" where
  "num2 a b = (if is_digit a \<and> is_digit b then Some (10 * digit_val a + digit_val b) else None)"

definition in_range :: "nat \<Rightarrow> nat \<Rightarrow> nat option \<Rightarrow> bool" where
  "in_range lo hi x = (case x of Some n \<Rightarrow> lo \<le> n \<and> n \<le> hi | None \<Rightarrow> False)"

definition leap_year :: "nat \<Rightarrow> bool" where
  "leap_year y = (y mod 4 = 0 \<and> (y mod 100 \<noteq> 0 \<or> y mod 400 = 0))"

definition days_in :: "nat \<Rightarrow> nat \<Rightarrow> nat" where
  "days_in y m = (if m = 2 then (if leap_year y then 29 else 28) else if m \<in> {4, 6, 9, 11} then 30 else 31)"

definition valid_zone :: "string \<Rightarrow> bool" where
  "valid_zone z =
     (z = ''Z'' \<or>
      (case z of
         [s, h1, h2, c, m1, m2] \<Rightarrow>
           (s = CHR ''+'' \<or> s = CHR ''-'') \<and> c = CHR '':'' \<and> in_range 0 23 (num2 h1 h2) \<and> in_range 0 59 (num2 m1 m2)
       | _ \<Rightarrow> False))"

definition valid_frac_zone :: "string \<Rightarrow> bool" where
  "valid_frac_zone r =
     (case r of
        c # q \<Rightarrow>
          (if c = CHR ''.'' then takeWhile is_digit q \<noteq> [] \<and> valid_zone (dropWhile is_digit q)
           else valid_zone r)
      | [] \<Rightarrow> False)"

definition valid_time :: "string \<Rightarrow> bool" where
  "valid_time t =
     (19 \<le> length t \<and>
      (let d = (\<lambda>i. num2 (t ! i) (t ! Suc i)) in
       (case (d 0, d 2, d 5, d 8) of
          (Some y1, Some y2, Some m, Some dd) \<Rightarrow>
            1 \<le> m \<and> m \<le> 12 \<and> 1 \<le> dd \<and> dd \<le> days_in (100 * y1 + y2) m
        | _ \<Rightarrow> False)
       \<and> t ! 4 = CHR ''-'' \<and> t ! 7 = CHR ''-'' \<and> t ! 10 = CHR ''T'' \<and> t ! 13 = CHR '':'' \<and> t ! 16 = CHR '':''
       \<and> in_range 0 23 (d 11) \<and> in_range 0 59 (d 14) \<and> in_range 0 59 (d 17)
       \<and> valid_frac_zone (drop 19 t)))"

definition dec_time :: "string decoder" where
  "dec_time j cur =
     (case j of JNull \<Rightarrow> Some cur | JStr s \<Rightarrow> if valid_time s then Some s else None | _ \<Rightarrow> None)"

section \<open>Wire types\<close>

record NTunnel =
  nt_ID :: string
  nt_AccountID :: string
  nt_UserID :: string
  nt_Name :: string
  nt_ExternalID :: string
  nt_TunnelSubdomain :: string
  nt_WireGuardIP :: string
  nt_WireGuardPublicKey :: string
  nt_Status :: string
  nt_OnlineStatus :: string
  nt_LastHandshakeAt :: "string option"
  nt_StatusChangedAt :: "string option"
  nt_CreatedAt :: string
  nt_UpdatedAt :: string

definition zero_tunnel :: NTunnel where
  "zero_tunnel = \<lparr>nt_ID = [], nt_AccountID = [], nt_UserID = [], nt_Name = [], nt_ExternalID = [],
     nt_TunnelSubdomain = [], nt_WireGuardIP = [], nt_WireGuardPublicKey = [], nt_Status = [],
     nt_OnlineStatus = [], nt_LastHandshakeAt = None, nt_StatusChangedAt = None,
     nt_CreatedAt = zero_time, nt_UpdatedAt = zero_time\<rparr>"

text \<open>A summary embeds the tunnel and adds one member.\<close>

record TunnelSummary =
  sm_Tunnel :: NTunnel
  sm_RouteCount :: int

record Route =
  ro_ID :: string
  ro_TunnelID :: string
  ro_Type :: string
  ro_Hostname :: string
  ro_PathPrefix :: string
  ro_UpstreamHost :: string
  ro_UpstreamPort :: int
  ro_UpstreamScheme :: string
  ro_StripPrefix :: bool
  ro_Enabled :: bool
  ro_Priority :: int
  ro_CreatedAt :: string
  ro_UpdatedAt :: string

definition zero_route :: Route where
  "zero_route = \<lparr>ro_ID = [], ro_TunnelID = [], ro_Type = [], ro_Hostname = [], ro_PathPrefix = [],
     ro_UpstreamHost = [], ro_UpstreamPort = 0, ro_UpstreamScheme = [], ro_StripPrefix = False,
     ro_Enabled = False, ro_Priority = 0, ro_CreatedAt = zero_time, ro_UpdatedAt = zero_time\<rparr>"

record TunnelWithRoutes =
  wr_Tunnel :: "NTunnel option"
  wr_Routes :: "Route list"

record WireGuardInterface =
  wi_PrivateKey :: string
  wi_Address :: string
  wi_DNS :: string

record WireGuardPeer =
  wp_PublicKey :: string
  wp_Endpoint :: string
  wp_AllowedIPs :: string
  wp_PersistentKeepalive :: int

record WireGuardConfig =
  wg_Interface :: WireGuardInterface
  wg_Peer :: WireGuardPeer

definition zero_wireguard :: WireGuardConfig where
  "zero_wireguard = \<lparr>wg_Interface = \<lparr>wi_PrivateKey = [], wi_Address = [], wi_DNS = []\<rparr>,
     wg_Peer = \<lparr>wp_PublicKey = [], wp_Endpoint = [], wp_AllowedIPs = [], wp_PersistentKeepalive = 0\<rparr>\<rparr>"

record CreateTunnelResult =
  cre_TunnelID :: string
  cre_TunnelToken :: string
  cre_TunnelSubdomain :: string
  cre_CNAMETarget :: string
  cre_Instructions :: string
  cre_WireGuard :: WireGuardConfig
  cre_WireGuardIP :: string
  cre_Adopted :: bool

definition zero_created :: CreateTunnelResult where
  "zero_created = \<lparr>cre_TunnelID = [], cre_TunnelToken = [], cre_TunnelSubdomain = [], cre_CNAMETarget = [],
     cre_Instructions = [], cre_WireGuard = zero_wireguard, cre_WireGuardIP = [], cre_Adopted = False\<rparr>"

record CreateTunnelInput =
  cti_Name :: string
  cti_ExternalID :: string

record RotateTokenResult =
  rot_TunnelID :: string
  rot_TunnelToken :: string

record CreateRouteInput =
  cri_Type :: string
  cri_Hostname :: string
  cri_PathPrefix :: string
  cri_UpstreamHost :: string
  cri_UpstreamPort :: int
  cri_UpstreamScheme :: string
  cri_StripPrefix :: bool
  cri_Priority :: int

record UpdateRouteInput =
  uri_UpstreamHost :: "string option"
  uri_UpstreamPort :: "int option"
  uri_UpstreamScheme :: "string option"
  uri_StripPrefix :: "bool option"
  uri_Priority :: "int option"
  uri_Enabled :: "bool option"

definition empty_update :: UpdateRouteInput where
  "empty_update = \<lparr>uri_UpstreamHost = None, uri_UpstreamPort = None, uri_UpstreamScheme = None,
     uri_StripPrefix = None, uri_Priority = None, uri_Enabled = None\<rparr>"

section \<open>JSON forms\<close>

definition enc_create_tunnel :: "CreateTunnelInput \<Rightarrow> json" where
  "enc_create_tunnel i = JObj (omit_str ''name'' (cti_Name i) @ omit_str ''external_id'' (cti_ExternalID i))"

definition enc_create_route :: "CreateRouteInput \<Rightarrow> json" where
  "enc_create_route i = JObj (
     [(''type'', JStr (cri_Type i)), (''hostname'', JStr (cri_Hostname i))]
     @ omit_str ''path_prefix'' (cri_PathPrefix i)
     @ [(''upstream_host'', JStr (cri_UpstreamHost i)), (''upstream_port'', jint (cri_UpstreamPort i))]
     @ omit_str ''upstream_scheme'' (cri_UpstreamScheme i)
     @ [(''strip_prefix'', JBool (cri_StripPrefix i))]
     @ omit_int ''priority'' (cri_Priority i))"

definition enc_update_route :: "UpdateRouteInput \<Rightarrow> json" where
  "enc_update_route i = JObj (
     omit_nil ''upstream_host'' JStr (uri_UpstreamHost i)
     @ omit_nil ''upstream_port'' jint (uri_UpstreamPort i)
     @ omit_nil ''upstream_scheme'' JStr (uri_UpstreamScheme i)
     @ omit_nil ''strip_prefix'' JBool (uri_StripPrefix i)
     @ omit_nil ''priority'' jint (uri_Priority i)
     @ omit_nil ''enabled'' JBool (uri_Enabled i))"

definition dec_tunnel_members :: "(string \<times> json) list \<Rightarrow> NTunnel \<Rightarrow> NTunnel option" where
  "dec_tunnel_members ms t = do {
     i \<leftarrow> dec_member dec_str ''id'' ms (nt_ID t);
     a \<leftarrow> dec_member dec_str ''account_id'' ms (nt_AccountID t);
     u \<leftarrow> dec_member dec_str ''user_id'' ms (nt_UserID t);
     n \<leftarrow> dec_member dec_str ''name'' ms (nt_Name t);
     e \<leftarrow> dec_member dec_str ''external_id'' ms (nt_ExternalID t);
     s \<leftarrow> dec_member dec_str ''tunnel_subdomain'' ms (nt_TunnelSubdomain t);
     w \<leftarrow> dec_member dec_str ''wireguard_ip'' ms (nt_WireGuardIP t);
     k \<leftarrow> dec_member dec_str ''wireguard_public_key'' ms (nt_WireGuardPublicKey t);
     st \<leftarrow> dec_member dec_str ''status'' ms (nt_Status t);
     os \<leftarrow> dec_member dec_str ''online_status'' ms (nt_OnlineStatus t);
     lh \<leftarrow> dec_member (dec_ptr dec_time zero_time) ''last_handshake_at'' ms (nt_LastHandshakeAt t);
     sc \<leftarrow> dec_member (dec_ptr dec_time zero_time) ''status_changed_at'' ms (nt_StatusChangedAt t);
     ca \<leftarrow> dec_member dec_time ''created_at'' ms (nt_CreatedAt t);
     ua \<leftarrow> dec_member dec_time ''updated_at'' ms (nt_UpdatedAt t);
     Some \<lparr>nt_ID = i, nt_AccountID = a, nt_UserID = u, nt_Name = n, nt_ExternalID = e,
       nt_TunnelSubdomain = s, nt_WireGuardIP = w, nt_WireGuardPublicKey = k, nt_Status = st,
       nt_OnlineStatus = os, nt_LastHandshakeAt = lh, nt_StatusChangedAt = sc,
       nt_CreatedAt = ca, nt_UpdatedAt = ua\<rparr>
   }"

definition dec_tunnel :: "NTunnel decoder" where
  "dec_tunnel = dec_struct dec_tunnel_members"

definition dec_summary :: "TunnelSummary decoder" where
  "dec_summary = dec_struct (\<lambda>ms s. do {
     t \<leftarrow> dec_tunnel_members ms (sm_Tunnel s);
     c \<leftarrow> dec_member dec_int ''route_count'' ms (sm_RouteCount s);
     Some \<lparr>sm_Tunnel = t, sm_RouteCount = c\<rparr>
   })"

definition zero_summary :: TunnelSummary where
  "zero_summary = \<lparr>sm_Tunnel = zero_tunnel, sm_RouteCount = 0\<rparr>"

definition dec_route :: "Route decoder" where
  "dec_route = dec_struct (\<lambda>ms r. do {
     i \<leftarrow> dec_member dec_str ''id'' ms (ro_ID r);
     t \<leftarrow> dec_member dec_str ''tunnel_id'' ms (ro_TunnelID r);
     ty \<leftarrow> dec_member dec_str ''type'' ms (ro_Type r);
     h \<leftarrow> dec_member dec_str ''hostname'' ms (ro_Hostname r);
     p \<leftarrow> dec_member dec_str ''path_prefix'' ms (ro_PathPrefix r);
     uh \<leftarrow> dec_member dec_str ''upstream_host'' ms (ro_UpstreamHost r);
     up \<leftarrow> dec_member dec_int ''upstream_port'' ms (ro_UpstreamPort r);
     us \<leftarrow> dec_member dec_str ''upstream_scheme'' ms (ro_UpstreamScheme r);
     sp \<leftarrow> dec_member dec_bool ''strip_prefix'' ms (ro_StripPrefix r);
     en \<leftarrow> dec_member dec_bool ''enabled'' ms (ro_Enabled r);
     pr \<leftarrow> dec_member dec_int ''priority'' ms (ro_Priority r);
     ca \<leftarrow> dec_member dec_time ''created_at'' ms (ro_CreatedAt r);
     ua \<leftarrow> dec_member dec_time ''updated_at'' ms (ro_UpdatedAt r);
     Some \<lparr>ro_ID = i, ro_TunnelID = t, ro_Type = ty, ro_Hostname = h, ro_PathPrefix = p,
       ro_UpstreamHost = uh, ro_UpstreamPort = up, ro_UpstreamScheme = us, ro_StripPrefix = sp,
       ro_Enabled = en, ro_Priority = pr, ro_CreatedAt = ca, ro_UpdatedAt = ua\<rparr>
   })"

definition dec_with_routes :: "TunnelWithRoutes decoder" where
  "dec_with_routes = dec_struct (\<lambda>ms r. do {
     t \<leftarrow> dec_member (dec_ptr dec_tunnel zero_tunnel) ''tunnel'' ms (wr_Tunnel r);
     rs \<leftarrow> dec_member (dec_list dec_route zero_route) ''routes'' ms (wr_Routes r);
     Some \<lparr>wr_Tunnel = t, wr_Routes = rs\<rparr>
   })"

definition dec_wg_interface :: "WireGuardInterface decoder" where
  "dec_wg_interface = dec_struct (\<lambda>ms x. do {
     k \<leftarrow> dec_member dec_str ''private_key'' ms (wi_PrivateKey x);
     a \<leftarrow> dec_member dec_str ''address'' ms (wi_Address x);
     d \<leftarrow> dec_member dec_str ''dns'' ms (wi_DNS x);
     Some \<lparr>wi_PrivateKey = k, wi_Address = a, wi_DNS = d\<rparr>
   })"

definition dec_wg_peer :: "WireGuardPeer decoder" where
  "dec_wg_peer = dec_struct (\<lambda>ms x. do {
     k \<leftarrow> dec_member dec_str ''public_key'' ms (wp_PublicKey x);
     e \<leftarrow> dec_member dec_str ''endpoint'' ms (wp_Endpoint x);
     a \<leftarrow> dec_member dec_str ''allowed_ips'' ms (wp_AllowedIPs x);
     p \<leftarrow> dec_member dec_int ''persistent_keepalive'' ms (wp_PersistentKeepalive x);
     Some \<lparr>wp_PublicKey = k, wp_Endpoint = e, wp_AllowedIPs = a, wp_PersistentKeepalive = p\<rparr>
   })"

definition dec_wireguard :: "WireGuardConfig decoder" where
  "dec_wireguard = dec_struct (\<lambda>ms x. do {
     i \<leftarrow> dec_member dec_wg_interface ''interface'' ms (wg_Interface x);
     p \<leftarrow> dec_member dec_wg_peer ''peer'' ms (wg_Peer x);
     Some \<lparr>wg_Interface = i, wg_Peer = p\<rparr>
   })"

definition dec_created :: "CreateTunnelResult decoder" where
  "dec_created = dec_struct (\<lambda>ms x. do {
     i \<leftarrow> dec_member dec_str ''tunnel_id'' ms (cre_TunnelID x);
     t \<leftarrow> dec_member dec_str ''tunnel_token'' ms (cre_TunnelToken x);
     s \<leftarrow> dec_member dec_str ''tunnel_subdomain'' ms (cre_TunnelSubdomain x);
     c \<leftarrow> dec_member dec_str ''cname_target'' ms (cre_CNAMETarget x);
     p \<leftarrow> dec_member dec_str ''instructions'' ms (cre_Instructions x);
     g \<leftarrow> dec_member dec_wireguard ''wireguard'' ms (cre_WireGuard x);
     w \<leftarrow> dec_member dec_str ''wireguard_ip'' ms (cre_WireGuardIP x);
     a \<leftarrow> dec_member dec_bool ''adopted'' ms (cre_Adopted x);
     Some \<lparr>cre_TunnelID = i, cre_TunnelToken = t, cre_TunnelSubdomain = s, cre_CNAMETarget = c,
       cre_Instructions = p, cre_WireGuard = g, cre_WireGuardIP = w, cre_Adopted = a\<rparr>
   })"

definition dec_rotated :: "RotateTokenResult decoder" where
  "dec_rotated = dec_struct (\<lambda>ms x. do {
     i \<leftarrow> dec_member dec_str ''tunnel_id'' ms (rot_TunnelID x);
     t \<leftarrow> dec_member dec_str ''tunnel_token'' ms (rot_TunnelToken x);
     Some \<lparr>rot_TunnelID = i, rot_TunnelToken = t\<rparr>
   })"

text \<open>The anonymous structs the listings decode into.\<close>

definition dec_data :: "TunnelSummary list decoder" where
  "dec_data = dec_struct (\<lambda>ms x. dec_member (dec_list dec_summary zero_summary) ''data'' ms x)"

record tunnel_page =
  pg_Data :: "TunnelSummary list"
  pg_Limit :: int
  pg_Offset :: int

definition dec_page :: "tunnel_page decoder" where
  "dec_page = dec_struct (\<lambda>ms x. do {
     d \<leftarrow> dec_member (dec_list dec_summary zero_summary) ''data'' ms (pg_Data x);
     l \<leftarrow> dec_member dec_int ''limit'' ms (pg_Limit x);
     p \<leftarrow> dec_member dec_int ''offset'' ms (pg_Offset x);
     Some \<lparr>pg_Data = d, pg_Limit = l, pg_Offset = p\<rparr>
   })"

definition dec_routes :: "(Route list \<times> int) decoder" where
  "dec_routes = dec_struct (\<lambda>ms x. do {
     r \<leftarrow> dec_member (dec_list dec_route zero_route) ''routes'' ms (fst x);
     t \<leftarrow> dec_member dec_int ''total'' ms (snd x);
     Some (r, t)
   })"

section \<open>Paths\<close>

definition routesPath :: "string \<Rightarrow> string" where
  "routesPath tunnelID = ''/api/v2/tunnels/'' @ PathEscape tunnelID @ ''/routes''"

definition routePath :: "string \<Rightarrow> string \<Rightarrow> string" where
  "routePath tunnelID routeID = routesPath tunnelID @ ''/'' @ PathEscape routeID"

section \<open>Tunnels\<close>

definition CreateTunnel :: "'x env \<Rightarrow> service \<Rightarrow> CreateTunnelInput \<Rightarrow> ('x, gerr + CreateTunnelResult) io" where
  "CreateTunnel env c i =
     do_request env c ''POST'' ''/api/v2/tunnels'' (Some (enc_create_tunnel i)) (Some dec_created) zero_created"

definition RotateToken :: "'x env \<Rightarrow> service \<Rightarrow> string \<Rightarrow> ('x, gerr + RotateTokenResult) io" where
  "RotateToken env c i =
     do_request env c ''POST'' (''/api/v2/tunnels/'' @ PathEscape i @ ''/rotate-token'') None
       (Some dec_rotated) \<lparr>rot_TunnelID = [], rot_TunnelToken = []\<rparr>"

definition FindTunnelByExternalID :: "'x env \<Rightarrow> service \<Rightarrow> string \<Rightarrow> ('x, gerr + TunnelSummary option) io" where
  "FindTunnelByExternalID env c externalID = do {
     r \<leftarrow> do_request env c ''GET'' (''/api/v2/tunnels?external_id='' @ QueryEscape externalID) None
       (Some dec_data) [];
     (case r of
        Inl e \<Rightarrow> ret (Inl e)
      | Inr [] \<Rightarrow> ret (Inr None)
      | Inr (x # _) \<Rightarrow> ret (Inr (Some x)))
   }"

definition GetTunnel :: "'x env \<Rightarrow> service \<Rightarrow> string \<Rightarrow> ('x, gerr + TunnelWithRoutes) io" where
  "GetTunnel env c i =
     do_request env c ''GET'' (''/api/v2/tunnels/'' @ PathEscape i) None
       (Some dec_with_routes) \<lparr>wr_Tunnel = None, wr_Routes = []\<rparr>"

definition tunnelPageSize :: nat where "tunnelPageSize = 100"
definition listPageLimit :: nat where "listPageLimit = 1000"

text \<open>The loop of \<^verbatim>\<open>ListTunnels\<close>: the rounds left, the offset and the rows gathered so far.\<close>

primrec list_pages ::
  "'x env \<Rightarrow> service \<Rightarrow> nat \<Rightarrow> nat \<Rightarrow> TunnelSummary list \<Rightarrow> ('x, gerr + TunnelSummary list) io" where
  "list_pages env c 0 offset all = ret (Inr all)"
| "list_pages env c (Suc n) offset all = do {
     r \<leftarrow> do_request env c ''GET''
       (''/api/v2/tunnels?limit='' @ Itoa (int tunnelPageSize) @ ''&offset='' @ Itoa (int offset)) None
       (Some dec_page) \<lparr>pg_Data = [], pg_Limit = 0, pg_Offset = 0\<rparr>;
     (case r of
        Inl e \<Rightarrow> ret (Inl e)
      | Inr p \<Rightarrow>
          if pg_Data p = [] then ret (Inr all)
          else list_pages env c n (offset + length (pg_Data p)) (all @ pg_Data p))
   }"

definition ListTunnels :: "'x env \<Rightarrow> service \<Rightarrow> ('x, gerr + TunnelSummary list) io" where
  "ListTunnels env c = list_pages env c listPageLimit 0 []"

definition DeleteTunnel :: "'x env \<Rightarrow> service \<Rightarrow> string \<Rightarrow> ('x, gerr + unit) io" where
  "DeleteTunnel env c i = do_request env c ''DELETE'' (''/api/v2/tunnels/'' @ PathEscape i) None None ()"

section \<open>Routes\<close>

definition CreateRoute :: "'x env \<Rightarrow> service \<Rightarrow> string \<Rightarrow> CreateRouteInput \<Rightarrow> ('x, gerr + Route) io" where
  "CreateRoute env c tunnelID i =
     do_request env c ''POST'' (routesPath tunnelID) (Some (enc_create_route i)) (Some dec_route) zero_route"

definition GetRoute :: "'x env \<Rightarrow> service \<Rightarrow> string \<Rightarrow> string \<Rightarrow> ('x, gerr + Route) io" where
  "GetRoute env c tunnelID routeID =
     do_request env c ''GET'' (routePath tunnelID routeID) None (Some dec_route) zero_route"

definition ListRoutes :: "'x env \<Rightarrow> service \<Rightarrow> string \<Rightarrow> ('x, gerr + Route list) io" where
  "ListRoutes env c tunnelID = do {
     r \<leftarrow> do_request env c ''GET'' (routesPath tunnelID) None (Some dec_routes) ([], 0);
     ret (map_sum id fst r)
   }"

definition UpdateRoute :: "'x env \<Rightarrow> service \<Rightarrow> string \<Rightarrow> string \<Rightarrow> UpdateRouteInput \<Rightarrow> ('x, gerr + Route) io" where
  "UpdateRoute env c tunnelID routeID i =
     do_request env c ''PUT'' (routePath tunnelID routeID) (Some (enc_update_route i)) (Some dec_route) zero_route"

definition DeleteRoute :: "'x env \<Rightarrow> service \<Rightarrow> string \<Rightarrow> string \<Rightarrow> ('x, gerr + unit) io" where
  "DeleteRoute env c tunnelID routeID =
     do_request env c ''DELETE'' (routePath tunnelID routeID) None None ()"

section \<open>Kinds of requests\<close>

definition is_platform :: "call \<Rightarrow> bool" where
  "is_platform c = (case c of CHttp h rq a \<Rightarrow> True | _ \<Rightarrow> False)"

text \<open>A request that may make a tunnel, and one that issues a new credential.\<close>

definition is_create_tunnel :: "call \<Rightarrow> bool" where
  "is_create_tunnel c =
     (case c of CHttp h rq a \<Rightarrow> rq_Method rq = ''POST'' \<and> HasSuffix (rq_URL rq) ''/api/v2/tunnels'' | _ \<Rightarrow> False)"

definition is_rotate :: "call \<Rightarrow> bool" where
  "is_rotate c =
     (case c of CHttp h rq a \<Rightarrow> rq_Method rq = ''POST'' \<and> HasSuffix (rq_URL rq) ''/rotate-token'' | _ \<Rightarrow> False)"

section \<open>Lemmas\<close>

lemma HasSuffix_last: "HasSuffix s p \<Longrightarrow> p \<noteq> [] \<Longrightarrow> last s = last p"
  by (auto simp: HasSuffix_iff)

lemmas request_simps = build_request_def is_platform_def is_create_tunnel_def is_rotate_def

text \<open>Every operation of the client makes requests of the platform only, through the client's own transport.\<close>

definition through :: "service \<Rightarrow> call \<Rightarrow> bool" where
  "through s c = (case c of CHttp h rq a \<Rightarrow> h = srv_http s \<and> HasPrefix (rq_URL rq) (srv_base s) | _ \<Rightarrow> False)"

lemma through_platform: "through s c \<Longrightarrow> is_platform c"
  by (auto simp: through_def is_platform_def split: call.splits)

lemma through_build [simp]: "through s (CHttp (srv_http s) (build_request s m p b) ans)"
  by (simp add: through_def build_request_def)

text \<open>Only requests of the platform are.\<close>

lemma kube_not_platform [simp]:
  "\<not> is_platform (CGetTunnel k a1)" "\<not> is_platform (CGetRoute k a2)" "\<not> is_platform (CGetSecret k a3)"
  "\<not> is_platform (CGetService k a4)" "\<not> is_platform (CListRoutes ns ix a5)" "\<not> is_platform (CUpdateTunnel t b1)"
  "\<not> is_platform (CStatusTunnel t b2)" "\<not> is_platform (CUpdateRoute rt b3)" "\<not> is_platform (CStatusRoute rt b4)"
  "\<not> is_platform (CApplySecret sec b5)" "\<not> is_platform (CApplyDeployment dep b6)" "\<not> is_platform (CEvent k s1 s2 s3 s4)"
  by (simp_all add: is_platform_def)

lemma kube_not_create [simp]:
  "\<not> is_create_tunnel (CGetTunnel k a1)" "\<not> is_create_tunnel (CGetRoute k a2)" "\<not> is_create_tunnel (CGetSecret k a3)"
  "\<not> is_create_tunnel (CGetService k a4)" "\<not> is_create_tunnel (CListRoutes ns ix a5)" "\<not> is_create_tunnel (CUpdateTunnel t b1)"
  "\<not> is_create_tunnel (CStatusTunnel t b2)" "\<not> is_create_tunnel (CUpdateRoute rt b3)" "\<not> is_create_tunnel (CStatusRoute rt b4)"
  "\<not> is_create_tunnel (CApplySecret sec b5)" "\<not> is_create_tunnel (CApplyDeployment dep b6)" "\<not> is_create_tunnel (CEvent k s1 s2 s3 s4)"
  by (simp_all add: is_create_tunnel_def)

lemma kube_not_rotate [simp]:
  "\<not> is_rotate (CGetTunnel k a1)" "\<not> is_rotate (CGetRoute k a2)" "\<not> is_rotate (CGetSecret k a3)"
  "\<not> is_rotate (CGetService k a4)" "\<not> is_rotate (CListRoutes ns ix a5)" "\<not> is_rotate (CUpdateTunnel t b1)"
  "\<not> is_rotate (CStatusTunnel t b2)" "\<not> is_rotate (CUpdateRoute rt b3)" "\<not> is_rotate (CStatusRoute rt b4)"
  "\<not> is_rotate (CApplySecret sec b5)" "\<not> is_rotate (CApplyDeployment dep b6)" "\<not> is_rotate (CEvent k s1 s2 s3 s4)"
  by (simp_all add: is_rotate_def)

text \<open>A request whose method is not POST neither makes a tunnel nor rotates a credential.\<close>

lemma not_post [simp]:
  assumes "m \<noteq> ''POST''"
  shows "\<not> is_create_tunnel (CHttp h (build_request s m p b) ans)" "\<not> is_rotate (CHttp h (build_request s m p b) ans)"
  using assms by (simp_all add: request_simps)

lemma rotate_not_create [simp]:
  "\<not> is_create_tunnel (CHttp h (build_request s m (q @ ''/rotate-token'') b) ans)"
  by (auto simp: request_simps dest: HasSuffix_last)

lemma create_not_rotate [simp]:
  "\<not> is_rotate (CHttp h (build_request s m ''/api/v2/tunnels'' b) ans)"
  "\<not> is_rotate (CHttp h (build_request s m (q @ ''/routes'') b) ans)"
  by (auto simp: request_simps dest: HasSuffix_last)

lemma emits_request_through:
  "emits (do_request env s method path in_body out zero) (\<lambda>_ es. \<forall>c \<in> set es. through s c)"
  by (rule emits_mono [OF emits_do_request]) auto

lemma emits_get:
  assumes "m \<noteq> ''POST''"
  shows "emits (do_request env s m path in_body out zero)
     (\<lambda>_ es. \<forall>c \<in> set es. through s c \<and> \<not> is_create_tunnel c \<and> \<not> is_rotate c)"
  by (rule emits_mono [OF emits_do_request]) (use assms in auto)

lemma emits_GetTunnel:
  "emits (GetTunnel env s i) (\<lambda>_ es. \<forall>c \<in> set es. through s c \<and> \<not> is_create_tunnel c \<and> \<not> is_rotate c)"
  unfolding GetTunnel_def by (rule emits_get) simp

lemma emits_DeleteTunnel:
  "emits (DeleteTunnel env s i) (\<lambda>_ es. \<forall>c \<in> set es. through s c \<and> \<not> is_create_tunnel c \<and> \<not> is_rotate c)"
  unfolding DeleteTunnel_def by (rule emits_get) simp

lemma emits_FindTunnelByExternalID:
  "emits (FindTunnelByExternalID env s i) (\<lambda>_ es. \<forall>c \<in> set es. through s c \<and> \<not> is_create_tunnel c \<and> \<not> is_rotate c)"
  unfolding FindTunnelByExternalID_def
  by (rule emits_bind, rule emits_get) (auto split: sum.split list.split)

lemma emits_CreateTunnel:
  "emits (CreateTunnel env s i) (\<lambda>_ es. \<forall>c \<in> set es. through s c \<and> \<not> is_rotate c)"
  unfolding CreateTunnel_def by (rule emits_mono [OF emits_do_request]) auto

lemma emits_RotateToken:
  "emits (RotateToken env s i) (\<lambda>_ es. \<forall>c \<in> set es. through s c \<and> \<not> is_create_tunnel c)"
  unfolding RotateToken_def
  by (rule emits_mono [OF emits_do_request]) (auto simp: rotate_not_create [where q = "''/api/v2/tunnels/'' @ PathEscape i", simplified])

lemma grows_do_request [grows_intro]: "grows (do_request env s m path in_body out zero)"
  by (rule grows_emits [OF emits_do_request])

lemma grows_client [grows_intro]:
  "grows (CreateTunnel env s i)" "grows (RotateToken env s x)" "grows (GetTunnel env s x)"
  "grows (DeleteTunnel env s x)" "grows (CreateRoute env s x j)" "grows (GetRoute env s x y)"
  "grows (UpdateRoute env s x y u)" "grows (DeleteRoute env s x y)"
  by (simp_all add: CreateTunnel_def RotateToken_def GetTunnel_def DeleteTunnel_def CreateRoute_def
      GetRoute_def UpdateRoute_def DeleteRoute_def grows_do_request)

lemma grows_FindTunnelByExternalID [grows_intro]: "grows (FindTunnelByExternalID env s x)"
  by (rule grows_emits [OF emits_FindTunnelByExternalID])

lemma grows_ListRoutes [grows_intro]: "grows (ListRoutes env s x)"
  unfolding ListRoutes_def by (intro grows_intro)

text \<open>What every request of the client satisfies, every call of an operation of it satisfies.\<close>

lemma only_do_request [only_intro]:
  "(\<And>ans. P (CHttp (srv_http s) (build_request s method path in_body) ans)) \<Longrightarrow>
     only P (do_request env s method path in_body out zero)"
  unfolding do_request_def HTTP_Do_def by (auto intro!: only_intro split: option.split)

lemma only_ListRoutes:
  "(\<And>ans. P (CHttp (srv_http s) (build_request s ''GET'' (routesPath i) None) ans)) \<Longrightarrow> only P (ListRoutes env s i)"
  unfolding ListRoutes_def by (auto intro!: only_intro)

lemma only_FindTunnelByExternalID:
  "(\<And>ans. P (CHttp (srv_http s) (build_request s ''GET'' (''/api/v2/tunnels?external_id='' @ QueryEscape i) None) ans)) \<Longrightarrow>
     only P (FindTunnelByExternalID env s i)"
  unfolding FindTunnelByExternalID_def by (auto intro!: only_intro split: sum.split list.split)

lemma only_list_pages:
  assumes "\<And>path ans. P (CHttp (srv_http s) (build_request s ''GET'' path None) ans)"
  shows "only P (list_pages env s n offset all)"
proof (induction n arbitrary: offset all)
  case 0
  show ?case by (simp add: only_ret)
next
  case (Suc n)
  with assms show ?case by (auto intro!: only_intro split: sum.split)
qed

end
