(* ===== verification/Agent.thy ===== *)
theory Agent
  imports Api_Types
begin

text \<open>
  \<^verbatim>\<open>internal/controller/agent.go\<close>: the names, labels and the desired Deployment of a tunnel's agent.
\<close>

definition tokenSecretKey :: string where "tokenSecretKey = ''TUNNEL_TOKEN''"
definition metricsPort :: int where "metricsPort = 9990"
definition statusPort :: int where "statusPort = 9999"

definition credentialVersionAnnotation :: string where
  "credentialVersionAnnotation = ''tunnel.nubulusnetwork.es/credential-version''"

definition agentDeploymentName :: "string \<Rightarrow> string" where
  "agentDeploymentName tunnelName = tunnelName @ ''-agent''"

definition tokenSecretName :: "string \<Rightarrow> string" where
  "tokenSecretName tunnelName = tunnelName @ ''-tunnel-token''"

definition agentLabels :: "Tunnel \<Rightarrow> string \<rightharpoonup> string" where
  "agentLabels tunnel =
     [''app.kubernetes.io/name'' \<mapsto> ''nubulus-tunnel-agent'',
      ''app.kubernetes.io/instance'' \<mapsto> om_Name (tn_Meta tunnel),
      ''app.kubernetes.io/managed-by'' \<mapsto> ''nubuluscloud-operator'']"

text \<open>The environment of the agent container.\<close>

definition plain_env :: "string \<Rightarrow> string \<Rightarrow> EnvVar" where
  "plain_env n v = \<lparr>ev_Name = n, ev_Value = v, ev_SecretKeyRef = None\<rparr>"

definition agent_env :: "Tunnel \<Rightarrow> EnvVar list" where
  "agent_env tunnel =
     (let logLevel = (if ag_LogLevel (ts_Agent (tn_Spec tunnel)) = [] then ''info''
                      else ag_LogLevel (ts_Agent (tn_Spec tunnel)));
          env = [\<lparr>ev_Name = tokenSecretKey, ev_Value = [],
                   ev_SecretKeyRef = Some (tokenSecretName (om_Name (tn_Meta tunnel)), tokenSecretKey)\<rparr>,
                 plain_env ''LOG_LEVEL'' logLevel,
                 plain_env ''LOG_FORMAT'' ''json'',
                 plain_env ''METRICS_LISTEN_ADDR'' ''0.0.0.0:9990'',
                 plain_env ''STATUS_LISTEN_ADDR'' ''0.0.0.0:9999''] in
      case ts_Endpoints (tn_Spec tunnel) of
        Some e \<Rightarrow>
          (if ep_API e \<noteq> []
           then env @ [plain_env ''API_URL'' (TrimSuffix (ep_API e) ''/'' @ ''/api/v2/tunnel-config/'')]
           else env)
      | None \<Rightarrow> env)"

definition agent_container :: "Tunnel \<Rightarrow> string \<Rightarrow> Container" where
  "agent_container tunnel img =
     \<lparr>ct_Name = ''agent'',
      ct_Image = img,
      ct_ImagePullPolicy = ag_ImagePullPolicy (ts_Agent (tn_Spec tunnel)),
      ct_Env = agent_env tunnel,
      ct_Resources = ag_Resources (ts_Agent (tn_Spec tunnel)),
      ct_Ports = [\<lparr>cp_Name = ''metrics'', cp_ContainerPort = metricsPort\<rparr>,
                  \<lparr>cp_Name = ''status'', cp_ContainerPort = statusPort\<rparr>],
      ct_SecurityContext = Some \<lparr>sx_AllowPrivilegeEscalation = Some False,
        sx_ReadOnlyRootFilesystem = Some True, sx_Privileged = Some False,
        sx_CapabilitiesDrop = [''ALL'']\<rparr>,
      ct_LivenessProbe = Some \<lparr>pb_Path = ''/status'', pb_Port = StrVal ''status'',
        pb_InitialDelaySeconds = 10, pb_PeriodSeconds = 30, pb_TimeoutSeconds = 5,
        pb_FailureThreshold = 3\<rparr>\<rparr>"

definition buildAgentDeployment :: "Tunnel \<Rightarrow> string \<Rightarrow> string \<Rightarrow> Deployment" where
  "buildAgentDeployment tunnel defaultImage credentialVersion =
     (let labels = agentLabels tunnel;
          img = (if ag_Image (ts_Agent (tn_Spec tunnel)) = [] then defaultImage
                   else ag_Image (ts_Agent (tn_Spec tunnel))) in
      \<lparr>dp_Meta = zero_meta\<lparr>om_Name := agentDeploymentName (om_Name (tn_Meta tunnel)),
                 om_Namespace := om_Namespace (tn_Meta tunnel), om_Labels := labels\<rparr>,
       dp_Spec = \<lparr>
         ds_Replicas = Some 1,
         ds_StrategyType = ''Recreate'',
         ds_Selector = Some labels,
         ds_Template = \<lparr>
           pt_Labels = labels,
           pt_Annotations = [credentialVersionAnnotation \<mapsto> credentialVersion],
           pt_ImagePullSecrets = ag_ImagePullSecrets (ts_Agent (tn_Spec tunnel)),
           pt_NodeSelector = ag_NodeSelector (ts_Agent (tn_Spec tunnel)),
           pt_Tolerations = ag_Tolerations (ts_Agent (tn_Spec tunnel)),
           pt_SecurityContext = Some \<lparr>px_RunAsNonRoot = Some True, px_RunAsUser = Some 65532,
             px_RunAsGroup = Some 65532, px_SeccompProfile = Some ''RuntimeDefault''\<rparr>,
           pt_Containers = [agent_container tunnel img]\<rparr>\<rparr>,
       dp_AvailableReplicas = 0\<rparr>)"

section \<open>Lemmas\<close>

text \<open>
  What the API server demands of a Deployment: its selector selects the pods it makes.
\<close>

definition selects :: "(string \<rightharpoonup> string) \<Rightarrow> (string \<rightharpoonup> string) \<Rightarrow> bool" where
  "selects sel labels = (sel \<subseteq>\<^sub>m labels)"

text \<open>A container that can gain nothing: no escalation, not privileged, every capability dropped, no writable root.\<close>

definition locked_down :: "Container \<Rightarrow> bool" where
  "locked_down c =
     (case ct_SecurityContext c of
        None \<Rightarrow> False
      | Some sx \<Rightarrow>
          sx_AllowPrivilegeEscalation sx = Some False \<and> sx_Privileged sx = Some False
          \<and> sx_ReadOnlyRootFilesystem sx = Some True \<and> ''ALL'' \<in> set (sx_CapabilitiesDrop sx))"

lemma tokenSecretName_inject [simp]: "tokenSecretName a = tokenSecretName b \<longleftrightarrow> a = b"
  by (simp add: tokenSecretName_def)

lemma agentDeploymentName_inject [simp]: "agentDeploymentName a = agentDeploymentName b \<longleftrightarrow> a = b"
  by (simp add: agentDeploymentName_def)

lemma agentLabels_instance [simp]:
  "agentLabels t ''app.kubernetes.io/instance'' = Some (om_Name (tn_Meta t))"
  by (simp add: agentLabels_def)

text \<open>The credential of a tunnel reaches its agent, and no other secret does.\<close>

lemma agent_env_secret_refs:
  "map ev_SecretKeyRef (filter (\<lambda>e. ev_SecretKeyRef e \<noteq> None) (agent_env t))
     = [Some (tokenSecretName (om_Name (tn_Meta t)), tokenSecretKey)]"
  by (simp add: agent_env_def plain_env_def Let_def split: option.split)

lemma agent_env_names_distinct: "distinct (map ev_Name (agent_env t))"
  by (simp add: agent_env_def plain_env_def Let_def tokenSecretKey_def split: option.split)

lemma agentLabels_le_iff: "agentLabels t \<subseteq>\<^sub>m agentLabels t' \<longleftrightarrow> om_Name (tn_Meta t') = om_Name (tn_Meta t)"
proof
  assume "agentLabels t \<subseteq>\<^sub>m agentLabels t'"
  then have "agentLabels t a = agentLabels t' a" if "a \<in> dom (agentLabels t)" for a
    using that by (simp add: map_le_def)
  from this [of "''app.kubernetes.io/instance''"] agentLabels_instance
  show "om_Name (tn_Meta t') = om_Name (tn_Meta t)" by (simp add: domIff)
qed (simp add: agentLabels_def)

lemma build_template_labels [simp]:
  "pt_Labels (ds_Template (dp_Spec (buildAgentDeployment t img v))) = agentLabels t"
  by (simp add: buildAgentDeployment_def Let_def)

lemma build_selector [simp]: "ds_Selector (dp_Spec (buildAgentDeployment t img v)) = Some (agentLabels t)"
  by (simp add: buildAgentDeployment_def Let_def)

text \<open>
  C28. The agent Deployment is a single, locked-down pod: exactly one replica, replaced and never
  run side by side (strategy Recreate), a selector that selects its own pods and, among the pods of
  agents, exactly those of a tunnel of the same name, a non-root pod whose only container cannot
  gain privileges, and the only secret the pod is given is the token Secret of this very tunnel.
\<close>

theorem buildAgentDeployment_single_locked_down:
  "let d = buildAgentDeployment t img ver; tpl = ds_Template (dp_Spec d) in
     ds_Replicas (dp_Spec d) = Some 1
     \<and> ds_StrategyType (dp_Spec d) = ''Recreate''
     \<and> (\<exists>sel. ds_Selector (dp_Spec d) = Some sel \<and> selects sel (pt_Labels tpl)
          \<and> (\<forall>t' img' ver'. selects sel (pt_Labels (ds_Template (dp_Spec (buildAgentDeployment t' img' ver'))))
               \<longleftrightarrow> om_Name (tn_Meta t') = om_Name (tn_Meta t)))
     \<and> (\<exists>px. pt_SecurityContext tpl = Some px \<and> px_RunAsNonRoot px = Some True)
     \<and> length (pt_Containers tpl) = 1
     \<and> list_all locked_down (pt_Containers tpl)
     \<and> concat (map (\<lambda>c. map ev_SecretKeyRef (filter (\<lambda>e. ev_SecretKeyRef e \<noteq> None) (ct_Env c))) (pt_Containers tpl))
         = [Some (tokenSecretName (om_Name (tn_Meta t)), tokenSecretKey)]"
proof -
  have sel: "\<exists>sel. ds_Selector (dp_Spec (buildAgentDeployment t img ver)) = Some sel
      \<and> selects sel (agentLabels t)
      \<and> (\<forall>t' img' ver'. selects sel (pt_Labels (ds_Template (dp_Spec (buildAgentDeployment t' img' ver'))))
           \<longleftrightarrow> om_Name (tn_Meta t') = om_Name (tn_Meta t))"
    by (simp add: selects_def agentLabels_le_iff)
  show ?thesis unfolding Let_def build_template_labels [of t img ver]
    by (intro conjI sel)
       (simp_all add: buildAgentDeployment_def Let_def locked_down_def agent_container_def agent_env_secret_refs
        del: not_None_eq)
qed

text \<open>
  A new credential restarts the agent, and nothing else does it by accident: for one tunnel
  object and one image, two credential versions give the same pod template exactly when they are
  the same version.
\<close>

lemma buildAgentDeployment_rolls_on_credential:
  "ds_Template (dp_Spec (buildAgentDeployment t img v)) = ds_Template (dp_Spec (buildAgentDeployment t img v'))
     \<longleftrightarrow> v = v'"
  by (auto simp: buildAgentDeployment_def Let_def dest: fun_cong [where x = credentialVersionAnnotation])

end
