(* ===== verification/Client_Factory.thy ===== *)
theory Client_Factory
  imports Nubulus_Client
begin

text \<open>
  \<^verbatim>\<open>internal/controller/apiclient.go\<close>: the platform client of a tunnel, built from the credential its
  spec names and cached. The cache is the field \<open>clients\<close> of the world; the mutex makes a call one
  step, which is how it is modelled once the credential has been read.
\<close>

section \<open>Reading the credential\<close>

definition cache_key :: "NamespacedName \<Rightarrow> string \<Rightarrow> Config \<Rightarrow> string" where
  "cache_key k rv cfg =
     nn_Namespace k @ ''/'' @ nn_Name k @ ''@'' @ rv @ ''|'' @ cfg_TokenURL cfg @ ''|'' @
     cfg_TunnelEndpoint cfg @ ''|'' @ cfg_ProjectID cfg"

text \<open>The bytes under a key of a Secret; a missing key reads as none.\<close>

definition secret_value :: "Secret \<Rightarrow> string \<Rightarrow> string" where
  "secret_value s k = (case sec_Data s k of Some v \<Rightarrow> v | None \<Rightarrow> [])"

definition id_key :: "CredentialsReference \<Rightarrow> string" where
  "id_key r = (if cr_ClientIDKey r = [] then ''client_id'' else cr_ClientIDKey r)"

definition secret_key :: "CredentialsReference \<Rightarrow> string" where
  "secret_key r = (if cr_ClientSecretKey r = [] then ''client_secret'' else cr_ClientSecretKey r)"

text \<open>The part of \<^verbatim>\<open>configFor\<close> after the Secret has been read.\<close>

definition config_of_secret :: "Tunnel \<Rightarrow> string \<Rightarrow> Secret \<Rightarrow> gerr + (Config \<times> string)" where
  "config_of_secret tunnel userAgent secret =
     (let ref = ts_Credentials (tn_Spec tunnel);
          k = nn (om_Namespace (tn_Meta tunnel)) (cr_Name ref);
          clientID = secret_value secret (id_key ref);
          clientSecret = secret_value secret (secret_key ref) in
      if clientID = [] then
        Inl (ErrText (''the Secret '' @ nn_text k @ '' has no '' @ Quote (id_key ref)))
      else if clientSecret = [] then
        Inl (ErrText (''the Secret '' @ nn_text k @ '' has no '' @ Quote (secret_key ref)))
      else
        (let cfg0 = \<lparr>cfg_ClientID = clientID, cfg_ClientSecret = clientSecret, cfg_TokenURL = [],
               cfg_ProjectID = [], cfg_TunnelEndpoint = [], cfg_UserAgent = userAgent,
               cfg_HTTPClient = None\<rparr>;
             cfg = (case ts_Endpoints (tn_Spec tunnel) of
                 None \<Rightarrow> cfg0
               | Some e \<Rightarrow> cfg0\<lparr>cfg_TokenURL := ep_TokenURL e, cfg_TunnelEndpoint := ep_API e,
                               cfg_ProjectID := ep_ProjectID e\<rparr>) in
         Inr (cfg, cache_key k (om_ResourceVersion (sec_Meta secret)) cfg)))"

definition configFor :: "'x env \<Rightarrow> Tunnel \<Rightarrow> string \<Rightarrow> ('x, gerr + (Config \<times> string)) io" where
  "configFor env tunnel userAgent =
     (let k = nn (om_Namespace (tn_Meta tunnel)) (cr_Name (ts_Credentials (tn_Spec tunnel))) in
      do {
        r \<leftarrow> Get_Secret env k;
        (case r of
           Inl err \<Rightarrow> ret (Inl (ErrWrap (''reading the credential Secret '' @ nn_text k @ '': '') err))
         | Inr secret \<Rightarrow> ret (config_of_secret tunnel userAgent secret))
      })"

section \<open>The cache\<close>

definition cached_client :: "string \<Rightarrow> Config \<Rightarrow> ('x, gerr + Client) io" where
  "cached_client key cfg = State (\<lambda>w.
     (case clients w key of
        Some cached \<Rightarrow> (Inr cached, w)
      | None \<Rightarrow>
          (case New cfg of
             Inl err \<Rightarrow> (Inl err, w)
           | Inr built \<Rightarrow> (Inr built, w\<lparr>clients := (clients w)(key \<mapsto> built)\<rparr>))))"

definition CachedClientFor :: "'x env \<Rightarrow> string \<Rightarrow> Tunnel \<Rightarrow> ('x, gerr + Client) io" where
  "CachedClientFor env userAgent tunnel = do {
     r \<leftarrow> configFor env tunnel userAgent;
     (case r of
        Inl err \<Rightarrow> ret (Inl err)
      | Inr (cfg, key) \<Rightarrow> cached_client key cfg)
   }"

section \<open>The interface\<close>

text \<open>
  \<^verbatim>\<open>APIClientFactory\<close>: what the controllers rely on. A factory reads one Secret, the one the tunnel
  names in the tunnel's own namespace, and makes no request of the platform.
\<close>

definition reads_only_own_secret :: "Tunnel \<Rightarrow> call list \<Rightarrow> bool" where
  "reads_only_own_secret t es =
     (\<forall>c \<in> set es. \<exists>r. c = CGetSecret (nn (om_Namespace (tn_Meta t)) (cr_Name (ts_Credentials (tn_Spec t)))) r)"

locale client_factory =
  fixes ClientFor :: "Tunnel \<Rightarrow> ('x, gerr + Client) io"
  assumes ClientFor_calls: "emits (ClientFor t) (\<lambda>_ es. reads_only_own_secret t es)"
begin

lemma no_platform_call: "emits (ClientFor t) (\<lambda>_ es. \<forall>c \<in> set es. \<forall>h rq a. c \<noteq> CHttp h rq a)"
  by (rule emits_mono [OF ClientFor_calls]) (fastforce simp: reads_only_own_secret_def)

lemma ClientFor_grows: "grows (ClientFor t)"
  by (rule grows_emits [OF ClientFor_calls])

lemma own_namespace: "emits (ClientFor t) (\<lambda>_ es. \<forall>c \<in> set es. \<exists>k r. c = CGetSecret k r \<and> nn_Namespace k = om_Namespace (tn_Meta t))"
  by (rule emits_mono [OF ClientFor_calls]) (fastforce simp: reads_only_own_secret_def)

end

section \<open>Lemmas\<close>

lemma emits_configFor: "emits (configFor env t ua) (\<lambda>_ es. reads_only_own_secret t es)"
  unfolding configFor_def Let_def Get_Secret_def
  by (auto intro!: emits_calls simp: reads_only_own_secret_def split: sum.split)

lemma emits_cached_client: "emits (cached_client key cfg) (\<lambda>_ es. es = [])"
  by (auto simp: emits_def wp_def cached_client_def split: option.split sum.split)

lemma emits_CachedClientFor: "emits (CachedClientFor env ua t) (\<lambda>_ es. reads_only_own_secret t es)"
  unfolding CachedClientFor_def
proof (rule emits_bind [OF emits_configFor])
  fix r es
  assume es: "reads_only_own_secret t es"
  have "emits (cached_client key cfg) (\<lambda>_ es'. reads_only_own_secret t (es @ es'))" for key cfg
    by (rule emits_mono [OF emits_cached_client]) (simp add: es)
  then show "emits (case r of Inl err \<Rightarrow> ret (Inl err) | Inr (cfg, key) \<Rightarrow> cached_client key cfg)
      (\<lambda>_ es'. reads_only_own_secret t (es @ es'))"
    using es by (auto split: sum.split prod.split)
qed

interpretation cached: client_factory "CachedClientFor env ua" for env ua
  by unfold_locales (rule emits_CachedClientFor)

end
