(* ===== verification/Tunnel_Controller.thy ===== *)
theory Tunnel_Controller
  imports Tunnel_Client Agent Client_Factory
begin

text \<open>
  \<^verbatim>\<open>internal/controller/tunnel_controller.go\<close>: the reconciler of Tunnel objects. Each method is one
  definition, in the order of the file. A method that changes the object through its pointer
  returns the changed object; a successful write to the API server replaces it by the server's
  answer, as the client does. Logging is left out. A nil dereference is the outcome \<open>Panicked\<close>.
\<close>

section \<open>The reconciler\<close>

text \<open>Durations are in seconds.\<close>

definition resyncPeriod :: int where "resyncPeriod = 300"
definition permanentRetryPeriod :: int where "permanentRetryPeriod = 300"

record Result =
  res_RequeueAfter :: int

definition zero_result :: Result where "zero_result = \<lparr>res_RequeueAfter = 0\<rparr>"

datatype outcome = Returned Result "gerr option" | Panicked

record 'x TunnelReconciler =
  rc_Client :: "'x env"
  rc_API :: "Tunnel \<Rightarrow> ('x, gerr + Client) io"
  rc_DefaultAgentImage :: string

definition EventTypeNormal :: string where "EventTypeNormal = ''Normal''"
definition EventTypeWarning :: string where "EventTypeWarning = ''Warning''"

abbreviation tunnel_key :: "Tunnel \<Rightarrow> NamespacedName" where
  "tunnel_key t \<equiv> key_of (tn_Meta t)"

section \<open>Conditions\<close>

definition with_tunnel_cond :: "'x env \<Rightarrow> Tunnel \<Rightarrow> string \<Rightarrow> string \<Rightarrow> string \<Rightarrow> string \<Rightarrow> Tunnel" where
  "with_tunnel_cond env t ctype status reason msg =
     t\<lparr>tn_Status := (tn_Status t)\<lparr>st_Conditions :=
        SetStatusCondition env (st_Conditions (tn_Status t))
          \<lparr>c_Type = ctype, c_Status = status, c_Reason = reason, c_Message = msg,
           c_ObservedGeneration = om_Generation (tn_Meta t)\<rparr>\<rparr>\<rparr>"

definition setSynced :: "'x env \<Rightarrow> Tunnel \<Rightarrow> string \<Rightarrow> string \<Rightarrow> string \<Rightarrow> Tunnel" where
  "setSynced env t status reason msg = with_tunnel_cond env t TunnelConditionSynced status reason msg"

definition setAgentAvailable :: "'x env \<Rightarrow> Tunnel \<Rightarrow> Deployment option \<Rightarrow> Tunnel" where
  "setAgentAvailable env t d =
     (if (case d of Some dep \<Rightarrow> dp_AvailableReplicas dep > 0 | None \<Rightarrow> False)
      then with_tunnel_cond env t TunnelConditionAgentAvailable ConditionTrue ''AgentRunning''
             ''The agent Deployment has a running replica.''
      else with_tunnel_cond env t TunnelConditionAgentAvailable ConditionFalse ''NoReplicasAvailable''
             ''The agent Deployment has no available replica yet.'')"

definition setReady :: "'x env \<Rightarrow> Tunnel \<Rightarrow> string \<Rightarrow> Tunnel" where
  "setReady env t onlineStatus =
     (let synced = IsStatusConditionTrue env (st_Conditions (tn_Status t)) TunnelConditionSynced;
          agent = IsStatusConditionTrue env (st_Conditions (tn_Status t)) TunnelConditionAgentAvailable;
          (status, reason, msg) =
            (if \<not> synced then (ConditionFalse, ''NotSynced'', ''The tunnel is not in sync with the platform.'')
             else if \<not> agent then (ConditionFalse, ''AgentUnavailable'', ''The agent is not running.'')
             else if onlineStatus = ''online'' then (ConditionTrue, ''Online'', ''The tunnel is connected.'')
             else if onlineStatus = [] then
               (ConditionFalse, ''Unknown'', ''The platform has not reported a connection state yet.'')
             else (ConditionFalse, ''Offline'',
               ''The agent is running but the platform reports the tunnel as '' @ Quote onlineStatus @ ''. '' @
               ''Check that this cluster can open outbound WireGuard traffic.'')) in
      with_tunnel_cond env t TunnelConditionReady status reason msg)"

section \<open>Ending a reconcile\<close>

definition tunnel_finish :: "'x env \<Rightarrow> Tunnel \<Rightarrow> Result \<Rightarrow> gerr option \<Rightarrow> ('x, outcome) io" where
  "tunnel_finish env tunnel result reconcileErr =
     (let t = tunnel\<lparr>tn_Status := (tn_Status tunnel)\<lparr>st_ObservedGeneration := om_Generation (tn_Meta tunnel)\<rparr>\<rparr> in
      do {
        r \<leftarrow> StatusUpdate_Tunnel env t;
        (case r of
           Inl err \<Rightarrow>
             (case reconcileErr of
                Some e \<Rightarrow> ret (Returned result (Some e))
              | None \<Rightarrow> ret (Returned zero_result (IgnoreNotFound env err)))
         | Inr _ \<Rightarrow> ret (Returned result reconcileErr))
      })"

definition tunnel_fail :: "'x env \<Rightarrow> Tunnel \<Rightarrow> string \<Rightarrow> gerr \<Rightarrow> ('x, outcome) io" where
  "tunnel_fail env tunnel action err =
     (let failure = Classify err;
          t = setReady env (setSynced env tunnel ConditionFalse (f_Reason failure) (f_Message failure)) [] in
      do {
        _ \<leftarrow> Eventf (tunnel_key t) EventTypeWarning (f_Reason failure) ''Reconciling''
          (action @ '': '' @ f_Message failure);
        (if f_Permanent failure
         then tunnel_finish env t \<lparr>res_RequeueAfter = permanentRetryPeriod\<rparr> None
         else tunnel_finish env t zero_result (Some (ErrWrap (action @ '': '') err)))
      })"

section \<open>The tunnel itself\<close>

text \<open>
  The second half of \<^verbatim>\<open>ensureTunnel\<close>: record the external id, create or adopt, read back. The
  result is the object as it is now with the tunnel read (nil when the answer had none) and the
  credential of a creation.
\<close>

definition record_external_id :: "'x env \<Rightarrow> Tunnel \<Rightarrow> ('x, Tunnel \<times> gerr option) io" where
  "record_external_id env tunnel =
     (if st_ExternalID (tn_Status tunnel) = [] then
        (let t = tunnel\<lparr>tn_Status := (tn_Status tunnel)\<lparr>st_ExternalID := om_UID (tn_Meta tunnel)\<rparr>\<rparr> in
         do {
           r \<leftarrow> StatusUpdate_Tunnel env t;
           (case r of
              Inl err \<Rightarrow> ret (t, Some (ErrWrap ''recording the external id: '' err))
            | Inr t' \<Rightarrow> ret (t', None))
         })
      else ret (tunnel, None))"

definition create_and_read :: "'x env \<Rightarrow> service \<Rightarrow> CreateTunnelInput \<Rightarrow> ('x, gerr + NTunnel option \<times> string) io" where
  "create_and_read env api i = do {
     created \<leftarrow> CreateTunnel env api i;
     (case created of
        Inl err \<Rightarrow> ret (Inl err)
      | Inr cr \<Rightarrow> do {
          got \<leftarrow> GetTunnel env api (cre_TunnelID cr);
          (case got of
             Inl err \<Rightarrow> ret (Inl err)
           | Inr g \<Rightarrow> ret (Inr (wr_Tunnel g, cre_TunnelToken cr)))
        })
   }"

definition create_tunnel :: "'x env \<Rightarrow> service \<Rightarrow> Tunnel \<Rightarrow> ('x, Tunnel \<times> (gerr + NTunnel option \<times> string)) io" where
  "create_tunnel env api tunnel =
     (let externalID = om_UID (tn_Meta tunnel) in
      do {
        recorded \<leftarrow> record_external_id env tunnel;
        (case recorded of
           (t, Some err) \<Rightarrow> ret (t, Inl err)
         | (t, None) \<Rightarrow> do {
             made \<leftarrow> create_and_read env api
               \<lparr>cti_Name = ts_DisplayName (tn_Spec t), cti_ExternalID = externalID\<rparr>;
             ret (t, made)
           })
      })"

definition ensureTunnel :: "'x env \<Rightarrow> service \<Rightarrow> Tunnel \<Rightarrow> ('x, Tunnel \<times> (gerr + NTunnel option \<times> string)) io" where
  "ensureTunnel env api tunnel =
     (let i = st_TunnelID (tn_Status tunnel) in
      if i \<noteq> [] then do {
        got \<leftarrow> GetTunnel env api i;
        (case got of
           Inr g \<Rightarrow> ret (tunnel, Inr (wr_Tunnel g, []))
         | Inl err \<Rightarrow>
             if IsNotFound err then create_tunnel env api tunnel
             else ret (tunnel, Inl err))
      }
      else create_tunnel env api tunnel)"

section \<open>Its credential\<close>

text \<open>The callback that brings the token Secret to its desired form.\<close>

definition mutate_token_secret :: "'x env \<Rightarrow> Tunnel \<Rightarrow> string \<Rightarrow> Secret \<Rightarrow> KubeError + Secret" where
  "mutate_token_secret env tunnel token secret =
     (let s = secret\<lparr>sec_Meta := (sec_Meta secret)\<lparr>om_Labels := agentLabels tunnel\<rparr>,
                     sec_Type := ''Opaque'',
                     sec_Data := (sec_Data secret)(tokenSecretKey \<mapsto> token)\<rparr> in
      (case SetControllerReference env (tn_Meta tunnel) (sec_Meta s) of
         Inl e \<Rightarrow> Inl e
       | Inr m \<Rightarrow> Inr (s\<lparr>sec_Meta := m\<rparr>)))"

definition blank_secret :: "string \<Rightarrow> string \<Rightarrow> Secret" where
  "blank_secret ns name = \<lparr>sec_Meta = zero_meta\<lparr>om_Name := name, om_Namespace := ns\<rparr>,
     sec_Type = [], sec_Data = Map.empty\<rparr>"

definition store_token :: "'x env \<Rightarrow> Tunnel \<Rightarrow> string \<Rightarrow> ('x, gerr + Secret) io" where
  "store_token env tunnel token =
     CreateOrUpdate_Secret env
       (blank_secret (om_Namespace (tn_Meta tunnel)) (tokenSecretName (om_Name (tn_Meta tunnel))))
       (mutate_token_secret env tunnel token)"

definition ensureCredentialSecret ::
  "'x env \<Rightarrow> service \<Rightarrow> Tunnel \<Rightarrow> string \<Rightarrow> string \<Rightarrow> ('x, gerr + Secret) io" where
  "ensureCredentialSecret env api tunnel tunnelID createdToken =
     (if createdToken \<noteq> [] then store_token env tunnel createdToken
      else do {
        existing \<leftarrow> Get_Secret env (nn (om_Namespace (tn_Meta tunnel)) (tokenSecretName (om_Name (tn_Meta tunnel))));
        (let usable = (case existing of Inr s \<Rightarrow> secret_value s tokenSecretKey \<noteq> [] | Inl _ \<Rightarrow> False);
             broken = (case existing of Inl err \<Rightarrow> \<not> kIsNotFound env err | Inr _ \<Rightarrow> False) in
         if usable \<or> broken then ret existing
         else do {
           r \<leftarrow> RotateToken env api tunnelID;
           (case r of
              Inl err \<Rightarrow> ret (Inl (ErrWrap ''rotating the credential: '' err))
            | Inr rotated \<Rightarrow> do {
                _ \<leftarrow> Eventf (tunnel_key tunnel) EventTypeNormal ''CredentialRotated'' ''Rotating''
                  ''Issued a new tunnel credential because none was stored'';
                store_token env tunnel (rot_TunnelToken rotated)
              })
         })
      })"

section \<open>The agent\<close>

definition mutate_deployment :: "'x env \<Rightarrow> Tunnel \<Rightarrow> Deployment \<Rightarrow> Deployment \<Rightarrow> KubeError + Deployment" where
  "mutate_deployment env tunnel desired deployment =
     (let sel = (case ds_Selector (dp_Spec deployment) of
                   None \<Rightarrow> ds_Selector (dp_Spec desired) | Some s \<Rightarrow> Some s);
          d = deployment\<lparr>dp_Meta := (dp_Meta deployment)\<lparr>om_Labels := om_Labels (dp_Meta desired)\<rparr>,
                dp_Spec := (dp_Spec deployment)\<lparr>ds_Selector := sel,
                  ds_Replicas := ds_Replicas (dp_Spec desired),
                  ds_StrategyType := ds_StrategyType (dp_Spec desired),
                  ds_Template := ds_Template (dp_Spec desired)\<rparr>\<rparr> in
      (case SetControllerReference env (tn_Meta tunnel) (dp_Meta d) of
         Inl e \<Rightarrow> Inl e
       | Inr m \<Rightarrow> Inr (d\<lparr>dp_Meta := m\<rparr>)))"

definition blank_template :: PodTemplateSpec where
  "blank_template = \<lparr>pt_Labels = Map.empty, pt_Annotations = Map.empty, pt_ImagePullSecrets = [],
     pt_NodeSelector = Map.empty, pt_Tolerations = [], pt_SecurityContext = None, pt_Containers = []\<rparr>"

definition blank_deployment :: "string \<Rightarrow> string \<Rightarrow> Deployment" where
  "blank_deployment ns name =
     \<lparr>dp_Meta = zero_meta\<lparr>om_Name := name, om_Namespace := ns\<rparr>,
      dp_Spec = \<lparr>ds_Replicas = None, ds_StrategyType = [], ds_Selector = None, ds_Template = blank_template\<rparr>,
      dp_AvailableReplicas = 0\<rparr>"

definition ensureAgentDeployment :: "'x env \<Rightarrow> string \<Rightarrow> Tunnel \<Rightarrow> string \<Rightarrow> ('x, gerr + Deployment) io" where
  "ensureAgentDeployment env defaultImage tunnel credentialVersion =
     (let desired = buildAgentDeployment tunnel defaultImage credentialVersion in
      CreateOrUpdate_Deployment env
        (blank_deployment (om_Namespace (dp_Meta desired)) (om_Name (dp_Meta desired)))
        (mutate_deployment env tunnel desired))"

section \<open>Deletion\<close>

definition drop_tunnel_finalizer :: "'x env \<Rightarrow> Tunnel \<Rightarrow> ('x, outcome) io" where
  "drop_tunnel_finalizer env tunnel = do {
     r \<leftarrow> Update_Tunnel env (tunnel\<lparr>tn_Meta := (tn_Meta tunnel)\<lparr>om_Finalizers :=
            RemoveFinalizer env (om_Finalizers (tn_Meta tunnel)) TunnelFinalizer\<rparr>\<rparr>);
     ret (Returned zero_result (case r of Inl err \<Rightarrow> Some err | Inr _ \<Rightarrow> None))
   }"

text \<open>The identifier to delete: the recorded one, else whatever carries the external id.\<close>

definition tunnel_to_delete :: "'x env \<Rightarrow> service \<Rightarrow> Tunnel \<Rightarrow> ('x, gerr + string) io" where
  "tunnel_to_delete env api tunnel =
     (let i = st_TunnelID (tn_Status tunnel) in
      if i \<noteq> [] then ret (Inr i)
      else do {
        found \<leftarrow> FindTunnelByExternalID env api (om_UID (tn_Meta tunnel));
        (case found of
           Inl err \<Rightarrow> ret (Inl (ErrWrap ''looking for a tunnel to clean up: '' err))
         | Inr None \<Rightarrow> ret (Inr [])
         | Inr (Some s) \<Rightarrow> ret (Inr (nt_ID (sm_Tunnel s))))
      })"

text \<open>With a client at hand: find the identifier, delete what has one, and let the object go.\<close>

definition release_tunnel :: "'x env \<Rightarrow> service \<Rightarrow> Tunnel \<Rightarrow> string \<Rightarrow> ('x, outcome) io" where
  "release_tunnel env api tunnel i =
     (if i \<noteq> [] then do {
        d \<leftarrow> DeleteTunnel env api i;
        (case d of
           Inl err \<Rightarrow>
             if \<not> IsNotFound err
             then ret (Returned zero_result (Some (ErrWrap ''deleting the tunnel: '' err)))
             else drop_tunnel_finalizer env tunnel
         | Inr _ \<Rightarrow> drop_tunnel_finalizer env tunnel)
      }
      else drop_tunnel_finalizer env tunnel)"

definition clean_up_tunnel :: "'x env \<Rightarrow> service \<Rightarrow> Tunnel \<Rightarrow> ('x, outcome) io" where
  "clean_up_tunnel env api tunnel = do {
     target \<leftarrow> tunnel_to_delete env api tunnel;
     (case target of
        Inl err \<Rightarrow> ret (Returned zero_result (Some err))
      | Inr i \<Rightarrow> release_tunnel env api tunnel i)
   }"

definition tunnel_reconcileDelete :: "'x TunnelReconciler \<Rightarrow> Tunnel \<Rightarrow> ('x, outcome) io" where
  "tunnel_reconcileDelete r tunnel =
     (let env = rc_Client r in
      if \<not> ContainsFinalizer env (om_Finalizers (tn_Meta tunnel)) TunnelFinalizer then
        ret (Returned zero_result None)
      else if st_ExternalID (tn_Status tunnel) = [] then drop_tunnel_finalizer env tunnel
      else do {
        cl \<leftarrow> rc_API r tunnel;
        (case cl of
           Inl err \<Rightarrow> do {
             _ \<leftarrow> Eventf (tunnel_key tunnel) EventTypeWarning ''DeleteBlocked'' ''Deleting''
               (''Cannot delete the tunnel because its credential could not be read: '' @ Error err);
             ret (Returned \<lparr>res_RequeueAfter = permanentRetryPeriod\<rparr> None)
           }
         | Inr c \<Rightarrow> clean_up_tunnel env (cl_Tunnel c) tunnel)
      })"

section \<open>Reconcile\<close>

text \<open>The finalizer, put on and written before anything else happens.\<close>

definition add_tunnel_finalizer :: "'x env \<Rightarrow> Tunnel \<Rightarrow> ('x, gerr + Tunnel) io" where
  "add_tunnel_finalizer env tunnel =
     (case AddFinalizer env (om_Finalizers (tn_Meta tunnel)) TunnelFinalizer of
        (changed, fs) \<Rightarrow>
          (let t = tunnel\<lparr>tn_Meta := (tn_Meta tunnel)\<lparr>om_Finalizers := fs\<rparr>\<rparr> in
           if changed then do {
             r \<leftarrow> Update_Tunnel env t;
             ret (case r of Inl err \<Rightarrow> Inl (ErrWrap ''adding the finalizer: '' err) | Inr t' \<Rightarrow> Inr t')
           }
           else ret (Inr t)))"

definition synced_status :: "'x env \<Rightarrow> Tunnel \<Rightarrow> NTunnel \<Rightarrow> Secret \<Rightarrow> Deployment \<Rightarrow> Tunnel" where
  "synced_status env tunnel remote secret deployment =
     (let t = tunnel\<lparr>tn_Status := (tn_Status tunnel)\<lparr>st_TunnelID := nt_ID remote,
                st_Subdomain := nt_TunnelSubdomain remote, st_WireGuardIP := nt_WireGuardIP remote,
                st_CredentialSecret := om_Name (sec_Meta secret),
                st_OnlineStatus := nt_OnlineStatus remote,
                st_CNAMETarget := nt_TunnelSubdomain remote\<rparr>\<rparr> in
      setReady env
        (setAgentAvailable env
          (setSynced env t ConditionTrue ''Synced'' ''The tunnel exists and its credential is stored.'')
          (Some deployment))
        (nt_OnlineStatus remote))"

text \<open>
  What \<^verbatim>\<open>Reconcile\<close> does with an object that is not being deleted and has its finalizer: first the
  tunnel on the platform, then, with the tunnel at hand, its credential, its agent and the status.
\<close>

definition tunnel_realise ::
  "'x TunnelReconciler \<Rightarrow> service \<Rightarrow> Tunnel \<Rightarrow> NTunnel \<Rightarrow> string \<Rightarrow> ('x, outcome) io" where
  "tunnel_realise r api t remote createdToken =
     (let env = rc_Client r in
      do {
        sec \<leftarrow> ensureCredentialSecret env api t (nt_ID remote) createdToken;
        (case sec of
           Inl err \<Rightarrow> tunnel_fail env t ''storing the tunnel credential'' err
         | Inr secret \<Rightarrow> do {
             dep \<leftarrow> ensureAgentDeployment env (rc_DefaultAgentImage r) t (om_ResourceVersion (sec_Meta secret));
             (case dep of
                Inl err \<Rightarrow> ret (Returned zero_result (Some (ErrWrap ''reconciling the agent Deployment: '' err)))
              | Inr deployment \<Rightarrow>
                  tunnel_finish env (synced_status env t remote secret deployment)
                    \<lparr>res_RequeueAfter = resyncPeriod\<rparr> None)
           })
      })"

definition tunnel_sync :: "'x TunnelReconciler \<Rightarrow> Tunnel \<Rightarrow> ('x, outcome) io" where
  "tunnel_sync r tunnel =
     (let env = rc_Client r in
      do {
        cl \<leftarrow> rc_API r tunnel;
        (case cl of
           Inl err \<Rightarrow>
             tunnel_finish env (setSynced env tunnel ConditionFalse ''CredentialUnreadable'' (Error err))
               \<lparr>res_RequeueAfter = permanentRetryPeriod\<rparr> None
         | Inr c \<Rightarrow> do {
             ensured \<leftarrow> ensureTunnel env (cl_Tunnel c) tunnel;
             (case ensured of
                (t, Inl err) \<Rightarrow> tunnel_fail env t ''resolving the tunnel'' err
              | (t, Inr (None, _)) \<Rightarrow> ret Panicked
              | (t, Inr (Some remote, createdToken)) \<Rightarrow>
                  tunnel_realise r (cl_Tunnel c) t remote createdToken)
           })
      })"

definition tunnel_Reconcile :: "'x TunnelReconciler \<Rightarrow> NamespacedName \<Rightarrow> ('x, outcome) io" where
  "tunnel_Reconcile r req =
     (let env = rc_Client r in
      do {
        got \<leftarrow> Get_Tunnel env req;
        (case got of
           Inl err \<Rightarrow> ret (Returned zero_result (IgnoreNotFound env err))
         | Inr tunnel \<Rightarrow>
             if om_DeletionTimestamp (tn_Meta tunnel) \<noteq> None then tunnel_reconcileDelete r tunnel
             else do {
               f \<leftarrow> add_tunnel_finalizer env tunnel;
               (case f of
                  Inl err \<Rightarrow> ret (Returned zero_result (Some err))
                | Inr t \<Rightarrow> tunnel_sync r t)
             })
      })"

section \<open>Lemmas\<close>

lemma grows_tunnel_finish [grows_intro]: "grows (tunnel_finish env t r e)"
  unfolding tunnel_finish_def Let_def by (auto intro!: grows_intro split: sum.split option.split)

lemma grows_tunnel_fail [grows_intro]: "grows (tunnel_fail env t a e)"
  unfolding tunnel_fail_def Let_def by (auto intro!: grows_intro)

lemma grows_record_external_id [grows_intro]: "grows (record_external_id env t)"
  unfolding record_external_id_def Let_def by (auto intro!: grows_intro split: sum.split)

lemma grows_create_and_read [grows_intro]: "grows (create_and_read env api i)"
  unfolding create_and_read_def by (auto intro!: grows_intro split: sum.split)

lemma grows_create_tunnel [grows_intro]: "grows (create_tunnel env api t)"
  unfolding create_tunnel_def Let_def
  by (auto intro!: grows_intro split: sum.split option.split prod.split)

lemma grows_ensureTunnel [grows_intro]: "grows (ensureTunnel env api t)"
  unfolding ensureTunnel_def Let_def by (auto intro!: grows_intro split: sum.split)

lemma grows_store_token [grows_intro]: "grows (store_token env t tok)"
  unfolding store_token_def by (intro grows_intro)

lemma grows_ensureCredentialSecret [grows_intro]: "grows (ensureCredentialSecret env api t i tok)"
  unfolding ensureCredentialSecret_def Let_def by (auto intro!: grows_intro split: sum.split)

lemma grows_ensureAgentDeployment [grows_intro]: "grows (ensureAgentDeployment env img t v)"
  unfolding ensureAgentDeployment_def Let_def by (intro grows_intro)

lemma grows_drop_tunnel_finalizer [grows_intro]: "grows (drop_tunnel_finalizer env t)"
  unfolding drop_tunnel_finalizer_def by (intro grows_intro)

lemma grows_tunnel_to_delete [grows_intro]: "grows (tunnel_to_delete env api t)"
  unfolding tunnel_to_delete_def Let_def by (auto intro!: grows_intro split: sum.split option.split)

lemma grows_clean_up_tunnel [grows_intro]: "grows (clean_up_tunnel env api t)"
  unfolding clean_up_tunnel_def release_tunnel_def by (auto intro!: grows_intro split: sum.split)

lemma grows_add_tunnel_finalizer [grows_intro]: "grows (add_tunnel_finalizer env t)"
  unfolding add_tunnel_finalizer_def Let_def by (auto intro!: grows_intro split: prod.split)

lemma grows_tunnel_realise [grows_intro]: "grows (tunnel_realise r api t remote tok)"
  unfolding tunnel_realise_def Let_def by (auto intro!: grows_intro split: sum.split)

lemma grows_tunnel_sync: "(\<And>t. grows (rc_API r t)) \<Longrightarrow> grows (tunnel_sync r t)"
  unfolding tunnel_sync_def Let_def
  by (auto intro!: grows_intro split: sum.split option.split prod.split)

lemma grows_tunnel_reconcileDelete: "(\<And>t. grows (rc_API r t)) \<Longrightarrow> grows (tunnel_reconcileDelete r t)"
  unfolding tunnel_reconcileDelete_def Let_def
  by (auto intro!: grows_intro split: sum.split)

end
