(* ===== verification/Route_Controller.thy ===== *)
theory Route_Controller
  imports Tunnel_Controller
begin

text \<open>
  \<^verbatim>\<open>internal/controller/tunnelroute_controller.go\<close>: the reconciler of TunnelRoute objects, with the
  conventions of \<^verbatim>\<open>Tunnel_Controller\<close>.
\<close>

definition tunnelNotReadyRetry :: int where "tunnelNotReadyRetry = 15"

record 'x TunnelRouteReconciler =
  rr_Client :: "'x env"
  rr_API :: "Tunnel \<Rightarrow> ('x, gerr + Client) io"
  rr_ClusterDomain :: string

abbreviation route_key :: "TunnelRoute \<Rightarrow> NamespacedName" where
  "route_key r \<equiv> key_of (tr_Meta r)"

section \<open>Reading the spec\<close>

definition routeType :: "TunnelRoute \<Rightarrow> string" where
  "routeType route = (if rs_Type (tr_Spec route) = [] then RouteTypeHost else rs_Type (tr_Spec route))"

definition pathPrefix :: "TunnelRoute \<Rightarrow> string" where
  "pathPrefix route = (if rs_PathPrefix (tr_Spec route) = [] then ''/'' else rs_PathPrefix (tr_Spec route))"

definition priority :: "TunnelRoute \<Rightarrow> int32" where
  "priority route = (case rs_Priority (tr_Spec route) of None \<Rightarrow> 100 | Some p \<Rightarrow> p)"

definition enabled :: "TunnelRoute \<Rightarrow> bool" where
  "enabled route = (case rs_Enabled (tr_Spec route) of None \<Rightarrow> True | Some b \<Rightarrow> b)"

definition upstreamScheme :: "TunnelRoute \<Rightarrow> string" where
  "upstreamScheme route = (if rs_Scheme (tr_Spec route) = [] then SchemeHTTP else rs_Scheme (tr_Spec route))"

section \<open>The upstream\<close>

definition servicePort :: "Service \<Rightarrow> IntOrString \<Rightarrow> gerr + int32" where
  "servicePort svc want =
     (case want of
        StrVal name \<Rightarrow>
          (case find (\<lambda>p. sp_Name p = name) (svc_Ports svc) of
             Some p \<Rightarrow> Inr (sp_Port p)
           | None \<Rightarrow> Inl (ErrText (''the Service '' @ Quote (om_Name (svc_Meta svc)) @
                            '' declares no port named '' @ Quote name)))
      | IntVal n \<Rightarrow>
          (case find (\<lambda>p. sp_Port p = n) (svc_Ports svc) of
             Some p \<Rightarrow> Inr n
           | None \<Rightarrow> Inl (ErrText (''the Service '' @ Quote (om_Name (svc_Meta svc)) @
                            '' does not publish port '' @ Itoa (sint n)))))"

text \<open>
  The result is \<open>None\<close> when the spec has neither an upstream nor a service: the code then reads a
  field of a nil pointer.
\<close>

definition resolveUpstream ::
  "'x TunnelRouteReconciler \<Rightarrow> TunnelRoute \<Rightarrow> ('x, (gerr + string \<times> int32) option) io" where
  "resolveUpstream r route =
     (case rs_Upstream (tr_Spec route) of
        Some u \<Rightarrow> ret (Some (Inr (up_Host u, up_Port u)))
      | None \<Rightarrow>
     (case rs_Service (tr_Spec route) of
        None \<Rightarrow> ret None
      | Some target \<Rightarrow> do {
          got \<leftarrow> Get_Service (rr_Client r) (nn (om_Namespace (tr_Meta route)) (sv_Name target));
          (case got of
             Inl err \<Rightarrow>
               if kIsNotFound (rr_Client r) err
               then ret (Some (Inl (ErrText (''no Service named '' @ Quote (sv_Name target) @ '' in this namespace''))))
               else ret (Some (Inl err))
           | Inr svc \<Rightarrow>
               (case servicePort svc (sv_Port target) of
                  Inl err \<Rightarrow> ret (Some (Inl err))
                | Inr port \<Rightarrow>
                    ret (Some (Inr (om_Name (svc_Meta svc) @ ''.'' @ om_Namespace (svc_Meta svc) @ ''.svc.'' @
                                    rr_ClusterDomain r, port)))))
        }))"

section \<open>The route on the platform\<close>

definition pick_route :: "TunnelRoute \<Rightarrow> Route list \<Rightarrow> Route option" where
  "pick_route route routes =
     (let i = rt_RouteID (tr_Status route);
          by_id = (if i \<noteq> [] then find (\<lambda>r. ro_ID r = i) routes else None) in
      case by_id of
        Some r \<Rightarrow> Some r
      | None \<Rightarrow> find (\<lambda>r. ro_Hostname r = rs_Hostname (tr_Spec route) \<and> ro_PathPrefix r = pathPrefix route) routes)"

definition findRoute :: "'x env \<Rightarrow> service \<Rightarrow> TunnelRoute \<Rightarrow> string \<Rightarrow> ('x, gerr + Route option) io" where
  "findRoute env api route tunnelID = do {
     routes \<leftarrow> ListRoutes env api tunnelID;
     ret (map_sum id (pick_route route) routes)
   }"

definition identityChanged :: "Route \<Rightarrow> TunnelRoute \<Rightarrow> bool" where
  "identityChanged actual route =
     (ro_Type actual \<noteq> routeType route
      \<or> ro_Hostname actual \<noteq> rs_Hostname (tr_Spec route)
      \<or> ro_PathPrefix actual \<noteq> pathPrefix route)"

definition routeDrift :: "Route \<Rightarrow> TunnelRoute \<Rightarrow> string \<Rightarrow> int32 \<Rightarrow> UpdateRouteInput \<times> bool" where
  "routeDrift actual route host port =
     (let (i0, c0) = (empty_update, False);
          (i1, c1) = (if ro_UpstreamHost actual \<noteq> host then (i0\<lparr>uri_UpstreamHost := Some host\<rparr>, True) else (i0, c0));
          (i2, c2) = (if ro_UpstreamPort actual \<noteq> sint port then (i1\<lparr>uri_UpstreamPort := Some (sint port)\<rparr>, True) else (i1, c1));
          (i3, c3) = (if ro_UpstreamScheme actual \<noteq> upstreamScheme route
                      then (i2\<lparr>uri_UpstreamScheme := Some (upstreamScheme route)\<rparr>, True) else (i2, c2));
          (i4, c4) = (if ro_StripPrefix actual \<noteq> rs_StripPrefix (tr_Spec route)
                      then (i3\<lparr>uri_StripPrefix := Some (rs_StripPrefix (tr_Spec route))\<rparr>, True) else (i3, c3));
          (i5, c5) = (if ro_Priority actual \<noteq> sint (priority route)
                      then (i4\<lparr>uri_Priority := Some (sint (priority route))\<rparr>, True) else (i4, c4));
          (i6, c6) = (if ro_Enabled actual \<noteq> enabled route
                      then (i5\<lparr>uri_Enabled := Some (enabled route)\<rparr>, True) else (i5, c5)) in
      (i6, c6))"

definition create_input :: "TunnelRoute \<Rightarrow> string \<Rightarrow> int32 \<Rightarrow> CreateRouteInput" where
  "create_input route host port =
     \<lparr>cri_Type = routeType route, cri_Hostname = rs_Hostname (tr_Spec route),
      cri_PathPrefix = pathPrefix route, cri_UpstreamHost = host, cri_UpstreamPort = sint port,
      cri_UpstreamScheme = upstreamScheme route, cri_StripPrefix = rs_StripPrefix (tr_Spec route),
      cri_Priority = sint (priority route)\<rparr>"

text \<open>The end of \<^verbatim>\<open>ensureRoute\<close>: close the gap between the route at hand and the spec.\<close>

definition reconcile_drift ::
  "'x env \<Rightarrow> service \<Rightarrow> TunnelRoute \<Rightarrow> string \<Rightarrow> string \<Rightarrow> int32 \<Rightarrow> Route \<Rightarrow> ('x, gerr + Route) io" where
  "reconcile_drift env api route tunnelID host port existing =
     (let (update, changed) = routeDrift existing route host port in
      if \<not> changed then ret (Inr existing)
      else UpdateRoute env api tunnelID (ro_ID existing) update)"

definition create_and_reconcile ::
  "'x env \<Rightarrow> service \<Rightarrow> TunnelRoute \<Rightarrow> string \<Rightarrow> string \<Rightarrow> int32 \<Rightarrow> ('x, gerr + Route) io" where
  "create_and_reconcile env api route tunnelID host port = do {
     created \<leftarrow> CreateRoute env api tunnelID (create_input route host port);
     (case created of
        Inl err \<Rightarrow> ret (Inl err)
      | Inr c \<Rightarrow> reconcile_drift env api route tunnelID host port c)
   }"

definition ensureRoute ::
  "'x env \<Rightarrow> service \<Rightarrow> TunnelRoute \<Rightarrow> string \<Rightarrow> string \<Rightarrow> int32 \<Rightarrow> ('x, gerr + Route) io" where
  "ensureRoute env api route tunnelID host port = do {
     found \<leftarrow> findRoute env api route tunnelID;
     (case found of
        Inl err \<Rightarrow> ret (Inl err)
      | Inr None \<Rightarrow> create_and_reconcile env api route tunnelID host port
      | Inr (Some existing) \<Rightarrow>
          if identityChanged existing route then do {
            d \<leftarrow> DeleteRoute env api tunnelID (ro_ID existing);
            (if (case d of Inl err \<Rightarrow> \<not> IsNotFound err | Inr _ \<Rightarrow> False)
             then ret (Inl (ErrWrap ''deleting the route being replaced: '' (projl d)))
             else do {
               _ \<leftarrow> Eventf (route_key route) EventTypeNormal ''RouteReplaced'' ''Replacing''
                 ''Recreated the route because its hostname, type or path prefix changed'';
               create_and_reconcile env api route tunnelID host port
             })
          }
          else reconcile_drift env api route tunnelID host port existing)
   }"

section \<open>Conditions\<close>

definition with_route_cond :: "'x env \<Rightarrow> TunnelRoute \<Rightarrow> string \<Rightarrow> string \<Rightarrow> string \<Rightarrow> string \<Rightarrow> TunnelRoute" where
  "with_route_cond env r ctype status reason msg =
     r\<lparr>tr_Status := (tr_Status r)\<lparr>rt_Conditions :=
        SetStatusCondition env (rt_Conditions (tr_Status r))
          \<lparr>c_Type = ctype, c_Status = status, c_Reason = reason, c_Message = msg,
           c_ObservedGeneration = om_Generation (tr_Meta r)\<rparr>\<rparr>\<rparr>"

definition route_setResolved :: "'x env \<Rightarrow> TunnelRoute \<Rightarrow> string \<Rightarrow> string \<Rightarrow> string \<Rightarrow> TunnelRoute" where
  "route_setResolved env r status reason msg = with_route_cond env r TunnelRouteConditionResolved status reason msg"

definition route_setSynced :: "'x env \<Rightarrow> TunnelRoute \<Rightarrow> string \<Rightarrow> string \<Rightarrow> string \<Rightarrow> TunnelRoute" where
  "route_setSynced env r status reason msg = with_route_cond env r TunnelRouteConditionSynced status reason msg"

definition route_setReady :: "'x env \<Rightarrow> TunnelRoute \<Rightarrow> TunnelRoute" where
  "route_setReady env route =
     (let resolved = IsStatusConditionTrue env (rt_Conditions (tr_Status route)) TunnelRouteConditionResolved;
          synced = IsStatusConditionTrue env (rt_Conditions (tr_Status route)) TunnelRouteConditionSynced;
          (status, reason, msg) =
            (if \<not> resolved then (ConditionFalse, ''UpstreamUnresolved'', ''The upstream could not be resolved.'')
             else if \<not> synced then (ConditionFalse, ''NotSynced'', ''The route is not published.'')
             else (ConditionTrue, ''Published'',
               ''The route is published. Traffic also needs the hostname pointed at the tunnel in DNS.'')) in
      with_route_cond env route TunnelRouteConditionReady status reason msg)"

definition route_finish :: "'x env \<Rightarrow> TunnelRoute \<Rightarrow> Result \<Rightarrow> gerr option \<Rightarrow> ('x, outcome) io" where
  "route_finish env route result reconcileErr =
     (let rt = route\<lparr>tr_Status := (tr_Status route)\<lparr>rt_ObservedGeneration := om_Generation (tr_Meta route)\<rparr>\<rparr> in
      do {
        r \<leftarrow> StatusUpdate_TunnelRoute env rt;
        (case r of
           Inl err \<Rightarrow>
             (case reconcileErr of
                Some e \<Rightarrow> ret (Returned result (Some e))
              | None \<Rightarrow> ret (Returned zero_result (IgnoreNotFound env err)))
         | Inr _ \<Rightarrow> ret (Returned result reconcileErr))
      })"

section \<open>Deletion\<close>

text \<open>The identifier to delete, or none when the platform holds no such route.\<close>

definition route_to_delete :: "'x env \<Rightarrow> service \<Rightarrow> TunnelRoute \<Rightarrow> string \<Rightarrow> ('x, gerr + string option) io" where
  "route_to_delete env api route tunnelID =
     (let i = rt_RouteID (tr_Status route) in
      if i \<noteq> [] then ret (Inr (Some i))
      else do {
        found \<leftarrow> findRoute env api route tunnelID;
        ret (map_sum id (map_option ro_ID) found)
      })"

definition clean_up_route :: "'x env \<Rightarrow> service \<Rightarrow> TunnelRoute \<Rightarrow> string \<Rightarrow> ('x, gerr + unit) io" where
  "clean_up_route env api route tunnelID = do {
     target \<leftarrow> route_to_delete env api route tunnelID;
     (case target of
        Inl err \<Rightarrow> ret (Inl err)
      | Inr None \<Rightarrow> ret (Inr ())
      | Inr (Some i) \<Rightarrow> do {
          d \<leftarrow> DeleteRoute env api tunnelID i;
          (case d of
             Inl err \<Rightarrow>
               if \<not> IsNotFound err then ret (Inl (ErrWrap ''deleting the route: '' err))
               else ret (Inr ())
           | Inr _ \<Rightarrow> ret (Inr ()))
        })
   }"

definition deleteRemoteRoute :: "'x TunnelRouteReconciler \<Rightarrow> TunnelRoute \<Rightarrow> string \<Rightarrow> ('x, gerr + unit) io" where
  "deleteRemoteRoute r route tunnelID =
     (let env = rr_Client r in
      do {
        got \<leftarrow> Get_Tunnel env (nn (om_Namespace (tr_Meta route)) (rs_TunnelRef (tr_Spec route)));
        (case got of
           Inl err \<Rightarrow> ret (Inl err)
         | Inr tunnel \<Rightarrow> do {
             cl \<leftarrow> rr_API r tunnel;
             (case cl of
                Inl err \<Rightarrow> do {
                  _ \<leftarrow> Eventf (route_key route) EventTypeWarning ''DeleteBlocked'' ''Deleting''
                    (''Cannot delete the route because the tunnel's credential could not be read: '' @ Error err);
                  ret (Inl err)
                }
              | Inr c \<Rightarrow> clean_up_route env (cl_Tunnel c) route tunnelID)
           })
      })"

definition drop_route_finalizer :: "'x env \<Rightarrow> TunnelRoute \<Rightarrow> ('x, outcome) io" where
  "drop_route_finalizer env route = do {
     u \<leftarrow> Update_TunnelRoute env (route\<lparr>tr_Meta := (tr_Meta route)\<lparr>om_Finalizers :=
            RemoveFinalizer env (om_Finalizers (tr_Meta route)) TunnelRouteFinalizer\<rparr>\<rparr>);
     ret (Returned zero_result (case u of Inl err \<Rightarrow> Some err | Inr _ \<Rightarrow> None))
   }"

definition route_reconcileDelete ::
  "'x TunnelRouteReconciler \<Rightarrow> TunnelRoute \<Rightarrow> (gerr + Tunnel) \<Rightarrow> ('x, outcome) io" where
  "route_reconcileDelete r route tunnel_read =
     (let env = rr_Client r in
      if \<not> ContainsFinalizer env (om_Finalizers (tr_Meta route)) TunnelRouteFinalizer then
        ret (Returned zero_result None)
      else
        (case tunnel_read of
           Inl err \<Rightarrow>
             if kIsNotFound env err then drop_route_finalizer env route
             else ret (Returned zero_result (Some err))
         | Inr tunnel \<Rightarrow>
             if st_TunnelID (tn_Status tunnel) = [] then drop_route_finalizer env route
             else do {
               d \<leftarrow> deleteRemoteRoute r route (st_TunnelID (tn_Status tunnel));
               (case d of
                  Inl err \<Rightarrow> ret (Returned zero_result (Some err))
                | Inr _ \<Rightarrow> drop_route_finalizer env route)
             }))"

section \<open>Reconcile\<close>

definition add_route_finalizer :: "'x env \<Rightarrow> TunnelRoute \<Rightarrow> ('x, gerr + TunnelRoute) io" where
  "add_route_finalizer env route =
     (case AddFinalizer env (om_Finalizers (tr_Meta route)) TunnelRouteFinalizer of
        (changed, fs) \<Rightarrow>
          (let rt = route\<lparr>tr_Meta := (tr_Meta route)\<lparr>om_Finalizers := fs\<rparr>\<rparr> in
           if changed then do {
             u \<leftarrow> Update_TunnelRoute env rt;
             ret (case u of Inl err \<Rightarrow> Inl (ErrWrap ''adding the finalizer: '' err) | Inr rt' \<Rightarrow> Inr rt')
           }
           else ret (Inr rt)))"

definition published_status :: "'x env \<Rightarrow> TunnelRoute \<Rightarrow> Route \<Rightarrow> string \<Rightarrow> string \<Rightarrow> int32 \<Rightarrow> TunnelRoute" where
  "published_status env route remote tunnelID host port =
     route_setReady env
       (route_setSynced env
         (route\<lparr>tr_Status := (tr_Status route)\<lparr>rt_RouteID := ro_ID remote, rt_TunnelID := tunnelID,
            rt_UpstreamHost := host, rt_UpstreamPort := port\<rparr>\<rparr>)
         ConditionTrue ''Synced'' ''The route is published.'')"

text \<open>From the resolved upstream on: the client, the route on the platform, the status.\<close>

definition route_publish ::
  "'x TunnelRouteReconciler \<Rightarrow> TunnelRoute \<Rightarrow> Tunnel \<Rightarrow> string \<Rightarrow> int32 \<Rightarrow> ('x, outcome) io" where
  "route_publish r route tunnel host port =
     (let env = rr_Client r;
          rt = route_setResolved env route ConditionTrue ''Resolved''
                 (''Sending traffic to '' @ host @ '':'' @ Itoa (sint port) @ ''.'') in
      do {
        cl \<leftarrow> rr_API r tunnel;
        (case cl of
           Inl err \<Rightarrow>
             route_finish env
               (route_setReady env (route_setSynced env rt ConditionFalse ''CredentialUnreadable'' (Error err)))
               \<lparr>res_RequeueAfter = permanentRetryPeriod\<rparr> None
         | Inr c \<Rightarrow> do {
             ensured \<leftarrow> ensureRoute env (cl_Tunnel c) rt (st_TunnelID (tn_Status tunnel)) host port;
             (case ensured of
                Inl err \<Rightarrow>
                  (let failure = Classify err;
                       rt' = route_setReady env (route_setSynced env rt ConditionFalse (f_Reason failure) (f_Message failure)) in
                   do {
                     _ \<leftarrow> Eventf (route_key rt') EventTypeWarning (f_Reason failure) ''Publishing'' (f_Message failure);
                     (if f_Permanent failure
                      then route_finish env rt' \<lparr>res_RequeueAfter = permanentRetryPeriod\<rparr> None
                      else route_finish env rt' zero_result (Some err))
                   })
              | Inr remote \<Rightarrow>
                  route_finish env (published_status env rt remote (st_TunnelID (tn_Status tunnel)) host port)
                    \<lparr>res_RequeueAfter = resyncPeriod\<rparr> None)
           })
      })"

definition route_sync :: "'x TunnelRouteReconciler \<Rightarrow> TunnelRoute \<Rightarrow> Tunnel \<Rightarrow> ('x, outcome) io" where
  "route_sync r route tunnel =
     (let env = rr_Client r in
      if st_TunnelID (tn_Status tunnel) = [] then
        route_finish env
          (route_setReady env (route_setSynced env route ConditionFalse ''TunnelNotReady''
             ''The Tunnel exists but has not been created on the platform yet.''))
          \<lparr>res_RequeueAfter = tunnelNotReadyRetry\<rparr> None
      else do {
        resolved \<leftarrow> resolveUpstream r route;
        (case resolved of
           None \<Rightarrow> ret Panicked
         | Some (Inl err) \<Rightarrow>
             (let rt = route_setReady env
                   (route_setSynced env
                     (route_setResolved env route ConditionFalse ''UpstreamUnresolved'' (Error err))
                     ConditionFalse ''UpstreamUnresolved'' ''Not published: the upstream could not be resolved.'') in
              do {
                _ \<leftarrow> Eventf (route_key rt) EventTypeWarning ''UpstreamUnresolved'' ''Resolving'' (Error err);
                route_finish env rt \<lparr>res_RequeueAfter = permanentRetryPeriod\<rparr> None
              })
         | Some (Inr (host, port)) \<Rightarrow> route_publish r route tunnel host port)
      })"

definition route_Reconcile :: "'x TunnelRouteReconciler \<Rightarrow> NamespacedName \<Rightarrow> ('x, outcome) io" where
  "route_Reconcile r req =
     (let env = rr_Client r in
      do {
        got \<leftarrow> Get_TunnelRoute env req;
        (case got of
           Inl err \<Rightarrow> ret (Returned zero_result (IgnoreNotFound env err))
         | Inr route \<Rightarrow> do {
             tunnel_read \<leftarrow> Get_Tunnel env (nn (om_Namespace (tr_Meta route)) (rs_TunnelRef (tr_Spec route)));
             (if om_DeletionTimestamp (tr_Meta route) \<noteq> None then
                route_reconcileDelete r route tunnel_read
              else
                (case tunnel_read of
                   Inl tunnelErr \<Rightarrow>
                     if \<not> kIsNotFound env tunnelErr then ret (Returned zero_result (Some tunnelErr))
                     else
                       route_finish env
                         (route_setReady env (route_setSynced env route ConditionFalse ''TunnelNotFound''
                            (''No Tunnel named '' @ Quote (rs_TunnelRef (tr_Spec route)) @ '' in this namespace.'')))
                         \<lparr>res_RequeueAfter = permanentRetryPeriod\<rparr> None
                 | Inr tunnel \<Rightarrow> do {
                     f \<leftarrow> add_route_finalizer env route;
                     (case f of
                        Inl err \<Rightarrow> ret (Returned zero_result (Some err))
                      | Inr rt \<Rightarrow> route_sync r rt tunnel)
                   }))
           })
      })"

section \<open>Which routes to wake\<close>

text \<open>The field index: the Service a route names, if it names one.\<close>

definition index_service_name :: "TunnelRoute \<Rightarrow> string list" where
  "index_service_name route =
     (case rs_Service (tr_Spec route) of None \<Rightarrow> [] | Some s \<Rightarrow> [sv_Name s])"

definition routesOfTunnel :: "'x env \<Rightarrow> ObjectMeta \<Rightarrow> ('x, NamespacedName list) io" where
  "routesOfTunnel env obj = do {
     l \<leftarrow> List_TunnelRoutes env (om_Namespace obj) None;
     ret (case l of
            Inl _ \<Rightarrow> []
          | Inr items \<Rightarrow> map route_key (filter (\<lambda>i. rs_TunnelRef (tr_Spec i) = om_Name obj) items))
   }"

definition routesOfService :: "'x env \<Rightarrow> ObjectMeta \<Rightarrow> ('x, NamespacedName list) io" where
  "routesOfService env obj = do {
     l \<leftarrow> List_TunnelRoutes env (om_Namespace obj) (Some (om_Name obj));
     ret (case l of Inl _ \<Rightarrow> [] | Inr items \<Rightarrow> map route_key items)
   }"

end
