(* ===== verification/Tunnel_Ordering.thy ===== *)
theory Tunnel_Ordering
  imports Tunnel_Controller
begin

text \<open>
  Ordering properties of the Tunnel reconciler, over the traces of its calls and for every
  environment: the finalizer before the platform, the external id before the create, rotation only
  when nothing usable is stored, and the finalizer taken off only when nothing is left behind.
\<close>

section \<open>Events\<close>

definition has_tunnel_finalizer :: "Tunnel \<Rightarrow> bool" where
  "has_tunnel_finalizer t = (TunnelFinalizer \<in> set (om_Finalizers (tn_Meta t)))"

text \<open>The server is known to hold the object with the finalizer: it was read so, or it was written so.\<close>

definition finalizer_on :: "call \<Rightarrow> bool" where
  "finalizer_on c =
     (case c of
        CGetTunnel k (Inr t) \<Rightarrow> has_tunnel_finalizer t
      | CUpdateTunnel t (Inr _) \<Rightarrow> has_tunnel_finalizer t
      | _ \<Rightarrow> False)"

text \<open>
  The server is known to hold the external id: an answer carries one, or a status that sets it to
  the object's UID was accepted.
\<close>

definition external_id_recorded :: "call \<Rightarrow> bool" where
  "external_id_recorded c =
     (case c of
        CGetTunnel k (Inr t) \<Rightarrow> st_ExternalID (tn_Status t) \<noteq> []
      | CUpdateTunnel t (Inr t') \<Rightarrow> st_ExternalID (tn_Status t') \<noteq> []
      | CStatusTunnel t (Inr _) \<Rightarrow> st_ExternalID (tn_Status t) = om_UID (tn_Meta t)
      | _ \<Rightarrow> False)"

text \<open>The Secret that holds a tunnel's token, and that it was looked for and holds none.\<close>

definition token_key :: "NamespacedName \<Rightarrow> NamespacedName" where
  "token_key k = nn (nn_Namespace k) (tokenSecretName (nn_Name k))"

definition no_stored_token :: "'x env \<Rightarrow> NamespacedName \<Rightarrow> call \<Rightarrow> bool" where
  "no_stored_token env k c =
     (case c of
        CGetSecret k' (Inr s) \<Rightarrow> k' = token_key k \<and> secret_value s tokenSecretKey = []
      | CGetSecret k' (Inl e) \<Rightarrow> k' = token_key k \<and> kIsNotFound env e
      | _ \<Rightarrow> False)"

section \<open>Which calls the parts make\<close>

lemma only_tunnel_finish:
  "(\<And>t r. P (CStatusTunnel t r)) \<Longrightarrow> only P (tunnel_finish env t res e)"
  unfolding tunnel_finish_def Let_def call_defs by (auto intro!: only_intro split: sum.split option.split)

lemma only_tunnel_fail:
  "(\<And>t r. P (CStatusTunnel t r)) \<Longrightarrow> (\<And>a b c d e. P (CEvent a b c d e)) \<Longrightarrow> only P (tunnel_fail env t action err)"
  unfolding tunnel_fail_def Let_def by (auto intro!: only_intro only_tunnel_finish)

lemma only_store_token:
  "(\<And>s r. P (CApplySecret s r)) \<Longrightarrow> only P (store_token env t tok)"
  unfolding store_token_def call_defs by (intro only_intro)

lemma only_ensureAgentDeployment:
  "(\<And>d r. P (CApplyDeployment d r)) \<Longrightarrow> only P (ensureAgentDeployment env img t v)"
  unfolding ensureAgentDeployment_def Let_def call_defs by (intro only_intro)

lemma only_RotateToken:
  "(\<And>a. P (CHttp (srv_http api) (build_request api ''POST'' (''/api/v2/tunnels/'' @ PathEscape i @ ''/rotate-token'') None) a)) \<Longrightarrow>
     only P (RotateToken env api i)"
  unfolding RotateToken_def by (intro only_intro)

lemma only_ensureCredentialSecret:
  assumes "\<And>s r. P (CApplySecret s r)" and "\<And>k r. P (CGetSecret k r)" and "\<And>a b c d e. P (CEvent a b c d e)"
    and "\<And>a. P (CHttp (srv_http api) (build_request api ''POST'' (''/api/v2/tunnels/'' @ PathEscape i @ ''/rotate-token'') None) a)"
  shows "only P (ensureCredentialSecret env api t i tok)"
  unfolding ensureCredentialSecret_def Let_def call_defs
  using assms by (auto intro!: only_intro only_store_token only_RotateToken split: sum.split)

lemma only_GetTunnel:
  "(\<And>a. P (CHttp (srv_http api) (build_request api ''GET'' (''/api/v2/tunnels/'' @ PathEscape i) None) a)) \<Longrightarrow>
     only P (GetTunnel env api i)"
  unfolding GetTunnel_def by (intro only_intro)

lemma only_CreateTunnel:
  "(\<And>a. P (CHttp (srv_http api) (build_request api ''POST'' ''/api/v2/tunnels'' (Some (enc_create_tunnel i))) a)) \<Longrightarrow>
     only P (CreateTunnel env api i)"
  unfolding CreateTunnel_def by (intro only_intro)

section \<open>A reconciler over its factory and its library\<close>

text \<open>
  The contract the reconciler's parts meet: the client factory makes no platform call, and the
  finalizer helpers do what they document.
\<close>

locale tunnel_reconciler =
  client_factory "rc_API r" +
  finalizer_lib "AddFinalizer (rc_Client r)" "RemoveFinalizer (rc_Client r)" "ContainsFinalizer (rc_Client r)"
  for r :: "'x TunnelReconciler"
begin

lemma API_grows: "grows (rc_API r t)"
  by (rule ClientFor_grows)

lemma sync_grows: "grows (tunnel_sync r t)"
  by (rule grows_tunnel_sync) (rule API_grows)

lemma delete_grows: "grows (tunnel_reconcileDelete r t)"
  by (rule grows_tunnel_reconcileDelete) (rule API_grows)

subsection \<open>The finalizer comes first\<close>

lemma emits_good_first:
  assumes "grows m" and "good e"
  shows "emits m (\<lambda>_ es. guarded good bad (e # es))"
  using assms by (auto intro: emits_trivial)

lemma delete_finalizer_first:
  "emits (tunnel_reconcileDelete r t) (\<lambda>_ es. guarded finalizer_on is_platform (CGetTunnel k (Inr t) # es))"
proof (cases "has_tunnel_finalizer t")
  case True
  then show ?thesis
    by (intro emits_good_first delete_grows) (simp add: finalizer_on_def)
next
  case False
  then have "tunnel_reconcileDelete r t = ret (Returned zero_result None)"
    by (simp add: tunnel_reconcileDelete_def contains_iff has_tunnel_finalizer_def)
  then show ?thesis by (auto simp: is_platform_def)
qed

lemma update_finalizer_first:
  "emits (State_Monad.bind (add_tunnel_finalizer (rc_Client r) t)
      (\<lambda>f. case f of Inl err \<Rightarrow> ret (Returned zero_result (Some err)) | Inr t' \<Rightarrow> tunnel_sync r t'))
    (\<lambda>_ es. guarded finalizer_on is_platform (CGetTunnel k (Inr t) # es))"
proof (cases "has_tunnel_finalizer t")
  case True
  then show ?thesis
    by (intro emits_good_first grows_intro) (auto simp: finalizer_on_def intro: sync_grows grows_intro split: sum.split)
next
  case False
  obtain c fs where add: "AddFinalizer (rc_Client r) (om_Finalizers (tn_Meta t)) TunnelFinalizer = (c, fs)"
    by fastforce
  with False have "c" and fs: "TunnelFinalizer \<in> set fs"
    using add_changed [of "om_Finalizers (tn_Meta t)" TunnelFinalizer]
      add_present [of TunnelFinalizer "om_Finalizers (tn_Meta t)"]
    by (auto simp: has_tunnel_finalizer_def)
  have no_get: "\<not> is_platform (CGetTunnel k (Inr t))" by (simp add: is_platform_def)
  have upd: "finalizer_on (CUpdateTunnel (t\<lparr>tn_Meta := (tn_Meta t)\<lparr>om_Finalizers := fs\<rparr>\<rparr>) (Inr t'))" for t'
    using fs by (simp add: finalizer_on_def has_tunnel_finalizer_def)
  show ?thesis
    using \<open>c\<close> unfolding add_tunnel_finalizer_def add Let_def Update_Tunnel_def
    by (auto simp: no_get upd is_platform_def intro!: emits_bind_kube_call emits_trivial [OF sync_grows] split: sum.split)
qed

lemma reconcile_finalizer_first:
  "emits (tunnel_Reconcile r req) (\<lambda>_ es. guarded finalizer_on is_platform es)"
  unfolding tunnel_Reconcile_def Let_def Get_Tunnel_def
proof (rule emits_bind_kube_call)
  fix got
  show "emits (case got of Inl err \<Rightarrow> ret (Returned zero_result (IgnoreNotFound (rc_Client r) err))
      | Inr tunnel \<Rightarrow>
          if om_DeletionTimestamp (tn_Meta tunnel) \<noteq> None then tunnel_reconcileDelete r tunnel
          else State_Monad.bind (add_tunnel_finalizer (rc_Client r) tunnel)
            (\<lambda>f. case f of Inl err \<Rightarrow> ret (Returned zero_result (Some err)) | Inr t \<Rightarrow> tunnel_sync r t))
    (\<lambda>_ es. guarded finalizer_on is_platform (CGetTunnel req got # es))"
  proof (cases got)
    case (Inl err)
    then show ?thesis by (auto simp: is_platform_def)
  next
    case (Inr t)
    with delete_finalizer_first [of t req] update_finalizer_first [of t req] show ?thesis
      by (simp del: guarded.simps)
  qed
qed

subsection \<open>The external id is recorded before a tunnel is made\<close>

lemma API_quiet: "only (\<lambda>c. \<not> is_create_tunnel c) (rc_API r t)" "only (\<lambda>c. \<not> is_rotate c) (rc_API r t)"
  unfolding only_def
  by (rule emits_mono [OF no_platform_call], auto simp: is_create_tunnel_def is_rotate_def split: call.splits)+

lemma create_tunnel_recorded_first:
  assumes "st_ExternalID (tn_Status t) = []"
  shows "emits (create_tunnel env api t) (\<lambda>_ es. guarded external_id_recorded is_create_tunnel es)"
  unfolding create_tunnel_def Let_def
proof (rule emits_guarded_bind [where K = "\<lambda>a. snd a \<noteq> None"])
  show "emits (record_external_id env t) (\<lambda>a es. guarded external_id_recorded is_create_tunnel es \<and>
      (snd a \<noteq> None \<or> (\<exists>e \<in> set es. external_id_recorded e)))"
    using assms unfolding record_external_id_def Let_def call_defs
    by (auto intro!: emits_bind_kube_call simp: external_id_recorded_def is_create_tunnel_def split: sum.split)
qed (auto intro!: grows_intro split: prod.split option.split)

lemma ensureTunnel_recorded_first:
  assumes "st_ExternalID (tn_Status t) = []"
  shows "emits (ensureTunnel env api t) (\<lambda>_ es. guarded external_id_recorded is_create_tunnel es)"
proof -
  have get: "only (\<lambda>c. \<not> is_create_tunnel c) (GetTunnel env api i)" for i
    by (rule only_GetTunnel) simp
  show ?thesis
    using create_tunnel_recorded_first [OF assms]
    unfolding ensureTunnel_def Let_def
    by (auto intro!: emits_guarded_quiet_bind [OF get] split: sum.split)
qed

lemma after_ensure_no_create:
  "only (\<lambda>c. \<not> is_create_tunnel c) (ensureCredentialSecret env api t i tok)"
  "only (\<lambda>c. \<not> is_create_tunnel c) (ensureAgentDeployment env img t v)"
  "only (\<lambda>c. \<not> is_create_tunnel c) (tunnel_finish env t res e)"
  "only (\<lambda>c. \<not> is_create_tunnel c) (tunnel_fail env t action err)"
  by (rule only_ensureCredentialSecret only_ensureAgentDeployment only_tunnel_finish only_tunnel_fail;
      simp add: is_create_tunnel_def rotate_not_create [unfolded is_create_tunnel_def, simplified]
        rotate_not_create [where q = "''/api/v2/tunnels/'' @ PathEscape i", unfolded is_create_tunnel_def, simplified])+

lemma realise_no_create: "only (\<lambda>c. \<not> is_create_tunnel c) (tunnel_realise r api t remote tok)"
  unfolding tunnel_realise_def Let_def
  by (auto intro!: only_intro after_ensure_no_create split: sum.split)

lemma sync_recorded_first:
  assumes "st_ExternalID (tn_Status t) = []"
  shows "emits (tunnel_sync r t) (\<lambda>_ es. guarded external_id_recorded is_create_tunnel es)"
  unfolding tunnel_sync_def Let_def
  by (auto intro!: emits_guarded_quiet_bind [OF API_quiet(1)] only_guarded [OF after_ensure_no_create(3)]
        emits_guarded_bind_quiet [OF ensureTunnel_recorded_first [OF assms]] only_ret
        after_ensure_no_create realise_no_create
      split: sum.split prod.split option.split)

lemma add_finalizer_recorded:
  assumes "st_ExternalID (tn_Status t) = []"
  shows "emits (add_tunnel_finalizer env t) (\<lambda>f es. guarded external_id_recorded is_create_tunnel es \<and>
    ((\<forall>t'. f = Inr t' \<longrightarrow> st_ExternalID (tn_Status t') = []) \<or> (\<exists>e \<in> set es. external_id_recorded e)))"
  using assms unfolding add_tunnel_finalizer_def Let_def call_defs
  by (auto intro!: emits_bind_kube_call simp: external_id_recorded_def is_create_tunnel_def split: sum.split prod.split)

lemma delete_recorded_first:
  assumes "st_ExternalID (tn_Status t) = []"
  shows "only (\<lambda>c. \<not> is_create_tunnel c) (tunnel_reconcileDelete r t)"
  using assms unfolding tunnel_reconcileDelete_def Let_def drop_tunnel_finalizer_def call_defs
  by (auto intro!: only_intro simp: is_create_tunnel_def)

lemma reconcile_recorded_first:
  "emits (tunnel_Reconcile r req) (\<lambda>_ es. guarded external_id_recorded is_create_tunnel es)"
  unfolding tunnel_Reconcile_def Let_def
proof (rule emits_guarded_bind [where K = "\<lambda>got. \<forall>t. got = Inr t \<longrightarrow> st_ExternalID (tn_Status t) = []"])
  show "emits (Get_Tunnel (rc_Client r) req)
    (\<lambda>got es. guarded external_id_recorded is_create_tunnel es \<and>
      ((\<forall>t. got = Inr t \<longrightarrow> st_ExternalID (tn_Status t) = []) \<or> (\<exists>e \<in> set es. external_id_recorded e)))"
    unfolding call_defs
    by (auto intro!: emits_kube_call simp: external_id_recorded_def is_create_tunnel_def split: sum.splits)
qed (auto intro!: only_guarded [OF delete_recorded_first] emits_guarded_bind [OF add_finalizer_recorded]
       sync_recorded_first sync_grows delete_grows grows_intro split: sum.splits)

subsection \<open>A credential is rotated only when none is stored\<close>

lemma store_token_no_rotate: "only (\<lambda>c. \<not> is_rotate c) (store_token env t tok)"
  by (rule only_store_token) (simp add: is_rotate_def)

lemma credential_rotation:
  "emits (ensureCredentialSecret env api t i tok) (\<lambda>_ es. guarded (no_stored_token env (tunnel_key t)) is_rotate es)"
proof (cases "tok = []")
  case False
  then show ?thesis
    by (simp add: ensureCredentialSecret_def only_guarded [OF store_token_no_rotate])
next
  case True
  have k: "nn (om_Namespace (tn_Meta t)) (tokenSecretName (om_Name (tn_Meta t))) = token_key (tunnel_key t)"
    by (simp add: token_key_def key_of_def)
  show ?thesis
    unfolding ensureCredentialSecret_def Let_def call_defs k True not_not refl if_False simp_thms
  proof (rule emits_bind_kube_call, split if_split, intro conjI impI, goal_cases)
    case (1 existing)
    show ?case by (rule emits_ret) (simp add: is_rotate_def)
  next
    case (2 existing)
    then show ?case
      by (intro emits_good_first) (auto intro!: grows_intro simp: no_stored_token_def split: sum.splits)
  qed
qed

lemma after_credential_no_rotate:
  "only (\<lambda>c. \<not> is_rotate c) (ensureAgentDeployment env img t v)"
  "only (\<lambda>c. \<not> is_rotate c) (tunnel_finish env t res e)"
  "only (\<lambda>c. \<not> is_rotate c) (tunnel_fail env t action err)"
  by (rule only_ensureAgentDeployment only_tunnel_finish only_tunnel_fail; simp add: is_rotate_def)+

lemma realise_rotation:
  "emits (tunnel_realise r api t remote tok)
     (\<lambda>_ es. guarded (no_stored_token (rc_Client r) (tunnel_key t)) is_rotate es)"
  unfolding tunnel_realise_def Let_def
  by (auto intro!: emits_guarded_bind_quiet [OF credential_rotation] only_intro after_credential_no_rotate
      split: sum.split)

lemma create_and_read_no_rotate: "only (\<lambda>c. \<not> is_rotate c) (create_and_read env api i)"
  unfolding create_and_read_def
  by (auto intro!: only_intro only_CreateTunnel only_GetTunnel split: sum.split)

end

text \<open>The same over an API server that does not rename objects.\<close>

locale named_tunnel_reconciler =
  tunnel_reconciler r + object_names "rc_Client r"
  for r :: "'x TunnelReconciler"
begin

lemma record_external_id_keeps:
  "emits (record_external_id (rc_Client r) t)
     (\<lambda>a es. tunnel_key (fst a) = tunnel_key t \<and> (\<forall>c \<in> set es. \<not> is_rotate c))"
  unfolding record_external_id_def Let_def call_defs
  by (auto intro!: emits_bind_kube_call_ans dest!: status_tunnel_key simp: is_rotate_def split: sum.splits)

lemma create_tunnel_keeps:
  "emits (create_tunnel (rc_Client r) api t)
     (\<lambda>a es. tunnel_key (fst a) = tunnel_key t \<and> (\<forall>c \<in> set es. \<not> is_rotate c))"
  unfolding create_tunnel_def Let_def
proof (rule emits_bind [OF record_external_id_keeps], clarsimp split: option.split, intro conjI impI allI)
  fix t' es cti
  assume "tunnel_key t' = tunnel_key t" "\<forall>c \<in> set es. \<not> is_rotate c"
  then show "emits (State_Monad.bind (create_and_read (rc_Client r) api cti) (\<lambda>made. ret (t', made)))
     (\<lambda>a es'. tunnel_key (fst a) = tunnel_key t \<and> (\<forall>c \<in> set es \<union> set es'. \<not> is_rotate c))"
    by (auto intro!: emits_bind [OF create_and_read_no_rotate [unfolded only_def]])
qed auto

lemma ensureTunnel_keeps:
  "emits (ensureTunnel (rc_Client r) api t)
     (\<lambda>a es. tunnel_key (fst a) = tunnel_key t \<and> (\<forall>c \<in> set es. \<not> is_rotate c))"
proof -
  have get: "emits (GetTunnel (rc_Client r) api i) (\<lambda>_ es. \<forall>c \<in> set es. \<not> is_rotate c)" for i
    by (rule emits_mono [OF emits_GetTunnel]) simp
  show ?thesis
    unfolding ensureTunnel_def Let_def
    by (auto intro!: emits_bind [OF get] create_tunnel_keeps emits_mono [OF create_tunnel_keeps]
        split: sum.split)
qed

lemma sync_rotation:
  "emits (tunnel_sync r t) (\<lambda>_ es. guarded (no_stored_token (rc_Client r) (tunnel_key t)) is_rotate es)"
proof -
  have ens: "emits (ensureTunnel (rc_Client r) api t)
      (\<lambda>a es. guarded (no_stored_token (rc_Client r) (tunnel_key t)) is_rotate es \<and>
        (tunnel_key (fst a) = tunnel_key t \<or> (\<exists>e \<in> set es. no_stored_token (rc_Client r) (tunnel_key t) e)))" for api
    by (rule emits_mono [OF ensureTunnel_keeps]) (auto intro: guarded_no_bad)
  have realise: "tunnel_key t' = tunnel_key t \<Longrightarrow> emits (tunnel_realise r api t' remote tok)
      (\<lambda>_ es. guarded (no_stored_token (rc_Client r) (tunnel_key t)) is_rotate es)" for t' api remote tok
    using realise_rotation [of api t' remote tok] by simp
  show ?thesis
    unfolding tunnel_sync_def Let_def
    by (auto intro!: emits_guarded_quiet_bind [OF API_quiet(2)] emits_guarded_bind [OF ens] realise
          after_credential_no_rotate [THEN only_guarded] grows_intro
        split: sum.split prod.split option.split)
qed

lemma delete_no_rotate: "only (\<lambda>c. \<not> is_rotate c) (tunnel_reconcileDelete r t)"
  unfolding tunnel_reconcileDelete_def clean_up_tunnel_def release_tunnel_def tunnel_to_delete_def drop_tunnel_finalizer_def DeleteTunnel_def Let_def call_defs
  by (auto intro!: only_intro only_FindTunnelByExternalID API_quiet(2)
      split: sum.split option.split)

lemma add_finalizer_keeps:
  "emits (add_tunnel_finalizer (rc_Client r) t)
     (\<lambda>f es. (\<forall>t'. f = Inr t' \<longrightarrow> tunnel_key t' = tunnel_key t) \<and> (\<forall>c \<in> set es. \<not> is_rotate c))"
  unfolding add_tunnel_finalizer_def Let_def call_defs
  by (auto intro!: emits_bind_kube_call_ans dest!: update_tunnel_key simp: is_rotate_def split: sum.splits prod.split)

lemma reconcile_rotation:
  "emits (tunnel_Reconcile r req) (\<lambda>_ es. guarded (no_stored_token (rc_Client r) req) is_rotate es)"
proof -
  let ?good = "no_stored_token (rc_Client r) req"
  have add: "tunnel_key t = req \<Longrightarrow> emits (add_tunnel_finalizer (rc_Client r) t) (\<lambda>f es. guarded ?good is_rotate es \<and>
      ((\<forall>t'. f = Inr t' \<longrightarrow> tunnel_key t' = req) \<or> (\<exists>e \<in> set es. ?good e)))" for t
    by (rule emits_mono [OF add_finalizer_keeps]) (auto intro: guarded_no_bad)
  have get: "emits (Get_Tunnel (rc_Client r) req) (\<lambda>got es. guarded ?good is_rotate es \<and>
      ((\<forall>t. got = Inr t \<longrightarrow> tunnel_key t = req) \<or> (\<exists>e \<in> set es. ?good e)))"
    unfolding call_defs
    by (auto intro!: emits_kube_call_ans dest!: get_tunnel_key simp: is_rotate_def)
  have sync: "tunnel_key t = k \<Longrightarrow> emits (tunnel_sync r t) (\<lambda>_ es. guarded (no_stored_token (rc_Client r) k) is_rotate es)" for t k
    using sync_rotation [of t] by simp
  show ?thesis
    unfolding tunnel_Reconcile_def Let_def
    by (rule emits_guarded_bind [OF get])
       (auto intro!: only_guarded [OF delete_no_rotate] emits_guarded_bind [OF add] sync
          sync_grows delete_grows grows_intro split: sum.split)
qed

end

end
