(* ===== verification/Tunnel_Deletion.thy ===== *)
theory Tunnel_Deletion
  imports Tunnel_Ordering
begin

text \<open>
  What a Tunnel object leaves behind when it goes: its finalizer comes off only when the platform
  has nothing left of it, and it does come off once that is so.
\<close>

section \<open>Events\<close>

definition writes_tunnel :: "call \<Rightarrow> bool" where
  "writes_tunnel c = (case c of CUpdateTunnel t r \<Rightarrow> True | _ \<Rightarrow> False)"

text \<open>The platform answered that the thing is gone, or was never there.\<close>

definition gone :: "(string + http_response) \<Rightarrow> bool" where
  "gone a = (case a of Inr resp \<Rightarrow> resp_StatusCode resp < 400 \<or> resp_StatusCode resp = 404 | Inl _ \<Rightarrow> False)"

definition deleted_tunnel :: "string \<Rightarrow> call \<Rightarrow> bool" where
  "deleted_tunnel i c =
     (case c of
        CHttp h rq a \<Rightarrow> rq_Method rq = ''DELETE'' \<and> HasSuffix (rq_URL rq) (''/api/v2/tunnels/'' @ PathEscape i) \<and> gone a
      | _ \<Rightarrow> False)"

text \<open>The tunnels the platform listed for an external id.\<close>

definition listed :: "string \<Rightarrow> call \<Rightarrow> TunnelSummary list option" where
  "listed externalID c =
     (case c of
        CHttp h rq (Inr resp) \<Rightarrow>
          if rq_Method rq = ''GET'' \<and> HasSuffix (rq_URL rq) (''/api/v2/tunnels?external_id='' @ QueryEscape externalID)
             \<and> resp_StatusCode resp < 400
          then (if resp_StatusCode resp = 204 then Some []
                else Option.bind (parse_first (resp_Body resp)) (\<lambda>j. dec_data j []))
          else None
      | _ \<Rightarrow> None)"

text \<open>The identifier to delete by that such a listing gives: the first row's, empty when there is none.\<close>

definition found_id :: "string \<Rightarrow> call \<Rightarrow> string option" where
  "found_id externalID c =
     map_option (\<lambda>rows. case rows of [] \<Rightarrow> [] | s # _ \<Rightarrow> nt_ID (sm_Tunnel s)) (listed externalID c)"

text \<open>
  The calls so far dispose of what is known of the object on the platform: nothing was ever asked of
  it; or the tunnel on record was deleted or not there; or none was on record and the lookup by
  external id gave no identifier, or one that was deleted.
\<close>

definition tunnel_disposed :: "Tunnel \<Rightarrow> call list \<Rightarrow> bool" where
  "tunnel_disposed t es =
     (st_ExternalID (tn_Status t) = []
      \<or> (if st_TunnelID (tn_Status t) \<noteq> [] then list_ex (deleted_tunnel (st_TunnelID (tn_Status t))) es
         else list_ex (\<lambda>c. case found_id (om_UID (tn_Meta t)) c of
                Some i \<Rightarrow> i = [] \<or> list_ex (deleted_tunnel i) es
              | None \<Rightarrow> False) es))"

section \<open>The parts\<close>

lemma StatusOf_simps [simp]:
  "StatusOf (ErrWrap s (ErrText m)) = 0" "StatusOf (ErrTransport a b (ErrText m)) = 0"
  "StatusOf (ErrAPI e) = ae_Status e"
  by (simp_all add: StatusOf_def)

lemma ae_Status_parse [simp]: "ae_Status (parseAPIError m u resp) = resp_StatusCode resp"
  by (simp add: parseAPIError_def Let_def split: option.split prod.split)

lemma read_answer_gone:
  "(case read_answer env s m p out zero ans of Inl e \<Rightarrow> IsNotFound e | Inr _ \<Rightarrow> True) \<Longrightarrow> gone ans"
  by (auto simp: read_answer_def gone_def IsNotFound_def split: sum.splits option.splits if_splits)

lemma emits_DeleteTunnel_gone:
  "emits (DeleteTunnel env api i) (\<lambda>d es. (\<forall>c \<in> set es. \<not> writes_tunnel c) \<and>
     ((case d of Inl e \<Rightarrow> IsNotFound e | Inr _ \<Rightarrow> True) \<longrightarrow> (\<exists>c \<in> set es. deleted_tunnel i c)))"
  unfolding DeleteTunnel_def
  by (rule emits_mono [OF emits_do_request])
     (auto simp: deleted_tunnel_def writes_tunnel_def build_request_def HasSuffix_iff IsNotFound_def [of "ErrWrap s e" for s e]
        dest: read_answer_gone)

lemma listed_build:
  "listed x (CHttp h (build_request s ''GET'' (''/api/v2/tunnels?external_id='' @ QueryEscape x) b) ans) =
     (case read_answer env s m p (Some dec_data) [] ans of Inr rows \<Rightarrow> Some rows | Inl _ \<Rightarrow> None)"
  unfolding listed_def read_answer_def
  by (simp add: build_request_def HasSuffix_iff split: sum.split option.split)

text \<open>The identifier to delete is the one on record, else it comes from the lookup.\<close>

definition target_of :: "Tunnel \<Rightarrow> call list \<Rightarrow> string \<Rightarrow> bool" where
  "target_of t es i =
     (if st_TunnelID (tn_Status t) \<noteq> [] then i = st_TunnelID (tn_Status t)
      else list_ex (\<lambda>c. found_id (om_UID (tn_Meta t)) c = Some i) es)"

lemma emits_lookup:
  "emits (FindTunnelByExternalID env api x) (\<lambda>f es. (\<forall>c \<in> set es. \<not> writes_tunnel c) \<and>
     (\<forall>s. f = Inr s \<longrightarrow> (\<exists>c \<in> set es.
        found_id x c = Some (case s of None \<Rightarrow> [] | Some s \<Rightarrow> nt_ID (sm_Tunnel s)))))"
proof -
  define path where "path = ''/api/v2/tunnels?external_id='' @ QueryEscape x"
  have list: "listed x (CHttp (srv_http api) (build_request api ''GET'' path None) ans) =
     (case read_answer env api ''GET'' path (Some dec_data) [] ans of Inr rows \<Rightarrow> Some rows | Inl _ \<Rightarrow> None)" for ans
    unfolding path_def by (rule listed_build)
  show ?thesis
    unfolding FindTunnelByExternalID_def path_def [symmetric]
  proof (rule emits_bind [OF emits_do_request], elim disjE exE conjE, goal_cases)
    case (2 a es ans)
    then show ?case
      by (auto simp: found_id_def list writes_tunnel_def split: sum.split list.split)
  qed (auto split: sum.split)
qed

lemma emits_tunnel_to_delete:
  "emits (tunnel_to_delete env api t) (\<lambda>target es. (\<forall>c \<in> set es. \<not> writes_tunnel c) \<and>
     (\<forall>i. target = Inr i \<longrightarrow> target_of t es i))"
proof (cases "st_TunnelID (tn_Status t) = []")
  case False
  then show ?thesis by (auto simp: tunnel_to_delete_def target_of_def)
next
  case True
  then show ?thesis
    unfolding tunnel_to_delete_def Let_def
    by (auto intro!: emits_bind [OF emits_lookup] simp: target_of_def list_ex_iff
        split: sum.split option.splits)
qed

lemma target_of_append: "target_of t es i \<Longrightarrow> target_of t (pre @ es @ post) i"
  by (auto simp: target_of_def split: if_splits)

lemma target_deleted:
  assumes "target_of t es i" and "i = [] \<or> (\<exists>c \<in> set es. deleted_tunnel i c)"
  shows "tunnel_disposed t es"
  using assms by (fastforce simp: target_of_def tunnel_disposed_def list_ex_iff split: if_splits)

lemma drop_finalizer_justified:
  assumes "tunnel_disposed t es" and "\<forall>c \<in> set es. \<not> writes_tunnel c"
  shows "emits (drop_tunnel_finalizer env t) (\<lambda>_ es'. justified writes_tunnel (tunnel_disposed t) (es @ es'))"
  unfolding drop_tunnel_finalizer_def call_defs
  by (rule emits_bind_kube_call, rule emits_ret, rule justified_last) (use assms in auto)

lemma release_justified:
  assumes quiet: "\<forall>c \<in> set es. \<not> writes_tunnel c" and target: "target_of t es i"
  shows "emits (release_tunnel env api t i) (\<lambda>_ es'. justified writes_tunnel (tunnel_disposed t) (es @ es'))"
proof -
  have drop: "emits (drop_tunnel_finalizer env t) (\<lambda>_ es''. justified writes_tunnel (tunnel_disposed t) (es @ es' @ es''))"
    if "\<forall>c \<in> set es'. \<not> writes_tunnel c" and "i = [] \<or> (\<exists>c \<in> set es'. deleted_tunnel i c)" for es'
  proof -
    from target have "target_of t (es @ es') i" using target_of_append [of t es i "[]" es'] by simp
    with that have "tunnel_disposed t (es @ es')" by (intro target_deleted) auto
    then show ?thesis using drop_finalizer_justified [of t "es @ es'" env] quiet that(1) by auto
  qed
  show ?thesis
    using drop [of "[]"] quiet unfolding release_tunnel_def
    by (auto intro!: emits_bind [OF emits_DeleteTunnel_gone] drop justified_none split: sum.split)
qed

lemma clean_up_justified:
  assumes quiet: "\<forall>c \<in> set es. \<not> writes_tunnel c"
  shows "emits (clean_up_tunnel env api t) (\<lambda>_ es'. justified writes_tunnel (tunnel_disposed t) (es @ es'))"
  unfolding clean_up_tunnel_def
proof (rule emits_bind [OF emits_tunnel_to_delete])
  fix target :: "gerr + string" and es'
  assume es': "(\<forall>c \<in> set es'. \<not> writes_tunnel c) \<and> (\<forall>i. target = Inr i \<longrightarrow> target_of t es' i)"
  then have "\<forall>c \<in> set (es @ es'). \<not> writes_tunnel c" using quiet by auto
  moreover have "target = Inr i \<Longrightarrow> target_of t (es @ es') i" for i
    using es' target_of_append [of t es' i es "[]"] by simp
  ultimately show "emits (case target of Inl err \<Rightarrow> ret (Returned zero_result (Some err))
      | Inr i \<Rightarrow> release_tunnel env api t i)
      (\<lambda>_ es''. justified writes_tunnel (tunnel_disposed t) (es @ es' @ es''))"
    using release_justified [of "es @ es'" t _ env api] by (auto intro!: justified_none split: sum.split)
qed

lemma factory_writes_nothing:
  assumes "client_factory api"
  shows "emits (api t) (\<lambda>_ es. \<forall>c \<in> set es. \<not> writes_tunnel c)"
  by (rule emits_mono [OF client_factory.ClientFor_calls [OF assms]])
     (auto simp: reads_only_own_secret_def writes_tunnel_def)

lemma delete_justified:
  assumes "client_factory (rc_API r)"
  shows "emits (tunnel_reconcileDelete r t) (\<lambda>_ es. justified writes_tunnel (tunnel_disposed t) es)"
proof -
  have drop: "st_ExternalID (tn_Status t) = [] \<Longrightarrow>
      emits (drop_tunnel_finalizer (rc_Client r) t) (\<lambda>_ es. justified writes_tunnel (tunnel_disposed t) es)"
    using drop_finalizer_justified [of t "[]"] by (simp add: tunnel_disposed_def)
  have event: "\<not> writes_tunnel (CEvent a b c d e)" for a b c d e by (simp add: writes_tunnel_def)
  show ?thesis
    unfolding tunnel_reconcileDelete_def Let_def
    by (auto intro!: drop emits_bind [OF factory_writes_nothing [OF assms]] emits_bind_Eventf clean_up_justified
          justified_none simp: event split: sum.split)
qed

end
