(* ===== verification/Route_Ordering.thy ===== *)
theory Route_Ordering
  imports Route_Controller Tunnel_Deletion
begin

text \<open>
  Ordering properties of the TunnelRoute reconciler over the traces of its calls, with the
  counterparts of the Tunnel's: the finalizer first, the upstream before the platform, the object
  let go only after its route was disposed of; and that every status it writes rolls up.
\<close>

section \<open>Which calls the parts make\<close>

lemma only_route_finish: "(\<And>rt' r. P (CStatusRoute rt' r)) \<Longrightarrow> only P (route_finish env rt res e)"
  unfolding route_finish_def Let_def call_defs by (auto intro!: only_intro split: sum.split option.split)

lemma only_findRoute:
  "(\<And>ans. P (CHttp (srv_http api) (build_request api ''GET'' (routesPath i) None) ans)) \<Longrightarrow> only P (findRoute env api rt i)"
  unfolding findRoute_def by (auto intro!: only_intro only_ListRoutes)

text \<open>Publishing makes requests of the platform only, and one kind of event.\<close>

lemma only_ensureRoute:
  assumes "\<And>h rq a. P (CHttp h rq a)" and "\<And>a b c d e. P (CEvent a b c d e)"
  shows "only P (ensureRoute env api rt i host port)"
  unfolding ensureRoute_def create_and_reconcile_def reconcile_drift_def CreateRoute_def UpdateRoute_def
    DeleteRoute_def Let_def
  using assms by (auto intro!: only_intro only_findRoute split: sum.split option.split prod.split)

lemma only_resolveUpstream:
  assumes "\<And>t r. rs_Service (tr_Spec rt) = Some t \<Longrightarrow> P (CGetService (nn (om_Namespace (tr_Meta rt)) (sv_Name t)) r)"
  shows "only P (resolveUpstream r rt)"
  unfolding resolveUpstream_def call_defs
  using assms by (auto intro!: only_intro split: sum.split option.split)

lemma only_drop_route_finalizer: "(\<And>rt' r. P (CUpdateRoute rt' r)) \<Longrightarrow> only P (drop_route_finalizer env rt)"
  unfolding drop_route_finalizer_def call_defs by (auto intro!: only_intro)

lemma only_route_to_delete:
  "(\<And>h rq a. P (CHttp h rq a)) \<Longrightarrow> only P (route_to_delete env api rt i)"
  unfolding route_to_delete_def Let_def by (auto intro!: only_intro only_findRoute)

lemma grows_route_parts [grows_intro]:
  "grows (route_finish env rt res e)" "grows (findRoute env api rt i)" "grows (ensureRoute env api rt i host port)"
  "grows (resolveUpstream r rt)" "grows (drop_route_finalizer env rt)" "grows (route_to_delete env api rt i)"
  by (rule only_grows [where P = "\<lambda>_. True"],
      rule only_route_finish only_findRoute only_ensureRoute only_resolveUpstream only_drop_route_finalizer
        only_route_to_delete; simp)+

lemma grows_add_route_finalizer [grows_intro]: "grows (add_route_finalizer env rt)"
  unfolding add_route_finalizer_def Let_def by (auto intro!: grows_intro split: prod.split)

lemma grows_route_publish: "(\<And>t. grows (rr_API r t)) \<Longrightarrow> grows (route_publish r rt t host port)"
  unfolding route_publish_def Let_def by (auto intro!: grows_intro split: sum.split)

lemma grows_route_sync: "(\<And>t. grows (rr_API r t)) \<Longrightarrow> grows (route_sync r rt t)"
  unfolding route_sync_def Let_def
  by (auto intro!: grows_intro grows_route_publish split: option.split sum.split prod.split)

lemma grows_route_reconcileDelete: "(\<And>t. grows (rr_API r t)) \<Longrightarrow> grows (route_reconcileDelete r rt tr)"
  unfolding route_reconcileDelete_def deleteRemoteRoute_def clean_up_route_def Let_def
  by (auto intro!: grows_intro split: option.split sum.split)

section \<open>Events\<close>

definition has_route_finalizer :: "TunnelRoute \<Rightarrow> bool" where
  "has_route_finalizer rt = (TunnelRouteFinalizer \<in> set (om_Finalizers (tr_Meta rt)))"

definition route_finalizer_on :: "call \<Rightarrow> bool" where
  "route_finalizer_on c =
     (case c of
        CGetRoute k (Inr rt) \<Rightarrow> has_route_finalizer rt
      | CUpdateRoute rt (Inr _) \<Rightarrow> has_route_finalizer rt
      | _ \<Rightarrow> False)"

text \<open>The Service a route names was read and publishes the port the route names.\<close>

definition service_resolves :: "TunnelRoute \<Rightarrow> call \<Rightarrow> bool" where
  "service_resolves rt c =
     (case c of
        CGetService k (Inr svc) \<Rightarrow>
          (case rs_Service (tr_Spec rt) of
             Some t \<Rightarrow> k = nn (om_Namespace (tr_Meta rt)) (sv_Name t) \<and>
                       (case servicePort svc (sv_Port t) of Inr p \<Rightarrow> True | Inl _ \<Rightarrow> False)
           | None \<Rightarrow> False)
      | _ \<Rightarrow> False)"

section \<open>A reconciler over its factory and its library\<close>

locale route_reconciler =
  client_factory "rr_API r" +
  finalizer_lib "AddFinalizer (rr_Client r)" "RemoveFinalizer (rr_Client r)" "ContainsFinalizer (rr_Client r)"
  for r :: "'x TunnelRouteReconciler"
begin

lemma route_sync_grows: "grows (route_sync r rt t)"
  by (rule grows_route_sync) (rule ClientFor_grows)

lemma route_delete_grows: "grows (route_reconcileDelete r rt tr)"
  by (rule grows_route_reconcileDelete) (rule ClientFor_grows)

lemma route_delete_without_finalizer:
  "\<not> has_route_finalizer rt \<Longrightarrow> route_reconcileDelete r rt tr = ret (Returned zero_result None)"
  by (simp add: route_reconcileDelete_def contains_iff has_route_finalizer_def)

text \<open>Putting the finalizer on either writes the object with it or finds it there.\<close>

lemma add_route_finalizer_first:
  "emits (add_route_finalizer (rr_Client r) rt) (\<lambda>f es. guarded route_finalizer_on is_platform es \<and>
     ((isl f \<or> has_route_finalizer rt) \<or> (\<exists>e \<in> set es. route_finalizer_on e)))"
proof (cases "has_route_finalizer rt")
  case True
  show ?thesis
    unfolding add_route_finalizer_def Let_def call_defs using True
    by (auto intro!: emits_bind_kube_call split: prod.split)
next
  case False
  obtain c fs where add: "AddFinalizer (rr_Client r) (om_Finalizers (tr_Meta rt)) TunnelRouteFinalizer = (c, fs)"
    by fastforce
  with False have "c" and "TunnelRouteFinalizer \<in> set fs"
    using add_changed [of "om_Finalizers (tr_Meta rt)" TunnelRouteFinalizer]
      add_present [of TunnelRouteFinalizer "om_Finalizers (tr_Meta rt)"]
    by (auto simp: has_route_finalizer_def)
  then show ?thesis
    unfolding add_route_finalizer_def add Let_def call_defs
    by (auto intro!: emits_bind_kube_call simp: route_finalizer_on_def has_route_finalizer_def split: sum.splits)
qed

lemma route_reconcile_finalizer_first:
  "emits (route_Reconcile r req) (\<lambda>_ es. guarded route_finalizer_on is_platform es)"
  unfolding route_Reconcile_def Let_def
proof (rule emits_guarded_bind [where K = "\<lambda>got. \<forall>rt. got = Inr rt \<longrightarrow> \<not> has_route_finalizer rt"], goal_cases)
  case 1
  show ?case
    unfolding call_defs by (auto intro!: emits_kube_call simp: route_finalizer_on_def split: sum.splits)
next
  case (2 got)
  have tunnel: "only (\<lambda>c. \<not> is_platform c) (Get_Tunnel (rr_Client r) k)" for k
    unfolding call_defs by (rule only_kube_call) simp
  have finish: "only (\<lambda>c. \<not> is_platform c) (route_finish (rr_Client r) rt res e)" for rt res e
    by (rule only_route_finish) simp
  have add: "\<not> has_route_finalizer rt \<Longrightarrow> emits (add_route_finalizer (rr_Client r) rt) (\<lambda>f es.
      guarded route_finalizer_on is_platform es \<and> (isl f \<or> (\<exists>e \<in> set es. route_finalizer_on e)))" for rt
    by (rule emits_mono [OF add_route_finalizer_first]) auto
  from 2 show ?case
    by (auto intro!: emits_guarded_quiet_bind [OF tunnel] only_guarded [OF finish] emits_guarded_bind [OF add]
        grows_intro route_sync_grows simp: route_delete_without_finalizer split: sum.split)
next
  case (3 got)
  show ?case
    by (auto intro!: grows_intro route_sync_grows route_delete_grows split: sum.split)
qed

end

section \<open>The upstream before the platform\<close>

lemma resolve_guarded:
  assumes "rs_Upstream (tr_Spec rt) = None"
  shows "emits (resolveUpstream r rt) (\<lambda>res es. guarded (service_resolves rt) is_platform es \<and>
    ((case res of Some (Inr _) \<Rightarrow> False | _ \<Rightarrow> True) \<or> (\<exists>e \<in> set es. service_resolves rt e)))"
proof (cases "rs_Service (tr_Spec rt)")
  case None
  with assms show ?thesis by (auto simp: resolveUpstream_def)
next
  case (Some t)
  show ?thesis
    unfolding resolveUpstream_def call_defs assms Some option.case
    by (rule emits_bind_kube_call) (auto simp: service_resolves_def Some split: sum.split)
qed

lemma route_sync_resolves_first:
  assumes "client_factory (rr_API r)" and "rs_Upstream (tr_Spec rt) = None"
  shows "emits (route_sync r rt t) (\<lambda>_ es. guarded (service_resolves rt) is_platform es)"
proof -
  have finish: "only (\<lambda>c. \<not> is_platform c) (route_finish (rr_Client r) rt' res e)" for rt' res e
    by (rule only_route_finish) simp
  have event: "only (\<lambda>c. \<not> is_platform c) (Eventf a b c d e)" for a b c d e
    by (rule only_Eventf) simp
  have "grows (rr_API r t)" for t by (rule client_factory.ClientFor_grows [OF assms(1)])
  note publish = grows_route_publish [of r, OF this]
  show ?thesis
    unfolding route_sync_def Let_def
    by (auto intro!: only_guarded [OF finish] emits_guarded_bind [OF resolve_guarded [OF assms(2)]]
        emits_guarded_quiet_bind [OF event] grows_intro publish split: option.split sum.split prod.split)
qed

section \<open>Deletion\<close>

definition writes_route :: "call \<Rightarrow> bool" where
  "writes_route c = (case c of CUpdateRoute rt r \<Rightarrow> True | _ \<Rightarrow> False)"

definition deleted_route :: "string \<Rightarrow> string \<Rightarrow> call \<Rightarrow> bool" where
  "deleted_route tunnelID i c =
     (case c of
        CHttp h rq a \<Rightarrow> rq_Method rq = ''DELETE'' \<and> HasSuffix (rq_URL rq) (routePath tunnelID i) \<and> gone a
      | _ \<Rightarrow> False)"

text \<open>What a listing of the tunnel's routes says of the route to delete: none, or its identifier.\<close>

definition listed_route :: "TunnelRoute \<Rightarrow> string \<Rightarrow> call \<Rightarrow> string option option" where
  "listed_route rt tunnelID c =
     (case c of
        CHttp h rq (Inr resp) \<Rightarrow>
          if rq_Method rq = ''GET'' \<and> HasSuffix (rq_URL rq) (routesPath tunnelID) \<and> resp_StatusCode resp < 400
          then map_option (\<lambda>rs. map_option ro_ID (pick_route rt rs))
                 (if resp_StatusCode resp = 204 then Some []
                  else map_option fst (Option.bind (parse_first (resp_Body resp)) (\<lambda>j. dec_routes j ([], 0))))
          else None
      | _ \<Rightarrow> None)"

text \<open>
  The calls so far dispose of the route in the tunnel its spec names: the Tunnel object is gone, or
  has no tunnel on record, or the route on record was deleted or not there, or none was on record
  and a listing of the tunnel's routes shows none for it, or shows one that was deleted.
\<close>

definition route_disposed :: "'x env \<Rightarrow> TunnelRoute \<Rightarrow> (gerr + Tunnel) \<Rightarrow> call list \<Rightarrow> bool" where
  "route_disposed env rt tunnel_read es =
     (case tunnel_read of
        Inl e \<Rightarrow> kIsNotFound env e
      | Inr t \<Rightarrow>
          (let i = st_TunnelID (tn_Status t) in
           i = [] \<or>
           (if rt_RouteID (tr_Status rt) \<noteq> [] then list_ex (deleted_route i (rt_RouteID (tr_Status rt))) es
            else list_ex (\<lambda>c. case listed_route rt i c of
                   Some None \<Rightarrow> True
                 | Some (Some j) \<Rightarrow> list_ex (deleted_route i j) es
                 | None \<Rightarrow> False) es)))"

lemma emits_DeleteRoute_gone:
  "emits (DeleteRoute env api t i) (\<lambda>d es. (\<forall>c \<in> set es. \<not> writes_route c) \<and>
     ((case d of Inl e \<Rightarrow> IsNotFound e | Inr _ \<Rightarrow> True) \<longrightarrow> (\<exists>c \<in> set es. deleted_route t i c)))"
  unfolding DeleteRoute_def
  by (rule emits_mono [OF emits_do_request])
     (auto simp: deleted_route_def writes_route_def build_request_def HasSuffix_iff IsNotFound_def [of "ErrWrap s e" for s e]
        dest: read_answer_gone)

lemma listed_route_build:
  "listed_route rt i (CHttp h (build_request s ''GET'' (routesPath i) b) ans) =
     (case read_answer env s m p (Some dec_routes) ([], 0) ans of
        Inr rs \<Rightarrow> Some (map_option ro_ID (pick_route rt (fst rs))) | Inl _ \<Rightarrow> None)"
  unfolding listed_route_def read_answer_def
  by (cases ans) (simp_all add: build_request_def HasSuffix_iff split: option.split)

lemma emits_findRoute_listed:
  "emits (findRoute env api rt i) (\<lambda>f es. (\<forall>c \<in> set es. \<not> writes_route c) \<and>
     (\<forall>x. f = Inr x \<longrightarrow> (\<exists>c \<in> set es. listed_route rt i c = Some (map_option ro_ID x))))"
proof -
  have "emits (ListRoutes env api i) (\<lambda>f es. (\<forall>c \<in> set es. \<not> writes_route c) \<and>
     (\<forall>x. f = Inr x \<longrightarrow> (\<exists>c \<in> set es. listed_route rt i c = Some (map_option ro_ID (pick_route rt x)))))"
    unfolding ListRoutes_def
  proof (rule emits_bind [OF emits_do_request], elim disjE exE conjE, goal_cases)
    case (2 a es ans)
    then show ?case
      by (cases "read_answer env api ''GET'' (routesPath i) (Some dec_routes) ([], 0) ans")
         (auto simp: writes_route_def listed_route_build [of rt i _ api None ans env "''GET''" "routesPath i"])
  qed auto
  then show ?thesis
    unfolding findRoute_def by (rule emits_bind) (auto split: sum.split simp: map_sum_def split: sum.splits)
qed

text \<open>What is to be deleted: nothing, or an identifier on record or from a listing.\<close>

definition route_target :: "TunnelRoute \<Rightarrow> string \<Rightarrow> call list \<Rightarrow> string option \<Rightarrow> bool" where
  "route_target rt i es x =
     (if rt_RouteID (tr_Status rt) \<noteq> [] then x = Some (rt_RouteID (tr_Status rt))
      else list_ex (\<lambda>c. listed_route rt i c = Some x) es)"

lemma emits_route_to_delete:
  "emits (route_to_delete env api rt i) (\<lambda>x es. (\<forall>c \<in> set es. \<not> writes_route c) \<and>
     (\<forall>j. x = Inr j \<longrightarrow> route_target rt i es j))"
proof (cases "rt_RouteID (tr_Status rt) = []")
  case False
  then show ?thesis by (auto simp: route_to_delete_def route_target_def)
next
  case True
  then show ?thesis
    unfolding route_to_delete_def Let_def
    by (simp, intro emits_bind [OF emits_findRoute_listed])
       (auto simp: route_target_def list_ex_iff map_sum_def split: sum.splits)
qed

text \<open>It is gone: there was nothing to delete, or the platform confirmed the delete.\<close>

definition route_removed :: "TunnelRoute \<Rightarrow> string \<Rightarrow> call list \<Rightarrow> bool" where
  "route_removed rt i es =
     (route_target rt i es None \<or> (\<exists>j. route_target rt i es (Some j) \<and> (\<exists>c \<in> set es. deleted_route i j c)))"

lemma route_target_append: "route_target rt i es x \<Longrightarrow> route_target rt i (pre @ es @ post) x"
  by (auto simp: route_target_def split: if_splits)

lemma route_removed_append: "route_removed rt i es \<Longrightarrow> route_removed rt i (pre @ es)"
  unfolding route_removed_def using route_target_append [of rt i es _ pre "[]"] by auto

lemma route_removed_left:
  assumes "route_removed rt i es" and "st_TunnelID (tn_Status t) = i"
  shows "route_disposed env rt (Inr t) es"
  using assms
  by (fastforce simp: route_removed_def route_target_def route_disposed_def list_ex_iff Let_def split: if_splits)

lemma emits_clean_up_route:
  "emits (clean_up_route env api rt i) (\<lambda>d es. (\<forall>c \<in> set es. \<not> writes_route c) \<and> (d = Inr () \<longrightarrow> route_removed rt i es))"
  unfolding clean_up_route_def
proof (rule emits_bind [OF emits_route_to_delete], goal_cases)
  case (1 target es)
  then have quiet: "\<forall>c \<in> set es. \<not> writes_route c" and t: "\<And>x. target = Inr x \<Longrightarrow> route_target rt i es x" by auto
  show ?case
  proof (cases target)
    case (Inl e)
    with quiet show ?thesis by auto
  next
    case (Inr x)
    show ?thesis
    proof (cases x)
      case None
      with Inr t [OF Inr] quiet show ?thesis by (auto simp: route_removed_def)
    next
      case (Some j)
      have removed: "route_removed rt i (es @ es')" if "c \<in> set es'" "deleted_route i j c" for c es'
        unfolding route_removed_def
        using route_target_append [OF t [OF Inr], of "[]" es'] that Some by auto
      show ?thesis
        unfolding Inr Some sum.case option.case
      proof (rule emits_bind [OF emits_DeleteRoute_gone], goal_cases)
        case (1 d es')
        with quiet show ?case by (cases d) (auto dest: removed)
      qed
    qed
  qed
qed

lemma factory_writes_no_route:
  assumes "client_factory api"
  shows "emits (api t) (\<lambda>_ es. \<forall>c \<in> set es. \<not> writes_route c)"
  by (rule emits_mono [OF client_factory.ClientFor_calls [OF assms]])
     (auto simp: reads_only_own_secret_def writes_route_def)

lemma quiet_calls [simp]: "\<not> writes_route (CGetTunnel k a)" "\<not> writes_route (CEvent k b c d e)"
  by (simp_all add: writes_route_def)

lemma emits_deleteRemoteRoute:
  assumes "client_factory (rr_API r)"
  shows "emits (deleteRemoteRoute r rt i) (\<lambda>d es. (\<forall>c \<in> set es. \<not> writes_route c) \<and> (d = Inr () \<longrightarrow> route_removed rt i es))"
proof -
  have clean: "emits (clean_up_route env api rt i) (\<lambda>d es. (\<forall>c \<in> set (pre @ es). \<not> writes_route c) \<and>
      (d = Inr () \<longrightarrow> route_removed rt i (pre @ es)))" if "\<forall>c \<in> set pre. \<not> writes_route c" for env api pre
    by (rule emits_mono [OF emits_clean_up_route]) (use that route_removed_append in auto)
  show ?thesis
    unfolding deleteRemoteRoute_def Let_def call_defs
  proof (rule emits_bind_kube_call, goal_cases)
    case (1 got)
    show ?case
    proof (cases got)
      case (Inr t)
      show ?thesis
        unfolding Inr sum.case
      proof (rule emits_bind [OF factory_writes_no_route [OF assms]], goal_cases)
        case (1 cl es)
        then show ?case
          using clean [of "CGetTunnel (nn (om_Namespace (tr_Meta rt)) (rs_TunnelRef (tr_Spec rt))) (Inr t) # es"]
          by (auto intro!: emits_bind_Eventf split: sum.split)
      qed
    qed auto
  qed
qed

lemma drop_route_finalizer_justified:
  assumes "route_disposed env' rt tr es" and "\<forall>c \<in> set es. \<not> writes_route c"
  shows "emits (drop_route_finalizer env rt) (\<lambda>_ es'. justified writes_route (route_disposed env' rt tr) (es @ es'))"
  unfolding drop_route_finalizer_def call_defs
  by (rule emits_bind_kube_call, rule emits_ret, rule justified_last) (use assms in auto)

lemma route_delete_justified:
  assumes "client_factory (rr_API r)"
  shows "emits (route_reconcileDelete r rt tr) (\<lambda>_ es. justified writes_route (route_disposed (rr_Client r) rt tr) es)"
proof -
  have drop: "emits (drop_route_finalizer env rt) (\<lambda>_ es'. justified writes_route (route_disposed (rr_Client r) rt tr) es')"
    if "route_disposed (rr_Client r) rt tr []" for env :: "'a env"
    using drop_route_finalizer_justified [OF that] by simp
  show ?thesis
  proof (cases tr)
    case (Inl e)
    with drop show ?thesis
      unfolding route_reconcileDelete_def Let_def Inl sum.case
      by (auto simp: route_disposed_def intro!: justified_none)
  next
    case (Inr t)
    have after: "emits (drop_route_finalizer (rr_Client r) rt)
        (\<lambda>_ es'. justified writes_route (route_disposed (rr_Client r) rt (Inr t)) (es @ es'))"
      if "\<forall>c \<in> set es. \<not> writes_route c" "route_removed rt (st_TunnelID (tn_Status t)) es" for es
      by (rule drop_route_finalizer_justified [OF route_removed_left [OF that(2) refl] that(1)])
    show ?thesis
      using drop unfolding route_reconcileDelete_def Let_def Inr sum.case
      by (auto intro!: emits_bind [OF emits_deleteRemoteRoute [OF assms]] after justified_none
          simp: route_disposed_def Inr split: sum.split)
  qed
qed

section \<open>Panics\<close>

lemma resolve_none_iff:
  "emits (resolveUpstream r rt) (\<lambda>res _. res = None \<longleftrightarrow> rs_Upstream (tr_Spec rt) = None \<and> rs_Service (tr_Spec rt) = None)"
  unfolding resolveUpstream_def call_defs
  by (auto intro!: emits_bind_kube_call split: option.split sum.split)

lemma route_finish_returns: "emits (route_finish env rt res e) (\<lambda>out _. out \<noteq> Panicked)"
  unfolding route_finish_def Let_def call_defs
  by (auto intro!: emits_bind_kube_call split: sum.split option.split)

lemma route_publish_returns:
  assumes "\<And>t. grows (rr_API r t)"
  shows "emits (route_publish r rt t host port) (\<lambda>out _. out \<noteq> Panicked)"
  unfolding route_publish_def Let_def
  by (rule emits_bind [OF emits_trivial [OF assms TrueI]])
     (auto intro!: route_finish_returns emits_bind_Eventf emits_bind [OF emits_trivial [OF grows_route_parts(3) TrueI]]
      split: sum.split)

lemma route_sync_panics_iff:
  assumes "\<And>t. grows (rr_API r t)"
  shows "emits (route_sync r rt t) (\<lambda>out _. out = Panicked \<longleftrightarrow>
    st_TunnelID (tn_Status t) \<noteq> [] \<and> rs_Upstream (tr_Spec rt) = None \<and> rs_Service (tr_Spec rt) = None)"
proof (cases "st_TunnelID (tn_Status t) = []")
  case True
  then show ?thesis by (simp add: route_sync_def Let_def route_finish_returns)
next
  case False
  show ?thesis
    unfolding route_sync_def Let_def if_not_P [OF False]
  proof (rule emits_bind [OF resolve_none_iff], goal_cases)
    case (1 res es)
    show ?case
    proof (cases res)
      case None
      with 1 False show ?thesis by auto
    next
      case (Some y)
      with 1 have "\<not> (rs_Upstream (tr_Spec rt) = None \<and> rs_Service (tr_Spec rt) = None)" by simp
      then have iff: "(\<lambda>out _. out = Panicked \<longleftrightarrow> st_TunnelID (tn_Status t) \<noteq> []
          \<and> rs_Upstream (tr_Spec rt) = None \<and> rs_Service (tr_Spec rt) = None) = (\<lambda>out _. out \<noteq> Panicked)"
        by auto
      show ?thesis
        unfolding Some option.case iff
        by (cases y) (auto intro!: route_finish_returns route_publish_returns [OF assms] emits_bind_Eventf split: prod.split)
    qed
  qed
qed

section \<open>Roll-up\<close>

definition route_rolled_up :: "TunnelRoute \<Rightarrow> bool" where
  "route_rolled_up rt =
     (cond_true (rt_Conditions (tr_Status rt)) TunnelRouteConditionReady \<longleftrightarrow>
        cond_true (rt_Conditions (tr_Status rt)) TunnelRouteConditionResolved
        \<and> cond_true (rt_Conditions (tr_Status rt)) TunnelRouteConditionSynced)"

definition status_rolled_up :: "call \<Rightarrow> bool" where
  "status_rolled_up c = (case c of CStatusRoute rt r \<Rightarrow> route_rolled_up rt | _ \<Rightarrow> True)"

context condition_lib begin

lemma route_setReady_rolls_up:
  assumes "SetStatusCondition env = set_cond" and "IsStatusConditionTrue env = is_true"
  shows "route_rolled_up (route_setReady env rt)"
  by (auto simp: route_rolled_up_def route_setReady_def with_route_cond_def assms cond_true_set is_true_iff Let_def)

lemma route_finish_rolls_up:
  assumes "route_rolled_up rt"
  shows "only status_rolled_up (route_finish env rt res e)"
proof -
  have "status_rolled_up (CStatusRoute (rt\<lparr>tr_Status := (tr_Status rt)\<lparr>rt_ObservedGeneration := g\<rparr>\<rparr>) a)" for g a
    using assms by (simp add: status_rolled_up_def route_rolled_up_def)
  then show ?thesis
    unfolding route_finish_def Let_def call_defs by (auto intro!: only_intro split: sum.split option.split)
qed

lemma publish_rolls_up:
  assumes "SetStatusCondition (rr_Client r) = set_cond" and "IsStatusConditionTrue (rr_Client r) = is_true"
    and "client_factory (rr_API r)"
  shows "only status_rolled_up (route_publish r rt t host port)"
proof -
  have api: "only status_rolled_up (rr_API r t)"
    unfolding only_def
    by (rule emits_mono [OF client_factory.ClientFor_calls [OF assms(3)]])
       (auto simp: reads_only_own_secret_def status_rolled_up_def)
  have ensure: "only status_rolled_up (ensureRoute env api rt i host port)" for env :: "'a env" and api rt i
    by (rule only_ensureRoute) (simp_all add: status_rolled_up_def)
  note ready = route_finish_rolls_up [OF route_setReady_rolls_up [OF assms(1,2)]]
  show ?thesis
    unfolding route_publish_def published_status_def Let_def
    by (auto intro!: only_bind [OF api] only_bind [OF ensure] only_intro ready
        simp: status_rolled_up_def [of "CEvent a b c d e" for a b c d e] split: sum.split)
qed

lemma reconcile_rolls_up:
  assumes "SetStatusCondition (rr_Client r) = set_cond" and "IsStatusConditionTrue (rr_Client r) = is_true"
    and "client_factory (rr_API r)"
  shows "only status_rolled_up (route_Reconcile r req)"
proof -
  note ready = route_finish_rolls_up [OF route_setReady_rolls_up [OF assms(1,2)]]
  have api: "only status_rolled_up (rr_API r t)" for t
    unfolding only_def
    by (rule emits_mono [OF client_factory.ClientFor_calls [OF assms(3)]])
       (auto simp: reads_only_own_secret_def status_rolled_up_def)
  have kube: "status_rolled_up (CGetRoute k a1)" "status_rolled_up (CGetTunnel k a2)"
    "status_rolled_up (CUpdateRoute rt a3)" "status_rolled_up (CGetService k a4)" "status_rolled_up (CHttp h rq a5)"
    "status_rolled_up (CEvent a b c d e)" for k rt a1 a2 a3 a4 a5 h rq a b c d e
    by (simp_all add: status_rolled_up_def)
  have sync: "only status_rolled_up (route_sync r rt t)" for rt t
    unfolding route_sync_def Let_def
    by (auto intro!: only_intro ready only_bind [OF only_resolveUpstream] publish_rolls_up [OF assms] simp: kube
        split: option.split sum.split prod.split)
  have del: "only status_rolled_up (route_reconcileDelete r rt tr)" for rt tr
    unfolding route_reconcileDelete_def deleteRemoteRoute_def clean_up_route_def DeleteRoute_def Let_def call_defs
    by (auto intro!: only_intro api only_drop_route_finalizer only_route_to_delete simp: kube split: option.split sum.split)
  show ?thesis
    unfolding route_Reconcile_def add_route_finalizer_def Let_def call_defs
    by (auto intro!: only_intro ready sync del simp: kube split: sum.split prod.split)
qed

end

end
