(* ===== verification/Isolation.thy ===== *)
theory Isolation
  imports Route_Ordering
begin

text \<open>
  Namespaces are the boundary of trust: whatever a Tunnel or TunnelRoute names (a credential, a
  tunnel, a Service), it is only ever looked for in the object's own namespace, and only objects
  of that namespace are written.
\<close>

definition in_namespace :: "string \<Rightarrow> call \<Rightarrow> bool" where
  "in_namespace ns c =
     (case c of
        CGetTunnel k _ \<Rightarrow> nn_Namespace k = ns
      | CGetRoute k _ \<Rightarrow> nn_Namespace k = ns
      | CGetSecret k _ \<Rightarrow> nn_Namespace k = ns
      | CGetService k _ \<Rightarrow> nn_Namespace k = ns
      | CListRoutes n _ _ \<Rightarrow> n = ns
      | CUpdateTunnel t _ \<Rightarrow> om_Namespace (tn_Meta t) = ns
      | CStatusTunnel t _ \<Rightarrow> om_Namespace (tn_Meta t) = ns
      | CUpdateRoute r _ \<Rightarrow> om_Namespace (tr_Meta r) = ns
      | CStatusRoute r _ \<Rightarrow> om_Namespace (tr_Meta r) = ns
      | CApplySecret s _ \<Rightarrow> om_Namespace (sec_Meta s) = ns
      | CApplyDeployment d _ \<Rightarrow> om_Namespace (dp_Meta d) = ns
      | CEvent k _ _ _ _ \<Rightarrow> nn_Namespace k = ns
      | CHttp _ _ _ \<Rightarrow> True)"

lemma in_namespace_simps [simp]:
  "in_namespace ns (CGetTunnel k a1) \<longleftrightarrow> nn_Namespace k = ns" "in_namespace ns (CGetRoute k a2) \<longleftrightarrow> nn_Namespace k = ns"
  "in_namespace ns (CGetSecret k a3) \<longleftrightarrow> nn_Namespace k = ns" "in_namespace ns (CGetService k a4) \<longleftrightarrow> nn_Namespace k = ns"
  "in_namespace ns (CUpdateTunnel t a5) \<longleftrightarrow> om_Namespace (tn_Meta t) = ns"
  "in_namespace ns (CStatusTunnel t a6) \<longleftrightarrow> om_Namespace (tn_Meta t) = ns"
  "in_namespace ns (CUpdateRoute r a7) \<longleftrightarrow> om_Namespace (tr_Meta r) = ns"
  "in_namespace ns (CStatusRoute r a8) \<longleftrightarrow> om_Namespace (tr_Meta r) = ns"
  "in_namespace ns (CApplySecret s a9) \<longleftrightarrow> om_Namespace (sec_Meta s) = ns"
  "in_namespace ns (CApplyDeployment d a10) \<longleftrightarrow> om_Namespace (dp_Meta d) = ns"
  "in_namespace ns (CEvent k e1 e2 e3 e4) \<longleftrightarrow> nn_Namespace k = ns" "in_namespace ns (CHttp h rq a11)"
  by (simp_all add: in_namespace_def)

lemma key_namespace: "key_of m = k \<Longrightarrow> om_Namespace m = nn_Namespace k"
  by (auto simp: key_of_def)

lemma key_of_namespace [simp]: "nn_Namespace (key_of m) = om_Namespace m"
  by (simp add: key_of_def)

lemma metas [simp]:
  "tr_Meta (with_route_cond env rt a b c d) = tr_Meta rt" "tr_Meta (route_setReady env rt) = tr_Meta rt"
  "tr_Meta (route_setSynced env rt a b c) = tr_Meta rt" "tr_Meta (route_setResolved env rt a b c) = tr_Meta rt"
  "tn_Meta (with_tunnel_cond env t a b c d) = tn_Meta t" "tn_Meta (setReady env t s) = tn_Meta t"
  "tn_Meta (setSynced env t a b c) = tn_Meta t" "tn_Meta (setAgentAvailable env t dp) = tn_Meta t"
  by (simp_all add: with_route_cond_def route_setReady_def route_setSynced_def route_setResolved_def
      with_tunnel_cond_def setReady_def setSynced_def setAgentAvailable_def Let_def)

lemma factory_in_namespace:
  assumes "client_factory api" and "om_Namespace (tn_Meta t) = ns"
  shows "only (in_namespace ns) (api t)"
  unfolding only_def
  by (rule emits_mono [OF client_factory.ClientFor_calls [OF assms(1)]])
     (use assms(2) in \<open>auto simp: reads_only_own_secret_def\<close>)

section \<open>Routes\<close>

lemma route_finish_in: "om_Namespace (tr_Meta rt) = ns \<Longrightarrow> only (in_namespace ns) (route_finish env rt res e)"
  unfolding route_finish_def Let_def call_defs by (auto intro!: only_intro split: sum.split option.split)

lemma ensureRoute_in:
  "om_Namespace (tr_Meta rt) = ns \<Longrightarrow> only (in_namespace ns) (ensureRoute env api rt i host port)"
  unfolding ensureRoute_def create_and_reconcile_def reconcile_drift_def CreateRoute_def UpdateRoute_def
    DeleteRoute_def Let_def
  by (auto intro!: only_intro only_findRoute split: sum.split option.split prod.split)

lemma route_publish_in:
  assumes "client_factory (rr_API r)" and "om_Namespace (tr_Meta rt) = ns" and "om_Namespace (tn_Meta t) = ns"
  shows "only (in_namespace ns) (route_publish r rt t host port)"
  unfolding route_publish_def published_status_def Let_def
  by (auto intro!: only_bind [OF factory_in_namespace [OF assms(1,3)]] ensureRoute_in only_intro
      route_finish_in simp: assms(2) split: sum.split)

lemma route_sync_in:
  assumes "client_factory (rr_API r)" and "om_Namespace (tr_Meta rt) = ns" and "om_Namespace (tn_Meta t) = ns"
  shows "only (in_namespace ns) (route_sync r rt t)"
  unfolding route_sync_def Let_def
  by (auto intro!: only_intro route_finish_in only_bind [OF only_resolveUpstream] route_publish_in [OF assms]
      simp: assms(2) split: option.split sum.split prod.split)

lemma get_tunnel_in:
  assumes "object_names env" and "nn_Namespace k = ns"
  shows "emits (Get_Tunnel env k) (\<lambda>got es. (\<forall>t. got = Inr t \<longrightarrow> om_Namespace (tn_Meta t) = ns) \<and>
    (\<forall>c \<in> set es. in_namespace ns c))"
  unfolding call_defs
  by (rule emits_kube_call_ans)
     (use assms(2) in \<open>auto dest!: object_names.get_tunnel_key [OF assms(1)] key_namespace\<close>)

lemma get_route_in:
  assumes "object_names env"
  shows "emits (Get_TunnelRoute env k) (\<lambda>got es. (\<forall>t. got = Inr t \<longrightarrow> om_Namespace (tr_Meta t) = nn_Namespace k) \<and>
    (\<forall>c \<in> set es. in_namespace (nn_Namespace k) c))"
  unfolding call_defs
  by (rule emits_kube_call_ans) (auto dest!: object_names.get_route_key [OF assms] key_namespace)

lemma add_route_finalizer_in:
  assumes "object_names env" and "om_Namespace (tr_Meta rt) = ns"
  shows "emits (add_route_finalizer env rt) (\<lambda>f es. (\<forall>t. f = Inr t \<longrightarrow> om_Namespace (tr_Meta t) = ns) \<and>
    (\<forall>c \<in> set es. in_namespace ns c))"
  unfolding add_route_finalizer_def Let_def call_defs
  by (auto intro!: emits_bind_kube_call_ans dest!: object_names.update_route_key [OF assms(1)] key_namespace
      simp: assms(2) split: prod.split sum.splits)

lemma deleteRemoteRoute_in:
  assumes "client_factory (rr_API r)" and "object_names (rr_Client r)" and "om_Namespace (tr_Meta rt) = ns"
  shows "only (in_namespace ns) (deleteRemoteRoute r rt i)"
proof -
  have clean: "only (in_namespace ns') (clean_up_route env api rt i)" for env :: "'a env" and api ns'
    unfolding clean_up_route_def DeleteRoute_def
    by (auto intro!: only_intro only_route_to_delete split: sum.split option.split)
  show ?thesis
    unfolding deleteRemoteRoute_def Let_def
    by (rule only_bind_fact [OF get_tunnel_in [OF assms(2)]])
       (auto intro!: only_intro only_bind [OF factory_in_namespace [OF assms(1)]] clean
        simp: assms(3) split: sum.split)
qed

lemma route_delete_in:
  assumes "client_factory (rr_API r)" and "object_names (rr_Client r)" and "om_Namespace (tr_Meta rt) = ns"
  shows "only (in_namespace ns) (route_reconcileDelete r rt tr)"
proof -
  have drop: "only (in_namespace ns) (drop_route_finalizer env rt)" for env :: "'a env"
    unfolding drop_route_finalizer_def call_defs by (auto intro!: only_intro simp: assms(3))
  show ?thesis
    unfolding route_reconcileDelete_def Let_def
    by (auto intro!: only_intro drop only_bind [OF deleteRemoteRoute_in [OF assms]] split: sum.split)
qed

lemma route_reconcile_in:
  assumes "client_factory (rr_API r)" and "object_names (rr_Client r)"
  shows "only (in_namespace (nn_Namespace req)) (route_Reconcile r req)"
  unfolding route_Reconcile_def Let_def
  by (rule only_bind_fact [OF get_route_in [OF assms(2)]])
     (auto intro!: only_intro only_bind_fact [OF get_tunnel_in [OF assms(2)]] route_delete_in [OF assms] route_finish_in
        only_bind_fact [OF add_route_finalizer_in [OF assms(2)]] route_sync_in [OF assms(1)] split: sum.split)

section \<open>Tunnels\<close>

lemma tunnel_finish_in: "om_Namespace (tn_Meta t) = ns \<Longrightarrow> only (in_namespace ns) (tunnel_finish env t res e)"
  unfolding tunnel_finish_def Let_def call_defs by (auto intro!: only_intro split: sum.split option.split)

lemma tunnel_fail_in: "om_Namespace (tn_Meta t) = ns \<Longrightarrow> only (in_namespace ns) (tunnel_fail env t action err)"
  unfolding tunnel_fail_def Let_def by (auto intro!: only_intro tunnel_finish_in)

lemma credential_in:
  assumes "om_Namespace (tn_Meta t) = ns"
  shows "only (in_namespace ns) (ensureCredentialSecret env api t i tok)"
proof -
  have store: "only (in_namespace ns) (store_token env t tok')" for tok'
    unfolding store_token_def blank_secret_def call_defs by (rule only_kube_call) (simp add: assms)
  show ?thesis
    unfolding ensureCredentialSecret_def Let_def call_defs
    by (auto intro!: only_intro store only_RotateToken simp: assms split: sum.split)
qed

lemma agent_in: "om_Namespace (tn_Meta t) = ns \<Longrightarrow> only (in_namespace ns) (ensureAgentDeployment env img t v)"
  unfolding ensureAgentDeployment_def blank_deployment_def Let_def call_defs
  by (rule only_kube_call) (simp add: buildAgentDeployment_def Let_def)

lemma realise_in: "om_Namespace (tn_Meta t) = ns \<Longrightarrow> only (in_namespace ns) (tunnel_realise r api t remote tok)"
  unfolding tunnel_realise_def synced_status_def Let_def
  by (auto intro!: only_intro credential_in agent_in tunnel_fail_in tunnel_finish_in split: sum.split)

lemma record_in:
  assumes "object_names env" and "om_Namespace (tn_Meta t) = ns"
  shows "emits (record_external_id env t) (\<lambda>a es. om_Namespace (tn_Meta (fst a)) = ns \<and> (\<forall>c \<in> set es. in_namespace ns c))"
  unfolding record_external_id_def Let_def call_defs
  by (auto intro!: emits_bind_kube_call_ans dest!: object_names.status_tunnel_key [OF assms(1)] key_namespace
      simp: assms(2) split: sum.splits)

lemma get_remote_in: "only (in_namespace ns) (GetTunnel env api i)"
  by (rule only_GetTunnel) simp

lemma create_tunnel_in:
  assumes "object_names env" and "om_Namespace (tn_Meta t) = ns"
  shows "emits (create_tunnel env api t) (\<lambda>a es. om_Namespace (tn_Meta (fst a)) = ns \<and> (\<forall>c \<in> set es. in_namespace ns c))"
proof -
  have made: "emits (create_and_read env api i) (\<lambda>_ es. \<forall>c \<in> set es. in_namespace ns c)" for i
    unfolding only_def [symmetric] create_and_read_def
    by (auto intro!: only_intro only_CreateTunnel get_remote_in split: sum.split)
  show ?thesis
    unfolding create_tunnel_def Let_def
    by (rule emits_bind [OF record_in [OF assms]])
       (auto intro!: emits_bind [OF made] split: prod.split option.split)
qed

lemma ensureTunnel_in:
  assumes "object_names env" and "om_Namespace (tn_Meta t) = ns"
  shows "emits (ensureTunnel env api t) (\<lambda>a es. om_Namespace (tn_Meta (fst a)) = ns \<and> (\<forall>c \<in> set es. in_namespace ns c))"
  unfolding ensureTunnel_def Let_def
  by (auto intro!: emits_bind [OF get_remote_in [of ns, unfolded only_def]] create_tunnel_in [OF assms]
      emits_mono [OF create_tunnel_in [OF assms]] simp: assms(2) split: sum.split)

lemma tunnel_sync_in:
  assumes "client_factory (rc_API r)" and "object_names (rc_Client r)" and "om_Namespace (tn_Meta t) = ns"
  shows "only (in_namespace ns) (tunnel_sync r t)"
  unfolding tunnel_sync_def Let_def
  by (auto intro!: only_bind [OF factory_in_namespace [OF assms(1,3)]] only_bind_fact [OF ensureTunnel_in [OF assms(2,3)]]
      only_intro tunnel_finish_in tunnel_fail_in realise_in simp: assms(3) split: sum.split prod.split option.split)

lemma tunnel_delete_in:
  assumes "client_factory (rc_API r)" and "om_Namespace (tn_Meta t) = ns"
  shows "only (in_namespace ns) (tunnel_reconcileDelete r t)"
proof -
  have drop: "only (in_namespace ns) (drop_tunnel_finalizer env t)" for env :: "'a env"
    unfolding drop_tunnel_finalizer_def call_defs by (auto intro!: only_intro simp: assms(2))
  show ?thesis
    unfolding tunnel_reconcileDelete_def clean_up_tunnel_def release_tunnel_def tunnel_to_delete_def DeleteTunnel_def Let_def
    by (auto intro!: only_bind [OF factory_in_namespace [OF assms]] only_intro drop only_FindTunnelByExternalID
        simp: assms(2) split: sum.split option.split)
qed

lemma add_tunnel_finalizer_in:
  assumes "object_names env" and "om_Namespace (tn_Meta t) = ns"
  shows "emits (add_tunnel_finalizer env t) (\<lambda>f es. (\<forall>t'. f = Inr t' \<longrightarrow> om_Namespace (tn_Meta t') = ns) \<and>
    (\<forall>c \<in> set es. in_namespace ns c))"
  unfolding add_tunnel_finalizer_def Let_def call_defs
  by (auto intro!: emits_bind_kube_call_ans dest!: object_names.update_tunnel_key [OF assms(1)] key_namespace
      simp: assms(2) split: prod.split sum.splits)

lemma tunnel_reconcile_in:
  assumes "client_factory (rc_API r)" and "object_names (rc_Client r)"
  shows "only (in_namespace (nn_Namespace req)) (tunnel_Reconcile r req)"
  unfolding tunnel_Reconcile_def Let_def
  by (rule only_bind_fact [OF get_tunnel_in [OF assms(2) refl]])
     (auto intro!: only_intro tunnel_delete_in [OF assms(1)] only_bind_fact [OF add_tunnel_finalizer_in [OF assms(2)]]
        tunnel_sync_in [OF assms] split: sum.split)

end
