(* ===== verification/Fake_Api.thy ===== *)
theory Fake_Api
  imports Tunnel_Client
begin

text \<open>
  \<^verbatim>\<open>internal/controller/fakeapi_test.go\<close>: the tunnel API the repository's tests run the reconcilers
  against, which reproduces the behaviours of the platform they depend on. It serves whole HTTP
  requests, so that running the client against it goes through every path, escape and JSON form on
  both sides. A body that does not decode leaves the zero value.
\<close>

section \<open>State\<close>

record fakeTunnel =
  ft_tunnel :: NTunnel
  ft_token :: string

text \<open>The Go maps are association lists in the order of creation.\<close>

record fakeAPI =
  fa_tunnels :: "(string \<times> fakeTunnel) list"
  fa_routes :: "string \<Rightarrow> Route list"
  fa_nextID :: nat
  fa_creates :: nat
  fa_rotations :: nat

definition newFakeAPI :: fakeAPI where
  "newFakeAPI = \<lparr>fa_tunnels = [], fa_routes = (\<lambda>_. []), fa_nextID = 0, fa_creates = 0, fa_rotations = 0\<rparr>"

definition fake_delete_tunnel :: "string \<Rightarrow> fakeAPI \<Rightarrow> fakeAPI" where
  "fake_delete_tunnel i f = f\<lparr>fa_tunnels := filter (\<lambda>(k, _). k \<noteq> i) (fa_tunnels f),
     fa_routes := (fa_routes f)(i := [])\<rparr>"

section \<open>JSON forms the server writes and reads\<close>

definition enc_tunnel_members :: "NTunnel \<Rightarrow> members" where
  "enc_tunnel_members t =
     [(''id'', JStr (nt_ID t)), (''account_id'', JStr (nt_AccountID t)), (''user_id'', JStr (nt_UserID t))]
     @ omit_str ''name'' (nt_Name t) @ omit_str ''external_id'' (nt_ExternalID t)
     @ [(''tunnel_subdomain'', JStr (nt_TunnelSubdomain t)), (''wireguard_ip'', JStr (nt_WireGuardIP t))]
     @ omit_str ''wireguard_public_key'' (nt_WireGuardPublicKey t)
     @ [(''status'', JStr (nt_Status t)), (''online_status'', JStr (nt_OnlineStatus t))]
     @ omit_nil ''last_handshake_at'' JStr (nt_LastHandshakeAt t)
     @ omit_nil ''status_changed_at'' JStr (nt_StatusChangedAt t)
     @ [(''created_at'', JStr (nt_CreatedAt t)), (''updated_at'', JStr (nt_UpdatedAt t))]"

definition enc_summary :: "TunnelSummary \<Rightarrow> json" where
  "enc_summary s = JObj (enc_tunnel_members (sm_Tunnel s) @ [(''route_count'', jint (sm_RouteCount s))])"

definition enc_route :: "Route \<Rightarrow> json" where
  "enc_route r = JObj
     [(''id'', JStr (ro_ID r)), (''tunnel_id'', JStr (ro_TunnelID r)), (''type'', JStr (ro_Type r)),
      (''hostname'', JStr (ro_Hostname r)), (''path_prefix'', JStr (ro_PathPrefix r)),
      (''upstream_host'', JStr (ro_UpstreamHost r)), (''upstream_port'', jint (ro_UpstreamPort r)),
      (''upstream_scheme'', JStr (ro_UpstreamScheme r)), (''strip_prefix'', JBool (ro_StripPrefix r)),
      (''enabled'', JBool (ro_Enabled r)), (''priority'', jint (ro_Priority r)),
      (''created_at'', JStr (ro_CreatedAt r)), (''updated_at'', JStr (ro_UpdatedAt r))]"

definition enc_with_routes :: "TunnelWithRoutes \<Rightarrow> json" where
  "enc_with_routes x = JObj
     [(''tunnel'', case wr_Tunnel x of None \<Rightarrow> JNull | Some t \<Rightarrow> JObj (enc_tunnel_members t)),
      (''routes'', JArr (map enc_route (wr_Routes x)))]"

definition enc_wireguard :: "WireGuardConfig \<Rightarrow> json" where
  "enc_wireguard g = JObj
     [(''interface'', JObj [(''private_key'', JStr (wi_PrivateKey (wg_Interface g))),
        (''address'', JStr (wi_Address (wg_Interface g))), (''dns'', JStr (wi_DNS (wg_Interface g)))]),
      (''peer'', JObj [(''public_key'', JStr (wp_PublicKey (wg_Peer g))), (''endpoint'', JStr (wp_Endpoint (wg_Peer g))),
        (''allowed_ips'', JStr (wp_AllowedIPs (wg_Peer g))),
        (''persistent_keepalive'', jint (wp_PersistentKeepalive (wg_Peer g)))])]"

definition enc_created :: "CreateTunnelResult \<Rightarrow> json" where
  "enc_created x = JObj
     [(''tunnel_id'', JStr (cre_TunnelID x)), (''tunnel_token'', JStr (cre_TunnelToken x)),
      (''tunnel_subdomain'', JStr (cre_TunnelSubdomain x)), (''cname_target'', JStr (cre_CNAMETarget x)),
      (''instructions'', JStr (cre_Instructions x)), (''wireguard'', enc_wireguard (cre_WireGuard x)),
      (''wireguard_ip'', JStr (cre_WireGuardIP x)), (''adopted'', JBool (cre_Adopted x))]"

definition enc_rotated :: "RotateTokenResult \<Rightarrow> json" where
  "enc_rotated x = JObj [(''tunnel_id'', JStr (rot_TunnelID x)), (''tunnel_token'', JStr (rot_TunnelToken x))]"

definition dec_create_tunnel :: "CreateTunnelInput decoder" where
  "dec_create_tunnel = dec_struct (\<lambda>ms x. do {
     n \<leftarrow> dec_member dec_str ''name'' ms (cti_Name x);
     e \<leftarrow> dec_member dec_str ''external_id'' ms (cti_ExternalID x);
     Some \<lparr>cti_Name = n, cti_ExternalID = e\<rparr>
   })"

definition zero_create_route :: CreateRouteInput where
  "zero_create_route = \<lparr>cri_Type = [], cri_Hostname = [], cri_PathPrefix = [], cri_UpstreamHost = [],
     cri_UpstreamPort = 0, cri_UpstreamScheme = [], cri_StripPrefix = False, cri_Priority = 0\<rparr>"

definition dec_create_route :: "CreateRouteInput decoder" where
  "dec_create_route = dec_struct (\<lambda>ms x. do {
     ty \<leftarrow> dec_member dec_str ''type'' ms (cri_Type x);
     h \<leftarrow> dec_member dec_str ''hostname'' ms (cri_Hostname x);
     p \<leftarrow> dec_member dec_str ''path_prefix'' ms (cri_PathPrefix x);
     uh \<leftarrow> dec_member dec_str ''upstream_host'' ms (cri_UpstreamHost x);
     up \<leftarrow> dec_member dec_int ''upstream_port'' ms (cri_UpstreamPort x);
     us \<leftarrow> dec_member dec_str ''upstream_scheme'' ms (cri_UpstreamScheme x);
     sp \<leftarrow> dec_member dec_bool ''strip_prefix'' ms (cri_StripPrefix x);
     pr \<leftarrow> dec_member dec_int ''priority'' ms (cri_Priority x);
     Some \<lparr>cri_Type = ty, cri_Hostname = h, cri_PathPrefix = p, cri_UpstreamHost = uh,
       cri_UpstreamPort = up, cri_UpstreamScheme = us, cri_StripPrefix = sp, cri_Priority = pr\<rparr>
   })"

definition dec_update_route :: "UpdateRouteInput decoder" where
  "dec_update_route = dec_struct (\<lambda>ms x. do {
     uh \<leftarrow> dec_member (dec_ptr dec_str []) ''upstream_host'' ms (uri_UpstreamHost x);
     up \<leftarrow> dec_member (dec_ptr dec_int 0) ''upstream_port'' ms (uri_UpstreamPort x);
     us \<leftarrow> dec_member (dec_ptr dec_str []) ''upstream_scheme'' ms (uri_UpstreamScheme x);
     sp \<leftarrow> dec_member (dec_ptr dec_bool False) ''strip_prefix'' ms (uri_StripPrefix x);
     pr \<leftarrow> dec_member (dec_ptr dec_int 0) ''priority'' ms (uri_Priority x);
     en \<leftarrow> dec_member (dec_ptr dec_bool False) ''enabled'' ms (uri_Enabled x);
     Some \<lparr>uri_UpstreamHost = uh, uri_UpstreamPort = up, uri_UpstreamScheme = us,
       uri_StripPrefix = sp, uri_Priority = pr, uri_Enabled = en\<rparr>
   })"

definition read_body :: "'a decoder \<Rightarrow> 'a \<Rightarrow> http_request \<Rightarrow> 'a" where
  "read_body dec zero rq =
     (case rq_Body rq of
        None \<Rightarrow> zero
      | Some b \<Rightarrow> (case Option.bind (parse_first b) (\<lambda>j. dec j zero) of Some x \<Rightarrow> x | None \<Rightarrow> zero))"

section \<open>Handlers\<close>

definition writeJSON :: "int \<Rightarrow> json \<Rightarrow> http_response" where
  "writeJSON status body = \<lparr>resp_StatusCode = status, resp_Body = render body @ [CHR 0x0A], resp_Broken = False\<rparr>"

definition writeAPIError :: "int \<Rightarrow> string \<Rightarrow> string \<Rightarrow> http_response" where
  "writeAPIError status code msg = writeJSON status (JObj [(''error'', JStr code), (''message'', JStr msg)])"

definition noContent :: http_response where
  "noContent = \<lparr>resp_StatusCode = 204, resp_Body = [], resp_Broken = False\<rparr>"

definition fake_createTunnel :: "CreateTunnelInput \<Rightarrow> fakeAPI \<Rightarrow> http_response \<times> fakeAPI" where
  "fake_createTunnel i f0 =
     (let f = f0\<lparr>fa_creates := Suc (fa_creates f0)\<rparr>;
          same = (if cti_ExternalID i \<noteq> [] then
                    find (\<lambda>(k, t). nt_ExternalID (ft_tunnel t) = cti_ExternalID i) (fa_tunnels f)
                  else None) in
      case same of
        Some (k, ex) \<Rightarrow>
          (writeJSON 200 (enc_created (zero_created\<lparr>cre_TunnelID := nt_ID (ft_tunnel ex),
             cre_TunnelSubdomain := nt_TunnelSubdomain (ft_tunnel ex),
             cre_CNAMETarget := nt_TunnelSubdomain (ft_tunnel ex),
             cre_WireGuardIP := nt_WireGuardIP (ft_tunnel ex), cre_Adopted := True\<rparr>)), f)
      | None \<Rightarrow>
          (let n = Suc (fa_nextID f);
               tid = ''tun-'' @ show_nat n;
               token = ''tuntok-'' @ show_nat n;
               subdomain = tid @ ''.tunnels.example'';
               t = zero_tunnel\<lparr>nt_ID := tid, nt_Name := cti_Name i, nt_ExternalID := cti_ExternalID i,
                     nt_TunnelSubdomain := subdomain, nt_WireGuardIP := ''10.10.0.'' @ show_nat n,
                     nt_Status := ''active'', nt_OnlineStatus := ''offline''\<rparr> in
           (writeJSON 201 (enc_created (zero_created\<lparr>cre_TunnelID := tid, cre_TunnelToken := token,
              cre_TunnelSubdomain := subdomain, cre_CNAMETarget := subdomain,
              cre_WireGuardIP := nt_WireGuardIP t\<rparr>)),
            f\<lparr>fa_nextID := n, fa_tunnels := fa_tunnels f @ [(tid, \<lparr>ft_tunnel = t, ft_token = token\<rparr>)]\<rparr>)))"

definition fake_listTunnels :: "string \<Rightarrow> fakeAPI \<Rightarrow> http_response" where
  "fake_listTunnels wanted f =
     writeJSON 200 (JObj
       [(''data'', JArr (map (\<lambda>(k, t). enc_summary \<lparr>sm_Tunnel = ft_tunnel t, sm_RouteCount = 0\<rparr>)
            (filter (\<lambda>(k, t). wanted = [] \<or> nt_ExternalID (ft_tunnel t) = wanted) (fa_tunnels f)))),
        (''limit'', jint 100), (''offset'', jint 0)])"

definition fake_getTunnel :: "string \<Rightarrow> fakeAPI \<Rightarrow> http_response" where
  "fake_getTunnel i f =
     (case map_of (fa_tunnels f) i of
        None \<Rightarrow> writeAPIError 404 ''NOT_FOUND'' ''no such tunnel''
      | Some t \<Rightarrow> writeJSON 200 (enc_with_routes \<lparr>wr_Tunnel = Some (ft_tunnel t), wr_Routes = fa_routes f i\<rparr>))"

definition fake_rotateToken :: "string \<Rightarrow> fakeAPI \<Rightarrow> http_response \<times> fakeAPI" where
  "fake_rotateToken i f =
     (case map_of (fa_tunnels f) i of
        None \<Rightarrow> (writeAPIError 404 ''NOT_FOUND'' ''no such tunnel'', f)
      | Some t \<Rightarrow>
          (let n = Suc (fa_rotations f);
               token = ft_token t @ ''-rotated-'' @ show_nat n in
           (writeJSON 200 (enc_rotated \<lparr>rot_TunnelID = i, rot_TunnelToken = token\<rparr>),
            f\<lparr>fa_rotations := n,
              fa_tunnels := map (\<lambda>(k, x). (k, if k = i then x\<lparr>ft_token := token\<rparr> else x)) (fa_tunnels f)\<rparr>)))"

definition fake_new_route :: "string \<Rightarrow> nat \<Rightarrow> CreateRouteInput \<Rightarrow> Route" where
  "fake_new_route tunnelID n i =
     zero_route\<lparr>ro_ID := ''rt-'' @ show_nat n, ro_TunnelID := tunnelID, ro_Type := cri_Type i,
       ro_Hostname := cri_Hostname i,
       ro_PathPrefix := (if cri_PathPrefix i = [] then ''/'' else cri_PathPrefix i),
       ro_UpstreamHost := cri_UpstreamHost i, ro_UpstreamPort := cri_UpstreamPort i,
       ro_UpstreamScheme := (if cri_UpstreamScheme i = [] then SchemeHTTP else cri_UpstreamScheme i),
       ro_StripPrefix := cri_StripPrefix i,
       ro_Priority := (if cri_Priority i = 0 then 100 else cri_Priority i), ro_Enabled := True\<rparr>"

definition fake_createRoute :: "string \<Rightarrow> CreateRouteInput \<Rightarrow> fakeAPI \<Rightarrow> http_response \<times> fakeAPI" where
  "fake_createRoute tunnelID i f =
     (case map_of (fa_tunnels f) tunnelID of
        None \<Rightarrow> (writeAPIError 404 ''NOT_FOUND'' ''no such tunnel'', f)
      | Some _ \<Rightarrow>
          (let n = Suc (fa_nextID f); r = fake_new_route tunnelID n i in
           (writeJSON 201 (enc_route r),
            f\<lparr>fa_nextID := n, fa_routes := (fa_routes f)(tunnelID := fa_routes f tunnelID @ [r])\<rparr>)))"

definition fake_listRoutes :: "string \<Rightarrow> fakeAPI \<Rightarrow> http_response" where
  "fake_listRoutes tunnelID f =
     writeJSON 200 (JObj [(''routes'', JArr (map enc_route (fa_routes f tunnelID))),
       (''total'', jint (int (length (fa_routes f tunnelID))))])"

definition apply_update :: "UpdateRouteInput \<Rightarrow> Route \<Rightarrow> Route" where
  "apply_update u r =
     r\<lparr>ro_UpstreamHost := (case uri_UpstreamHost u of None \<Rightarrow> ro_UpstreamHost r | Some x \<Rightarrow> x),
       ro_UpstreamPort := (case uri_UpstreamPort u of None \<Rightarrow> ro_UpstreamPort r | Some x \<Rightarrow> x),
       ro_UpstreamScheme := (case uri_UpstreamScheme u of None \<Rightarrow> ro_UpstreamScheme r | Some x \<Rightarrow> x),
       ro_StripPrefix := (case uri_StripPrefix u of None \<Rightarrow> ro_StripPrefix r | Some x \<Rightarrow> x),
       ro_Priority := (case uri_Priority u of None \<Rightarrow> ro_Priority r | Some x \<Rightarrow> x),
       ro_Enabled := (case uri_Enabled u of None \<Rightarrow> ro_Enabled r | Some x \<Rightarrow> x)\<rparr>"

text \<open>The first route with the identifier is changed in place.\<close>

fun update_first :: "(Route \<Rightarrow> Route) \<Rightarrow> string \<Rightarrow> Route list \<Rightarrow> (Route \<times> Route list) option" where
  "update_first g i [] = None"
| "update_first g i (r # rs) =
     (if ro_ID r = i then Some (g r, g r # rs)
      else map_option (\<lambda>(x, xs). (x, r # xs)) (update_first g i rs))"

definition fake_updateRoute :: "string \<Rightarrow> string \<Rightarrow> UpdateRouteInput \<Rightarrow> fakeAPI \<Rightarrow> http_response \<times> fakeAPI" where
  "fake_updateRoute tunnelID routeID u f =
     (case update_first (apply_update u) routeID (fa_routes f tunnelID) of
        None \<Rightarrow> (writeAPIError 404 ''NOT_FOUND'' ''no such route'', f)
      | Some (r, rs) \<Rightarrow> (writeJSON 200 (enc_route r), f\<lparr>fa_routes := (fa_routes f)(tunnelID := rs)\<rparr>))"

definition fake_deleteRoute :: "string \<Rightarrow> string \<Rightarrow> fakeAPI \<Rightarrow> http_response \<times> fakeAPI" where
  "fake_deleteRoute tunnelID routeID f =
     (noContent, f\<lparr>fa_routes := (fa_routes f)(tunnelID := filter (\<lambda>r. ro_ID r \<noteq> routeID) (fa_routes f tunnelID))\<rparr>)"

section \<open>Routing\<close>

definition trim_slashes :: "string \<Rightarrow> string" where
  "trim_slashes s = rev (dropWhile (\<lambda>c. c = CHR ''/'') (rev (dropWhile (\<lambda>c. c = CHR ''/'') s)))"

text \<open>The text before and after the first occurrence of a separator.\<close>

fun cut :: "string \<Rightarrow> string \<Rightarrow> (string \<times> string) option" where
  "cut sep [] = (if sep = [] then Some ([], []) else None)"
| "cut sep (c # cs) =
     (if HasPrefix (c # cs) sep then Some ([], drop (length sep) (c # cs))
      else map_option (\<lambda>(a, b). (c # a, b)) (cut sep cs))"

text \<open>\<^verbatim>\<open>url.Query().Get(name)\<close> for a name that needs no escaping.\<close>

definition query_get :: "string \<Rightarrow> string \<Rightarrow> string" where
  "query_get name q =
     (case find (\<lambda>p. HasPrefix p (name @ ''='')) (split_on (CHR ''&'') q) of
        None \<Rightarrow> []
      | Some p \<Rightarrow> (case unescape True (drop (Suc (length name)) p) of Some v \<Rightarrow> v | None \<Rightarrow> []))"

definition fake_serve :: "http_request \<Rightarrow> string \<Rightarrow> string \<Rightarrow> fakeAPI \<Rightarrow> http_response \<times> fakeAPI" where
  "fake_serve rq path query f =
     (let m = rq_Method rq in
      if path = [] \<and> m = ''POST'' then
        fake_createTunnel (read_body dec_create_tunnel \<lparr>cti_Name = [], cti_ExternalID = []\<rparr> rq) f
      else if path = [] \<and> m = ''GET'' then (fake_listTunnels (query_get ''external_id'' query) f, f)
      else if HasSuffix path ''/rotate-token'' \<and> m = ''POST'' then
        fake_rotateToken (TrimSuffix path ''/rotate-token'') f
      else if HasSuffix path ''/routes'' \<and> m = ''POST'' then
        fake_createRoute (TrimSuffix path ''/routes'') (read_body dec_create_route zero_create_route rq) f
      else if HasSuffix path ''/routes'' \<and> m = ''GET'' then
        (fake_listRoutes (TrimSuffix path ''/routes'') f, f)
      else
        (case cut ''/routes/'' path of
           Some (i, routeID) \<Rightarrow>
             if m = ''PUT'' then fake_updateRoute i routeID (read_body dec_update_route empty_update rq) f
             else if m = ''DELETE'' then fake_deleteRoute i routeID f
             else if m = ''GET'' then (fake_getTunnel path f, f)
             else (writeAPIError 404 ''NOT_FOUND'' ''no such route in the fake'', f)
         | None \<Rightarrow>
             if m = ''GET'' then (fake_getTunnel path f, f)
             else if m = ''DELETE'' then (noContent, fake_delete_tunnel path f)
             else (writeAPIError 404 ''NOT_FOUND'' ''no such route in the fake'', f)))"

text \<open>The server at an address: the path is unescaped and the query split off before routing.\<close>

definition fake_http :: "string \<Rightarrow> HTTPClient \<Rightarrow> http_request \<Rightarrow> fakeAPI \<Rightarrow> (string + http_response) \<times> fakeAPI" where
  "fake_http endpoint c rq f =
     (if \<not> HasPrefix (rq_URL rq) endpoint then (Inl ''no such host'', f)
      else
        (let target = drop (length endpoint) (rq_URL rq);
             p = takeWhile (\<lambda>c. c \<noteq> CHR ''?'') target;
             q = drop (Suc (length p)) target in
         case unescape False p of
           None \<Rightarrow> (Inr \<lparr>resp_StatusCode = 400, resp_Body = ''400 Bad Request'', resp_Broken = False\<rparr>, f)
         | Some path \<Rightarrow>
             (case fake_serve rq (trim_slashes (TrimPrefix path ''/api/v2/tunnels'')) q f of
                (resp, f') \<Rightarrow> (Inr resp, f'))))"

end
