(* ===== verification/Wire_Roundtrip.thy ===== *)
theory Wire_Roundtrip
  imports Fake_Api
begin

text \<open>
  The JSON forms of the tunnel API read back: what one side encodes, the other decodes to the same
  value. The bounds are those of Go's 64-bit integers.
\<close>

section \<open>The JSON forms read back\<close>

definition int64 :: "int \<Rightarrow> bool" where
  "int64 i = (- (2 ^ 63) \<le> i \<and> i < 2 ^ 63)"

lemma wf_jint64 [simp]: "int64 i \<Longrightarrow> wf_json (jint i)"
  by (simp add: int64_def wf_jint)

lemma dec_jint [simp]: "int64 i \<Longrightarrow> dec_int (jint i) cur = Some i"
  by (simp add: dec_int_def jint_def int64_def ParseInt64_Itoa)

lemma dec_basic [simp]:
  "dec_str (JStr s) cur = Some s" "dec_bool (JBool b) c = Some b" "valid_time s \<Longrightarrow> dec_time (JStr s) cur = Some s"
  by (simp_all add: dec_str_def dec_bool_def dec_time_def)

lemma int64_sint32 [simp]: "int64 (sint (w :: int32))"
  using sint_greater_eq [of w] sint_less [of w] by (simp add: int64_def)

lemma valid_zero_time [simp]: "valid_time zero_time"
  by code_simp

definition wf_route :: "Route \<Rightarrow> bool" where
  "wf_route r = (int64 (ro_UpstreamPort r) \<and> int64 (ro_Priority r) \<and> valid_time (ro_CreatedAt r) \<and> valid_time (ro_UpdatedAt r))"

text \<open>The names of the members, as the decoder compares them.\<close>

lemma lower_names [simp]:
  "map lower_char ''id'' = ''id''" "map lower_char ''tunnel_id'' = ''tunnel_id''" "map lower_char ''type'' = ''type''"
  "map lower_char ''hostname'' = ''hostname''" "map lower_char ''path_prefix'' = ''path_prefix''"
  "map lower_char ''upstream_host'' = ''upstream_host''" "map lower_char ''upstream_port'' = ''upstream_port''"
  "map lower_char ''upstream_scheme'' = ''upstream_scheme''" "map lower_char ''strip_prefix'' = ''strip_prefix''"
  "map lower_char ''enabled'' = ''enabled''" "map lower_char ''priority'' = ''priority''"
  "map lower_char ''created_at'' = ''created_at''" "map lower_char ''updated_at'' = ''updated_at''"
  "map lower_char ''routes'' = ''routes''" "map lower_char ''total'' = ''total''"
  by (simp_all add: lower_char_def)

lemma dec_enc_route: "wf_route r \<Longrightarrow> dec_route (enc_route r) zero_route = Some r"
  by (simp add: dec_route_def enc_route_def dec_struct_def wf_route_def del: list.map)

lemma wf_enc_route: "wf_route r \<Longrightarrow> wf_json (enc_route r)"
  by (simp add: enc_route_def wf_route_def)

lemma dec_enc_routes: "list_all wf_route rs \<Longrightarrow> dec_elems dec_route zero_route (map enc_route rs) = Some rs"
  by (induction rs) (simp_all add: dec_enc_route)

lemma wf_enc_routes: "list_all wf_route rs \<Longrightarrow> wf_elems (map enc_route rs)"
  by (induction rs) (simp_all add: wf_enc_route)

definition wf_create :: "CreateRouteInput \<Rightarrow> bool" where
  "wf_create i = (int64 (cri_UpstreamPort i) \<and> int64 (cri_Priority i))"

lemma dec_enc_create_route: "wf_create i \<Longrightarrow> dec_create_route (enc_create_route i) zero_create_route = Some i"
  by (simp add: dec_create_route_def enc_create_route_def dec_struct_def wf_create_def zero_create_route_def
      omit_str_def omit_int_def del: list.map)

lemma wf_enc_create_route: "wf_create i \<Longrightarrow> wf_json (enc_create_route i)"
  by (simp add: enc_create_route_def wf_create_def omit_str_def omit_int_def)

definition wf_update :: "UpdateRouteInput \<Rightarrow> bool" where
  "wf_update u = (pred_option int64 (uri_UpstreamPort u) \<and> pred_option int64 (uri_Priority u))"

lemma dec_ptr_simps [simp]:
  "dec_ptr dec_str z (JStr s) cur = Some (Some s)" "dec_ptr dec_bool y (JBool b) c = Some (Some b)"
  "int64 i \<Longrightarrow> dec_ptr dec_int x (jint i) d = Some (Some i)"
  by (simp_all add: dec_ptr_def jint_def dec_int_def int64_def ParseInt64_Itoa)

lemma dec_enc_update_route: "wf_update u \<Longrightarrow> dec_update_route (enc_update_route u) empty_update = Some u"
  by (cases u)
     (auto simp: dec_update_route_def enc_update_route_def dec_struct_def wf_update_def empty_update_def
      omit_nil_def simp del: list.map split: option.split)

lemma wf_enc_update_route: "wf_update u \<Longrightarrow> wf_json (enc_update_route u)"
  by (auto simp: enc_update_route_def wf_update_def omit_nil_def split: option.split)

text \<open>No form is deep.\<close>

lemma depth_route_forms [simp]:
  "json_depth (enc_route r) = 1" "json_depth (enc_create_route i) = 1" "json_depth (enc_update_route u) = 1"
  by (simp_all add: enc_route_def enc_create_route_def enc_update_route_def)

end
