(* ===== verification/Controller_Setup.thy ===== *)
theory Controller_Setup
  imports Route_Controller
begin

text \<open>
  \<^verbatim>\<open>SetupWithManager\<close> of both reconcilers: what each controller is registered for, and what that
  means for the events of the cluster. The builder and the event handlers are controller-runtime's;
  a registration is recorded as the builder was called, and what a watch enqueues is the contract
  \<open>watch_lib\<close>, the documented behaviour of the handlers.
\<close>

section \<open>Registration\<close>

datatype kind = KTunnel | KTunnelRoute | KSecret | KDeployment | KService

datatype 'x watch =
    For kind
  | Owns kind
  | Watches kind "ObjectMeta \<Rightarrow> ('x, NamespacedName list) io"

record 'x controller =
  ctl_Name :: string
  ctl_Watches :: "'x watch list"
  ctl_Reconciler :: "NamespacedName \<Rightarrow> ('x, outcome) io"

record 'x manager =
  mgr_Indexes :: "(string \<times> (TunnelRoute \<Rightarrow> string list)) list"
  mgr_Controllers :: "'x controller list"
  mgr_Checks :: "string list"

text \<open>The calls of the manager that can fail, each with its error if it does.\<close>

record 'x builder_lib =
  lib_IndexField :: "'x manager \<Rightarrow> string \<Rightarrow> string option"
  lib_Complete :: "'x manager \<Rightarrow> 'x controller \<Rightarrow> string option"

definition IndexField ::
  "('x, 'b) builder_lib_scheme \<Rightarrow> string \<Rightarrow> (TunnelRoute \<Rightarrow> string list) \<Rightarrow> 'x manager \<Rightarrow> string option \<times> 'x manager" where
  "IndexField lib field f mgr =
     (case lib_IndexField lib mgr field of
        Some e \<Rightarrow> (Some e, mgr)
      | None \<Rightarrow> (None, mgr\<lparr>mgr_Indexes := mgr_Indexes mgr @ [(field, f)]\<rparr>))"

definition Complete ::
  "('x, 'b) builder_lib_scheme \<Rightarrow> 'x controller \<Rightarrow> 'x manager \<Rightarrow> string option \<times> 'x manager" where
  "Complete lib c mgr =
     (case lib_Complete lib mgr c of
        Some e \<Rightarrow> (Some e, mgr)
      | None \<Rightarrow> (None, mgr\<lparr>mgr_Controllers := mgr_Controllers mgr @ [c]\<rparr>))"

definition tunnel_controller :: "'x TunnelReconciler \<Rightarrow> 'x controller" where
  "tunnel_controller r =
     \<lparr>ctl_Name = ''tunnel'', ctl_Watches = [For KTunnel, Owns KSecret, Owns KDeployment],
      ctl_Reconciler = tunnel_Reconcile r\<rparr>"

definition tunnel_SetupWithManager ::
  "('x, 'b) builder_lib_scheme \<Rightarrow> 'x TunnelReconciler \<Rightarrow> 'x manager \<Rightarrow> string option \<times> 'x manager" where
  "tunnel_SetupWithManager lib r mgr = Complete lib (tunnel_controller r) mgr"

definition serviceNameIndex :: string where
  "serviceNameIndex = ''.spec.service.name''"

definition route_controller :: "'x TunnelRouteReconciler \<Rightarrow> 'x controller" where
  "route_controller r =
     \<lparr>ctl_Name = ''tunnelroute'',
      ctl_Watches = [For KTunnelRoute, Watches KTunnel (routesOfTunnel (rr_Client r)),
        Watches KService (routesOfService (rr_Client r))],
      ctl_Reconciler = route_Reconcile r\<rparr>"

definition route_SetupWithManager ::
  "('x, 'b) builder_lib_scheme \<Rightarrow> 'x TunnelRouteReconciler \<Rightarrow> 'x manager \<Rightarrow> string option \<times> 'x manager" where
  "route_SetupWithManager lib r mgr =
     (case IndexField lib serviceNameIndex index_service_name mgr of
        (Some e, m) \<Rightarrow> (Some e, m)
      | (None, m) \<Rightarrow> Complete lib (route_controller r) m)"

section \<open>Events\<close>

text \<open>
  The requests of an event: those of every watch of the controller, in order. The owner a handler
  looks for is of the kind the controller is \<open>For\<close>.
\<close>

definition kind_name :: "kind \<Rightarrow> string" where
  "kind_name k = (case k of KTunnel \<Rightarrow> ''Tunnel'' | KTunnelRoute \<Rightarrow> ''TunnelRoute'' | KSecret \<Rightarrow> ''Secret''
     | KDeployment \<Rightarrow> ''Deployment'' | KService \<Rightarrow> ''Service'')"

primrec for_kind :: "'x watch list \<Rightarrow> kind option" where
  "for_kind [] = None"
| "for_kind (w # ws) = (case w of For k \<Rightarrow> Some k | _ \<Rightarrow> for_kind ws)"

primrec collect :: "('x, 'a list) io list \<Rightarrow> ('x, 'a list) io" where
  "collect [] = ret []"
| "collect (m # ms) = do { xs \<leftarrow> m; ys \<leftarrow> collect ms; ret (xs @ ys) }"

definition event_requests ::
  "('x controller \<Rightarrow> 'x watch \<Rightarrow> kind \<Rightarrow> ObjectMeta \<Rightarrow> ('x, NamespacedName list) io) \<Rightarrow>
     'x controller \<Rightarrow> kind \<Rightarrow> ObjectMeta \<Rightarrow> ('x, NamespacedName list) io" where
  "event_requests enqueue c k m = collect (map (\<lambda>w. enqueue c w k m) (ctl_Watches c))"

text \<open>The owner that controls an object, if it is of the kind asked for: a request in the object's own namespace.\<close>

definition owner_requests :: "kind \<Rightarrow> ObjectMeta \<Rightarrow> NamespacedName list" where
  "owner_requests k m =
     (case find or_Controller (om_OwnerReferences m) of
        Some r \<Rightarrow> if or_Kind r = kind_name k then [nn (om_Namespace m) (or_Name r)] else []
      | None \<Rightarrow> [])"

locale watch_lib =
  fixes enqueue :: "'x controller \<Rightarrow> 'x watch \<Rightarrow> kind \<Rightarrow> ObjectMeta \<Rightarrow> ('x, NamespacedName list) io"
  assumes for_object: "enqueue c (For k) k m = ret [key_of m]"
    and owns_owner: "for_kind (ctl_Watches c) = Some o' \<Longrightarrow> enqueue c (Owns k) k m = ret (owner_requests o' m)"
    and watches_map: "enqueue c (Watches k f) k m = f m"
    and other_kinds: "k \<noteq> k' \<Longrightarrow> enqueue c (For k) k' m = ret []" "k \<noteq> k' \<Longrightarrow> enqueue c (Owns k) k' m = ret []"
      "k \<noteq> k' \<Longrightarrow> enqueue c (Watches k f) k' m = ret []"
begin

lemmas handlers = for_object owns_owner watches_map other_kinds

lemma tunnel_events:
  "event_requests enqueue (tunnel_controller r) k m =
     ret (case k of KTunnel \<Rightarrow> [key_of m] | KSecret \<Rightarrow> owner_requests KTunnel m
          | KDeployment \<Rightarrow> owner_requests KTunnel m | _ \<Rightarrow> [])"
  by (cases k) (simp_all add: event_requests_def tunnel_controller_def handlers)

lemma route_events:
  "event_requests enqueue (route_controller r) k m =
     (case k of KTunnelRoute \<Rightarrow> ret [key_of m] | KTunnel \<Rightarrow> routesOfTunnel (rr_Client r) m
      | KService \<Rightarrow> routesOfService (rr_Client r) m | _ \<Rightarrow> ret [])"
  by (cases k) (simp_all add: event_requests_def route_controller_def handlers)

end

text \<open>The handlers as the library documents them.\<close>

definition ref_enqueue :: "'x controller \<Rightarrow> 'x watch \<Rightarrow> kind \<Rightarrow> ObjectMeta \<Rightarrow> ('x, NamespacedName list) io" where
  "ref_enqueue c w k m =
     (case w of
        For k' \<Rightarrow> ret (if k' = k then [key_of m] else [])
      | Owns k' \<Rightarrow> ret (if k' = k then (case for_kind (ctl_Watches c) of Some o' \<Rightarrow> owner_requests o' m | None \<Rightarrow> []) else [])
      | Watches k' f \<Rightarrow> (if k' = k then f m else ret []))"

interpretation ref_watch: watch_lib ref_enqueue
  by unfold_locales (simp_all add: ref_enqueue_def)

section \<open>The two lookups\<close>

text \<open>Listing the routes of a namespace, all of them or those the index files under a Service.\<close>

locale route_lister =
  fixes env :: "'x env" and routes :: "'x \<Rightarrow> TunnelRoute list"
  assumes list_all_routes: "k_list_routes env ns None x = (Inr (filter (\<lambda>q. om_Namespace (tr_Meta q) = ns) (routes x)), x)"
    and list_indexed: "k_list_routes env ns (Some s) x =
      (Inr (filter (\<lambda>q. om_Namespace (tr_Meta q) = ns \<and> s \<in> set (index_service_name q)) (routes x)), x)"
begin

lemma routesOfTunnel_run:
  "\<exists>w'. run_state (routesOfTunnel env m) w =
     (map route_key (filter (\<lambda>q. rs_TunnelRef (tr_Spec q) = om_Name m)
        (filter (\<lambda>q. om_Namespace (tr_Meta q) = om_Namespace m) (routes (ext w)))), w') \<and> ext w' = ext w"
  by (simp add: routesOfTunnel_def List_TunnelRoutes_def run_kube_call list_all_routes)

lemma routesOfService_run:
  "\<exists>w'. run_state (routesOfService env m) w =
     (map route_key (filter (\<lambda>q. om_Namespace (tr_Meta q) = om_Namespace m \<and> om_Name m \<in> set (index_service_name q))
        (routes (ext w))), w') \<and> ext w' = ext w"
  by (simp add: routesOfService_def List_TunnelRoutes_def run_kube_call list_indexed)

end

section \<open>Ownership\<close>

text \<open>\<^verbatim>\<open>SetControllerReference\<close> makes the owner, a Tunnel, the controller of the object and changes nothing else.\<close>

locale owner_lib =
  fixes set_owner :: "ObjectMeta \<Rightarrow> ObjectMeta \<Rightarrow> KubeError + ObjectMeta"
  assumes set_owner_controls: "set_owner owner m = Inr m' \<Longrightarrow>
      \<exists>r. find or_Controller (om_OwnerReferences m') = Some r \<and> or_Kind r = ''Tunnel'' \<and> or_Name r = om_Name owner"
    and set_owner_keeps: "set_owner owner m = Inr m' \<Longrightarrow> m' = m\<lparr>om_OwnerReferences := om_OwnerReferences m'\<rparr>"
begin

lemma set_owner_requests:
  assumes "set_owner owner m = Inr m'" and "om_Namespace m = om_Namespace owner"
  shows "owner_requests KTunnel m' = [key_of owner]"
proof -
  have "om_Namespace m' = om_Namespace owner"
    using set_owner_keeps [OF assms(1)] assms(2) by (metis (no_types) ObjectMeta.select_convs(2) ObjectMeta.surjective
        ObjectMeta.update_convs(9))
  with set_owner_controls [OF assms(1)] show ?thesis
    by (auto simp: owner_requests_def kind_name_def key_of_def)
qed

end

end
