(* ===== verification/Registration.thy ===== *)
theory Registration
  imports Controller_Setup
begin

text \<open>
  \<^verbatim>\<open>api/v1alpha1/groupversion_info.go\<close>, the \<^verbatim>\<open>init\<close> functions of the two types and that of \<^verbatim>\<open>cmd/main.go\<close>:
  how the Go types of the API get into the scheme of the operator. The scheme and its builder are
  the library's, as documented: a scheme maps a kind to a Go type and panics when a kind is given
  two; a builder is the list of functions registered so far, and \<^verbatim>\<open>AddToScheme\<close> is bound to the
  builder itself, so that it runs what the \<^verbatim>\<open>init\<close> functions register after it was bound. What client-go and
  metav1 register is a parameter.
\<close>

section \<open>Schemes\<close>

record group_version =
  gv_Group :: string
  gv_Version :: string

datatype go_type = GoTunnel | GoTunnelList | GoTunnelRoute | GoTunnelRouteList | GoLibrary string

text \<open>The kind of a Go type is its name.\<close>

fun type_name :: "go_type \<Rightarrow> string" where
  "type_name GoTunnel = ''Tunnel''"
| "type_name GoTunnelList = ''TunnelList''"
| "type_name GoTunnelRoute = ''TunnelRoute''"
| "type_name GoTunnelRouteList = ''TunnelRouteList''"
| "type_name (GoLibrary n) = n"

type_synonym kube_scheme = "group_version \<times> string \<rightharpoonup> go_type"

text \<open>\<open>None\<close> is the library's panic.\<close>

fun AddKnownTypes :: "group_version \<Rightarrow> go_type list \<Rightarrow> kube_scheme \<Rightarrow> kube_scheme option" where
  "AddKnownTypes gv [] s = Some s"
| "AddKnownTypes gv (t # ts) s =
     (if s (gv, type_name t) \<in> {None, Some t} then AddKnownTypes gv ts (s((gv, type_name t) \<mapsto> t)) else None)"

text \<open>A registration function panics, returns an error, or changes the scheme.\<close>

type_synonym scheme_func = "kube_scheme \<Rightarrow> (string + kube_scheme) option"

fun run_builder :: "scheme_func list \<Rightarrow> scheme_func" where
  "run_builder [] s = Some (Inr s)"
| "run_builder (f # fs) s =
     (case f s of None \<Rightarrow> None | Some (Inl e) \<Rightarrow> Some (Inl e) | Some (Inr s') \<Rightarrow> run_builder fs s')"

section \<open>The package\<close>

definition SchemeGroupVersion :: group_version where
  "SchemeGroupVersion = \<lparr>gv_Group = ''tunnel.nubulusnetwork.es'', gv_Version = ''v1alpha1''\<rparr>"

definition GroupVersion :: group_version where
  "GroupVersion = SchemeGroupVersion"

definition SchemeBuilder :: "(group_version \<Rightarrow> kube_scheme \<Rightarrow> kube_scheme) \<Rightarrow> scheme_func list" where
  "SchemeBuilder meta = [\<lambda>s. Some (Inr (meta SchemeGroupVersion s))]"

definition tunnel_types_init :: "scheme_func list \<Rightarrow> scheme_func list" where
  "tunnel_types_init sb = sb @ [\<lambda>s. map_option Inr (AddKnownTypes SchemeGroupVersion [GoTunnel, GoTunnelList] s)]"

definition tunnelroute_types_init :: "scheme_func list \<Rightarrow> scheme_func list" where
  "tunnelroute_types_init sb = sb @ [\<lambda>s. map_option Inr (AddKnownTypes SchemeGroupVersion [GoTunnelRoute, GoTunnelRouteList] s)]"

text \<open>Go runs the \<^verbatim>\<open>init\<close> functions of a package by the names of their files, before anyone calls it.\<close>

definition AddToScheme :: "(group_version \<Rightarrow> kube_scheme \<Rightarrow> kube_scheme) \<Rightarrow> scheme_func" where
  "AddToScheme meta = run_builder (tunnelroute_types_init (tunnel_types_init (SchemeBuilder meta)))"

section \<open>The process\<close>

definition Must :: "(string + kube_scheme) option \<Rightarrow> kube_scheme option" where
  "Must r = (case r of Some (Inr s) \<Rightarrow> Some s | _ \<Rightarrow> None)"

definition main_init :: "scheme_func \<Rightarrow> (group_version \<Rightarrow> kube_scheme \<Rightarrow> kube_scheme) \<Rightarrow> kube_scheme option" where
  "main_init clientgo meta =
     (case Must (clientgo Map.empty) of
        None \<Rightarrow> None
      | Some s \<Rightarrow> Must (AddToScheme meta s))"

section \<open>What the libraries promise\<close>

text \<open>The Go type of a kind a controller watches.\<close>

fun kind_entry :: "kind \<Rightarrow> (group_version \<times> string) \<times> go_type" where
  "kind_entry KTunnel = ((SchemeGroupVersion, ''Tunnel''), GoTunnel)"
| "kind_entry KTunnelRoute = ((SchemeGroupVersion, ''TunnelRoute''), GoTunnelRoute)"
| "kind_entry KSecret = ((\<lparr>gv_Group = [], gv_Version = ''v1''\<rparr>, ''Secret''), GoLibrary ''Secret'')"
| "kind_entry KDeployment = ((\<lparr>gv_Group = ''apps'', gv_Version = ''v1''\<rparr>, ''Deployment''), GoLibrary ''Deployment'')"
| "kind_entry KService = ((\<lparr>gv_Group = [], gv_Version = ''v1''\<rparr>, ''Service''), GoLibrary ''Service'')"

definition knows :: "kube_scheme \<Rightarrow> kind \<Rightarrow> bool" where
  "knows s k = (s (fst (kind_entry k)) = Some (snd (kind_entry k)))"

fun watched :: "'x watch \<Rightarrow> kind" where
  "watched (For k) = k"
| "watched (Owns k) = k"
| "watched (Watches k _) = k"

text \<open>The kinds the operator uses; what metav1 adds to a group are others.\<close>

definition operator_kinds :: "string set" where
  "operator_kinds = {''Tunnel'', ''TunnelList'', ''TunnelRoute'', ''TunnelRouteList'', ''Secret'', ''Deployment'', ''Service''}"

locale scheme_lib =
  fixes clientgo :: scheme_func and meta :: "group_version \<Rightarrow> kube_scheme \<Rightarrow> kube_scheme"
  assumes clientgo: "\<exists>s. clientgo Map.empty = Some (Inr s) \<and> (\<forall>n. s (SchemeGroupVersion, n) = None)
      \<and> knows s KSecret \<and> knows s KDeployment \<and> knows s KService"
    and meta: "n \<in> operator_kinds \<Longrightarrow> meta gv s (gv', n) = s (gv', n)"
begin

lemma init_complete:
  "\<exists>s. main_init clientgo meta = Some s \<and> (\<forall>k. knows s k)
     \<and> s (SchemeGroupVersion, ''TunnelList'') = Some GoTunnelList \<and> s (SchemeGroupVersion, ''TunnelRouteList'') = Some GoTunnelRouteList"
proof -
  obtain s where s: "clientgo Map.empty = Some (Inr s)" "\<And>n. s (SchemeGroupVersion, n) = None"
      "knows s KSecret" "knows s KDeployment" "knows s KService"
    using clientgo by blast
  let ?m = "meta SchemeGroupVersion s"
  let ?s = "?m((SchemeGroupVersion, ''Tunnel'') \<mapsto> GoTunnel, (SchemeGroupVersion, ''TunnelList'') \<mapsto> GoTunnelList,
    (SchemeGroupVersion, ''TunnelRoute'') \<mapsto> GoTunnelRoute, (SchemeGroupVersion, ''TunnelRouteList'') \<mapsto> GoTunnelRouteList)"
  have own: "?m (SchemeGroupVersion, n) = None" if "n \<in> operator_kinds" for n
    using that meta [of n SchemeGroupVersion s SchemeGroupVersion] s(2) by simp
  have "main_init clientgo meta = Some ?s"
    using own by (simp add: main_init_def Must_def s(1) AddToScheme_def SchemeBuilder_def tunnel_types_init_def
        tunnelroute_types_init_def operator_kinds_def)
  moreover have "knows ?s k" for k
    using s(3-5) meta [of _ SchemeGroupVersion s] by (cases k) (simp_all add: knows_def operator_kinds_def SchemeGroupVersion_def)
  ultimately show ?thesis by (intro exI [of _ ?s] conjI allI) simp_all
qed

end

text \<open>Libraries that register what is documented, and no more.\<close>

definition ref_clientgo :: scheme_func where
  "ref_clientgo s = map_option Inr (do {
     s1 \<leftarrow> AddKnownTypes \<lparr>gv_Group = [], gv_Version = ''v1''\<rparr> [GoLibrary ''Secret'', GoLibrary ''Service''] s;
     AddKnownTypes \<lparr>gv_Group = ''apps'', gv_Version = ''v1''\<rparr> [GoLibrary ''Deployment''] s1
   })"

definition ref_meta :: "group_version \<Rightarrow> kube_scheme \<Rightarrow> kube_scheme" where
  "ref_meta gv s = s((gv, ''WatchEvent'') \<mapsto> GoLibrary ''WatchEvent'', (gv, ''ListOptions'') \<mapsto> GoLibrary ''ListOptions'')"

interpretation ref_scheme: scheme_lib ref_clientgo ref_meta
  by unfold_locales (auto simp: ref_clientgo_def ref_meta_def knows_def operator_kinds_def SchemeGroupVersion_def)

end
