(* ===== verification/Operator_Main.thy ===== *)
theory Operator_Main
  imports Registration
begin

text \<open>
  \<^verbatim>\<open>cmd/main.go\<close>: the flags, the options they become, and the wiring of the two reconcilers over one
  client and one client factory. What controller-runtime does with the options is outside the
  repository: each call that can fail is a field of \<open>manager_lib\<close>, with its error if it fails; what
  it was told (indexes, controllers, checks) is the \<open>manager\<close>.
\<close>

section \<open>Flags\<close>

record flags =
  fl_metricsAddr :: string
  fl_probeAddr :: string
  fl_enableLeaderElection :: bool
  fl_secureMetrics :: bool
  fl_webhookCertPath :: string
  fl_webhookCertName :: string
  fl_webhookCertKey :: string
  fl_metricsCertPath :: string
  fl_metricsCertName :: string
  fl_metricsCertKey :: string
  fl_enableHTTP2 :: bool
  fl_defaultAgentImage :: string
  fl_clusterDomain :: string

text \<open>The flags of a command line that sets none, in a build stamped with \<open>img\<close>.\<close>

definition default_flags :: "string \<Rightarrow> flags" where
  "default_flags img =
     \<lparr>fl_metricsAddr = ''0'', fl_probeAddr = '':8081'', fl_enableLeaderElection = False,
      fl_secureMetrics = True, fl_webhookCertPath = [], fl_webhookCertName = ''tls.crt'',
      fl_webhookCertKey = ''tls.key'', fl_metricsCertPath = [], fl_metricsCertName = ''tls.crt'',
      fl_metricsCertKey = ''tls.key'', fl_enableHTTP2 = False, fl_defaultAgentImage = img,
      fl_clusterDomain = ''cluster.local''\<rparr>"

section \<open>Options\<close>

text \<open>A TLS configuration, of which the operator only ever sets the protocols, and a change of one.\<close>

record tls_config =
  tls_NextProtos :: "string list"

datatype tls_opt = DisableHTTP2

definition apply_tls_opt :: "tls_opt \<Rightarrow> tls_config \<Rightarrow> tls_config" where
  "apply_tls_opt p c = (case p of DisableHTTP2 \<Rightarrow> c\<lparr>tls_NextProtos := [''http/1.1'']\<rparr>)"

record cert_options =
  co_CertDir :: string
  co_CertName :: string
  co_KeyName :: string

record webhook_options = cert_options +
  wh_TLSOpts :: "tls_opt list"

record metrics_options = cert_options +
  mo_BindAddress :: string
  mo_SecureServing :: bool
  mo_TLSOpts :: "tls_opt list"
  mo_Authenticated :: bool

record manager_options =
  mg_Scheme :: kube_scheme
  mg_Metrics :: metrics_options
  mg_WebhookServer :: webhook_options
  mg_HealthProbeBindAddress :: string
  mg_LeaderElection :: bool
  mg_LeaderElectionID :: string

definition tls_options :: "flags \<Rightarrow> tls_opt list" where
  "tls_options f = (if \<not> fl_enableHTTP2 f then [DisableHTTP2] else [])"

definition webhook_server_options :: "flags \<Rightarrow> webhook_options" where
  "webhook_server_options f =
     (if fl_webhookCertPath f \<noteq> [] then
        \<lparr>co_CertDir = fl_webhookCertPath f, co_CertName = fl_webhookCertName f,
         co_KeyName = fl_webhookCertKey f, wh_TLSOpts = tls_options f\<rparr>
      else \<lparr>co_CertDir = [], co_CertName = [], co_KeyName = [], wh_TLSOpts = tls_options f\<rparr>)"

definition metrics_server_options :: "flags \<Rightarrow> metrics_options" where
  "metrics_server_options f =
     (let base = \<lparr>co_CertDir = [], co_CertName = [], co_KeyName = [],
            mo_BindAddress = fl_metricsAddr f, mo_SecureServing = fl_secureMetrics f,
            mo_TLSOpts = tls_options f, mo_Authenticated = fl_secureMetrics f\<rparr> in
      if fl_metricsCertPath f \<noteq> [] then
        base\<lparr>co_CertDir := fl_metricsCertPath f, co_CertName := fl_metricsCertName f,
             co_KeyName := fl_metricsCertKey f\<rparr>
      else base)"

definition manager_options_of :: "kube_scheme \<Rightarrow> flags \<Rightarrow> manager_options" where
  "manager_options_of s f =
     \<lparr>mg_Scheme = s, mg_Metrics = metrics_server_options f, mg_WebhookServer = webhook_server_options f,
      mg_HealthProbeBindAddress = fl_probeAddr f, mg_LeaderElection = fl_enableLeaderElection f,
      mg_LeaderElectionID = ''70315ffa.nubulusnetwork.es''\<rparr>"

section \<open>Wiring\<close>

definition operator_user_agent :: "string \<Rightarrow> string" where
  "operator_user_agent version = ''nubuluscloud-operator/'' @ version"

text \<open>The factory both controllers share: its cache is the world's.\<close>

definition apiClients :: "'x env \<Rightarrow> string \<Rightarrow> Tunnel \<Rightarrow> ('x, gerr + Client) io" where
  "apiClients env version = CachedClientFor env (operator_user_agent version)"

definition main_tunnel_reconciler :: "'x env \<Rightarrow> string \<Rightarrow> string \<Rightarrow> 'x TunnelReconciler" where
  "main_tunnel_reconciler env version img =
     \<lparr>rc_Client = env, rc_API = apiClients env version, rc_DefaultAgentImage = img\<rparr>"

definition main_route_reconciler :: "'x env \<Rightarrow> string \<Rightarrow> string \<Rightarrow> 'x TunnelRouteReconciler" where
  "main_route_reconciler env version domain =
     \<lparr>rr_Client = env, rr_API = apiClients env version, rr_ClusterDomain = domain\<rparr>"

section \<open>main\<close>

record 'x manager_lib = "'x builder_lib" +
  lib_NewManager :: "manager_options \<Rightarrow> string option"
  lib_AddCheck :: "'x manager \<Rightarrow> string \<Rightarrow> string option"
  lib_Start :: "'x manager \<Rightarrow> string option"

definition new_manager :: "'x manager" where
  "new_manager = \<lparr>mgr_Indexes = [], mgr_Controllers = [], mgr_Checks = []\<rparr>"

definition AddCheck :: "'x manager_lib \<Rightarrow> string \<Rightarrow> 'x manager \<Rightarrow> string option \<times> 'x manager" where
  "AddCheck lib name mgr =
     (case lib_AddCheck lib mgr name of
        Some e \<Rightarrow> (Some e, mgr)
      | None \<Rightarrow> (None, mgr\<lparr>mgr_Checks := mgr_Checks mgr @ [name]\<rparr>))"

text \<open>
  How the process ends, with the log line of a failure, and the manager it ran: none unless the
  manager was started.
\<close>

datatype main_exit = ExitFailure string | ExitNormally

record 'x main_run =
  mr_Exit :: main_exit
  mr_Ran :: "'x manager option"

definition failed :: "string \<Rightarrow> 'x main_run" where
  "failed msg = \<lparr>mr_Exit = ExitFailure msg, mr_Ran = None\<rparr>"

text \<open>From the new manager on: the controllers, the checks, the start.\<close>

definition run_manager :: "'x manager_lib \<Rightarrow> 'x env \<Rightarrow> string \<Rightarrow> flags \<Rightarrow> 'x main_run" where
  "run_manager lib env version f =
     (case tunnel_SetupWithManager lib (main_tunnel_reconciler env version (fl_defaultAgentImage f)) new_manager of
        (Some _, _) \<Rightarrow> failed ''Failed to create controller: tunnel''
      | (None, m1) \<Rightarrow>
     (case route_SetupWithManager lib (main_route_reconciler env version (fl_clusterDomain f)) m1 of
        (Some _, _) \<Rightarrow> failed ''Failed to create controller: tunnelroute''
      | (None, m2) \<Rightarrow>
     (case AddCheck lib ''healthz'' m2 of
        (Some _, _) \<Rightarrow> failed ''Failed to set up health check''
      | (None, m3) \<Rightarrow>
     (case AddCheck lib ''readyz'' m3 of
        (Some _, _) \<Rightarrow> failed ''Failed to set up ready check''
      | (None, m4) \<Rightarrow>
          \<lparr>mr_Exit = (if lib_Start lib m4 \<noteq> None then ExitFailure ''Failed to run manager'' else ExitNormally),
           mr_Ran = Some m4\<rparr>))))"

definition main :: "'x manager_lib \<Rightarrow> 'x env \<Rightarrow> kube_scheme \<Rightarrow> string \<Rightarrow> flags \<Rightarrow> 'x main_run" where
  "main lib env s version f =
     (if fl_defaultAgentImage f = [] then failed ''No agent image configured.''
      else if lib_NewManager lib (manager_options_of s f) \<noteq> None then failed ''Failed to start manager''
      else run_manager lib env version f)"

text \<open>The process: \<^verbatim>\<open>init\<close>, which panics when a registration fails, and then \<^verbatim>\<open>main\<close>.\<close>

definition operator_process ::
  "scheme_func \<Rightarrow> (group_version \<Rightarrow> kube_scheme \<Rightarrow> kube_scheme) \<Rightarrow> 'x manager_lib \<Rightarrow> 'x env \<Rightarrow> string \<Rightarrow> flags \<Rightarrow> 'x main_run" where
  "operator_process clientgo meta lib env version f =
     (case main_init clientgo meta of
        None \<Rightarrow> failed ''panic''
      | Some s \<Rightarrow> main lib env s version f)"

section \<open>Lemmas\<close>

lemma main_reconciler_sel [simp]:
  "rc_Client (main_tunnel_reconciler env version img) = env"
  "rc_API (main_tunnel_reconciler env version img) = apiClients env version"
  "rc_DefaultAgentImage (main_tunnel_reconciler env version img) = img"
  "rr_Client (main_route_reconciler env version domain) = env"
  "rr_API (main_route_reconciler env version domain) = apiClients env version"
  "rr_ClusterDomain (main_route_reconciler env version domain) = domain"
  by (simp_all add: main_tunnel_reconciler_def main_route_reconciler_def)

interpretation wired: client_factory "apiClients env version" for env version
  unfolding apiClients_def by unfold_locales (rule emits_CachedClientFor)

lemma main_ran:
  assumes "mr_Ran (main lib env s version f) = Some m"
  shows "fl_defaultAgentImage f \<noteq> []"
    and "mgr_Controllers m = [tunnel_controller (main_tunnel_reconciler env version (fl_defaultAgentImage f)),
      route_controller (main_route_reconciler env version (fl_clusterDomain f))]"
    and "mgr_Indexes m = [(serviceNameIndex, index_service_name)]" and "mgr_Checks m = [''healthz'', ''readyz'']"
  using assms
  by (auto simp: main_def run_manager_def failed_def tunnel_SetupWithManager_def route_SetupWithManager_def Complete_def
      IndexField_def AddCheck_def new_manager_def split: if_splits option.splits prod.splits)

lemma main_runs:
  assumes "fl_defaultAgentImage f \<noteq> []" and "\<And>o'. lib_NewManager lib o' = None" and "\<And>m k. lib_IndexField lib m k = None"
    and "\<And>m c. lib_Complete lib m c = None" and "\<And>m n. lib_AddCheck lib m n = None"
  shows "mr_Ran (main lib env s version f) \<noteq> None"
  using assms
  by (simp add: main_def run_manager_def tunnel_SetupWithManager_def route_SetupWithManager_def Complete_def IndexField_def AddCheck_def)

definition works :: "'x manager_lib \<Rightarrow> bool" where
  "works lib = ((\<forall>o'. lib_NewManager lib o' = None) \<and> (\<forall>m k. lib_IndexField lib m k = None)
     \<and> (\<forall>m c. lib_Complete lib m c = None) \<and> (\<forall>m n. lib_AddCheck lib m n = None))"

lemma main_runs_complete:
  "case mr_Ran (main lib env s version f) of
     None \<Rightarrow> True
   | Some m \<Rightarrow>
       mgr_Controllers m = [tunnel_controller (main_tunnel_reconciler env version (fl_defaultAgentImage f)),
         route_controller (main_route_reconciler env version (fl_clusterDomain f))]
       \<and> mgr_Indexes m = [(serviceNameIndex, index_service_name)] \<and> mgr_Checks m = [''healthz'', ''readyz'']
       \<and> list_all (\<lambda>c. ct_Image c \<noteq> [])
           (pt_Containers (ds_Template (dp_Spec (buildAgentDeployment t (fl_defaultAgentImage f) v))))"
proof (cases "mr_Ran (main lib env s version f)")
  case (Some m)
  then show ?thesis
    using main_ran [OF Some] by (simp add: buildAgentDeployment_def agent_container_def Let_def)
qed simp

text \<open>
  Unless HTTP/2 is asked for, both servers of the manager are confined to HTTP/1.1, and the
  metrics are behind authentication exactly when they are served securely.
\<close>

lemma main_servers_confined:
  "tls_NextProtos (fold apply_tls_opt (mo_TLSOpts (mg_Metrics (manager_options_of s f))) c) =
     (if fl_enableHTTP2 f then tls_NextProtos c else [''http/1.1'']) \<and>
   tls_NextProtos (fold apply_tls_opt (wh_TLSOpts (mg_WebhookServer (manager_options_of s f))) c) =
     (if fl_enableHTTP2 f then tls_NextProtos c else [''http/1.1'']) \<and>
   mo_Authenticated (mg_Metrics (manager_options_of s f)) = fl_secureMetrics f"
  by (simp add: manager_options_of_def metrics_server_options_def webhook_server_options_def tls_options_def
      apply_tls_opt_def Let_def)

end
