(* ===== verification/Cluster.thy ===== *)
theory Cluster
  imports Operator_Main
begin

text \<open>
  A concrete environment: a Kubernetes API server in memory, with the helpers of the libraries as
  their documentation has them, over any platform behind HTTP. It has what the operator relies on:
  writes with a stale resource version are refused, a write of the object leaves its status alone
  and a write of the status everything else, and an object marked for deletion goes when its last
  finalizer does. It shows that the contracts of \<^verbatim>\<open>External\<close> can be met, and runs the operator.
\<close>

section \<open>State\<close>

record 'p cluster =
  cu_Tunnels :: "Tunnel list"
  cu_Routes :: "TunnelRoute list"
  cu_Secrets :: "Secret list"
  cu_Services :: "Service list"
  cu_Deployments :: "Deployment list"
  cu_Version :: nat
  cu_Platform :: 'p

definition NotFoundError :: KubeError where
  "NotFoundError = \<lparr>ke_Reason = ''NotFound'', ke_Message = ''not found''\<rparr>"

definition ConflictError :: KubeError where
  "ConflictError = \<lparr>ke_Reason = ''Conflict'', ke_Message = ''the object has been modified''\<rparr>"

section \<open>The object store\<close>

definition lookup_object :: "('o \<Rightarrow> ObjectMeta) \<Rightarrow> NamespacedName \<Rightarrow> 'o list \<Rightarrow> KubeError + 'o" where
  "lookup_object meta k objs =
     (case find (\<lambda>x. key_of (meta x) = k) objs of Some x \<Rightarrow> Inr x | None \<Rightarrow> Inl NotFoundError)"

definition replace_object :: "('o \<Rightarrow> ObjectMeta) \<Rightarrow> 'o \<Rightarrow> 'o list \<Rightarrow> 'o list" where
  "replace_object meta x objs =
     (if om_DeletionTimestamp (meta x) \<noteq> None \<and> om_Finalizers (meta x) = []
      then filter (\<lambda>y. key_of (meta y) \<noteq> key_of (meta x)) objs
      else map (\<lambda>y. if key_of (meta y) = key_of (meta x) then x else y) objs)"

text \<open>A write: \<open>merge old new\<close> is what is kept of the new object, \<open>stamp\<close> sets its resource version.\<close>

definition write_object ::
  "('o \<Rightarrow> ObjectMeta) \<Rightarrow> (string \<Rightarrow> 'o \<Rightarrow> 'o) \<Rightarrow> ('o \<Rightarrow> 'o \<Rightarrow> 'o) \<Rightarrow> 'o \<Rightarrow> nat \<Rightarrow> 'o list \<Rightarrow> KubeError + ('o \<times> 'o list)" where
  "write_object meta stamp merge new v objs =
     (case lookup_object meta (key_of (meta new)) objs of
        Inl e \<Rightarrow> Inl e
      | Inr old \<Rightarrow>
          if om_ResourceVersion (meta new) \<noteq> om_ResourceVersion (meta old) then Inl ConflictError
          else (let x = stamp (show_nat v) (merge old new) in Inr (x, replace_object meta x objs)))"

text \<open>The server's own fields of the metadata stay as they are.\<close>

definition merge_meta :: "ObjectMeta \<Rightarrow> ObjectMeta \<Rightarrow> ObjectMeta" where
  "merge_meta old new = new\<lparr>om_UID := om_UID old, om_Generation := om_Generation old,
     om_DeletionTimestamp := om_DeletionTimestamp old\<rparr>"

definition apply_object ::
  "('o \<Rightarrow> ObjectMeta) \<Rightarrow> (string \<Rightarrow> 'o \<Rightarrow> 'o) \<Rightarrow> 'o \<Rightarrow> ('o \<Rightarrow> KubeError + 'o) \<Rightarrow> nat \<Rightarrow> 'o list \<Rightarrow> KubeError + ('o \<times> 'o list)" where
  "apply_object meta stamp blank f v objs =
     (case lookup_object meta (key_of (meta blank)) objs of
        Inl _ \<Rightarrow> (case f blank of Inl e \<Rightarrow> Inl e | Inr x \<Rightarrow> Inr (stamp (show_nat v) x, stamp (show_nat v) x # objs))
      | Inr old \<Rightarrow>
          (case f old of
             Inl e \<Rightarrow> Inl e
           | Inr x \<Rightarrow> Inr (stamp (show_nat v) x, replace_object meta (stamp (show_nat v) x) objs)))"

section \<open>The environment\<close>

text \<open>The result of a write, with the part of the state it changes.\<close>

definition commit :: "('o list \<Rightarrow> 'p cluster \<Rightarrow> 'p cluster) \<Rightarrow> KubeError + ('o \<times> 'o list) \<Rightarrow> 'p cluster \<Rightarrow> (KubeError + 'o) \<times> 'p cluster" where
  "commit put r x =
     (case r of
        Inl e \<Rightarrow> (Inl e, x)
      | Inr (obj, objs) \<Rightarrow> (Inr obj, put objs (x\<lparr>cu_Version := Suc (cu_Version x)\<rparr>)))"

definition stamp_tunnel :: "string \<Rightarrow> Tunnel \<Rightarrow> Tunnel" where
  "stamp_tunnel v t = t\<lparr>tn_Meta := (tn_Meta t)\<lparr>om_ResourceVersion := v\<rparr>\<rparr>"

definition stamp_route :: "string \<Rightarrow> TunnelRoute \<Rightarrow> TunnelRoute" where
  "stamp_route v r = r\<lparr>tr_Meta := (tr_Meta r)\<lparr>om_ResourceVersion := v\<rparr>\<rparr>"

definition stamp_secret :: "string \<Rightarrow> Secret \<Rightarrow> Secret" where
  "stamp_secret v s = s\<lparr>sec_Meta := (sec_Meta s)\<lparr>om_ResourceVersion := v\<rparr>\<rparr>"

definition stamp_deployment :: "string \<Rightarrow> Deployment \<Rightarrow> Deployment" where
  "stamp_deployment v d = d\<lparr>dp_Meta := (dp_Meta d)\<lparr>om_ResourceVersion := v\<rparr>\<rparr>"

definition update_tunnel_in :: "Tunnel \<Rightarrow> 'p cluster \<Rightarrow> (KubeError + Tunnel) \<times> 'p cluster" where
  "update_tunnel_in t x =
     commit (\<lambda>objs y. y\<lparr>cu_Tunnels := objs\<rparr>)
       (write_object tn_Meta stamp_tunnel
         (\<lambda>old new. new\<lparr>tn_Meta := merge_meta (tn_Meta old) (tn_Meta new), tn_Status := tn_Status old\<rparr>)
         t (cu_Version x) (cu_Tunnels x)) x"

definition status_tunnel_in :: "Tunnel \<Rightarrow> 'p cluster \<Rightarrow> (KubeError + Tunnel) \<times> 'p cluster" where
  "status_tunnel_in t x =
     commit (\<lambda>objs y. y\<lparr>cu_Tunnels := objs\<rparr>)
       (write_object tn_Meta stamp_tunnel (\<lambda>old new. old\<lparr>tn_Status := tn_Status new\<rparr>)
         t (cu_Version x) (cu_Tunnels x)) x"

definition update_route_in :: "TunnelRoute \<Rightarrow> 'p cluster \<Rightarrow> (KubeError + TunnelRoute) \<times> 'p cluster" where
  "update_route_in r x =
     commit (\<lambda>objs y. y\<lparr>cu_Routes := objs\<rparr>)
       (write_object tr_Meta stamp_route
         (\<lambda>old new. new\<lparr>tr_Meta := merge_meta (tr_Meta old) (tr_Meta new), tr_Status := tr_Status old\<rparr>)
         r (cu_Version x) (cu_Routes x)) x"

definition status_route_in :: "TunnelRoute \<Rightarrow> 'p cluster \<Rightarrow> (KubeError + TunnelRoute) \<times> 'p cluster" where
  "status_route_in r x =
     commit (\<lambda>objs y. y\<lparr>cu_Routes := objs\<rparr>)
       (write_object tr_Meta stamp_route (\<lambda>old new. old\<lparr>tr_Status := tr_Status new\<rparr>)
         r (cu_Version x) (cu_Routes x)) x"

text \<open>
  One controller per object; owning an object twice is refused, as the library does. The owner is
  a Tunnel in every call of the operator.
\<close>

definition ref_SetControllerReference :: "ObjectMeta \<Rightarrow> ObjectMeta \<Rightarrow> KubeError + ObjectMeta" where
  "ref_SetControllerReference owner obj =
     (if \<exists>r \<in> set (om_OwnerReferences obj). or_Controller r \<and> or_UID r \<noteq> om_UID owner
      then Inl \<lparr>ke_Reason = ''AlreadyOwned'', ke_Message = ''already owned by another controller''\<rparr>
      else Inr (obj\<lparr>om_OwnerReferences :=
             \<lparr>or_Kind = ''Tunnel'', or_Name = om_Name owner, or_UID = om_UID owner, or_Controller = True\<rparr> #
             filter (\<lambda>r. or_UID r \<noteq> om_UID owner) (om_OwnerReferences obj)\<rparr>))"

definition cluster_env ::
  "(HTTPClient \<Rightarrow> http_request \<Rightarrow> 'p \<Rightarrow> (string + http_response) \<times> 'p) \<Rightarrow> 'p cluster env" where
  "cluster_env handle =
     \<lparr>AddFinalizer = ref_AddFinalizer, RemoveFinalizer = ref_RemoveFinalizer,
      ContainsFinalizer = ref_ContainsFinalizer, SetStatusCondition = ref_SetStatusCondition,
      IsStatusConditionTrue = cond_true, kIsNotFound = ref_IsNotFound, IgnoreNotFound = ref_IgnoreNotFound,
      SetControllerReference = ref_SetControllerReference,
      bad_url = (\<lambda>_. None), json_error = (\<lambda>_. ''invalid character''),
      k_get_tunnel = (\<lambda>k x. (lookup_object tn_Meta k (cu_Tunnels x), x)),
      k_get_route = (\<lambda>k x. (lookup_object tr_Meta k (cu_Routes x), x)),
      k_get_secret = (\<lambda>k x. (lookup_object sec_Meta k (cu_Secrets x), x)),
      k_get_service = (\<lambda>k x. (lookup_object svc_Meta k (cu_Services x), x)),
      k_list_routes = (\<lambda>ns idx x. (Inr (filter (\<lambda>r. om_Namespace (tr_Meta r) = ns \<and>
          (case idx of None \<Rightarrow> True | Some s \<Rightarrow> s \<in> set (index_service_name r))) (cu_Routes x)), x)),
      k_update_tunnel = update_tunnel_in,
      k_status_tunnel = status_tunnel_in,
      k_update_route = update_route_in,
      k_status_route = status_route_in,
      k_apply_secret = (\<lambda>s f x. commit (\<lambda>objs y. y\<lparr>cu_Secrets := objs\<rparr>)
          (apply_object sec_Meta stamp_secret s f (cu_Version x) (cu_Secrets x)) x),
      k_apply_deployment = (\<lambda>d f x. commit (\<lambda>objs y. y\<lparr>cu_Deployments := objs\<rparr>)
          (apply_object dp_Meta stamp_deployment d f (cu_Version x) (cu_Deployments x)) x),
      http_do = (\<lambda>c rq x. case handle c rq (cu_Platform x) of (a, p) \<Rightarrow> (a, x\<lparr>cu_Platform := p\<rparr>))\<rparr>"

section \<open>It meets the contracts\<close>

lemma cluster_lib [simp]:
  "AddFinalizer (cluster_env h) = ref_AddFinalizer" "RemoveFinalizer (cluster_env h) = ref_RemoveFinalizer"
  "ContainsFinalizer (cluster_env h) = ref_ContainsFinalizer"
  "SetStatusCondition (cluster_env h) = ref_SetStatusCondition"
  "IsStatusConditionTrue (cluster_env h) = cond_true" "kIsNotFound (cluster_env h) = ref_IsNotFound"
  "IgnoreNotFound (cluster_env h) = ref_IgnoreNotFound" "bad_url (cluster_env h) = (\<lambda>_. None)"
  by (simp_all add: cluster_env_def)

lemma lookup_key: "lookup_object meta k objs = Inr x \<Longrightarrow> key_of (meta x) = k"
  by (auto simp: lookup_object_def find_Some_iff split: option.splits)

lemma key_of_simps [simp]:
  "key_of (m\<lparr>om_ResourceVersion := v\<rparr>) = key_of m" "key_of (merge_meta old new) = key_of new"
  by (simp_all add: key_of_def merge_meta_def)

lemma commit_Inr: "commit put r x = (Inr y, x') \<Longrightarrow> \<exists>objs. r = Inr (y, objs)"
  by (auto simp: commit_def split: sum.splits)

lemma write_key:
  assumes "write_object meta stamp merge new v objs = Inr (x, objs')"
    and "\<And>v o'. key_of (meta (stamp v o')) = key_of (meta o')"
    and "\<And>old. key_of (meta old) = key_of (meta new) \<Longrightarrow> key_of (meta (merge old new)) = key_of (meta new)"
  shows "key_of (meta x) = key_of (meta new)"
  using assms by (auto simp: write_object_def Let_def split: sum.splits if_splits dest: lookup_key)

lemma write_tunnel_keys:
  "update_tunnel_in t x = (Inr t', x') \<Longrightarrow> key_of (tn_Meta t') = key_of (tn_Meta t)"
  "status_tunnel_in t x = (Inr t', x') \<Longrightarrow> key_of (tn_Meta t') = key_of (tn_Meta t)"
  unfolding update_tunnel_in_def status_tunnel_in_def
  by (drule commit_Inr, elim exE, erule write_key, simp_all add: stamp_tunnel_def)+

lemma write_route_keys:
  "update_route_in t x = (Inr t', x') \<Longrightarrow> key_of (tr_Meta t') = key_of (tr_Meta t)"
  unfolding update_route_in_def
  by (drule commit_Inr, elim exE, erule write_key, simp_all add: stamp_route_def)

interpretation cluster_names: object_names "cluster_env h" for h
  by unfold_locales
     (auto simp: cluster_env_def dest: lookup_key write_tunnel_keys write_route_keys)

interpretation cluster_lister: route_lister "cluster_env h" cu_Routes for h
  by unfold_locales (simp_all add: cluster_env_def)

interpretation ref_owner: owner_lib ref_SetControllerReference
  by unfold_locales (auto simp: ref_SetControllerReference_def split: if_splits)

end
