(* ===== verification/Fake_Runs.thy ===== *)
theory Fake_Runs
  imports Wire_Roundtrip Cluster
begin

text \<open>
  What the operations of the client do when the fake platform serves them: each is a function of
  the fake's state. The proofs go through the whole wire: path escaping, routing, JSON written and
  read on both sides.
\<close>

section \<open>Routing\<close>

text \<open>Identifiers as the fake issues them: not empty and without slashes.\<close>

definition plain_id :: "string \<Rightarrow> bool" where
  "plain_id i = (i \<noteq> [] \<and> CHR ''/'' \<notin> set i)"

lemma dropWhile_hd: "xs \<noteq> [] \<Longrightarrow> \<not> P (hd xs) \<Longrightarrow> dropWhile P xs = xs"
  by (cases xs) auto

lemma trim_slashes_plain:
  assumes "s \<noteq> []" and "hd s \<noteq> CHR ''/''" and "last s \<noteq> CHR ''/''"
  shows "trim_slashes (CHR ''/'' # s) = s"
proof -
  have "dropWhile (\<lambda>c. c = CHR ''/'') s = s" using assms by (intro dropWhile_hd) auto
  moreover have "dropWhile (\<lambda>c. c = CHR ''/'') (rev s) = rev s"
    using assms by (intro dropWhile_hd) (auto simp: hd_rev)
  ultimately show ?thesis by (simp add: trim_slashes_def)
qed

lemma plain_id_hd: "plain_id i \<Longrightarrow> hd (i @ r) \<noteq> CHR ''/''" 
  by (cases i) (auto simp: plain_id_def)

lemma plain_id_last: "plain_id i \<Longrightarrow> last (r @ i) \<noteq> CHR ''/''"
  by (cases i rule: rev_cases) (auto simp: plain_id_def)

lemma fake_http_path:
  assumes "srv_base s = ep" and "CHR ''?'' \<notin> set p" and "unescape False p = Some (''/api/v2/tunnels'' @ tail)"
  shows "fake_http ep c (build_request s m p b) f =
    (case fake_serve (build_request s m p b) (trim_slashes tail) [] f of (r, f') \<Rightarrow> (Inr r, f'))"
proof -
  have all: "takeWhile (\<lambda>c. c \<noteq> CHR ''?'') p = p"
    using assms(2) by (auto intro: takeWhile_eq_all_conv [THEN iffD2])
  have url: "rq_URL (build_request s m p b) = ep @ p"
    using assms(1) by (simp add: build_request_def)
  have cut: "drop (length ep) (ep @ p) = p" by simp
  show ?thesis
    unfolding fake_http_def Let_def url cut all assms(3) option.case TrimPrefix_append by simp
qed

lemma no_question [simp]: "CHR ''?'' \<notin> set (routesPath i)" "CHR ''?'' \<notin> set (routePath i j)"
  "CHR ''?'' \<notin> set (''/api/v2/tunnels/'' @ PathEscape i)"
  using PathEscape_no_slash(2) by (simp_all add: routesPath_def routePath_def)

lemma unescape_routesPath [simp]:
  "unescape False (routesPath i) = Some (''/api/v2/tunnels'' @ CHR ''/'' # i @ ''/routes'')"
  by (simp add: routesPath_def unescape_PathEscape_append)

lemma unescape_routePath [simp]:
  "unescape False (routePath i j) = Some (''/api/v2/tunnels'' @ CHR ''/'' # i @ ''/routes/'' @ j)"
  by (simp add: routePath_def routesPath_def unescape_PathEscape_append)

lemma trim_routes:
  "plain_id i \<Longrightarrow> trim_slashes (CHR ''/'' # i @ ''/routes'') = i @ ''/routes''"
  "plain_id i \<Longrightarrow> plain_id j \<Longrightarrow> trim_slashes (CHR ''/'' # i @ ''/routes/'' @ j) = i @ ''/routes/'' @ j"
  using plain_id_hd [of i] plain_id_last [of j "i @ ''/routes/''"]
  by (auto intro!: trim_slashes_plain simp: plain_id_def)

lemma cut_routes: "plain_id i \<Longrightarrow> cut ''/routes/'' (i @ ''/routes/'' @ j) = Some (i, j)"
proof -
  have "CHR ''/'' \<notin> set i \<Longrightarrow> cut ''/routes/'' (i @ ''/routes/'' @ j) = Some (i, j)"
    by (induction i) (auto simp: HasPrefix_def)
  then show "plain_id i \<Longrightarrow> cut ''/routes/'' (i @ ''/routes/'' @ j) = Some (i, j)" by (simp add: plain_id_def)
qed

lemma TrimSuffix_routes: "TrimSuffix (i @ ''/routes'') ''/routes'' = i"
  by (rule TrimSuffix_append)

lemma request_sel [simp]:
  "rq_Method (build_request s m p b) = m" "rq_Body (build_request s m p b) = map_option render b"
  by (simp_all add: build_request_def)

section \<open>The routes\<close>

lemma read_body_ok: "wf_json j \<Longrightarrow> shallow j \<Longrightarrow> dec j zero = Some v \<Longrightarrow> read_body dec zero (build_request s m p (Some j)) = v"
  by (simp add: read_body_def)

lemma read_body_create:
  "wf_create i \<Longrightarrow> read_body dec_create_route zero_create_route (build_request s m p (Some (enc_create_route i))) = i"
  by (rule read_body_ok) (simp_all add: wf_enc_create_route dec_enc_create_route)

lemma read_body_update:
  "wf_update u \<Longrightarrow> read_body dec_update_route empty_update (build_request s m p (Some (enc_update_route u))) = u"
  by (rule read_body_ok) (simp_all add: wf_enc_update_route dec_enc_update_route)

lemma fake_list_routes:
  assumes "srv_base s = ep" and "plain_id i"
  shows "fake_http ep c (build_request s ''GET'' (routesPath i) None) f = (Inr (fake_listRoutes i f), f)"
  using assms
  by (simp add: fake_http_path [OF assms(1), of _ "CHR ''/'' # i @ ''/routes''"] trim_routes fake_serve_def)

lemma fake_create_route:
  assumes "srv_base s = ep" and "plain_id i" and "wf_create inp"
  shows "fake_http ep c (build_request s ''POST'' (routesPath i) (Some (enc_create_route inp))) f =
    (case fake_createRoute i inp f of (r, f') \<Rightarrow> (Inr r, f'))"
proof -
  have "\<not> HasSuffix (i @ ''/routes'') ''/rotate-token''" by (auto dest: HasSuffix_last)
  moreover have "i @ ''/routes'' \<noteq> []" by simp
  ultimately show ?thesis
    using assms
    by (simp add: fake_http_path [OF assms(1), of _ "CHR ''/'' # i @ ''/routes''"] trim_routes fake_serve_def
        read_body_create)
qed

lemma fake_update_route:
  assumes "srv_base s = ep" and "plain_id i" and "plain_id j" and "wf_update u"
  shows "fake_http ep c (build_request s ''PUT'' (routePath i j) (Some (enc_update_route u))) f =
    (case fake_updateRoute i j u f of (r, f') \<Rightarrow> (Inr r, f'))"
  using assms cut_routes [OF assms(2), of j] trim_routes(2) [OF assms(2,3)]
  by (simp add: fake_http_path [OF assms(1), of _ "CHR ''/'' # i @ ''/routes/'' @ j"] fake_serve_def
      read_body_update)

lemma fake_delete_route:
  assumes "srv_base s = ep" and "plain_id i" and "plain_id j"
  shows "fake_http ep c (build_request s ''DELETE'' (routePath i j) None) f =
    (case fake_deleteRoute i j f of (r, f') \<Rightarrow> (Inr r, f'))"
  using assms cut_routes [OF assms(2), of j] trim_routes(2) [OF assms(2,3)]
  by (simp add: fake_http_path [OF assms(1), of _ "CHR ''/'' # i @ ''/routes/'' @ j"] fake_serve_def)

text \<open>The environment of a cluster whose platform is the fake, and what its state says.\<close>

definition fake_env :: "string \<Rightarrow> fakeAPI cluster env" where
  "fake_env ep = cluster_env (fake_http ep)"

abbreviation plat :: "fakeAPI cluster world \<Rightarrow> fakeAPI" where
  "plat w \<equiv> cu_Platform (ext w)"

definition fake_step :: "fakeAPI \<Rightarrow> call \<Rightarrow> fakeAPI cluster world \<Rightarrow> fakeAPI cluster world" where
  "fake_step f c w = emit ((ext w)\<lparr>cu_Platform := f\<rparr>) c w"

lemma fake_step_ext [simp]: "ext (fake_step f c w) = (ext w)\<lparr>cu_Platform := f\<rparr>"
  by (simp add: fake_step_def)

lemma run_fake_request:
  assumes "fake_http (srv_base s) (srv_http s) (build_request s m p b) (plat w) = (ans, f)"
  shows "run_state (do_request (fake_env (srv_base s)) s m p b out zero) w =
    (read_answer (fake_env (srv_base s)) s m p out zero ans,
     fake_step f (CHttp (srv_http s) (build_request s m p b) ans) w)"
  unfolding fake_step_def
  by (rule run_do_request) (simp_all add: fake_env_def cluster_env_def assms)

lemma run_fake_served:
  assumes "fake_http (srv_base s) (srv_http s) (build_request s m p b) (plat w) = (case g of (r, f') \<Rightarrow> (Inr r, f'))"
    and "g = (resp, f)"
  shows "run_state (do_request (fake_env (srv_base s)) s m p b out zero) w =
    (read_answer (fake_env (srv_base s)) s m p out zero (Inr resp),
     fake_step f (CHttp (srv_http s) (build_request s m p b) (Inr resp)) w)"
  by (rule run_fake_request) (simp add: assms)

lemma read_writeJSON:
  assumes "status < 400" and "status \<noteq> 204" and "wf_json j" and "shallow j" and "dec j zero = Some v"
  shows "read_answer env s m p (Some dec) zero (Inr (writeJSON status j)) = Inr v"
  using assms by (simp add: read_answer_def writeJSON_def)

lemma read_noContent: "read_answer env s m p out zero (Inr noContent) = Inr zero"
  by (simp add: read_answer_def noContent_def split: option.split)

text \<open>A sound list of routes, as the fake keeps them.\<close>

definition sound_routes :: "nat \<Rightarrow> Route list \<Rightarrow> bool" where
  "sound_routes n rs =
     (list_all wf_route rs \<and> distinct (map ro_ID rs) \<and> int (length rs) < 2 ^ 63
      \<and> list_all (\<lambda>r. \<exists>k \<le> n. ro_ID r = ''rt-'' @ show_nat k) rs)"

lemma plain_rt [simp]: "plain_id (''rt-'' @ show_nat k)" "plain_id (''tun-'' @ show_nat k)"
  using show_nat_no_char [of "CHR ''/''"] by (auto simp: plain_id_def is_digit_def)

lemma dec_enc_listing:
  assumes "list_all wf_route rs" and "int (length rs) < 2 ^ 63"
  shows "dec_routes (JObj [(''routes'', JArr (map enc_route rs)), (''total'', jint (int (length rs)))]) ([], 0)
    = Some (rs, int (length rs))"
proof -
  have "int64 (int (length rs))" using assms(2) by (simp add: int64_def)
  with assms(1) show ?thesis
    by (simp add: dec_routes_def dec_struct_def dec_list_def dec_enc_routes del: list.map)
qed

lemma run_ListRoutes:
  assumes "plain_id i" and "sound_routes n (fa_routes (plat w) i)"
  shows "\<exists>c. run_state (ListRoutes (fake_env (srv_base s)) s i) w = (Inr (fa_routes (plat w) i), fake_step (plat w) c w)"
proof -
  let ?rs = "fa_routes (plat w) i"
  have "int64 (int (length ?rs))" using assms(2) by (simp add: sound_routes_def int64_def)
  then have "read_answer env s m p (Some dec_routes) ([], 0) (Inr (fake_listRoutes i (plat w)))
      = Inr (?rs, int (length ?rs))" for env :: "fakeAPI cluster env" and m p
    using assms(2) unfolding fake_listRoutes_def
    by (intro read_writeJSON dec_enc_listing) (simp_all add: sound_routes_def wf_enc_routes)
  then show ?thesis
    unfolding ListRoutes_def
    by (auto simp: run_fake_request [OF fake_list_routes [OF refl assms(1)]])
qed

lemma run_CreateRoute:
  assumes "plain_id i" and "wf_create inp" and "map_of (fa_tunnels (plat w)) i \<noteq> None"
    and "r = fake_new_route i (Suc (fa_nextID (plat w))) inp"
  shows "\<exists>c. run_state (CreateRoute (fake_env (srv_base s)) s i inp) w =
    (Inr r, fake_step ((plat w)\<lparr>fa_nextID := Suc (fa_nextID (plat w)),
       fa_routes := (fa_routes (plat w))(i := fa_routes (plat w) i @ [r])\<rparr>) c w)"
proof -
  have "wf_route r" using assms(2,4) by (simp add: fake_new_route_def wf_route_def wf_create_def zero_route_def int64_def)
  then have "read_answer env s m p (Some dec_route) zero_route (Inr (writeJSON 201 (enc_route r))) = Inr r"
    for env :: "fakeAPI cluster env" and m p
    by (intro read_writeJSON) (simp_all add: wf_enc_route dec_enc_route)
  moreover have served: "fake_createRoute i inp (plat w) = (writeJSON 201 (enc_route r),
      (plat w)\<lparr>fa_nextID := Suc (fa_nextID (plat w)),
        fa_routes := (fa_routes (plat w))(i := fa_routes (plat w) i @ [r])\<rparr>)"
    using assms(3,4) by (auto simp: fake_createRoute_def Let_def)
  ultimately show ?thesis
    unfolding CreateRoute_def
    by (auto simp: run_fake_served [OF fake_create_route [OF refl assms(1,2)] served])
qed

lemma run_DeleteRoute:
  assumes "plain_id i" and "plain_id j"
  shows "\<exists>c. run_state (DeleteRoute (fake_env (srv_base s)) s i j) w =
    (Inr (), fake_step ((plat w)\<lparr>fa_routes := (fa_routes (plat w))(i := filter (\<lambda>r. ro_ID r \<noteq> j) (fa_routes (plat w) i))\<rparr>) c w)"
  unfolding DeleteRoute_def
  by (auto simp: run_fake_request [OF fake_delete_route [OF refl assms, unfolded fake_deleteRoute_def prod.case]] read_noContent)

lemma update_first_found:
  assumes "r \<in> set rs" and "distinct (map ro_ID rs)"
  shows "update_first g (ro_ID r) rs = Some (g r, map (\<lambda>q. if ro_ID q = ro_ID r then g q else q) rs)"
  using assms
proof (induction rs)
  case (Cons q rs)
  show ?case
  proof (cases "ro_ID q = ro_ID r")
    case True
    with Cons.prems have "q = r" by force
    moreover have "map (\<lambda>q. if ro_ID q = ro_ID r then g q else q) rs = rs"
      using Cons.prems True by (intro map_idI) (auto simp: rev_image_eqI)
    ultimately show ?thesis by simp
  next
    case False
    with Cons show ?thesis by auto
  qed
qed simp

lemma wf_apply_update: "wf_route r \<Longrightarrow> wf_update u \<Longrightarrow> wf_route (apply_update u r)"
  by (auto simp: wf_route_def wf_update_def apply_update_def split: option.split)

lemma run_UpdateRoute:
  assumes "plain_id i" and "plain_id (ro_ID r)" and "wf_update u" and "r \<in> set (fa_routes (plat w) i)"
    and "sound_routes n (fa_routes (plat w) i)"
  shows "\<exists>c. run_state (UpdateRoute (fake_env (srv_base s)) s i (ro_ID r) u) w =
    (Inr (apply_update u r), fake_step ((plat w)\<lparr>fa_routes := (fa_routes (plat w))(i :=
        map (\<lambda>q. if ro_ID q = ro_ID r then apply_update u q else q) (fa_routes (plat w) i))\<rparr>) c w)"
proof -
  let ?new = "apply_update u r"
  have "wf_route ?new" using assms(3-5) by (auto intro!: wf_apply_update simp: sound_routes_def list_all_iff)
  then have "read_answer env s m p (Some dec_route) zero_route (Inr (writeJSON 200 (enc_route ?new))) = Inr ?new"
    for env :: "fakeAPI cluster env" and m p
    by (intro read_writeJSON) (simp_all add: wf_enc_route dec_enc_route)
  moreover have served: "fake_updateRoute i (ro_ID r) u (plat w) = (writeJSON 200 (enc_route ?new),
      (plat w)\<lparr>fa_routes := (fa_routes (plat w))(i :=
        map (\<lambda>q. if ro_ID q = ro_ID r then apply_update u q else q) (fa_routes (plat w) i))\<rparr>)"
    using assms(4,5) by (simp add: fake_updateRoute_def update_first_found sound_routes_def)
  ultimately show ?thesis
    unfolding UpdateRoute_def
    by (auto simp: run_fake_served [OF fake_update_route [OF refl assms(1-3)] served])
qed

end
