(* ===== verification/Ensure_Route.thy ===== *)
theory Ensure_Route
  imports Fake_Runs Route_Controller
begin

text \<open>
  Publishing a route converges: whatever the platform holds for a tunnel, one run of \<^verbatim>\<open>ensureRoute\<close>
  leaves one route that matches the spec in the place of the one it took for it, touches no other,
  and a second run writes nothing. What the platform promises is the locale
  \<open>route_platform\<close>; that a create may choose every field that is not the identity of the route
  (the platform creates every route enabled and reads a priority of 0 as 100) is left open in it.
\<close>

section \<open>What it means to match\<close>

definition route_matches :: "Route \<Rightarrow> TunnelRoute \<Rightarrow> string \<Rightarrow> int32 \<Rightarrow> bool" where
  "route_matches r route host port =
     (ro_Type r = routeType route \<and> ro_Hostname r = rs_Hostname (tr_Spec route) \<and> ro_PathPrefix r = pathPrefix route
      \<and> ro_UpstreamHost r = host \<and> ro_UpstreamPort r = sint port \<and> ro_UpstreamScheme r = upstreamScheme route
      \<and> ro_StripPrefix r = rs_StripPrefix (tr_Spec route) \<and> ro_Priority r = sint (priority route)
      \<and> ro_Enabled r = enabled route)"

text \<open>The routes of the tunnel after publishing: the one taken for this route replaced, or one more.\<close>

definition routes_after :: "TunnelRoute \<Rightarrow> Route list \<Rightarrow> Route \<Rightarrow> Route list" where
  "routes_after route rs r =
     (case pick_route route rs of
        None \<Rightarrow> rs @ [r]
      | Some e \<Rightarrow>
          if identityChanged e route then filter (\<lambda>q. ro_ID q \<noteq> ro_ID e) rs @ [r]
          else map (\<lambda>q. if ro_ID q = ro_ID e then r else q) rs)"

section \<open>Drift\<close>

definition drift_fields :: "Route \<Rightarrow> TunnelRoute \<Rightarrow> string \<Rightarrow> int32 \<Rightarrow> UpdateRouteInput" where
  "drift_fields a route host port =
     \<lparr>uri_UpstreamHost = (if ro_UpstreamHost a \<noteq> host then Some host else None),
      uri_UpstreamPort = (if ro_UpstreamPort a \<noteq> sint port then Some (sint port) else None),
      uri_UpstreamScheme = (if ro_UpstreamScheme a \<noteq> upstreamScheme route then Some (upstreamScheme route) else None),
      uri_StripPrefix = (if ro_StripPrefix a \<noteq> rs_StripPrefix (tr_Spec route)
                         then Some (rs_StripPrefix (tr_Spec route)) else None),
      uri_Priority = (if ro_Priority a \<noteq> sint (priority route) then Some (sint (priority route)) else None),
      uri_Enabled = (if ro_Enabled a \<noteq> enabled route then Some (enabled route) else None)\<rparr>"

lemma routeDrift_fields:
  "routeDrift a route host port = (drift_fields a route host port, drift_fields a route host port \<noteq> empty_update)"
  by (simp add: routeDrift_def drift_fields_def empty_update_def Let_def)

lemma apply_drift:
  "apply_update (drift_fields a route host port) a =
     a\<lparr>ro_UpstreamHost := host, ro_UpstreamPort := sint port, ro_UpstreamScheme := upstreamScheme route,
       ro_StripPrefix := rs_StripPrefix (tr_Spec route), ro_Priority := sint (priority route), ro_Enabled := enabled route\<rparr>"
  by (cases a) (simp add: apply_update_def drift_fields_def)

lemma drift_empty_iff:
  "drift_fields a route host port = empty_update \<longleftrightarrow> apply_update (drift_fields a route host port) a = a"
  unfolding apply_drift by (cases a) (auto simp: drift_fields_def empty_update_def split: if_splits)

lemma wf_drift [simp]: "wf_update (drift_fields a route host port)"
  by (simp add: wf_update_def drift_fields_def)

lemma matches_apply_drift:
  "route_matches (apply_update (drift_fields a route host port) a) route host port \<longleftrightarrow> \<not> identityChanged a route"
  by (auto simp: apply_drift route_matches_def identityChanged_def)

lemma matches_no_drift:
  assumes "route_matches r route host port"
  shows "\<not> identityChanged r route" "drift_fields r route host port = empty_update"
  using assms by (auto simp: route_matches_def identityChanged_def drift_fields_def empty_update_def)

lemma apply_update_ID [simp]: "ro_ID (apply_update u r) = ro_ID r"
  by (simp add: apply_update_def)

text \<open>
  The drift between a route and its spec is exact: applying it makes the route match, unless
  its identity differs; it reports a change precisely when applying it changes something; and once
  applied there is no drift left.
\<close>

lemma routeDrift_exact:
  "let (u, changed) = routeDrift a route host port; r = apply_update u a in
     route_matches r route host port = (\<not> identityChanged a route)
     \<and> changed = (r \<noteq> a)
     \<and> routeDrift r route host port = (empty_update, False)"
proof -
  have "drift_fields (apply_update (drift_fields a route host port) a) route host port = empty_update"
    unfolding apply_drift by (simp add: drift_fields_def empty_update_def)
  then show ?thesis
    by (simp add: routeDrift_fields matches_apply_drift drift_empty_iff Let_def)
qed

lemma pick_in: "pick_route route rs = Some e \<Longrightarrow> e \<in> set rs"
  by (auto simp: pick_route_def Let_def find_Some_iff split: option.splits if_splits)

lemma routes_after_has: "r \<in> set (routes_after route rs r)"
  by (cases "pick_route route rs") (auto simp: routes_after_def image_iff dest: pick_in)

text \<open>
  The routes with the hostname and path of the spec: the one published, and beside it those that
  were there and were not the one taken for it.
\<close>

definition same_place :: "TunnelRoute \<Rightarrow> Route \<Rightarrow> bool" where
  "same_place route q = (ro_Hostname q = rs_Hostname (tr_Spec route) \<and> ro_PathPrefix q = pathPrefix route)"

definition rivals :: "TunnelRoute \<Rightarrow> Route list \<Rightarrow> Route list" where
  "rivals route rs = filter (\<lambda>q. same_place route q \<and> pick_route route rs \<noteq> Some q) rs"

lemma routes_after_count:
  assumes "distinct (map ro_ID rs)" and "route_matches r route host port"
  shows "length (filter (same_place route) (routes_after route rs r)) = Suc (length (rivals route rs))"
proof -
  have place: "same_place route r" using assms(2) by (simp add: same_place_def route_matches_def)
  show ?thesis
  proof (cases "pick_route route rs")
    case None
    with place show ?thesis by (simp add: routes_after_def rivals_def)
  next
    case (Some e)
    have e: "e \<in> set rs" by (rule pick_in [OF Some])
    then have id: "ro_ID q = ro_ID e \<longleftrightarrow> e = q" if "q \<in> set rs" for q
      using assms(1) that by (auto simp: distinct_map dest: inj_onD)
    have others: "filter (same_place route) (filter (\<lambda>q. ro_ID q \<noteq> ro_ID e) rs) = rivals route rs"
      unfolding rivals_def filter_filter by (rule filter_cong) (auto simp: Some id)
    show ?thesis
    proof (cases "identityChanged e route")
      case True
      then show ?thesis using others place by (simp add: routes_after_def Some)
    next
      case False
      then have kept: "same_place route e" by (simp add: identityChanged_def same_place_def)
      have "length (filter (same_place route) (map (\<lambda>q. if ro_ID q = ro_ID e then r else q) rs)) = length (filter (same_place route) rs)"
        unfolding filter_map length_map by (rule arg_cong [where f = length], rule filter_cong) (use place kept in \<open>auto simp: id\<close>)
      also have "\<dots> = length (remove1 e (filter (same_place route) rs)) + 1"
        using e kept length_pos_if_in_set [of e "filter (same_place route) rs"] by (simp add: length_remove1)
      also have "remove1 e (filter (same_place route) rs) = rivals route rs"
        using assms(1) unfolding rivals_def by (subst distinct_remove1_removeAll) (auto simp: distinct_map removeAll_filter_not_eq filter_filter Some intro!: filter_cong)
      finally show ?thesis using False by (simp add: routes_after_def Some)
    qed
  qed
qed

section \<open>The platform's promise\<close>

locale route_platform =
  fixes env :: "'x env" and api :: service
    and routes :: "'x \<Rightarrow> string \<Rightarrow> Route list"
    and ok room :: "'x \<Rightarrow> string \<Rightarrow> bool"
    and confined :: "string \<Rightarrow> 'x \<Rightarrow> 'x \<Rightarrow> bool"
  assumes confined_refl: "confined t x x"
    and confined_trans: "confined t x y \<Longrightarrow> confined t y z \<Longrightarrow> confined t x z"
    and ids: "ok x t \<Longrightarrow> distinct (map ro_ID (routes x t)) \<and> (\<forall>r \<in> set (routes x t). ro_ID r \<noteq> [])"
    and list_routes: "ok (ext w) t \<Longrightarrow>
      \<exists>w'. run_state (ListRoutes env api t) w = (Inr (routes (ext w) t), w') \<and> ext w' = ext w"
    and create_route: "ok (ext w) t \<Longrightarrow> room (ext w) t \<Longrightarrow> wf_create i \<Longrightarrow> cri_PathPrefix i \<noteq> [] \<Longrightarrow>
      \<exists>r w'. run_state (CreateRoute env api t i) w = (Inr r, w') \<and> ok (ext w') t \<and> confined t (ext w) (ext w')
        \<and> routes (ext w') t = routes (ext w) t @ [r]
        \<and> ro_Type r = cri_Type i \<and> ro_Hostname r = cri_Hostname i \<and> ro_PathPrefix r = cri_PathPrefix i"
    and update_route: "ok (ext w) t \<Longrightarrow> wf_update u \<Longrightarrow> r \<in> set (routes (ext w) t) \<Longrightarrow>
      \<exists>w'. run_state (UpdateRoute env api t (ro_ID r) u) w = (Inr (apply_update u r), w') \<and> ok (ext w') t \<and> confined t (ext w) (ext w')
        \<and> routes (ext w') t = map (\<lambda>q. if ro_ID q = ro_ID r then apply_update u q else q) (routes (ext w) t)"
    and delete_route: "ok (ext w) t \<Longrightarrow> r \<in> set (routes (ext w) t) \<Longrightarrow>
      \<exists>w'. run_state (DeleteRoute env api t (ro_ID r)) w = (Inr (), w') \<and> ok (ext w') t \<and> confined t (ext w) (ext w')
        \<and> routes (ext w') t = filter (\<lambda>q. ro_ID q \<noteq> ro_ID r) (routes (ext w) t)
        \<and> (room (ext w) t \<longrightarrow> room (ext w') t)"
begin

lemma run_findRoute:
  assumes "ok (ext w) t"
  shows "\<exists>w'. run_state (findRoute env api route t) w = (Inr (pick_route route (routes (ext w) t)), w') \<and> ext w' = ext w"
  using list_routes [OF assms] by (auto simp: findRoute_def)

lemma unique_id:
  assumes "ok x t" and "e \<in> set (routes x t)" and "q \<in> set (routes x t)" and "ro_ID q = ro_ID e"
  shows "q = e"
  using ids [OF assms(1)] assms(2-4) by (auto simp: distinct_map dest: inj_onD)

text \<open>Closing the drift of one route of the tunnel.\<close>

lemma run_reconcile_drift:
  assumes "ok (ext w) t" and "e \<in> set (routes (ext w) t)" and "\<not> identityChanged e route"
  shows "\<exists>r w'. run_state (reconcile_drift env api route t host port e) w = (Inr r, w') \<and> ok (ext w') t
    \<and> confined t (ext w) (ext w') \<and> route_matches r route host port \<and> ro_ID r = ro_ID e
    \<and> routes (ext w') t = map (\<lambda>q. if ro_ID q = ro_ID e then r else q) (routes (ext w) t)"
proof (cases "drift_fields e route host port = empty_update")
  case True
  have "map (\<lambda>q. if ro_ID q = ro_ID e then e else q) (routes (ext w) t) = routes (ext w) t"
    using unique_id [OF assms(1,2)] by (intro map_idI) metis
  moreover have "route_matches e route host port"
    using True assms(3) matches_apply_drift [of e route host port] drift_empty_iff [of e route host port] by simp
  ultimately show ?thesis using assms(1) True confined_refl by (simp add: reconcile_drift_def routeDrift_fields)
next
  case False
  let ?r = "apply_update (drift_fields e route host port) e"
  obtain w' where w': "run_state (UpdateRoute env api t (ro_ID e) (drift_fields e route host port)) w = (Inr ?r, w')"
      "ok (ext w') t"
      and conf: "confined t (ext w) (ext w')"
      and after: "routes (ext w') t = map (\<lambda>q. if ro_ID q = ro_ID e then apply_update (drift_fields e route host port) q else q)
        (routes (ext w) t)"
    using update_route [OF assms(1) wf_drift assms(2)] by blast
  have "routes (ext w') t = map (\<lambda>q. if ro_ID q = ro_ID e then ?r else q) (routes (ext w) t)"
    unfolding after using unique_id [OF assms(1,2)] by (intro map_cong) auto
  moreover have "route_matches ?r route host port" using assms(3) by (simp add: matches_apply_drift)
  ultimately show ?thesis using w' conf False by (simp add: reconcile_drift_def routeDrift_fields)
qed

lemma run_create_and_reconcile:
  assumes "ok (ext w) t" and "room (ext w) t"
  shows "\<exists>r w'. run_state (create_and_reconcile env api route t host port) w = (Inr r, w') \<and> ok (ext w') t
    \<and> confined t (ext w) (ext w') \<and> route_matches r route host port \<and> routes (ext w') t = routes (ext w) t @ [r]"
proof -
  have wf: "wf_create (create_input route host port)" "cri_PathPrefix (create_input route host port) \<noteq> []"
    by (simp_all add: wf_create_def create_input_def pathPrefix_def)
  obtain r0 w1 where w1: "run_state (CreateRoute env api t (create_input route host port)) w = (Inr r0, w1)"
      "ok (ext w1) t" "routes (ext w1) t = routes (ext w) t @ [r0]" "confined t (ext w) (ext w1)"
      and "ro_Type r0 = routeType route" "ro_Hostname r0 = rs_Hostname (tr_Spec route)" "ro_PathPrefix r0 = pathPrefix route"
    using create_route [OF assms wf] by (auto simp: create_input_def)
  then have id: "\<not> identityChanged r0 route" by (simp add: identityChanged_def)
  have r0: "r0 \<in> set (routes (ext w1) t)" by (simp add: w1(3))
  obtain r w2 where w2: "run_state (reconcile_drift env api route t host port r0) w1 = (Inr r, w2)"
      "ok (ext w2) t" "route_matches r route host port"
      "routes (ext w2) t = map (\<lambda>q. if ro_ID q = ro_ID r0 then r else q) (routes (ext w1) t)"
      "confined t (ext w1) (ext w2)"
    using run_reconcile_drift [OF w1(2) r0 id] by blast
  have "ro_ID r0 \<notin> ro_ID ` set (routes (ext w) t)" using ids [OF w1(2)] by (auto simp: w1(3))
  then have "routes (ext w2) t = routes (ext w) t @ [r]"
    by (auto simp: w2(4) w1(3) image_iff intro!: map_idI)
  with w1 w2 confined_trans [OF w1(4) w2(5)] show ?thesis by (simp add: create_and_reconcile_def)
qed

lemma ensureRoute_publishes:
  assumes "ok (ext w) t" and "room (ext w) t"
  shows "\<exists>r w'. run_state (ensureRoute env api route t host port) w = (Inr r, w') \<and> ok (ext w') t
    \<and> confined t (ext w) (ext w')
    \<and> route_matches r route host port \<and> routes (ext w') t = routes_after route (routes (ext w) t) r"
proof -
  obtain w1 where w1: "run_state (findRoute env api route t) w = (Inr (pick_route route (routes (ext w) t)), w1)"
      "ext w1 = ext w"
    using run_findRoute [OF assms(1)] by blast
  have ok1: "ok (ext w1) t" "room (ext w1) t" using assms w1(2) by simp_all
  show ?thesis
  proof (cases "pick_route route (routes (ext w) t)")
    case None
    with run_create_and_reconcile [OF ok1] w1 show ?thesis
      by (auto simp: ensureRoute_def routes_after_def)
  next
    case (Some e)
    then have e: "e \<in> set (routes (ext w1) t)" using w1(2) pick_in by metis
    show ?thesis
    proof (cases "identityChanged e route")
      case False
      with Some run_reconcile_drift [OF ok1(1) e False, of host port] w1 show ?thesis
        by (auto simp: ensureRoute_def routes_after_def)
    next
      case True
      obtain w2 where w2: "run_state (DeleteRoute env api t (ro_ID e)) w1 = (Inr (), w2)" "ok (ext w2) t"
          "routes (ext w2) t = filter (\<lambda>q. ro_ID q \<noteq> ro_ID e) (routes (ext w1) t)" "room (ext w2) t" "confined t (ext w1) (ext w2)"
        using delete_route [OF ok1(1) e] ok1(2) by blast
      let ?ev = "CEvent (route_key route) EventTypeNormal ''RouteReplaced'' ''Replacing''
          ''Recreated the route because its hostname, type or path prefix changed''"
      let ?w3 = "w2\<lparr>trace := trace w2 @ [?ev]\<rparr>"
      have "ext ?w3 = ext w2" by simp
      moreover note confined_trans [OF w2(5)]
      ultimately show ?thesis
        using run_create_and_reconcile [of ?w3 t route host port] w1 w2 Some True
        by (auto simp: ensureRoute_def routes_after_def Eventf_def)
    qed
  qed
qed

lemma ensureRoute_settled:
  assumes "ok (ext w) t" and "pick_route route (routes (ext w) t) = Some r" and "route_matches r route host port"
  shows "\<exists>w'. run_state (ensureRoute env api route t host port) w = (Inr r, w') \<and> ext w' = ext w"
  using run_findRoute [OF assms(1), of route] assms(2) matches_no_drift [OF assms(3)]
  by (auto simp: ensureRoute_def reconcile_drift_def routeDrift_fields)

end

section \<open>The fake platform keeps it\<close>

definition fake_ok :: "fakeAPI cluster \<Rightarrow> string \<Rightarrow> bool" where
  "fake_ok x t =
     (plain_id t \<and> map_of (fa_tunnels (cu_Platform x)) t \<noteq> None
      \<and> sound_routes (fa_nextID (cu_Platform x)) (fa_routes (cu_Platform x) t))"

definition fake_room :: "fakeAPI cluster \<Rightarrow> string \<Rightarrow> bool" where
  "fake_room x t = (int (Suc (length (fa_routes (cu_Platform x) t))) < 2 ^ 63)"

text \<open>At most the routes of one tunnel, and the counter of identifiers, differ.\<close>

definition fake_confined :: "string \<Rightarrow> fakeAPI cluster \<Rightarrow> fakeAPI cluster \<Rightarrow> bool" where
  "fake_confined t x x' =
     (\<exists>n rs. x' = x\<lparr>cu_Platform := (cu_Platform x)\<lparr>fa_nextID := n, fa_routes := (fa_routes (cu_Platform x))(t := rs)\<rparr>\<rparr>)"

lemma fake_confined_refl: "fake_confined t x x"
proof -
  have "x = x\<lparr>cu_Platform := (cu_Platform x)\<lparr>fa_nextID := fa_nextID (cu_Platform x),
      fa_routes := (fa_routes (cu_Platform x))(t := fa_routes (cu_Platform x) t)\<rparr>\<rparr>"
    by simp
  then show ?thesis unfolding fake_confined_def by blast
qed

lemma fake_confined_trans: "fake_confined t x y \<Longrightarrow> fake_confined t y z \<Longrightarrow> fake_confined t x z"
  by (force simp: fake_confined_def)

lemma fake_confined_step:
  "fake_confined t x (x\<lparr>cu_Platform := (cu_Platform x)\<lparr>fa_nextID := n, fa_routes := (fa_routes (cu_Platform x))(t := rs)\<rparr>\<rparr>)"
  "fake_confined t x (x\<lparr>cu_Platform := (cu_Platform x)\<lparr>fa_routes := (fa_routes (cu_Platform x))(t := rs)\<rparr>\<rparr>)"
  unfolding fake_confined_def
   apply blast
  apply (rule exI [of _ "fa_nextID (cu_Platform x)"], rule exI [of _ rs], simp)
  done

lemma fake_confined_sel:
  assumes "fake_confined t x x'"
  shows "cu_Tunnels x' = cu_Tunnels x" "cu_Routes x' = cu_Routes x" "cu_Version x' = cu_Version x"
    "fa_tunnels (cu_Platform x') = fa_tunnels (cu_Platform x)"
    "j \<noteq> t \<Longrightarrow> fa_routes (cu_Platform x') j = fa_routes (cu_Platform x) j"
  using assms by (auto simp: fake_confined_def)

lemma sound_routes_ids:
  assumes "sound_routes n rs" and "r \<in> set rs"
  shows "plain_id (ro_ID r)" "ro_ID r \<noteq> []"
  using assms plain_rt(1) by (auto simp: sound_routes_def list_all_iff)

lemma sound_routes_create:
  assumes "sound_routes n rs" and "wf_create i" and "int (Suc (length rs)) < 2 ^ 63"
  shows "sound_routes (Suc n) (rs @ [fake_new_route t (Suc n) i])"
proof -
  have "ro_ID r \<noteq> ''rt-'' @ show_nat (Suc n)" if "r \<in> set rs" for r
    using assms(1) that by (force simp: sound_routes_def list_all_iff)
  moreover have "list_all (\<lambda>r. \<exists>k \<le> Suc n. ro_ID r = ''rt-'' @ show_nat k) rs"
    using assms(1) unfolding sound_routes_def list_all_iff by (meson le_SucI)
  moreover have "wf_route (fake_new_route t (Suc n) i)"
    using assms(2) by (simp add: fake_new_route_def wf_route_def wf_create_def zero_route_def int64_def)
  ultimately show ?thesis
    using assms by (fastforce simp: sound_routes_def fake_new_route_def)
qed

lemma sound_routes_map:
  assumes "sound_routes n rs" and "\<And>r. r \<in> set rs \<Longrightarrow> ro_ID (g r) = ro_ID r \<and> wf_route (g r)"
  shows "sound_routes n (map g rs)"
proof -
  have "map (ro_ID \<circ> g) rs = map ro_ID rs" using assms(2) by simp
  then have "distinct (map (ro_ID \<circ> g) rs)" using assms(1) unfolding sound_routes_def by metis
  then show ?thesis using assms by (auto simp: sound_routes_def list_all_iff)
qed

lemma sound_routes_filter: "sound_routes n rs \<Longrightarrow> sound_routes n (filter P rs)"
  using length_filter_le [of P rs]
  by (auto simp: sound_routes_def list_all_iff distinct_map_filter simp del: length_filter_le intro: le_less_trans)

interpretation fake_routes: route_platform "fake_env (srv_base s)" s "\<lambda>x. fa_routes (cu_Platform x)" fake_ok fake_room fake_confined
  for s
proof (unfold_locales, goal_cases)
  case (1 t x)
  then show ?case by (rule fake_confined_refl)
next
  case (2 t x y z)
  then show ?case by (rule fake_confined_trans)
next
  case (3 x t)
  then show ?case using sound_routes_ids(2) by (auto simp: fake_ok_def sound_routes_def)
next
  case (4 w t)
  then show ?case using run_ListRoutes [of t "fa_nextID (plat w)" w s] by (fastforce simp: fake_ok_def)
next
  case (5 w t i)
  let ?r = "fake_new_route t (Suc (fa_nextID (plat w))) i"
  have t: "plain_id t" "map_of (fa_tunnels (plat w)) t \<noteq> None" using 5(1) by (simp_all add: fake_ok_def)
  have "sound_routes (Suc (fa_nextID (plat w))) (fa_routes (plat w) t @ [?r])"
    using 5 by (intro sound_routes_create) (simp_all add: fake_ok_def fake_room_def)
  then show ?case
    using run_CreateRoute [OF t(1) 5(3) t(2) refl, of s] t 5(4) by (force simp: fake_ok_def fake_new_route_def fake_confined_step)
next
  case (6 w t u r)
  have t: "plain_id t" "plain_id (ro_ID r)" "sound_routes (fa_nextID (plat w)) (fa_routes (plat w) t)"
    using 6 sound_routes_ids(1) by (auto simp: fake_ok_def)
  have "sound_routes (fa_nextID (plat w))
      (map (\<lambda>q. if ro_ID q = ro_ID r then apply_update u q else q) (fa_routes (plat w) t))"
    by (rule sound_routes_map [OF t(3)]) (use t(3) 6(2) in \<open>auto simp: sound_routes_def list_all_iff wf_apply_update\<close>)
  then show ?case
    using run_UpdateRoute [OF t(1,2) 6(2,3) t(3), of s] 6(1) by (fastforce simp: fake_ok_def fake_confined_step)
next
  case (7 w t r)
  have t: "plain_id t" "plain_id (ro_ID r)" using 7 sound_routes_ids(1) by (auto simp: fake_ok_def)
  have "sound_routes (fa_nextID (plat w)) (filter (\<lambda>q. ro_ID q \<noteq> ro_ID r) (fa_routes (plat w) t))"
    using 7(1) by (intro sound_routes_filter) (simp add: fake_ok_def)
  moreover have "length (filter (\<lambda>q. ro_ID q \<noteq> ro_ID r) (fa_routes (plat w) t)) \<le> length (fa_routes (plat w) t)"
    by (rule length_filter_le)
  ultimately show ?case
    using run_DeleteRoute [OF t, of s w] 7(1)
    by (auto simp: fake_ok_def fake_room_def fake_confined_step simp del: length_filter_le)
qed

end
