(* ===== verification/Sample_World.thy ===== *)
theory Sample_World
  imports Fake_Runs
begin

text \<open>
  A small cluster to run the operator in: one Tunnel with its credential, one TunnelRoute to one
  Service, the fake platform behind HTTP.
\<close>

definition sample_endpoint :: string where
  "sample_endpoint = ''https://api.example''"

definition sample_meta :: "string \<Rightarrow> string \<Rightarrow> ObjectMeta" where
  "sample_meta name uid = zero_meta\<lparr>om_Name := name, om_Namespace := ''team'', om_UID := uid,
     om_ResourceVersion := ''0'', om_Generation := 1\<rparr>"

definition sample_tunnel :: Tunnel where
  "sample_tunnel =
     \<lparr>tn_Meta = sample_meta ''web'' ''uid-1'',
      tn_Spec = \<lparr>ts_Credentials = \<lparr>cr_Name = ''cred'', cr_ClientIDKey = [], cr_ClientSecretKey = []\<rparr>,
        ts_DisplayName = ''web'',
        ts_Agent = \<lparr>ag_Image = [], ag_ImagePullPolicy = [], ag_ImagePullSecrets = [], ag_Resources = JNull,
          ag_LogLevel = [], ag_NodeSelector = Map.empty, ag_Tolerations = []\<rparr>,
        ts_Endpoints = Some \<lparr>ep_TokenURL = [], ep_API = sample_endpoint, ep_ProjectID = []\<rparr>\<rparr>,
      tn_Status = \<lparr>st_TunnelID = [], st_ExternalID = [], st_Subdomain = [], st_CNAMETarget = [],
        st_WireGuardIP = [], st_CredentialSecret = [], st_OnlineStatus = [], st_ObservedGeneration = 0,
        st_Conditions = []\<rparr>\<rparr>"

definition sample_secret :: Secret where
  "sample_secret = \<lparr>sec_Meta = sample_meta ''cred'' ''uid-2'', sec_Type = ''Opaque'',
     sec_Data = [''client_id'' \<mapsto> ''id'', ''client_secret'' \<mapsto> ''secret'']\<rparr>"

definition sample_service :: Service where
  "sample_service = \<lparr>svc_Meta = sample_meta ''shop'' ''uid-3'',
     svc_Ports = [\<lparr>sp_Name = ''http'', sp_Port = 80\<rparr>]\<rparr>"

definition sample_route :: TunnelRoute where
  "sample_route =
     \<lparr>tr_Meta = sample_meta ''shop'' ''uid-4'',
      tr_Spec = \<lparr>rs_TunnelRef = ''web'', rs_Hostname = ''shop.example'', rs_Type = RouteTypeHost,
        rs_PathPrefix = [], rs_Service = Some \<lparr>sv_Name = ''shop'', sv_Port = StrVal ''http''\<rparr>,
        rs_Upstream = None, rs_Scheme = SchemeHTTP, rs_StripPrefix = False,
        rs_Priority = Some 0, rs_Enabled = Some False\<rparr>,
      tr_Status = \<lparr>rt_RouteID = [], rt_TunnelID = [], rt_UpstreamHost = [], rt_UpstreamPort = 0,
        rt_ObservedGeneration = 0, rt_Conditions = []\<rparr>\<rparr>"

definition sample_cluster :: "fakeAPI cluster" where
  "sample_cluster = \<lparr>cu_Tunnels = [sample_tunnel], cu_Routes = [sample_route], cu_Secrets = [sample_secret],
     cu_Services = [sample_service], cu_Deployments = [], cu_Version = 1, cu_Platform = newFakeAPI\<rparr>"

definition sample_world :: "fakeAPI cluster world" where
  "sample_world = \<lparr>ext = sample_cluster, trace = [], clients = Map.empty\<rparr>"

abbreviation sample_env :: "fakeAPI cluster env" where
  "sample_env \<equiv> fake_env sample_endpoint"

definition sample_tunnel_reconciler :: "fakeAPI cluster TunnelReconciler" where
  "sample_tunnel_reconciler = main_tunnel_reconciler sample_env ''dev'' ''agent:1''"

definition sample_route_reconciler :: "fakeAPI cluster TunnelRouteReconciler" where
  "sample_route_reconciler = main_route_reconciler sample_env ''dev'' ''cluster.local''"

text \<open>The platform with the sample tunnel already made.\<close>

definition sample_fake :: fakeAPI where
  "sample_fake = snd (fake_createTunnel \<lparr>cti_Name = ''web'', cti_ExternalID = ''uid-1''\<rparr> newFakeAPI)"

definition sample_service_client :: service where
  "sample_service_client = \<lparr>srv_base = sample_endpoint, srv_http = GivenClient [], srv_userAgent = []\<rparr>"

definition sample_published :: "fakeAPI cluster world" where
  "sample_published = sample_world\<lparr>ext := sample_cluster\<lparr>cu_Platform := sample_fake\<rparr>\<rparr>"

end
