(* ===== verification/Tunnel_Properties.thy ===== *)
theory Tunnel_Properties
  imports Tunnel_Deletion Sample_World
begin

text \<open>
  The properties of the Tunnel reconciler as the operator wires it, for every environment that
  keeps the contracts of \<^verbatim>\<open>External\<close>, with the runs that show them at work.
\<close>

section \<open>The contracts hold for the wired reconciler\<close>

lemma wired_tunnel_reconciler:
  assumes "finalizer_lib (AddFinalizer env) (RemoveFinalizer env) (ContainsFinalizer env)"
  shows "tunnel_reconciler (main_tunnel_reconciler env version img)"
  by (simp add: tunnel_reconciler_def wired.client_factory_axioms assms)

interpretation cluster_tunnels: named_tunnel_reconciler "main_tunnel_reconciler (cluster_env h) version img"
  for h version img
  by (simp add: named_tunnel_reconciler_def wired_tunnel_reconciler ref_fin.finalizer_lib_axioms
      cluster_names.object_names_axioms)

lemma wired_named_reconciler:
  assumes "finalizer_lib (AddFinalizer env) (RemoveFinalizer env) (ContainsFinalizer env)" and "object_names env"
  shows "named_tunnel_reconciler (main_tunnel_reconciler env version img)"
  using assms by (simp add: named_tunnel_reconciler_def wired_tunnel_reconciler)

section \<open>Worlds to run in\<close>

text \<open>A platform that cannot be reached, and one that answers every request with the same document.\<close>

definition down_env :: "unit cluster env" where
  "down_env = cluster_env (\<lambda>_ _ p. (Inl ''connection refused'', p))"

definition canned_env :: "unit cluster env" where
  "canned_env = cluster_env (\<lambda>_ _ p. (Inr \<lparr>resp_StatusCode = 200, resp_Body =
     render (JObj [(''tunnel'', JObj [(''id'', JStr ''t'')]), (''tunnel_token'', JStr ''tok'')]), resp_Broken = False\<rparr>, p))"

definition plain_cluster :: "Tunnel \<Rightarrow> unit cluster world" where
  "plain_cluster t = \<lparr>ext = \<lparr>cu_Tunnels = [t], cu_Routes = [], cu_Secrets = [sample_secret], cu_Services = [],
     cu_Deployments = [], cu_Version = 1, cu_Platform = ()\<rparr>, trace = [], clients = Map.empty\<rparr>"

text \<open>The sample tunnel as it is once it exists on the platform.\<close>

definition made_tunnel :: Tunnel where
  "made_tunnel = sample_tunnel\<lparr>tn_Meta := (tn_Meta sample_tunnel)\<lparr>om_Finalizers := [TunnelFinalizer]\<rparr>,
     tn_Status := (tn_Status sample_tunnel)\<lparr>st_TunnelID := ''t'', st_ExternalID := ''uid-1''\<rparr>\<rparr>"

abbreviation run_calls :: "('x, 'a) io \<Rightarrow> 'x world \<Rightarrow> call list" where
  "run_calls m w \<equiv> trace (snd (run_state m w))"

lemma emits_run_calls:
  assumes "emits m (\<lambda>_ es. P es)" and "trace w = []"
  shows "P (run_calls m w)"
  using emits_run [OF assms(1), of w] assms(2) by (cases "run_state m w") auto

section \<open>Ordering\<close>

text \<open>
  C10. Nothing is asked of the platform for a Tunnel before its finalizer is known to be on the
  object: in every run of \<^verbatim>\<open>Reconcile\<close>, whatever the API server and the platform answer, a request
  to the platform comes after the object was read with the finalizer or an update that adds it was
  accepted. A tunnel can therefore not outlive its object unnoticed.
\<close>

theorem tunnel_finalizer_before_platform:
  assumes "finalizer_lib (AddFinalizer env) (RemoveFinalizer env) (ContainsFinalizer env)"
  shows "emits (tunnel_Reconcile (main_tunnel_reconciler env version img) req)
    (\<lambda>_ es. guarded finalizer_on is_platform es)"
  by (rule tunnel_reconciler.reconcile_finalizer_first [OF wired_tunnel_reconciler [OF assms]])

theorem tunnel_finalizer_before_platform_witness:
  "let es = run_calls (tunnel_Reconcile (main_tunnel_reconciler down_env ''dev'' ''agent:1'') (nn ''team'' ''web''))
         (plain_cluster sample_tunnel) in
     list_ex is_platform es \<and> guarded finalizer_on is_platform es"
proof -
  have "guarded finalizer_on is_platform
    (run_calls (tunnel_Reconcile (main_tunnel_reconciler down_env ''dev'' ''agent:1'') (nn ''team'' ''web''))
       (plain_cluster sample_tunnel))"
    by (rule emits_run_calls, rule tunnel_finalizer_before_platform)
       (simp_all add: down_env_def ref_fin.finalizer_lib_axioms plain_cluster_def)
  moreover have "list_ex is_platform
    (run_calls (tunnel_Reconcile (main_tunnel_reconciler down_env ''dev'' ''agent:1'') (nn ''team'' ''web''))
       (plain_cluster sample_tunnel))"
    by code_simp
  ultimately show ?thesis by (simp add: Let_def)
qed

text \<open>
  C11. A request that may make a tunnel is sent only when the external id is on record: the object
  was read with one, or a status that sets it to the object's UID was accepted. A create whose
  answer is lost can therefore be found again.
\<close>

theorem tunnel_external_id_before_create:
  assumes "finalizer_lib (AddFinalizer env) (RemoveFinalizer env) (ContainsFinalizer env)"
  shows "emits (tunnel_Reconcile (main_tunnel_reconciler env version img) req)
    (\<lambda>_ es. guarded external_id_recorded is_create_tunnel es)"
  by (rule tunnel_reconciler.reconcile_recorded_first [OF wired_tunnel_reconciler [OF assms]])

theorem tunnel_external_id_before_create_witness:
  "let es = run_calls (tunnel_Reconcile (main_tunnel_reconciler down_env ''dev'' ''agent:1'') (nn ''team'' ''web''))
         (plain_cluster sample_tunnel) in
     list_ex is_create_tunnel es \<and> guarded external_id_recorded is_create_tunnel es"
proof -
  have "guarded external_id_recorded is_create_tunnel
    (run_calls (tunnel_Reconcile (main_tunnel_reconciler down_env ''dev'' ''agent:1'') (nn ''team'' ''web''))
       (plain_cluster sample_tunnel))"
    by (rule emits_run_calls, rule tunnel_external_id_before_create)
       (simp_all add: down_env_def ref_fin.finalizer_lib_axioms plain_cluster_def)
  moreover have "list_ex is_create_tunnel
    (run_calls (tunnel_Reconcile (main_tunnel_reconciler down_env ''dev'' ''agent:1'') (nn ''team'' ''web''))
       (plain_cluster sample_tunnel))"
    by code_simp
  ultimately show ?thesis by (simp add: Let_def)
qed

text \<open>
  C13. A credential is rotated, which cuts off the agent that uses the old one, only when the token
  Secret of the very Tunnel being reconciled was looked for and holds no token: it is missing, or
  it has no token under its key. A Secret that cannot be read is not taken for a missing one.
\<close>

theorem tunnel_rotates_only_without_token:
  assumes "finalizer_lib (AddFinalizer env) (RemoveFinalizer env) (ContainsFinalizer env)" and "object_names env"
  shows "emits (tunnel_Reconcile (main_tunnel_reconciler env version img) req)
    (\<lambda>_ es. guarded (no_stored_token env req) is_rotate es)"
  using named_tunnel_reconciler.reconcile_rotation [OF wired_named_reconciler [OF assms, of version img], of req] by simp

theorem tunnel_rotates_only_without_token_witness:
  "let es = run_calls (tunnel_Reconcile (main_tunnel_reconciler canned_env ''dev'' ''agent:1'') (nn ''team'' ''web''))
         (plain_cluster made_tunnel) in
     list_ex is_rotate es \<and> guarded (no_stored_token canned_env (nn ''team'' ''web'')) is_rotate es"
proof -
  have "guarded (no_stored_token canned_env (nn ''team'' ''web'')) is_rotate
    (run_calls (tunnel_Reconcile (main_tunnel_reconciler canned_env ''dev'' ''agent:1'') (nn ''team'' ''web''))
       (plain_cluster made_tunnel))"
    by (rule emits_run_calls, rule tunnel_rotates_only_without_token)
       (simp_all add: canned_env_def ref_fin.finalizer_lib_axioms cluster_names.object_names_axioms plain_cluster_def)
  moreover have "list_ex is_rotate
    (run_calls (tunnel_Reconcile (main_tunnel_reconciler canned_env ''dev'' ''agent:1'') (nn ''team'' ''web''))
       (plain_cluster made_tunnel))"
    by code_simp
  ultimately show ?thesis by (simp add: Let_def)
qed

section \<open>Deletion\<close>

text \<open>
  C14. A Tunnel that is being deleted is let go only after what is known of it on the platform was
  disposed of: every write of the object by the deletion, and so the one that takes the finalizer
  off, comes after calls that show it (no external id was ever recorded, so that nothing was asked
  of the platform; or the tunnel on record was deleted or answered with 404; or none was on record
  and the lookup by external id gave nothing, or something that was deleted). An unreachable
  platform or an unreadable credential never lets it go. It is the tunnel on record that counts,
  whatever else carries the external id.
\<close>

theorem tunnel_released_after_disposal:
  "emits (tunnel_reconcileDelete (main_tunnel_reconciler env version img) t)
     (\<lambda>_ es. justified writes_tunnel (tunnel_disposed t) es)"
  by (rule delete_justified) (simp add: wired.client_factory_axioms)

section \<open>How a reconcile ends\<close>

lemma emits_tunnel_finish:
  "emits (tunnel_finish env t res e) (\<lambda>out es. \<exists>r.
     es = [CStatusTunnel (t\<lparr>tn_Status := (tn_Status t)\<lparr>st_ObservedGeneration := om_Generation (tn_Meta t)\<rparr>\<rparr>) r]
     \<and> out = (case (r, e) of
                (Inr _, _) \<Rightarrow> Returned res e
              | (Inl _, Some x) \<Rightarrow> Returned res (Some x)
              | (Inl err, None) \<Rightarrow> Returned zero_result (IgnoreNotFound env err)))"
  unfolding tunnel_finish_def Let_def call_defs
proof (rule emits_bind_kube_call)
  fix r :: "gerr + Tunnel"
  show "emits (case r of
        Inl err \<Rightarrow> (case e of Some e \<Rightarrow> ret (Returned res (Some e)) | None \<Rightarrow> ret (Returned zero_result (IgnoreNotFound env err)))
      | Inr _ \<Rightarrow> ret (Returned res e))
    (\<lambda>out es. \<exists>ra. CStatusTunnel (t\<lparr>tn_Status := (tn_Status t)\<lparr>st_ObservedGeneration := om_Generation (tn_Meta t)\<rparr>\<rparr>) r # es
         = [CStatusTunnel (t\<lparr>tn_Status := (tn_Status t)\<lparr>st_ObservedGeneration := om_Generation (tn_Meta t)\<rparr>\<rparr>) ra]
       \<and> out = (case (ra, e) of (Inr _, _) \<Rightarrow> Returned res e | (Inl _, Some x) \<Rightarrow> Returned res (Some x)
                 | (Inl err, None) \<Rightarrow> Returned zero_result (IgnoreNotFound env err)))"
    by (cases r; cases e) auto
qed

text \<open>
  A failure is reported and retried as its classification says: one warning event, one write of
  the status, and then, for a permanent failure, another look after five minutes and no error
  (unless the status itself could not be written), for any other the error itself, so that the
  queue backs off. An error of the status write never replaces the error of the reconcile.
\<close>

lemma tunnel_fail_outcome:
  "emits (tunnel_fail env t action err) (\<lambda>out es. \<exists>t' r.
     es = [CEvent (tunnel_key t) EventTypeWarning (f_Reason (Classify err)) ''Reconciling''
             (action @ '': '' @ f_Message (Classify err)),
           CStatusTunnel t' r]
     \<and> out = (if f_Permanent (Classify err) then
                (case r of
                   Inr _ \<Rightarrow> Returned \<lparr>res_RequeueAfter = 300\<rparr> None
                 | Inl e \<Rightarrow> Returned \<lparr>res_RequeueAfter = 0\<rparr> (IgnoreNotFound env e))
              else Returned \<lparr>res_RequeueAfter = 0\<rparr> (Some (ErrWrap (action @ '': '') err))))"
proof -
  have key: "tunnel_key (setReady env (setSynced env t st re me) os) = tunnel_key t" for st re me os
    by (simp add: setReady_def setSynced_def with_tunnel_cond_def Let_def)
  show ?thesis
    unfolding tunnel_fail_def Let_def
  proof (rule emits_bind_Eventf, split if_split, intro conjI impI, goal_cases)
    case 1
    show ?case
      by (rule emits_mono [OF emits_tunnel_finish])
         (use 1 in \<open>auto simp: key zero_result_def permanentRetryPeriod_def cong: sum.case_cong\<close>)
  next
    case 2
    show ?case
      by (rule emits_mono [OF emits_tunnel_finish]) (use 2 in \<open>auto simp: key zero_result_def split: sum.split\<close>)
  qed
qed

text \<open>
  C21. After a successful sync the conditions roll up: Synced is true, AgentAvailable is true when
  the agent has an available replica, and Ready is true exactly when, besides, the platform reports
  the tunnel online; and the status carries what the platform said. After a failure, whatever the
  platform last reported, Ready is false.
\<close>

theorem tunnel_conditions_roll_up:
  assumes "condition_lib (SetStatusCondition env) (IsStatusConditionTrue env)"
  shows "let s = tn_Status (synced_status env t remote secret dep) in
      cond_true (st_Conditions s) TunnelConditionSynced
      \<and> (cond_true (st_Conditions s) TunnelConditionAgentAvailable \<longleftrightarrow> dp_AvailableReplicas dep > 0)
      \<and> (cond_true (st_Conditions s) TunnelConditionReady \<longleftrightarrow>
           dp_AvailableReplicas dep > 0 \<and> nt_OnlineStatus remote = ''online'')
      \<and> st_TunnelID s = nt_ID remote \<and> st_OnlineStatus s = nt_OnlineStatus remote
      \<and> \<not> cond_true (st_Conditions (tn_Status (setReady env (setSynced env t ConditionFalse reason msg) online)))
           TunnelConditionReady"
proof -
  note lib = condition_lib.cond_true_set [OF assms] condition_lib.is_true_iff [OF assms]
  show ?thesis
    by (auto simp: synced_status_def setReady_def setAgentAvailable_def setSynced_def with_tunnel_cond_def lib Let_def)
qed

theorem tunnel_conditions_roll_up_witness:
  "\<exists>remote dep. cond_true (st_Conditions (tn_Status
       (synced_status sample_env sample_tunnel remote sample_secret dep))) TunnelConditionReady"
proof (intro exI)
  have "condition_lib (SetStatusCondition sample_env) (IsStatusConditionTrue sample_env)"
    by (simp add: fake_env_def ref_cond.condition_lib_axioms)
  from tunnel_conditions_roll_up [OF this, of sample_tunnel "zero_tunnel\<lparr>nt_OnlineStatus := ''online''\<rparr>" sample_secret
      "(blank_deployment [] [])\<lparr>dp_AvailableReplicas := 1\<rparr>"]
  show "cond_true (st_Conditions (tn_Status (synced_status sample_env sample_tunnel
      (zero_tunnel\<lparr>nt_OnlineStatus := ''online''\<rparr>) sample_secret
      ((blank_deployment [] [])\<lparr>dp_AvailableReplicas := 1\<rparr>)))) TunnelConditionReady"
    by (simp add: Let_def)
qed

lemma emits_configFor_read:
  "emits (configFor env t ua) (\<lambda>r es. \<exists>k a. es = [CGetSecret k a] \<and> (\<forall>e. a = Inl e \<longrightarrow> (\<exists>f. r = Inl f)))"
  unfolding configFor_def Let_def call_defs
  by (auto intro!: emits_bind_kube_call split: sum.split)

lemma emits_apiClients_read:
  "emits (apiClients env version t) (\<lambda>cl es. \<exists>k a. es = [CGetSecret k a] \<and> (\<forall>e. a = Inl e \<longrightarrow> (\<exists>f. cl = Inl f)))"
  unfolding apiClients_def CachedClientFor_def
  by (rule emits_bind [OF emits_configFor_read])
     (auto intro!: emits_mono [OF emits_cached_client] split: sum.split)

text \<open>
  C33. When the credential of a Tunnel cannot be read, its status is written with Synced false and
  the Ready condition it had before, which may be true: unlike every other failure, this one does
  not roll up.
\<close>

theorem unreadable_credential_keeps_ready:
  assumes "condition_lib (SetStatusCondition env) (IsStatusConditionTrue env)"
  shows "emits (tunnel_sync (main_tunnel_reconciler env version img) t) (\<lambda>_ es.
    case es of
      CGetSecret k (Inl e) # rest \<Rightarrow>
        (\<exists>t' r. rest = [CStatusTunnel t' r]
           \<and> \<not> cond_true (st_Conditions (tn_Status t')) TunnelConditionSynced
           \<and> find_cond (st_Conditions (tn_Status t')) TunnelConditionReady
             = find_cond (st_Conditions (tn_Status t)) TunnelConditionReady)
    | _ \<Rightarrow> True)"
proof -
  note lib = condition_lib.cond_true_set [OF assms] condition_lib.find_set [OF assms]
  have status: "emits (tunnel_finish env (setSynced env t ConditionFalse re me) res e) (\<lambda>_ es.
      \<exists>t' r. es = [CStatusTunnel t' r]
         \<and> \<not> cond_true (st_Conditions (tn_Status t')) TunnelConditionSynced
         \<and> find_cond (st_Conditions (tn_Status t')) TunnelConditionReady
           = find_cond (st_Conditions (tn_Status t)) TunnelConditionReady)" for re me res e
    by (rule emits_mono [OF emits_tunnel_finish]) (auto simp: setSynced_def with_tunnel_cond_def lib)
  show ?thesis
    unfolding tunnel_sync_def Let_def main_reconciler_sel
  proof (rule emits_bind [OF emits_apiClients_read], elim exE conjE, goal_cases)
    case (1 cl es k a)
    then show ?case
      by (cases a; cases cl)
         (auto intro!: emits_mono [OF status] emits_trivial grows_intro split: prod.split sum.split option.split)
  qed
qed

text \<open>A Tunnel that was Ready, in a cluster that has lost its credential.\<close>

definition ready_tunnel :: Tunnel where
  "ready_tunnel = made_tunnel\<lparr>tn_Status := (tn_Status made_tunnel)\<lparr>st_Conditions :=
     [\<lparr>c_Type = ''Ready'', c_Status = ''True'', c_Reason = ''Online'', c_Message = [], c_ObservedGeneration = 1\<rparr>]\<rparr>\<rparr>"

definition no_secrets :: "unit cluster world" where
  "no_secrets = (plain_cluster ready_tunnel)\<lparr>ext := (ext (plain_cluster ready_tunnel))\<lparr>cu_Secrets := []\<rparr>\<rparr>"

theorem unreadable_credential_keeps_ready_witness:
  "\<exists>k e t' r. run_calls (tunnel_sync (main_tunnel_reconciler down_env ''dev'' ''agent:1'') ready_tunnel) no_secrets
       = [CGetSecret k (Inl e), CStatusTunnel t' r]
     \<and> \<not> cond_true (st_Conditions (tn_Status t')) TunnelConditionSynced
     \<and> cond_true (st_Conditions (tn_Status t')) TunnelConditionReady"
proof -
  let ?es = "run_calls (tunnel_sync (main_tunnel_reconciler down_env ''dev'' ''agent:1'') ready_tunnel) no_secrets"
  have lib: "condition_lib (SetStatusCondition down_env) (IsStatusConditionTrue down_env)"
    by (simp add: down_env_def ref_cond.condition_lib_axioms)
  have "trace no_secrets = []" by (simp add: no_secrets_def plain_cluster_def)
  note after = emits_run_calls [OF unreadable_credential_keeps_ready [OF lib, of "''dev''" "''agent:1''" ready_tunnel] this]
  have "case ?es of CGetSecret k (Inl e) # rest \<Rightarrow> True | _ \<Rightarrow> False" by code_simp
  then obtain k e rest where es: "?es = CGetSecret k (Inl e) # rest"
    by (auto split: list.splits call.splits sum.splits)
  with after obtain t' r where "rest = [CStatusTunnel t' r]"
      "\<not> cond_true (st_Conditions (tn_Status t')) TunnelConditionSynced"
      "find_cond (st_Conditions (tn_Status t')) TunnelConditionReady
         = find_cond (st_Conditions (tn_Status ready_tunnel)) TunnelConditionReady"
    by auto
  moreover have "cond_true (st_Conditions (tn_Status ready_tunnel)) TunnelConditionReady" by code_simp
  ultimately show ?thesis using es by (auto simp: cond_true_def)
qed

section \<open>Panics\<close>

text \<open>The platform answered a read of the tunnel, and the answer has no tunnel in it.\<close>

definition answered_no_tunnel :: "call \<Rightarrow> bool" where
  "answered_no_tunnel c =
     (case c of
        CHttp h rq (Inr resp) \<Rightarrow>
          rq_Method rq = ''GET'' \<and> resp_StatusCode resp < 400
          \<and> (resp_StatusCode resp = 204 \<or>
             (case Option.bind (parse_first (resp_Body resp)) (\<lambda>j. dec_with_routes j \<lparr>wr_Tunnel = None, wr_Routes = []\<rparr>) of
                Some g \<Rightarrow> wr_Tunnel g = None
              | None \<Rightarrow> False))
      | _ \<Rightarrow> False)"

lemma answered_no_tunnel_read:
  "answered_no_tunnel (CHttp h (build_request s ''GET'' p b) ans) \<longleftrightarrow>
     (\<exists>g. read_answer env s' m p' (Some dec_with_routes) \<lparr>wr_Tunnel = None, wr_Routes = []\<rparr> ans = Inr g \<and> wr_Tunnel g = None)"
  unfolding answered_no_tunnel_def read_answer_def
  by (cases ans) (simp_all split: option.split)

lemma emits_GetTunnel_answer:
  "emits (GetTunnel env api i) (\<lambda>got es. list_ex answered_no_tunnel es \<longleftrightarrow> (\<exists>g. got = Inr g \<and> wr_Tunnel g = None))"
  unfolding GetTunnel_def
  by (rule emits_mono [OF emits_do_request])
     (auto simp: answered_no_tunnel_read [of _ _ _ _ _ env api "''GET''" "''/api/v2/tunnels/'' @ PathEscape i", simplified])

lemma emits_create_and_read_answer:
  "emits (create_and_read env api i) (\<lambda>made es. list_ex answered_no_tunnel es \<longleftrightarrow> (\<exists>tok. made = Inr (None, tok)))"
proof -
  have create: "emits (CreateTunnel env api i) (\<lambda>_ es. \<not> list_ex answered_no_tunnel es)"
    unfolding CreateTunnel_def
    by (rule emits_mono [OF emits_do_request]) (auto simp: answered_no_tunnel_def build_request_def split: sum.splits)
  show ?thesis
    unfolding create_and_read_def
    by (auto intro!: emits_bind [OF create] emits_bind [OF emits_GetTunnel_answer] split: sum.split)
qed

lemma emits_record_quiet: "emits (record_external_id env t) (\<lambda>_ es. \<not> list_ex answered_no_tunnel es)"
  unfolding record_external_id_def Let_def call_defs
  by (auto intro!: emits_bind_kube_call simp: answered_no_tunnel_def split: sum.split)

lemma emits_create_tunnel_answer:
  "emits (create_tunnel env api t) (\<lambda>a es. list_ex answered_no_tunnel es \<longleftrightarrow> (\<exists>tok. snd a = Inr (None, tok)))"
  unfolding create_tunnel_def Let_def
  by (auto intro!: emits_bind [OF emits_record_quiet] emits_bind [OF emits_create_and_read_answer] split: prod.split option.split)

lemma emits_ensureTunnel_answer:
  "emits (ensureTunnel env api t) (\<lambda>a es. list_ex answered_no_tunnel es \<longleftrightarrow> (\<exists>tok. snd a = Inr (None, tok)))"
  unfolding ensureTunnel_def Let_def
  by (auto intro!: emits_bind [OF emits_GetTunnel_answer] emits_create_tunnel_answer
      emits_mono [OF emits_create_tunnel_answer] split: sum.split)

lemma quiet_answers:
  "\<not> answered_no_tunnel (CApplySecret s a1)" "\<not> answered_no_tunnel (CGetSecret k a2)"
  "\<not> answered_no_tunnel (CEvent k s1 s2 s3 s4)" "\<not> answered_no_tunnel (CApplyDeployment d a3)"
  "\<not> answered_no_tunnel (CStatusTunnel t a4)"
  "\<not> answered_no_tunnel (CHttp h (build_request sv ''POST'' p b) a5)"
  by (cases a5; simp add: answered_no_tunnel_def)+

lemma realise_quiet: "only (\<lambda>c. \<not> answered_no_tunnel c) (tunnel_realise r api t remote tok)"
  unfolding tunnel_realise_def Let_def
  by (auto intro!: only_intro only_ensureCredentialSecret only_ensureAgentDeployment only_tunnel_fail only_tunnel_finish
      simp: quiet_answers split: sum.split)

lemma returns_finish: "emits (tunnel_finish env t res e) (\<lambda>out _. out \<noteq> Panicked)"
  unfolding tunnel_finish_def Let_def call_defs
  by (auto intro!: emits_bind_kube_call split: sum.split option.split)

lemma returns_fail: "emits (tunnel_fail env t action err) (\<lambda>out _. out \<noteq> Panicked)"
  unfolding tunnel_fail_def Let_def by (auto intro!: emits_bind_Eventf returns_finish)

lemma realise_returns: "emits (tunnel_realise r api t remote tok) (\<lambda>out _. out \<noteq> Panicked)"
  unfolding tunnel_realise_def Let_def
  by (rule emits_bind [OF emits_trivial [OF grows_ensureCredentialSecret TrueI]])
     (auto intro!: returns_fail returns_finish emits_bind [OF emits_trivial [OF grows_ensureAgentDeployment TrueI]]
      split: sum.split)

lemma finish_quiet:
  "only (\<lambda>c. \<not> answered_no_tunnel c) (tunnel_finish env t res e)"
  "only (\<lambda>c. \<not> answered_no_tunnel c) (tunnel_fail env t action err)"
  by (rule only_tunnel_finish only_tunnel_fail; simp add: quiet_answers)+

text \<open>A program that panics on no path and makes no such read.\<close>

lemma calm:
  assumes "only (\<lambda>c. \<not> answered_no_tunnel c) m" and "emits m (\<lambda>out _. out \<noteq> Panicked)"
  shows "emits m (\<lambda>out es. \<not> list_ex answered_no_tunnel es \<and> out \<noteq> Panicked)"
  by (rule emits_mono [OF emits_conj [OF assms(1) [unfolded only_def] assms(2)]]) (simp add: list_ex_iff)

text \<open>
  C34. The sync of a Tunnel panics exactly when the platform answers a read of the tunnel with
  success and with no tunnel in the answer (an empty document, a null, or 204): the code reads a
  field of a nil pointer there, and nowhere else.
\<close>

theorem tunnel_sync_panics_iff:
  "emits (tunnel_sync (main_tunnel_reconciler env version img) t)
     (\<lambda>out es. out = Panicked \<longleftrightarrow> list_ex answered_no_tunnel es)"
  unfolding tunnel_sync_def Let_def main_reconciler_sel
proof (rule emits_bind [OF emits_apiClients_read], elim exE conjE, goal_cases)
  case (1 cl es k a)
  then have es: "\<not> list_ex answered_no_tunnel es" by (simp add: quiet_answers)
  note parts = calm [OF finish_quiet(1) returns_finish] calm [OF finish_quiet(2) returns_fail] calm [OF realise_quiet realise_returns]
  show ?case
    using es
    by (auto intro!: parts [THEN emits_mono] emits_bind [OF emits_ensureTunnel_answer]
        split: sum.split prod.split option.split)
qed

end
