(* ===== verification/Route_Properties.thy ===== *)
theory Route_Properties
  imports Isolation Ensure_Route Tunnel_Properties
begin

text \<open>
  The properties of the TunnelRoute reconciler as the operator wires it, with the runs that show
  them at work, and the ones that both reconcilers share.
\<close>

section \<open>The contracts hold for the wired reconciler\<close>

lemma wired_route_reconciler:
  assumes "finalizer_lib (AddFinalizer env) (RemoveFinalizer env) (ContainsFinalizer env)"
  shows "route_reconciler (main_route_reconciler env version domain)"
  by (simp add: route_reconciler_def wired.client_factory_axioms assms)

interpretation cluster_route_reconciler: route_reconciler "main_route_reconciler (cluster_env h) version domain"
  for h version domain
  by (simp add: wired_route_reconciler ref_fin.finalizer_lib_axioms)

section \<open>A world to run in\<close>

definition route_world :: "unit cluster world" where
  "route_world = (plain_cluster made_tunnel)\<lparr>ext := (ext (plain_cluster made_tunnel))\<lparr>cu_Routes := [sample_route],
     cu_Services := [sample_service]\<rparr>\<rparr>"

lemma route_world_trace [simp]: "trace route_world = []"
  by (simp add: route_world_def plain_cluster_def)

section \<open>Ordering\<close>

text \<open>
  C17. Nothing is asked of the platform for a TunnelRoute before its finalizer is known to be on
  the object, whatever the API server and the platform answer.
\<close>

theorem route_finalizer_before_platform:
  assumes "finalizer_lib (AddFinalizer env) (RemoveFinalizer env) (ContainsFinalizer env)"
  shows "emits (route_Reconcile (main_route_reconciler env version domain) req)
    (\<lambda>_ es. guarded route_finalizer_on is_platform es)"
  by (rule route_reconciler.route_reconcile_finalizer_first [OF wired_route_reconciler [OF assms]])

theorem route_finalizer_before_platform_witness:
  "let es = run_calls (route_Reconcile (main_route_reconciler down_env ''dev'' ''cluster.local'') (nn ''team'' ''shop''))
         route_world in
     list_ex is_platform es \<and> guarded route_finalizer_on is_platform es"
proof -
  have "guarded route_finalizer_on is_platform
    (run_calls (route_Reconcile (main_route_reconciler down_env ''dev'' ''cluster.local'') (nn ''team'' ''shop'')) route_world)"
    by (rule emits_run_calls, rule route_finalizer_before_platform)
       (simp_all add: down_env_def ref_fin.finalizer_lib_axioms)
  moreover have "list_ex is_platform
    (run_calls (route_Reconcile (main_route_reconciler down_env ''dev'' ''cluster.local'') (nn ''team'' ''shop'')) route_world)"
    by code_simp
  ultimately show ?thesis by (simp add: Let_def)
qed

text \<open>
  C18. A route to a Service is brought to the platform only after that Service was read in the
  route's own namespace and found to publish the port the route names: a Service that is missing
  or has no such port never becomes a public hostname.
\<close>

theorem route_resolved_before_platform:
  "emits (route_sync (main_route_reconciler env version domain) rt t)
     (\<lambda>_ es. case rs_Upstream (tr_Spec rt) of Some u \<Rightarrow> True | None \<Rightarrow> guarded (service_resolves rt) is_platform es)"
proof (cases "rs_Upstream (tr_Spec rt)")
  case None
  then show ?thesis by (simp add: route_sync_resolves_first wired.client_factory_axioms)
next
  case (Some u)
  have "grows (route_sync (main_route_reconciler env version domain) rt t)"
    by (rule grows_route_sync) (simp add: wired.ClientFor_grows)
  then show ?thesis by (rule emits_trivial) (simp add: Some)
qed

text \<open>
  C15. A TunnelRoute that is being deleted is written, and so let go, only after its route was
  disposed of in the tunnel its spec names now: the Tunnel object is not there or has no tunnel on
  record, in which case nothing is asked of the platform; or the route on record was deleted there
  or answered with 404; or none was on record and a listing of that tunnel's routes showed none for
  it, or one that was then deleted. A refusal, an answer that is lost or a credential that cannot be
  read never lets it go. That it says nothing of another tunnel the route was published in before
  is what the moved route below shows.
\<close>

theorem route_released_after_disposal:
  "emits (route_reconcileDelete (main_route_reconciler env version domain) rt tunnel_read)
     (\<lambda>_ es. justified writes_route (route_disposed env rt tunnel_read) es)"
  using route_delete_justified [of "main_route_reconciler env version domain" rt tunnel_read]
  by (simp add: wired.client_factory_axioms)

text \<open>
  C27. A route whose spec meets the CRD's validation rules never makes the reconciler panic: the
  rule that exactly one of service and upstream is set is what keeps the code from reading a nil
  pointer.
\<close>

theorem valid_route_never_panics:
  assumes "valid_route_spec (tr_Spec rt)"
  shows "emits (route_sync (main_route_reconciler env version domain) rt t) (\<lambda>out _. out \<noteq> Panicked)"
proof (rule emits_mono [OF route_sync_panics_iff])
  show "grows (rr_API (main_route_reconciler env version domain) t)" for t by (simp add: wired.ClientFor_grows)
qed (use assms in \<open>auto simp: valid_route_spec_def\<close>)

theorem valid_route_never_panics_witness:
  "valid_route_spec (tr_Spec sample_route) \<and>
   emits (route_sync (main_route_reconciler down_env ''dev'' ''cluster.local'') sample_route made_tunnel)
     (\<lambda>out _. out \<noteq> Panicked)"
proof -
  have "valid_route_spec (tr_Spec sample_route)" by code_simp
  then show ?thesis using valid_route_never_panics by blast
qed

text \<open>
  C22. Every status the TunnelRoute reconciler writes rolls up, on every path: in it Ready is true
  exactly when Resolved and Synced both are.
\<close>

theorem route_status_always_rolls_up:
  assumes "condition_lib (SetStatusCondition env) (IsStatusConditionTrue env)"
  shows "only status_rolled_up (route_Reconcile (main_route_reconciler env version domain) req)"
  by (rule condition_lib.reconcile_rolls_up [OF assms]) (simp_all add: wired.client_factory_axioms)

theorem route_status_always_rolls_up_witness:
  "list_all status_rolled_up
     (run_calls (route_Reconcile (main_route_reconciler down_env ''dev'' ''cluster.local'') (nn ''team'' ''shop'')) route_world)"
proof -
  have lib: "condition_lib (SetStatusCondition down_env) (IsStatusConditionTrue down_env)"
    by (simp add: down_env_def ref_cond.condition_lib_axioms)
  show ?thesis
    using emits_run_calls [OF route_status_always_rolls_up [OF lib, unfolded only_def] route_world_trace]
    by (simp add: list_all_iff)
qed

section \<open>Isolation\<close>

text \<open>
  C19. Reconciling a Tunnel reads and writes objects of the Tunnel's own namespace only: its
  credential, its token Secret and its agent are all there.
\<close>

theorem tunnel_stays_in_namespace:
  assumes "object_names env"
  shows "only (in_namespace (nn_Namespace req)) (tunnel_Reconcile (main_tunnel_reconciler env version img) req)"
  by (rule tunnel_reconcile_in) (simp_all add: assms wired.client_factory_axioms)

theorem tunnel_stays_in_namespace_witness:
  "list_all (in_namespace ''team'')
     (run_calls (tunnel_Reconcile (main_tunnel_reconciler down_env ''dev'' ''agent:1'') (nn ''team'' ''web''))
       (plain_cluster sample_tunnel))"
proof -
  have "trace (plain_cluster sample_tunnel) = []" by (simp add: plain_cluster_def)
  moreover have names: "object_names down_env" by (simp add: down_env_def cluster_names.object_names_axioms)
  ultimately show ?thesis
    using emits_run_calls [OF tunnel_stays_in_namespace [OF names, of "nn ''team'' ''web''", unfolded only_def]]
    by (simp add: list_all_iff)
qed

text \<open>
  C20. Reconciling a TunnelRoute reads and writes objects of the route's own namespace only: a
  route cannot borrow the tunnel, the credential or the Service of another namespace.
\<close>

theorem route_stays_in_namespace:
  assumes "object_names env"
  shows "only (in_namespace (nn_Namespace req)) (route_Reconcile (main_route_reconciler env version domain) req)"
  by (rule route_reconcile_in) (simp_all add: assms wired.client_factory_axioms)

theorem route_stays_in_namespace_witness:
  "list_all (in_namespace ''team'')
     (run_calls (route_Reconcile (main_route_reconciler down_env ''dev'' ''cluster.local'') (nn ''team'' ''shop'')) route_world)"
proof -
  have names: "object_names down_env" by (simp add: down_env_def cluster_names.object_names_axioms)
  show ?thesis
    using emits_run_calls [OF route_stays_in_namespace [OF names, of "nn ''team'' ''shop''", unfolded only_def] route_world_trace]
    by (simp add: list_all_iff)
qed

section \<open>Publishing\<close>

text \<open>The route with the identifier of its published counterpart on record.\<close>

definition with_route_id :: "TunnelRoute \<Rightarrow> Route \<Rightarrow> TunnelRoute" where
  "with_route_id rt r = rt\<lparr>tr_Status := (tr_Status rt)\<lparr>rt_RouteID := ro_ID r\<rparr>\<rparr>"

lemma with_route_id_matches [simp]: "route_matches q (with_route_id rt r) host port = route_matches q rt host port"
  by (simp add: with_route_id_def route_matches_def routeType_def pathPrefix_def priority_def enabled_def upstreamScheme_def)

lemma pick_with_id:
  assumes "r \<in> set rs" and "distinct (map ro_ID rs)" and "ro_ID r \<noteq> []"
  shows "pick_route (with_route_id rt r) rs = Some r"
proof -
  have "find (\<lambda>q. ro_ID q = ro_ID r) rs = Some r"
    using assms(1,2) by (induction rs) (auto simp: image_iff)
  then show ?thesis using assms(3) by (simp add: pick_route_def with_route_id_def)
qed

text \<open>
  C12. Publishing converges and then stays quiet: on a platform that keeps its promise, with the
  tunnel there and room for a route, one run of \<^verbatim>\<open>ensureRoute\<close> succeeds and ends with a route that
  matches the spec in every field (also a disabled one, and one of priority 0, which a create cannot
  express) in place of the route it was taken for, or as one more when there was none; the other
  routes of the tunnel and everything else are untouched. So the routes with the hostname and path
  of the spec are that one and those that already were there beside the one taken for it: exactly
  one when there were none such. With its identifier on record, a second run returns the same route
  and changes nothing.
\<close>

theorem ensureRoute_converges:
  assumes "route_platform env api routes ok room confined" and "ok (ext w) t" and "room (ext w) t"
  shows "\<exists>r w' w''. run_state (ensureRoute env api rt t host port) w = (Inr r, w')
    \<and> route_matches r rt host port
    \<and> routes (ext w') t = routes_after rt (routes (ext w) t) r \<and> confined t (ext w) (ext w')
    \<and> length (filter (same_place rt) (routes (ext w') t)) = Suc (length (rivals rt (routes (ext w) t)))
    \<and> run_state (ensureRoute env api (with_route_id rt r) t host port) w' = (Inr r, w'')
    \<and> ext w'' = ext w'"
proof -
  obtain r w' where r: "run_state (ensureRoute env api rt t host port) w = (Inr r, w')" "ok (ext w') t"
      "route_matches r rt host port" "routes (ext w') t = routes_after rt (routes (ext w) t) r"
      "confined t (ext w) (ext w')"
    using route_platform.ensureRoute_publishes [OF assms] by blast
  have "r \<in> set (routes (ext w') t)" using r(4) routes_after_has by simp
  with route_platform.ids [OF assms(1) r(2)]
  have "pick_route (with_route_id rt r) (routes (ext w') t) = Some r" by (intro pick_with_id) auto
  then obtain w'' where "run_state (ensureRoute env api (with_route_id rt r) t host port) w' = (Inr r, w'')" "ext w'' = ext w'"
    using route_platform.ensureRoute_settled [OF assms(1) r(2)] r(3) by (metis with_route_id_matches)
  moreover have "length (filter (same_place rt) (routes (ext w') t)) = Suc (length (rivals rt (routes (ext w) t)))"
    unfolding r(4) using route_platform.ids [OF assms(1,2)] r(3) by (intro routes_after_count) auto
  ultimately show ?thesis using r by blast
qed

theorem ensureRoute_converges_witness:
  "\<exists>r w' w''. run_state (ensureRoute (fake_env sample_endpoint) sample_service_client sample_route ''tun-1'' ''shop'' 80)
       sample_published = (Inr r, w')
     \<and> route_matches r sample_route ''shop'' 80
     \<and> fa_routes (plat w') ''tun-1'' = [r] \<and> fake_confined ''tun-1'' (ext sample_published) (ext w')
     \<and> run_state (ensureRoute (fake_env sample_endpoint) sample_service_client (with_route_id sample_route r) ''tun-1'' ''shop'' 80)
         w' = (Inr r, w'')
     \<and> ext w'' = ext w'"
proof -
  have base: "srv_base sample_service_client = sample_endpoint" by (simp add: sample_service_client_def)
  have routes: "fa_routes sample_fake ''tun-1'' = []" by code_simp
  have "map_of (fa_tunnels sample_fake) ''tun-1'' \<noteq> None" by code_simp
  then have ok: "fake_ok (ext sample_published) ''tun-1''" "fake_room (ext sample_published) ''tun-1''"
    using routes by (simp_all add: fake_ok_def fake_room_def sample_published_def sound_routes_def plain_id_def)
  have none: "routes_after sample_route [] r = [r]" for r
    by (simp add: routes_after_def pick_route_def sample_route_def)
  show ?thesis
    using ensureRoute_converges [OF fake_routes.route_platform_axioms [of sample_service_client] ok, of sample_route "''shop''" 80]
    by (simp add: base none routes) (simp add: sample_published_def none routes, blast)
qed

end
