(* ===== verification/Tunnel_Runs.thy ===== *)
theory Tunnel_Runs
  imports Fake_Runs
begin

text \<open>
  The tunnel operations of the client served by the fake platform: what each answers and what it
  leaves on the platform, through the whole wire.
\<close>

section \<open>The JSON forms read back\<close>

lemma lower_tunnel_names [simp]:
  "map lower_char ''account_id'' = ''account_id''" "map lower_char ''user_id'' = ''user_id''"
  "map lower_char ''name'' = ''name''" "map lower_char ''external_id'' = ''external_id''"
  "map lower_char ''tunnel_subdomain'' = ''tunnel_subdomain''" "map lower_char ''wireguard_ip'' = ''wireguard_ip''"
  "map lower_char ''wireguard_public_key'' = ''wireguard_public_key''" "map lower_char ''status'' = ''status''"
  "map lower_char ''online_status'' = ''online_status''" "map lower_char ''last_handshake_at'' = ''last_handshake_at''"
  "map lower_char ''status_changed_at'' = ''status_changed_at''" "map lower_char ''tunnel'' = ''tunnel''"
  "map lower_char ''tunnel_token'' = ''tunnel_token''" "map lower_char ''cname_target'' = ''cname_target''"
  "map lower_char ''instructions'' = ''instructions''" "map lower_char ''wireguard'' = ''wireguard''"
  "map lower_char ''adopted'' = ''adopted''" "map lower_char ''interface'' = ''interface''"
  "map lower_char ''peer'' = ''peer''" "map lower_char ''private_key'' = ''private_key''"
  "map lower_char ''address'' = ''address''" "map lower_char ''dns'' = ''dns''"
  "map lower_char ''public_key'' = ''public_key''" "map lower_char ''endpoint'' = ''endpoint''"
  "map lower_char ''allowed_ips'' = ''allowed_ips''" "map lower_char ''persistent_keepalive'' = ''persistent_keepalive''"
  "map lower_char ''data'' = ''data''" "map lower_char ''limit'' = ''limit''" "map lower_char ''offset'' = ''offset''"
  "map lower_char ''route_count'' = ''route_count''"
  by (simp_all add: lower_char_def)

text \<open>Omitted members, as the decoder sees them.\<close>

lemma dec_member_omit [simp]:
  "dec_member d n (omit_str k s @ ms) cur =
     (if s = [] \<or> map lower_char k \<noteq> n then dec_member d n ms cur
      else (case d (JStr s) cur of None \<Rightarrow> None | Some x \<Rightarrow> dec_member d n ms x))"
  "dec_member d n (omit_nil k f v @ ms) cur =
     (case v of None \<Rightarrow> dec_member d n ms cur
      | Some y \<Rightarrow> if map lower_char k \<noteq> n then dec_member d n ms cur
                  else (case d (f y) cur of None \<Rightarrow> None | Some x \<Rightarrow> dec_member d n ms x))"
  by (simp_all add: omit_str_def omit_nil_def split: option.split)

lemma wf_members_omit [simp]:
  "wf_members (omit_str k s @ ms) = wf_members ms"
  "wf_members (omit_nil k JStr v @ ms) = wf_members ms"
  by (simp_all add: omit_str_def omit_nil_def split: option.split)

definition wf_tunnel :: "NTunnel \<Rightarrow> bool" where
  "wf_tunnel t = (valid_time (nt_CreatedAt t) \<and> valid_time (nt_UpdatedAt t)
     \<and> pred_option valid_time (nt_LastHandshakeAt t) \<and> pred_option valid_time (nt_StatusChangedAt t))"

lemma dec_ptr_time [simp]: "valid_time s \<Longrightarrow> dec_ptr dec_time z (JStr s) cur = Some (Some s)"
  by (simp add: dec_ptr_def dec_time_def)

lemma dec_enc_tunnel_members:
  assumes "wf_tunnel t"
  shows "dec_tunnel_members (enc_tunnel_members t @ ms) zero_tunnel = dec_tunnel_members ms t"
proof -
  note names = dec_tunnel_members_def enc_tunnel_members_def zero_tunnel_def
  show ?thesis
    using assms unfolding wf_tunnel_def
    by (cases "nt_LastHandshakeAt t"; cases "nt_StatusChangedAt t") (simp_all add: names del: list.map)
qed

lemma dec_tunnel_members_other:
  "dec_tunnel_members [] t = Some t" "dec_tunnel_members [(''route_count'', v)] t = Some t"
  by (simp_all add: dec_tunnel_members_def del: list.map)

lemma dec_enc_tunnel:
  assumes "wf_tunnel t"
  shows "dec_tunnel (JObj (enc_tunnel_members t)) zero_tunnel = Some t"
  using dec_enc_tunnel_members [OF assms, of "[]"] by (simp add: dec_tunnel_def dec_struct_def dec_tunnel_members_other)

lemma wf_enc_tunnel [simp]: "wf_members (enc_tunnel_members t @ ms) = wf_members ms"
  by (simp add: enc_tunnel_members_def)

lemma wf_enc_tunnel_end [simp]: "wf_members (enc_tunnel_members t)"
  using wf_enc_tunnel [of t "[]"] by simp

lemma dec_enc_with_routes:
  assumes "wf_tunnel t" and "list_all wf_route rs"
  shows "dec_with_routes (enc_with_routes \<lparr>wr_Tunnel = Some t, wr_Routes = rs\<rparr>) \<lparr>wr_Tunnel = None, wr_Routes = []\<rparr>
    = Some \<lparr>wr_Tunnel = Some t, wr_Routes = rs\<rparr>"
  using dec_enc_tunnel [OF assms(1)] dec_enc_routes [OF assms(2)]
  by (simp add: dec_with_routes_def enc_with_routes_def dec_struct_def dec_ptr_def dec_list_def del: list.map)

lemma wf_enc_with_routes:
  "list_all wf_route rs \<Longrightarrow> wf_json (enc_with_routes \<lparr>wr_Tunnel = Some t, wr_Routes = rs\<rparr>)"
  by (simp add: enc_with_routes_def wf_enc_routes)

lemma dec_member_route_count:
  "dec_member dec_int ''route_count'' (enc_tunnel_members t @ ms) cur = dec_member dec_int ''route_count'' ms cur"
  by (simp add: enc_tunnel_members_def del: list.map split: option.split)

lemma dec_enc_summary:
  assumes "wf_tunnel (sm_Tunnel s)" and "int64 (sm_RouteCount s)"
  shows "dec_summary (enc_summary s) zero_summary = Some s"
  using assms dec_enc_tunnel_members [OF assms(1)]
  by (simp add: dec_summary_def enc_summary_def zero_summary_def dec_struct_def dec_tunnel_members_other
      dec_member_route_count del: list.map)

lemma dec_enc_created:
  assumes "int64 (wp_PersistentKeepalive (wg_Peer (cre_WireGuard x)))"
  shows "dec_created (enc_created x) zero_created = Some x"
  using assms
  by (simp add: dec_created_def enc_created_def dec_wireguard_def enc_wireguard_def dec_wg_interface_def dec_wg_peer_def
      dec_struct_def del: list.map)

lemma wf_enc_created: "int64 (wp_PersistentKeepalive (wg_Peer (cre_WireGuard x))) \<Longrightarrow> wf_json (enc_created x)"
  by (simp add: enc_created_def enc_wireguard_def)

lemma dec_enc_rotated: "dec_rotated (enc_rotated x) \<lparr>rot_TunnelID = [], rot_TunnelToken = []\<rparr> = Some x"
  by (simp add: dec_rotated_def enc_rotated_def dec_struct_def del: list.map)

lemma dec_enc_create_tunnel: "dec_create_tunnel (enc_create_tunnel i) \<lparr>cti_Name = [], cti_ExternalID = []\<rparr> = Some i"
  by (simp add: dec_create_tunnel_def enc_create_tunnel_def dec_struct_def omit_str_def del: list.map)

lemma wf_enc_create_tunnel: "wf_json (enc_create_tunnel i)"
  by (simp add: enc_create_tunnel_def omit_str_def)

text \<open>No form is deep.\<close>

lemma depth_tunnel_members [simp]: "members_depth (enc_tunnel_members t) = 0"
  by (simp add: enc_tunnel_members_def)

lemma depth_tunnel_forms [simp]:
  "json_depth (enc_summary s) = 1" "json_depth (enc_created c) = 3" "json_depth (enc_rotated r) = 1"
  "json_depth (enc_create_tunnel i) = 1" "json_depth (enc_with_routes x) \<le> 9"
  by (simp_all add: enc_summary_def enc_created_def enc_wireguard_def enc_rotated_def enc_create_tunnel_def enc_with_routes_def
      split: option.split)

section \<open>Routing\<close>

lemma no_suffix_plain:
  assumes "plain_id i" and "hd p = CHR ''/''" and "p \<noteq> []"
  shows "\<not> HasSuffix i p"
proof
  assume "HasSuffix i p"
  then obtain t where "i = t @ p" by (auto simp: HasSuffix_iff)
  moreover have "CHR ''/'' \<in> set p" using assms(2,3) by (metis list.set_sel(1))
  ultimately show False using assms(1) by (simp add: plain_id_def)
qed

lemma cut_plain: "plain_id i \<Longrightarrow> cut ''/routes/'' i = None"
proof -
  have "CHR ''/'' \<notin> set i \<Longrightarrow> cut ''/routes/'' i = None"
    by (induction i) (auto simp: HasPrefix_def)
  then show "plain_id i \<Longrightarrow> cut ''/routes/'' i = None" by (simp add: plain_id_def)
qed

lemma trim_plain: "plain_id i \<Longrightarrow> trim_slashes (CHR ''/'' # i) = i"
  using plain_id_hd [of i "[]"] plain_id_last [of i "[]"]
  by (intro trim_slashes_plain) (auto simp: plain_id_def)

lemma unescape_tunnelPath [simp]:
  "unescape False (''/api/v2/tunnels/'' @ PathEscape i) = Some (''/api/v2/tunnels'' @ CHR ''/'' # i)"
  "unescape False (''/api/v2/tunnels/'' @ PathEscape i @ ''/rotate-token'') =
     Some (''/api/v2/tunnels'' @ CHR ''/'' # i @ ''/rotate-token'')"
  "unescape False ''/api/v2/tunnels'' = Some (''/api/v2/tunnels'' @ [])"
  by (simp_all add: unescape_PathEscape_append)

lemma no_question_tunnel [simp]:
  "CHR ''?'' \<notin> set (''/api/v2/tunnels/'' @ PathEscape i @ ''/rotate-token'')" "CHR ''?'' \<notin> set ''/api/v2/tunnels''"
  using PathEscape_no_slash(2) by simp_all

lemma fake_get_tunnel:
  assumes "srv_base s = ep" and "plain_id i"
  shows "fake_http ep c (build_request s ''GET'' (''/api/v2/tunnels/'' @ PathEscape i) None) f = (Inr (fake_getTunnel i f), f)"
  unfolding fake_http_path [OF assms(1) no_question(3) unescape_tunnelPath(1)] trim_plain [OF assms(2)]
  using assms(2) cut_plain [OF assms(2)] no_suffix_plain [OF assms(2)]
  by (simp add: fake_serve_def plain_id_def)

lemma fake_delete_tunnel_served:
  assumes "srv_base s = ep" and "plain_id i"
  shows "fake_http ep c (build_request s ''DELETE'' (''/api/v2/tunnels/'' @ PathEscape i) None) f =
    (Inr noContent, fake_delete_tunnel i f)"
  unfolding fake_http_path [OF assms(1) no_question(3) unescape_tunnelPath(1)] trim_plain [OF assms(2)]
  using assms(2) cut_plain [OF assms(2)] no_suffix_plain [OF assms(2)]
  by (simp add: fake_serve_def plain_id_def)

lemma fake_rotate:
  assumes "srv_base s = ep" and "plain_id i"
  shows "fake_http ep c (build_request s ''POST'' (''/api/v2/tunnels/'' @ PathEscape i @ ''/rotate-token'') None) f =
    (case fake_rotateToken i f of (r, f') \<Rightarrow> (Inr r, f'))"
proof -
  have "trim_slashes (CHR ''/'' # i @ ''/rotate-token'') = i @ ''/rotate-token''"
    using plain_id_hd [OF assms(2)] by (intro trim_slashes_plain) auto
  then show ?thesis
    unfolding fake_http_path [OF assms(1) no_question_tunnel(1) unescape_tunnelPath(2)]
    by (simp add: fake_serve_def)
qed

lemma fake_create_tunnel:
  assumes "srv_base s = ep"
  shows "fake_http ep c (build_request s ''POST'' ''/api/v2/tunnels'' (Some (enc_create_tunnel i))) f =
    (case fake_createTunnel i f of (r, f') \<Rightarrow> (Inr r, f'))"
  unfolding fake_http_path [OF assms(1) no_question_tunnel(2) unescape_tunnelPath(3)]
  by (simp add: fake_serve_def trim_slashes_def read_body_ok wf_enc_create_tunnel dec_enc_create_tunnel)

lemma QueryEscape_no_amp: "CHR ''&'' \<notin> set (QueryEscape s)" "CHR ''?'' \<notin> set (QueryEscape s)"
  by (auto simp: QueryEscape_def unreserved_def is_alnum_def dest: percent_chars split: if_splits)

lemma split_on_none: "d \<notin> set s \<Longrightarrow> split_on d s = [s]"
  by (induction s) auto

lemma fake_find_tunnel:
  assumes "srv_base s = ep"
  shows "fake_http ep c (build_request s ''GET'' (''/api/v2/tunnels?external_id='' @ QueryEscape e) None) f =
    (Inr (fake_listTunnels e f), f)"
proof -
  let ?q = "''external_id='' @ QueryEscape e"
  have url: "rq_URL (build_request s ''GET'' (''/api/v2/tunnels?external_id='' @ QueryEscape e) None)
      = ep @ ''/api/v2/tunnels'' @ CHR ''?'' # ?q"
    using assms by (simp add: build_request_def)
  have path: "takeWhile (\<lambda>c. c \<noteq> CHR ''?'') (''/api/v2/tunnels'' @ CHR ''?'' # ?q) = ''/api/v2/tunnels''"
    by simp
  have cut: "drop (length ep) (ep @ ''/api/v2/tunnels'' @ CHR ''?'' # ?q) = ''/api/v2/tunnels'' @ CHR ''?'' # ?q" by simp
  have query: "query_get ''external_id'' ?q = e"
    using QueryEscape_no_amp(1) by (simp add: query_get_def split_on_none HasPrefix_def)
  have rest: "drop (Suc (length ''/api/v2/tunnels'')) (''/api/v2/tunnels'' @ CHR ''?'' # ?q) = ?q" by simp
  show ?thesis
    unfolding fake_http_def Let_def url cut path rest unescape_tunnelPath(3) option.case TrimPrefix_append
    by (simp add: fake_serve_def trim_slashes_def query [simplified])
qed

section \<open>The tunnels\<close>

text \<open>
  The tunnels of the platform as the fake keeps them: filed under their identifiers, each with a
  credential, and at most one for an external id.
\<close>

definition wf_entry :: "fakeAPI \<Rightarrow> string \<times> fakeTunnel \<Rightarrow> bool" where
  "wf_entry f = (\<lambda>(k, t). nt_ID (ft_tunnel t) = k \<and> wf_tunnel (ft_tunnel t) \<and> ft_token t \<noteq> []
     \<and> (\<exists>n \<le> fa_nextID f. k = ''tun-'' @ show_nat n))"

definition external_of :: "string \<times> fakeTunnel \<Rightarrow> string" where
  "external_of e = nt_ExternalID (ft_tunnel (snd e))"

definition sound_tunnels :: "fakeAPI \<Rightarrow> bool" where
  "sound_tunnels f = (distinct (map fst (fa_tunnels f)) \<and> list_all (wf_entry f) (fa_tunnels f)
     \<and> distinct (filter (\<lambda>e. e \<noteq> []) (map external_of (fa_tunnels f)))
     \<and> (\<forall>k. list_all wf_route (fa_routes f k)))"

lemma sound_entry:
  assumes "sound_tunnels f" and "map_of (fa_tunnels f) i = Some t"
  shows "wf_entry f (i, t)" "plain_id i" "nt_ID (ft_tunnel t) = i"
proof -
  have "(i, t) \<in> set (fa_tunnels f)" using assms(2) by (rule map_of_SomeD)
  then show wf: "wf_entry f (i, t)" using assms(1) by (auto simp: sound_tunnels_def list_all_iff)
  then show "plain_id i" "nt_ID (ft_tunnel t) = i" using plain_rt(2) by (auto simp: wf_entry_def)
qed

lemma distinct_filter_unique:
  assumes "distinct (filter P (map g xs))" and "a \<in> set xs" and "b \<in> set xs" and "g a = g b" and "P (g a)"
  shows "a = b"
  using assms
proof (induction xs)
  case (Cons x xs)
  have "\<not> (P (g x) \<and> g x \<in> g ` set xs)" using Cons.prems(1) by auto
  with Cons show ?case by (cases "P (g x)") (auto simp: rev_image_eqI)
qed simp

lemma external_unique:
  assumes "sound_tunnels f" and "a \<in> set (fa_tunnels f)" and "b \<in> set (fa_tunnels f)"
    and "external_of a = external_of b" and "external_of a \<noteq> []"
  shows "a = b"
  using assms distinct_filter_unique [of "\<lambda>e. e \<noteq> []" external_of "fa_tunnels f" a b] by (simp add: sound_tunnels_def)

text \<open>The tunnel of an external id.\<close>

definition of_external :: "fakeAPI \<Rightarrow> string \<Rightarrow> (string \<times> fakeTunnel) option" where
  "of_external f e = find (\<lambda>x. external_of x = e) (fa_tunnels f)"

lemma of_external_SomeD:
  assumes "of_external f e = Some x"
  shows "x \<in> set (fa_tunnels f)" "external_of x = e"
  using assms by (auto simp: of_external_def find_Some_iff)

lemma of_external_None: "of_external f e = None \<longleftrightarrow> (\<forall>x \<in> set (fa_tunnels f). external_of x \<noteq> e)"
  by (auto simp: of_external_def find_None_iff)

lemma of_external_map:
  assumes "sound_tunnels f" and "of_external f e = Some (i, t)"
  shows "map_of (fa_tunnels f) i = Some t"
  using assms of_external_SomeD(1) [OF assms(2)] by (simp add: sound_tunnels_def)

lemma external_of_held:
  assumes "sound_tunnels f" and "map_of (fa_tunnels f) i = Some t" and "external_of (i, t) = e" and "e \<noteq> []"
  shows "of_external f e = Some (i, t)"
proof -
  have "(i, t) \<in> set (fa_tunnels f)" using assms(2) by (rule map_of_SomeD)
  moreover from this obtain x where "of_external f e = Some x"
    using assms(3) of_external_None [of f e] by (cases "of_external f e") auto
  ultimately show ?thesis
    using external_unique [OF assms(1)] of_external_SomeD [of f e x] assms(3,4) by metis
qed

text \<open>A tunnel the fake makes.\<close>

definition fresh_tunnel :: "CreateTunnelInput \<Rightarrow> nat \<Rightarrow> fakeTunnel" where
  "fresh_tunnel i n =
     \<lparr>ft_tunnel = zero_tunnel\<lparr>nt_ID := ''tun-'' @ show_nat n, nt_Name := cti_Name i, nt_ExternalID := cti_ExternalID i,
        nt_TunnelSubdomain := (''tun-'' @ show_nat n) @ ''.tunnels.example'', nt_WireGuardIP := ''10.10.0.'' @ show_nat n,
        nt_Status := ''active'', nt_OnlineStatus := ''offline''\<rparr>,
      ft_token = ''tuntok-'' @ show_nat n\<rparr>"

definition with_fresh :: "CreateTunnelInput \<Rightarrow> fakeAPI \<Rightarrow> fakeAPI" where
  "with_fresh i f = f\<lparr>fa_creates := Suc (fa_creates f), fa_nextID := Suc (fa_nextID f),
     fa_tunnels := fa_tunnels f @ [(''tun-'' @ show_nat (Suc (fa_nextID f)), fresh_tunnel i (Suc (fa_nextID f)))]\<rparr>"

definition with_token :: "string \<Rightarrow> string \<Rightarrow> fakeAPI \<Rightarrow> fakeAPI" where
  "with_token i token f = f\<lparr>fa_rotations := Suc (fa_rotations f),
     fa_tunnels := map (\<lambda>(k, x). (k, if k = i then x\<lparr>ft_token := token\<rparr> else x)) (fa_tunnels f)\<rparr>"

lemma fresh_sel [simp]:
  "nt_ID (ft_tunnel (fresh_tunnel i n)) = ''tun-'' @ show_nat n" "ft_token (fresh_tunnel i n) = ''tuntok-'' @ show_nat n"
  "nt_ExternalID (ft_tunnel (fresh_tunnel i n)) = cti_ExternalID i" "wf_tunnel (ft_tunnel (fresh_tunnel i n))"
  by (simp_all add: fresh_tunnel_def wf_tunnel_def zero_tunnel_def)

lemma fresh_id_new:
  assumes "sound_tunnels f"
  shows "''tun-'' @ show_nat (Suc (fa_nextID f)) \<notin> fst ` set (fa_tunnels f)"
  using assms by (fastforce simp: sound_tunnels_def list_all_iff wf_entry_def)

lemma sound_with_fresh:
  assumes "sound_tunnels f" and "of_external f (cti_ExternalID i) = None"
  shows "sound_tunnels (with_fresh i f)"
proof -
  have "list_all (wf_entry (with_fresh i f)) (fa_tunnels f)"
    using assms(1) le_SucI by (fastforce simp: sound_tunnels_def list_all_iff wf_entry_def with_fresh_def)
  moreover have "cti_ExternalID i \<notin> set (map external_of (fa_tunnels f))"
    using assms(2) by (auto simp: of_external_None)
  ultimately show ?thesis
    using assms(1) fresh_id_new [OF assms(1)]
    by (auto simp: sound_tunnels_def with_fresh_def wf_entry_def external_of_def)
qed

lemma map_of_with_token:
  "map_of (map (\<lambda>(k, x). (k, if k = i then g x else x)) ts) j = map_option (if j = i then g else id) (map_of ts j)"
  by (induction ts) auto

lemma sound_with_token:
  assumes "sound_tunnels f" and "token \<noteq> []"
  shows "sound_tunnels (with_token i token f)"
proof -
  let ?g = "\<lambda>(k, x). (k, if k = i then x\<lparr>ft_token := token\<rparr> else x)"
  have "map external_of (map ?g (fa_tunnels f)) = map external_of (fa_tunnels f)"
    "map fst (map ?g (fa_tunnels f)) = map fst (fa_tunnels f)"
    by (auto simp: external_of_def)
  moreover have "wf_entry (with_token i token f) (?g e)" if "wf_entry f e" for e
    using that assms(2) by (cases e) (simp add: wf_entry_def with_token_def)
  then have "list_all (wf_entry (with_token i token f)) (map ?g (fa_tunnels f))"
    using assms(1) unfolding sound_tunnels_def list_all_iff by (metis (no_types, lifting) imageE list.set_map)
  ultimately show ?thesis
    using assms(1) unfolding sound_tunnels_def with_token_def by (simp del: map_map)
qed

lemma sound_delete:
  assumes "sound_tunnels f"
  shows "sound_tunnels (fake_delete_tunnel i f)"
proof -
  let ?P = "\<lambda>(k, _). k \<noteq> i"
  have "distinct (filter Q (map g xs)) \<Longrightarrow> distinct (filter Q (map g (filter ?P xs)))" for Q and g :: "string \<times> fakeTunnel \<Rightarrow> string" and xs
    by (induction xs) auto
  with assms show ?thesis
    by (auto simp: sound_tunnels_def fake_delete_tunnel_def list_all_iff wf_entry_def distinct_map_filter)
qed

section \<open>The operations\<close>

lemma zero_created_sel [simp]: "cre_WireGuard zero_created = zero_wireguard" "cre_TunnelToken zero_created = []"
  by (simp_all add: zero_created_def)

lemma created_wire:
  assumes "cre_WireGuard cr = zero_wireguard"
  shows "wf_json (enc_created cr)" "dec_created (enc_created cr) zero_created = Some cr"
  using assms by (simp_all add: wf_enc_created dec_enc_created zero_wireguard_def int64_def)

lemma find_external:
  "find (\<lambda>(k, t). nt_ExternalID (ft_tunnel t) = e) (fa_tunnels f) = of_external f e"
  by (simp add: of_external_def external_of_def case_prod_unfold)

lemma of_external_creates [simp]: "of_external (f\<lparr>fa_creates := n\<rparr>) e = of_external f e"
  by (simp add: of_external_def)

lemma fake_creates:
  assumes "cti_ExternalID i \<noteq> []" and "of_external f (cti_ExternalID i) = None"
  shows "\<exists>cr. fake_createTunnel i f = (writeJSON 201 (enc_created cr), with_fresh i f) \<and> cre_WireGuard cr = zero_wireguard
    \<and> cre_TunnelID cr = ''tun-'' @ show_nat (Suc (fa_nextID f)) \<and> cre_TunnelToken cr = ''tuntok-'' @ show_nat (Suc (fa_nextID f))"
  using assms
  by (simp add: fake_createTunnel_def Let_def find_external with_fresh_def fresh_tunnel_def)
     (rule exI, rule conjI, rule refl, simp)

lemma fake_adopts:
  assumes "cti_ExternalID i \<noteq> []" and "of_external f (cti_ExternalID i) = Some (k, t)"
  shows "\<exists>cr. fake_createTunnel i f = (writeJSON 200 (enc_created cr), f\<lparr>fa_creates := Suc (fa_creates f)\<rparr>)
    \<and> cre_WireGuard cr = zero_wireguard \<and> cre_TunnelID cr = nt_ID (ft_tunnel t) \<and> cre_TunnelToken cr = []"
  using assms
  by (simp add: fake_createTunnel_def Let_def find_external) (rule exI, rule conjI, rule refl, simp)

lemma read_created:
  assumes "status < 400" and "status \<noteq> 204" and "cre_WireGuard cr = zero_wireguard"
  shows "read_answer env s m p (Some dec_created) zero_created (Inr (writeJSON status (enc_created cr))) = Inr cr"
  by (intro read_writeJSON created_wire assms) simp

lemma run_CreateTunnel_fresh:
  assumes "cti_ExternalID i \<noteq> []" and "of_external (plat w) (cti_ExternalID i) = None"
  shows "\<exists>cr c. run_state (CreateTunnel (fake_env (srv_base s)) s i) w = (Inr cr, fake_step (with_fresh i (plat w)) c w)
    \<and> cre_TunnelID cr = ''tun-'' @ show_nat (Suc (fa_nextID (plat w)))
    \<and> cre_TunnelToken cr = ''tuntok-'' @ show_nat (Suc (fa_nextID (plat w)))"
proof -
  obtain cr where cr: "fake_createTunnel i (plat w) = (writeJSON 201 (enc_created cr), with_fresh i (plat w))"
      "cre_WireGuard cr = zero_wireguard"
      "cre_TunnelID cr = ''tun-'' @ show_nat (Suc (fa_nextID (plat w)))"
      "cre_TunnelToken cr = ''tuntok-'' @ show_nat (Suc (fa_nextID (plat w)))"
    using fake_creates [OF assms] by blast
  have "read_answer env s m p (Some dec_created) zero_created (Inr (writeJSON 201 (enc_created cr))) = Inr cr"
    for env :: "fakeAPI cluster env" and m p
    by (rule read_created) (simp_all add: cr(2))
  then have "run_state (CreateTunnel (fake_env (srv_base s)) s i) w = (Inr cr, fake_step (snd (fake_createTunnel i (plat w)))
      (CHttp (srv_http s) (build_request s ''POST'' ''/api/v2/tunnels'' (Some (enc_create_tunnel i))) (Inr (writeJSON 201 (enc_created cr)))) w)"
    unfolding CreateTunnel_def run_fake_served [OF fake_create_tunnel [OF refl] cr(1)] cr(1) snd_conv by (simp only:)
  then show ?thesis using cr(3,4) unfolding cr(1) snd_conv by blast
qed

lemma run_CreateTunnel_adopt:
  assumes "cti_ExternalID i \<noteq> []" and "of_external (plat w) (cti_ExternalID i) = Some (k, t)"
  shows "\<exists>cr c. run_state (CreateTunnel (fake_env (srv_base s)) s i) w =
      (Inr cr, fake_step ((plat w)\<lparr>fa_creates := Suc (fa_creates (plat w))\<rparr>) c w)
    \<and> cre_TunnelID cr = nt_ID (ft_tunnel t) \<and> cre_TunnelToken cr = []"
proof -
  obtain cr where cr: "fake_createTunnel i (plat w) = (writeJSON 200 (enc_created cr), (plat w)\<lparr>fa_creates := Suc (fa_creates (plat w))\<rparr>)"
      "cre_WireGuard cr = zero_wireguard" "cre_TunnelID cr = nt_ID (ft_tunnel t)" "cre_TunnelToken cr = []"
    using fake_adopts [OF assms] by blast
  have "read_answer env s m p (Some dec_created) zero_created (Inr (writeJSON 200 (enc_created cr))) = Inr cr"
    for env :: "fakeAPI cluster env" and m p
    by (rule read_created) (simp_all add: cr(2))
  then have "run_state (CreateTunnel (fake_env (srv_base s)) s i) w = (Inr cr, fake_step (snd (fake_createTunnel i (plat w)))
      (CHttp (srv_http s) (build_request s ''POST'' ''/api/v2/tunnels'' (Some (enc_create_tunnel i))) (Inr (writeJSON 200 (enc_created cr)))) w)"
    unfolding CreateTunnel_def run_fake_served [OF fake_create_tunnel [OF refl] cr(1)] cr(1) snd_conv by (simp only:)
  then show ?thesis using cr(3,4) unfolding cr(1) snd_conv by blast
qed

lemma run_GetTunnel:
  assumes "sound_tunnels (plat w)" and "map_of (fa_tunnels (plat w)) i = Some t"
  shows "\<exists>c. run_state (GetTunnel (fake_env (srv_base s)) s i) w =
    (Inr \<lparr>wr_Tunnel = Some (ft_tunnel t), wr_Routes = fa_routes (plat w) i\<rparr>, fake_step (plat w) c w)"
proof -
  have wf: "wf_tunnel (ft_tunnel t)" "list_all wf_route (fa_routes (plat w) i)"
    using sound_entry(1) [OF assms] assms(1) by (simp_all add: wf_entry_def sound_tunnels_def)
  let ?g = "\<lparr>wr_Tunnel = Some (ft_tunnel t), wr_Routes = fa_routes (plat w) i\<rparr>"
  have "read_answer env s m p (Some dec_with_routes) \<lparr>wr_Tunnel = None, wr_Routes = []\<rparr>
      (Inr (writeJSON 200 (enc_with_routes ?g))) = Inr ?g" for env :: "fakeAPI cluster env" and m p
    by (intro read_writeJSON wf_enc_with_routes dec_enc_with_routes wf) simp_all
  moreover have "fake_getTunnel i (plat w) = writeJSON 200 (enc_with_routes ?g)"
    using assms(2) by (simp add: fake_getTunnel_def)
  ultimately show ?thesis
    unfolding GetTunnel_def run_fake_request [OF fake_get_tunnel [OF refl sound_entry(2) [OF assms]]] by auto
qed

lemma read_missing:
  "\<exists>e. read_answer env s m p out zero (Inr (writeAPIError 404 code msg)) = Inl e \<and> IsNotFound e"
proof -
  have "ae_Status (parseAPIError m u resp) = resp_StatusCode resp" for m u resp
    by (simp add: parseAPIError_def Let_def split: option.split prod.split)
  then show ?thesis
    by (simp add: read_answer_def writeAPIError_def writeJSON_def IsNotFound_def StatusOf_def del: render.simps)
qed

lemma run_GetTunnel_missing:
  assumes "plain_id i" and "map_of (fa_tunnels (plat w)) i = None"
  shows "\<exists>e c. run_state (GetTunnel (fake_env (srv_base s)) s i) w = (Inl e, fake_step (plat w) c w) \<and> IsNotFound e"
proof -
  have "fake_getTunnel i (plat w) = writeAPIError 404 ''NOT_FOUND'' ''no such tunnel''"
    using assms(2) by (simp add: fake_getTunnel_def)
  then show ?thesis
    unfolding GetTunnel_def run_fake_request [OF fake_get_tunnel [OF refl assms(1)]]
    using read_missing by fastforce
qed

lemma run_RotateToken:
  assumes "sound_tunnels (plat w)" and "map_of (fa_tunnels (plat w)) i = Some t"
    and "token = ft_token t @ ''-rotated-'' @ show_nat (Suc (fa_rotations (plat w)))"
  shows "\<exists>c. run_state (RotateToken (fake_env (srv_base s)) s i) w =
    (Inr \<lparr>rot_TunnelID = i, rot_TunnelToken = token\<rparr>, fake_step (with_token i token (plat w)) c w)"
proof -
  let ?r = "\<lparr>rot_TunnelID = i, rot_TunnelToken = token\<rparr>"
  have served: "fake_rotateToken i (plat w) = (writeJSON 200 (enc_rotated ?r), with_token i token (plat w))"
    using assms(2,3) by (simp add: fake_rotateToken_def Let_def with_token_def)
  have "wf_json (enc_rotated ?r)" by (simp add: enc_rotated_def)
  then have "read_answer env s m p (Some dec_rotated) \<lparr>rot_TunnelID = [], rot_TunnelToken = []\<rparr>
      (Inr (writeJSON 200 (enc_rotated ?r))) = Inr ?r" for env :: "fakeAPI cluster env" and m p
    by (intro read_writeJSON dec_enc_rotated) simp_all
  then show ?thesis
    unfolding RotateToken_def run_fake_served [OF fake_rotate [OF refl sound_entry(2) [OF assms(1,2)]] served] by auto
qed

lemma run_DeleteTunnel:
  assumes "plain_id i"
  shows "\<exists>c. run_state (DeleteTunnel (fake_env (srv_base s)) s i) w = (Inr (), fake_step (fake_delete_tunnel i (plat w)) c w)"
  unfolding DeleteTunnel_def run_fake_request [OF fake_delete_tunnel_served [OF refl assms]] read_noContent by blast

text \<open>The listing by external id has the one tunnel that carries it, or none.\<close>

lemma filter_unique:
  assumes "distinct (filter P (map g xs))" and "P e"
  shows "filter (\<lambda>x. g x = e) xs = (case find (\<lambda>x. g x = e) xs of None \<Rightarrow> [] | Some x \<Rightarrow> [x])"
  using assms
proof (induction xs)
  case (Cons x xs)
  show ?case
  proof (cases "g x = e")
    case True
    with Cons.prems have "e \<notin> g ` set xs" by auto
    then have "filter (\<lambda>y. g y = e) xs = []" by (auto simp: filter_empty_conv)
    with True show ?thesis by simp
  next
    case False
    with Cons show ?thesis by (cases "P (g x)") auto
  qed
qed simp

lemma run_FindTunnel:
  assumes "sound_tunnels (plat w)" and "e \<noteq> []"
  shows "\<exists>c. run_state (FindTunnelByExternalID (fake_env (srv_base s)) s e) w =
    (Inr (map_option (\<lambda>x. \<lparr>sm_Tunnel = ft_tunnel (snd x), sm_RouteCount = 0\<rparr>) (of_external (plat w) e)),
     fake_step (plat w) c w)"
proof -
  let ?f = "plat w"
  let ?sum = "\<lambda>x. \<lparr>sm_Tunnel = ft_tunnel (snd x), sm_RouteCount = 0\<rparr>"
  let ?rows = "case of_external ?f e of None \<Rightarrow> [] | Some x \<Rightarrow> [?sum x]"
  let ?j = "JObj [(''data'', JArr (map enc_summary ?rows)), (''limit'', jint 100), (''offset'', jint 0)]"
  have "filter (\<lambda>(k, t). e = [] \<or> nt_ExternalID (ft_tunnel t) = e) (fa_tunnels ?f)
      = filter (\<lambda>x. external_of x = e) (fa_tunnels ?f)"
    using assms(2) by (simp add: external_of_def case_prod_unfold)
  also have "\<dots> = (case of_external ?f e of None \<Rightarrow> [] | Some x \<Rightarrow> [x])"
    unfolding of_external_def using assms by (intro filter_unique [where P = "\<lambda>e. e \<noteq> []"]) (simp_all add: sound_tunnels_def)
  finally have listing: "fake_listTunnels e ?f = writeJSON 200 ?j"
    by (simp add: fake_listTunnels_def case_prod_unfold split: option.split)
  have wf: "wf_tunnel (ft_tunnel (snd x))" if "of_external ?f e = Some x" for x
    using of_external_SomeD(1) [OF that] assms(1) by (auto simp: sound_tunnels_def list_all_iff wf_entry_def)
  have zero: "int64 0" "int64 100" by (simp_all add: int64_def)
  have "dec_data ?j [] = Some ?rows"
    using wf zero
    by (cases "of_external ?f e") (simp_all add: dec_data_def dec_struct_def dec_list_def dec_enc_summary
        list.map(1) [of enc_summary] list.map(2) [of enc_summary] del: list.map)
  moreover have "wf_json ?j"
    using zero by (cases "of_external ?f e") (simp_all add: enc_summary_def)
  ultimately have "read_answer env s m p (Some dec_data) [] (Inr (fake_listTunnels e ?f)) = Inr ?rows"
    for env :: "fakeAPI cluster env" and m p
    unfolding listing by (intro read_writeJSON) simp_all
  then have "run_state (do_request (fake_env (srv_base s)) s ''GET'' (''/api/v2/tunnels?external_id='' @ QueryEscape e)
      None (Some dec_data) []) w = (Inr ?rows, fake_step ?f (CHttp (srv_http s)
        (build_request s ''GET'' (''/api/v2/tunnels?external_id='' @ QueryEscape e) None) (Inr (fake_listTunnels e ?f))) w)"
    unfolding run_fake_request [OF fake_find_tunnel [OF refl]] by (simp only:)
  then show ?thesis
    unfolding FindTunnelByExternalID_def State_Monad.bind_def by (cases "of_external ?f e") (auto simp del: append.simps)
qed

end
