(* ===== verification/Cluster_Runs.thy ===== *)
theory Cluster_Runs
  imports Cluster
begin

text \<open>
  What the calls of the API server do to the cluster in memory: an object read, written with the
  version it was read at, or brought to its desired form is the object found there afterwards, and
  every other object stays.
\<close>

section \<open>The object store\<close>

lemma lookup_replace_same:
  assumes "lookup_object meta k objs = Inr old" and "key_of (meta x) = k"
    and "om_DeletionTimestamp (meta x) = None \<or> om_Finalizers (meta x) \<noteq> []"
  shows "lookup_object meta k (replace_object meta x objs) = Inr x"
proof -
  have "find (\<lambda>y. key_of (meta y) = k) objs \<noteq> None"
    using assms(1) by (auto simp: lookup_object_def split: option.splits)
  then have "find (\<lambda>y. key_of (meta y) = k) (map (\<lambda>y. if key_of (meta y) = k then x else y) objs) = Some x"
    using assms(2) by (induction objs) auto
  then show ?thesis using assms(2,3) by (auto simp: lookup_object_def replace_object_def)
qed

lemma lookup_replace_other:
  assumes "key_of (meta x) \<noteq> k"
  shows "lookup_object meta k (replace_object meta x objs) = lookup_object meta k objs"
proof -
  have "find (\<lambda>y. key_of (meta y) = k) (filter (\<lambda>y. key_of (meta y) \<noteq> key_of (meta x)) objs)
      = find (\<lambda>y. key_of (meta y) = k) objs"
    using assms by (induction objs) auto
  moreover have "find (\<lambda>y. key_of (meta y) = k) (map (\<lambda>y. if key_of (meta y) = key_of (meta x) then x else y) objs)
      = find (\<lambda>y. key_of (meta y) = k) objs"
    using assms by (induction objs) auto
  ultimately show ?thesis by (simp add: lookup_object_def replace_object_def)
qed

lemma lookup_replace_gone:
  assumes "om_DeletionTimestamp (meta x) \<noteq> None" and "om_Finalizers (meta x) = []"
  shows "lookup_object meta (key_of (meta x)) (replace_object meta x objs) = Inl NotFoundError"
proof -
  have "find (\<lambda>y. key_of (meta y) = key_of (meta x)) (filter (\<lambda>y. key_of (meta y) \<noteq> key_of (meta x)) objs) = None"
    by (auto simp: find_None_iff)
  then show ?thesis using assms by (simp add: lookup_object_def replace_object_def)
qed

section \<open>Reads\<close>

lemma run_Get_Tunnel:
  "\<exists>c. run_state (Get_Tunnel (cluster_env h) k) w =
     (map_sum ErrKube id (lookup_object tn_Meta k (cu_Tunnels (ext w))), emit (ext w) c w)"
  by (auto simp: Get_Tunnel_def run_kube_call cluster_env_def)

lemma run_Get_Secret:
  "\<exists>c. run_state (Get_Secret (cluster_env h) k) w =
     (map_sum ErrKube id (lookup_object sec_Meta k (cu_Secrets (ext w))), emit (ext w) c w)"
  by (auto simp: Get_Secret_def run_kube_call cluster_env_def)

lemma run_Get_TunnelRoute:
  "\<exists>c. run_state (Get_TunnelRoute (cluster_env h) k) w =
     (map_sum ErrKube id (lookup_object tr_Meta k (cu_Routes (ext w))), emit (ext w) c w)"
  by (auto simp: Get_TunnelRoute_def run_kube_call cluster_env_def)

lemma run_Get_Service:
  "\<exists>c. run_state (Get_Service (cluster_env h) k) w =
     (map_sum ErrKube id (lookup_object svc_Meta k (cu_Services (ext w))), emit (ext w) c w)"
  by (auto simp: Get_Service_def run_kube_call cluster_env_def)

lemma cluster_apply:
  "k_apply_secret (cluster_env h) b f x = commit (\<lambda>objs y. y\<lparr>cu_Secrets := objs\<rparr>)
     (apply_object sec_Meta stamp_secret b f (cu_Version x) (cu_Secrets x)) x"
  "k_apply_deployment (cluster_env h) d g x = commit (\<lambda>objs y. y\<lparr>cu_Deployments := objs\<rparr>)
     (apply_object dp_Meta stamp_deployment d g (cu_Version x) (cu_Deployments x)) x"
  by (simp_all add: cluster_env_def)

section \<open>Writes of a Tunnel\<close>

text \<open>The object found under the key of a Tunnel is that very Tunnel, version included.\<close>

definition stored :: "'p cluster \<Rightarrow> Tunnel \<Rightarrow> bool" where
  "stored x t = (lookup_object tn_Meta (key_of (tn_Meta t)) (cu_Tunnels x) = Inr t)"

text \<open>A Tunnel after a write of the object, or of its status.\<close>

definition rewritten :: "'p cluster \<Rightarrow> Tunnel \<Rightarrow> 'p cluster" where
  "rewritten x t = x\<lparr>cu_Version := Suc (cu_Version x), cu_Tunnels := replace_object tn_Meta t (cu_Tunnels x)\<rparr>"

lemma rewritten_sel [simp]:
  "cu_Secrets (rewritten x t) = cu_Secrets x" "cu_Deployments (rewritten x t) = cu_Deployments x"
  "cu_Routes (rewritten x t) = cu_Routes x" "cu_Platform (rewritten x t) = cu_Platform x"
  by (simp_all add: rewritten_def)

lemma stored_rewritten:
  assumes "stored x old" and "key_of (tn_Meta t) = key_of (tn_Meta old)"
    and "om_DeletionTimestamp (tn_Meta t) = None \<or> om_Finalizers (tn_Meta t) \<noteq> []"
  shows "stored (rewritten x t) t"
  using assms lookup_replace_same [of tn_Meta] by (simp add: stored_def rewritten_def)

lemma run_Update_Tunnel:
  assumes "stored (ext w) old"
    and "t = old\<lparr>tn_Meta := (tn_Meta old)\<lparr>om_Finalizers := fs\<rparr>\<rparr>"
    and "t' = old\<lparr>tn_Meta := (tn_Meta old)\<lparr>om_Finalizers := fs, om_ResourceVersion := show_nat (cu_Version (ext w))\<rparr>\<rparr>"
  shows "\<exists>c. run_state (Update_Tunnel (cluster_env h) t) w = (Inr t', emit (rewritten (ext w) t') c w)"
proof -
  have "stamp_tunnel v (t\<lparr>tn_Meta := merge_meta (tn_Meta old) (tn_Meta t), tn_Status := tn_Status old\<rparr>) =
      old\<lparr>tn_Meta := (tn_Meta old)\<lparr>om_Finalizers := fs, om_ResourceVersion := v\<rparr>\<rparr>" for v
    using assms(2) by (simp add: stamp_tunnel_def merge_meta_def)
  then have "k_update_tunnel (cluster_env h) t (ext w) = (Inr t', rewritten (ext w) t')"
    using assms
    by (simp add: cluster_env_def update_tunnel_in_def write_object_def commit_def stored_def rewritten_def Let_def)
  then show ?thesis by (auto simp: Update_Tunnel_def run_kube_call)
qed

lemma run_StatusUpdate_Tunnel:
  assumes "stored (ext w) old" and "t = old\<lparr>tn_Status := s\<rparr>"
    and "t' = old\<lparr>tn_Meta := (tn_Meta old)\<lparr>om_ResourceVersion := show_nat (cu_Version (ext w))\<rparr>, tn_Status := s\<rparr>"
  shows "\<exists>c. run_state (StatusUpdate_Tunnel (cluster_env h) t) w = (Inr t', emit (rewritten (ext w) t') c w)"
proof -
  have "stamp_tunnel v (old\<lparr>tn_Status := tn_Status t\<rparr>) =
      old\<lparr>tn_Meta := (tn_Meta old)\<lparr>om_ResourceVersion := v\<rparr>, tn_Status := s\<rparr>" for v
    using assms(2) by (simp add: stamp_tunnel_def)
  then have "k_status_tunnel (cluster_env h) t (ext w) = (Inr t', rewritten (ext w) t')"
    using assms
    by (simp add: cluster_env_def status_tunnel_in_def write_object_def commit_def stored_def rewritten_def Let_def)
  then show ?thesis by (auto simp: StatusUpdate_Tunnel_def run_kube_call)
qed

section \<open>Writes of a TunnelRoute\<close>

definition stored_route :: "'p cluster \<Rightarrow> TunnelRoute \<Rightarrow> bool" where
  "stored_route x r = (lookup_object tr_Meta (key_of (tr_Meta r)) (cu_Routes x) = Inr r)"

definition rewritten_route :: "'p cluster \<Rightarrow> TunnelRoute \<Rightarrow> 'p cluster" where
  "rewritten_route x r = x\<lparr>cu_Version := Suc (cu_Version x), cu_Routes := replace_object tr_Meta r (cu_Routes x)\<rparr>"

lemma rewritten_route_sel [simp]:
  "cu_Secrets (rewritten_route x r) = cu_Secrets x" "cu_Services (rewritten_route x r) = cu_Services x"
  "cu_Tunnels (rewritten_route x r) = cu_Tunnels x" "cu_Platform (rewritten_route x r) = cu_Platform x"
  by (simp_all add: rewritten_route_def)

lemma stored_rewritten_route:
  assumes "stored_route x old" and "key_of (tr_Meta r) = key_of (tr_Meta old)"
    and "om_DeletionTimestamp (tr_Meta r) = None \<or> om_Finalizers (tr_Meta r) \<noteq> []"
  shows "stored_route (rewritten_route x r) r"
  using assms lookup_replace_same [of tr_Meta] by (simp add: stored_route_def rewritten_route_def)

lemma run_Update_TunnelRoute:
  assumes "stored_route (ext w) old"
    and "r = old\<lparr>tr_Meta := (tr_Meta old)\<lparr>om_Finalizers := fs\<rparr>\<rparr>"
    and "r' = old\<lparr>tr_Meta := (tr_Meta old)\<lparr>om_Finalizers := fs, om_ResourceVersion := show_nat (cu_Version (ext w))\<rparr>\<rparr>"
  shows "\<exists>c. run_state (Update_TunnelRoute (cluster_env h) r) w = (Inr r', emit (rewritten_route (ext w) r') c w)"
proof -
  have "stamp_route v (r\<lparr>tr_Meta := merge_meta (tr_Meta old) (tr_Meta r), tr_Status := tr_Status old\<rparr>) =
      old\<lparr>tr_Meta := (tr_Meta old)\<lparr>om_Finalizers := fs, om_ResourceVersion := v\<rparr>\<rparr>" for v
    using assms(2) by (simp add: stamp_route_def merge_meta_def)
  then have "k_update_route (cluster_env h) r (ext w) = (Inr r', rewritten_route (ext w) r')"
    using assms
    by (simp add: cluster_env_def update_route_in_def write_object_def commit_def stored_route_def rewritten_route_def Let_def)
  then show ?thesis by (auto simp: Update_TunnelRoute_def run_kube_call)
qed

lemma run_StatusUpdate_TunnelRoute:
  assumes "stored_route (ext w) old" and "r = old\<lparr>tr_Status := s\<rparr>"
    and "r' = old\<lparr>tr_Meta := (tr_Meta old)\<lparr>om_ResourceVersion := show_nat (cu_Version (ext w))\<rparr>, tr_Status := s\<rparr>"
  shows "\<exists>c. run_state (StatusUpdate_TunnelRoute (cluster_env h) r) w = (Inr r', emit (rewritten_route (ext w) r') c w)"
proof -
  have "stamp_route v (old\<lparr>tr_Status := tr_Status r\<rparr>) =
      old\<lparr>tr_Meta := (tr_Meta old)\<lparr>om_ResourceVersion := v\<rparr>, tr_Status := s\<rparr>" for v
    using assms(2) by (simp add: stamp_route_def)
  then have "k_status_route (cluster_env h) r (ext w) = (Inr r', rewritten_route (ext w) r')"
    using assms
    by (simp add: cluster_env_def status_route_in_def write_object_def commit_def stored_route_def rewritten_route_def Let_def)
  then show ?thesis by (auto simp: StatusUpdate_TunnelRoute_def run_kube_call)
qed

section \<open>Objects the operator owns\<close>

text \<open>A name the Tunnel may take: nothing is there, or an object that no other owner controls.\<close>

definition takeable :: "Tunnel \<Rightarrow> ObjectMeta \<Rightarrow> bool" where
  "takeable t m = (om_DeletionTimestamp m = None
     \<and> list_all (\<lambda>r. or_Controller r \<longrightarrow> or_UID r = om_UID (tn_Meta t)) (om_OwnerReferences m))"

lemma set_owner_takeable:
  assumes "takeable t m"
  shows "\<exists>m'. ref_SetControllerReference (tn_Meta t) m = Inr m' \<and> key_of m' = key_of m
    \<and> om_DeletionTimestamp m' = None \<and> takeable t m'"
proof -
  have "\<not> (\<exists>r \<in> set (om_OwnerReferences m). or_Controller r \<and> or_UID r \<noteq> om_UID (tn_Meta t))"
    using assms by (auto simp: takeable_def list_all_iff)
  then show ?thesis
    using assms by (auto simp: ref_SetControllerReference_def takeable_def list_all_iff key_of_def)
qed

definition secret_free :: "'p cluster \<Rightarrow> Tunnel \<Rightarrow> bool" where
  "secret_free x t = (case lookup_object sec_Meta (nn (om_Namespace (tn_Meta t)) (tokenSecretName (om_Name (tn_Meta t))))
       (cu_Secrets x) of Inl _ \<Rightarrow> True | Inr s \<Rightarrow> takeable t (sec_Meta s))"

definition deployment_free :: "'p cluster \<Rightarrow> Tunnel \<Rightarrow> bool" where
  "deployment_free x t = (case lookup_object dp_Meta (nn (om_Namespace (tn_Meta t)) (agentDeploymentName (om_Name (tn_Meta t))))
       (cu_Deployments x) of Inl _ \<Rightarrow> True | Inr d \<Rightarrow> takeable t (dp_Meta d))"

lemma apply_object_run:
  assumes "case lookup_object meta k objs of Inl _ \<Rightarrow> True | Inr old \<Rightarrow> P old" and "P blank" and "key_of (meta blank) = k"
    and "\<And>o'. P o' \<Longrightarrow> key_of (meta o') = k \<Longrightarrow>
      \<exists>x. f o' = Inr x \<and> key_of (meta x) = k \<and> om_DeletionTimestamp (meta x) = None \<and> Q x"
    and "\<And>v x. key_of (meta (stamp v x)) = key_of (meta x) \<and> om_DeletionTimestamp (meta (stamp v x)) = om_DeletionTimestamp (meta x)"
    and "\<And>v x. Q x \<Longrightarrow> Q (stamp v x)"
  shows "\<exists>x objs'. apply_object meta stamp blank f v objs = Inr (x, objs') \<and> lookup_object meta k objs' = Inr x \<and> Q x
    \<and> (\<forall>k'. k' \<noteq> k \<longrightarrow> lookup_object meta k' objs' = lookup_object meta k' objs)"
proof (cases "lookup_object meta k objs")
  case (Inl e)
  obtain x where x: "f blank = Inr x" "key_of (meta x) = k" "Q x"
    using assms(4) [OF assms(2,3)] by blast
  let ?x = "stamp (show_nat v) x"
  have "key_of (meta ?x) = k" "Q ?x" using x assms(5,6) by auto
  then show ?thesis
    using Inl x assms(3) by (auto simp: apply_object_def lookup_object_def)
next
  case (Inr old)
  have "P old" "key_of (meta old) = k" using assms(1) Inr lookup_key [OF Inr] by simp_all
  then obtain x where x: "f old = Inr x" "key_of (meta x) = k" "om_DeletionTimestamp (meta x) = None" "Q x"
    using assms(4) by blast
  let ?x = "stamp (show_nat v) x"
  have q: "key_of (meta ?x) = k" "Q ?x" "om_DeletionTimestamp (meta ?x) = None" using x assms(5,6) by auto
  then have "lookup_object meta k (replace_object meta ?x objs) = Inr ?x"
    using lookup_replace_same [OF Inr] by blast
  moreover have "lookup_object meta k' (replace_object meta ?x objs) = lookup_object meta k' objs" if "k' \<noteq> k" for k'
    using lookup_replace_other [of meta ?x k' objs] q(1) that by simp
  ultimately show ?thesis using Inr x assms(3) q(2) by (auto simp: apply_object_def)
qed

abbreviation token_name :: "Tunnel \<Rightarrow> NamespacedName" where
  "token_name t \<equiv> nn (om_Namespace (tn_Meta t)) (tokenSecretName (om_Name (tn_Meta t)))"

abbreviation agent_name :: "Tunnel \<Rightarrow> NamespacedName" where
  "agent_name t \<equiv> nn (om_Namespace (tn_Meta t)) (agentDeploymentName (om_Name (tn_Meta t)))"

text \<open>At most the Secret, or the Deployment, of one Tunnel differs.\<close>

definition secret_written :: "Tunnel \<Rightarrow> 'p cluster \<Rightarrow> 'p cluster \<Rightarrow> bool" where
  "secret_written t x x' =
     (\<exists>ss. x' = x\<lparr>cu_Version := Suc (cu_Version x), cu_Secrets := ss\<rparr>
        \<and> (\<forall>k. k \<noteq> token_name t \<longrightarrow> lookup_object sec_Meta k ss = lookup_object sec_Meta k (cu_Secrets x)))"

definition deployment_written :: "Tunnel \<Rightarrow> 'p cluster \<Rightarrow> 'p cluster \<Rightarrow> bool" where
  "deployment_written t x x' =
     (\<exists>ds. x' = x\<lparr>cu_Version := Suc (cu_Version x), cu_Deployments := ds\<rparr>
        \<and> (\<forall>k. k \<noteq> agent_name t \<longrightarrow> lookup_object dp_Meta k ds = lookup_object dp_Meta k (cu_Deployments x)))"

lemma secret_written_sel:
  assumes "secret_written t x x'"
  shows "cu_Tunnels x' = cu_Tunnels x" "cu_Routes x' = cu_Routes x" "cu_Deployments x' = cu_Deployments x"
    "cu_Platform x' = cu_Platform x" "cu_Version x' = Suc (cu_Version x)"
    "k \<noteq> token_name t \<Longrightarrow> lookup_object sec_Meta k (cu_Secrets x') = lookup_object sec_Meta k (cu_Secrets x)"
  using assms by (auto simp: secret_written_def)

lemma deployment_written_sel:
  assumes "deployment_written t x x'"
  shows "cu_Tunnels x' = cu_Tunnels x" "cu_Routes x' = cu_Routes x" "cu_Secrets x' = cu_Secrets x"
    "cu_Platform x' = cu_Platform x" "cu_Version x' = Suc (cu_Version x)"
    "k \<noteq> agent_name t \<Longrightarrow> lookup_object dp_Meta k (cu_Deployments x') = lookup_object dp_Meta k (cu_Deployments x)"
  using assms by (auto simp: deployment_written_def)

lemma mutate_token_takeable:
  assumes "takeable t (sec_Meta s)"
  shows "\<exists>s'. mutate_token_secret (cluster_env h) t token s = Inr s' \<and> key_of (sec_Meta s') = key_of (sec_Meta s)
    \<and> om_DeletionTimestamp (sec_Meta s') = None \<and> takeable t (sec_Meta s') \<and> secret_value s' tokenSecretKey = token"
proof -
  let ?m = "(sec_Meta s)\<lparr>om_Labels := agentLabels t\<rparr>"
  have "takeable t ?m" "key_of ?m = key_of (sec_Meta s)" using assms by (simp_all add: takeable_def key_of_def)
  with set_owner_takeable [of t ?m] show ?thesis
    by (auto simp: mutate_token_secret_def cluster_env_def secret_value_def Let_def)
qed

lemma mutate_deployment_takeable:
  assumes "takeable t (dp_Meta d)"
  shows "\<exists>d'. mutate_deployment (cluster_env h) t desired d = Inr d' \<and> key_of (dp_Meta d') = key_of (dp_Meta d)
    \<and> om_DeletionTimestamp (dp_Meta d') = None \<and> takeable t (dp_Meta d')
    \<and> ds_Template (dp_Spec d') = ds_Template (dp_Spec desired)"
proof -
  let ?m = "(dp_Meta d)\<lparr>om_Labels := om_Labels (dp_Meta desired)\<rparr>"
  have "takeable t ?m" "key_of ?m = key_of (dp_Meta d)" using assms by (simp_all add: takeable_def key_of_def)
  with set_owner_takeable [of t ?m] show ?thesis
    by (auto simp: mutate_deployment_def cluster_env_def Let_def)
qed

lemma run_store_token:
  assumes "secret_free (ext w) t"
  shows "\<exists>s x c. run_state (store_token (cluster_env h) t token) w = (Inr s, emit x c w)
    \<and> lookup_object sec_Meta (token_name t) (cu_Secrets x) = Inr s \<and> secret_value s tokenSecretKey = token
    \<and> takeable t (sec_Meta s) \<and> secret_written t (ext w) x"
proof -
  let ?b = "blank_secret (om_Namespace (tn_Meta t)) (tokenSecretName (om_Name (tn_Meta t)))"
  let ?Q = "\<lambda>s. secret_value s tokenSecretKey = token \<and> takeable t (sec_Meta s)"
  have "\<exists>s ss. apply_object sec_Meta stamp_secret ?b (mutate_token_secret (cluster_env h) t token) (cu_Version (ext w))
      (cu_Secrets (ext w)) = Inr (s, ss) \<and> lookup_object sec_Meta (token_name t) ss = Inr s \<and> ?Q s
      \<and> (\<forall>k'. k' \<noteq> token_name t \<longrightarrow> lookup_object sec_Meta k' ss = lookup_object sec_Meta k' (cu_Secrets (ext w)))"
  proof (rule apply_object_run [where P = "\<lambda>s. takeable t (sec_Meta s)"])
    show "case lookup_object sec_Meta (token_name t) (cu_Secrets (ext w)) of Inl _ \<Rightarrow> True | Inr s \<Rightarrow> takeable t (sec_Meta s)"
      using assms by (simp add: secret_free_def)
    show "\<exists>s'. mutate_token_secret (cluster_env h) t token s = Inr s' \<and> key_of (sec_Meta s') = token_name t
        \<and> om_DeletionTimestamp (sec_Meta s') = None \<and> ?Q s'"
      if "takeable t (sec_Meta s)" and "key_of (sec_Meta s) = token_name t" for s
      using mutate_token_takeable [OF that(1), of h token] that(2) by fastforce
  qed (auto simp: blank_secret_def takeable_def zero_meta_def key_of_def stamp_secret_def secret_value_def)
  then obtain s ss where s: "apply_object sec_Meta stamp_secret ?b (mutate_token_secret (cluster_env h) t token)
      (cu_Version (ext w)) (cu_Secrets (ext w)) = Inr (s, ss)"
    and found: "lookup_object sec_Meta (token_name t) ss = Inr s" "?Q s"
      "\<forall>k'. k' \<noteq> token_name t \<longrightarrow> lookup_object sec_Meta k' ss = lookup_object sec_Meta k' (cu_Secrets (ext w))" by blast
  let ?x = "(ext w)\<lparr>cu_Version := Suc (cu_Version (ext w)), cu_Secrets := ss\<rparr>"
  have "run_state (store_token (cluster_env h) t token) w = (Inr s, emit ?x (CApplySecret ?b (Inr s)) w)"
    by (simp add: store_token_def CreateOrUpdate_Secret_def run_kube_call cluster_apply commit_def s)
  moreover have "lookup_object sec_Meta (token_name t) (cu_Secrets ?x) = Inr s" "secret_written t (ext w) ?x"
    using found(1,3) by (auto simp: secret_written_def)
  ultimately show ?thesis using found(2) by blast
qed

lemma run_ensureAgentDeployment:
  assumes "deployment_free (ext w) t"
  shows "\<exists>d x c. run_state (ensureAgentDeployment (cluster_env h) img t v) w = (Inr d, emit x c w)
    \<and> lookup_object dp_Meta (agent_name t) (cu_Deployments x) = Inr d
    \<and> ds_Template (dp_Spec d) = ds_Template (dp_Spec (buildAgentDeployment t img v))
    \<and> takeable t (dp_Meta d) \<and> deployment_written t (ext w) x"
proof -
  let ?desired = "buildAgentDeployment t img v"
  let ?b = "blank_deployment (om_Namespace (dp_Meta ?desired)) (om_Name (dp_Meta ?desired))"
  let ?Q = "\<lambda>d. ds_Template (dp_Spec d) = ds_Template (dp_Spec ?desired) \<and> takeable t (dp_Meta d)"
  have names: "om_Namespace (dp_Meta ?desired) = om_Namespace (tn_Meta t)"
    "om_Name (dp_Meta ?desired) = agentDeploymentName (om_Name (tn_Meta t))"
    by (simp_all add: buildAgentDeployment_def Let_def zero_meta_def)
  have "\<exists>d ds. apply_object dp_Meta stamp_deployment ?b (mutate_deployment (cluster_env h) t ?desired) (cu_Version (ext w))
      (cu_Deployments (ext w)) = Inr (d, ds) \<and> lookup_object dp_Meta (agent_name t) ds = Inr d \<and> ?Q d
      \<and> (\<forall>k'. k' \<noteq> agent_name t \<longrightarrow> lookup_object dp_Meta k' ds = lookup_object dp_Meta k' (cu_Deployments (ext w)))"
  proof (rule apply_object_run [where P = "\<lambda>d. takeable t (dp_Meta d)"])
    show "case lookup_object dp_Meta (agent_name t) (cu_Deployments (ext w)) of Inl _ \<Rightarrow> True | Inr d \<Rightarrow> takeable t (dp_Meta d)"
      using assms by (simp add: deployment_free_def)
    show "\<exists>d'. mutate_deployment (cluster_env h) t ?desired d = Inr d' \<and> key_of (dp_Meta d') = agent_name t
        \<and> om_DeletionTimestamp (dp_Meta d') = None \<and> ?Q d'"
      if "takeable t (dp_Meta d)" and "key_of (dp_Meta d) = agent_name t" for d
      using mutate_deployment_takeable [OF that(1), of h ?desired] that(2) by fastforce
  qed (auto simp: names blank_deployment_def takeable_def zero_meta_def key_of_def stamp_deployment_def)
  then obtain d ds where d: "apply_object dp_Meta stamp_deployment ?b (mutate_deployment (cluster_env h) t ?desired)
      (cu_Version (ext w)) (cu_Deployments (ext w)) = Inr (d, ds)"
    and found: "lookup_object dp_Meta (agent_name t) ds = Inr d" "?Q d"
      "\<forall>k'. k' \<noteq> agent_name t \<longrightarrow> lookup_object dp_Meta k' ds = lookup_object dp_Meta k' (cu_Deployments (ext w))" by blast
  let ?x = "(ext w)\<lparr>cu_Version := Suc (cu_Version (ext w)), cu_Deployments := ds\<rparr>"
  have "run_state (ensureAgentDeployment (cluster_env h) img t v) w = (Inr d, emit ?x (CApplyDeployment ?b (Inr d)) w)"
    by (simp add: ensureAgentDeployment_def CreateOrUpdate_Deployment_def run_kube_call cluster_apply commit_def d Let_def)
  moreover have "lookup_object dp_Meta (agent_name t) (cu_Deployments ?x) = Inr d" "deployment_written t (ext w) ?x"
    using found(1,3) by (auto simp: deployment_written_def)
  ultimately show ?thesis using found(2) by blast
qed

end
