(* ===== verification/Json_Fuel.thy ===== *)
theory Json_Fuel
  imports Json
begin

text \<open>
  The fuel of the JSON parser is enough on every input, well-formed or not: every step of the
  parser consumes a byte at least, so that more fuel than \<open>fuel_of\<close> never changes an answer.
\<close>

section \<open>Every value consumes\<close>

lemma skip_ws_length: "skip_ws s = c # cs \<Longrightarrow> length cs < length s"
  using length_dropWhile_le [of is_json_ws s] by simp

lemma parse_str_length: "parse_str s = Some (t, r) \<Longrightarrow> length r < length s"
proof (induction s arbitrary: t rule: parse_str.induct)
  case (2 c cs)
  then show ?case
    by (fastforce split: if_splits option.splits dest: read_escape_length)
qed simp

lemma scan_frac_length: "scan_frac s = Some (f, r) \<Longrightarrow> length r \<le> length s"
  by (auto simp: scan_frac_def Let_def split: list.splits if_splits intro: le_SucI length_dropWhile_le)

lemma scan_exp_length: "scan_exp s = Some (e, r) \<Longrightarrow> length r \<le> length s"
  by (auto simp: scan_exp_def Let_def split: list.splits if_splits intro: le_SucI le_trans [OF length_dropWhile_le])

lemma scan_int_length: "scan_int s = Some (i, r) \<Longrightarrow> length r < length s"
  by (auto simp: scan_int_def split: list.splits if_splits intro: le_imp_less_Suc length_dropWhile_le)

lemma scan_num_length: "scan_num s = Some (l, r) \<Longrightarrow> length r < length s"
  by (cases s)
     (fastforce simp: scan_num_def Let_def split: if_splits option.splits
        dest!: scan_int_length scan_frac_length scan_exp_length)+

lemma scan_lit_length: "scan_lit l v s = Some (x, r) \<Longrightarrow> l \<noteq> [] \<Longrightarrow> s \<noteq> [] \<Longrightarrow> length r < length s"
  by (auto simp: scan_lit_def split: if_splits)

lemma parse_length:
  "(\<forall>s v r. parse_val n s = Some (v, r) \<longrightarrow> length r < length s)
   \<and> (\<forall>s xs r. parse_elems n s = Some (xs, r) \<longrightarrow> length r < length s)
   \<and> (\<forall>s ms r. parse_members n s = Some (ms, r) \<longrightarrow> length r < length s)"
proof (induction n)
  case (Suc n)
  have val: "length r < length s" if "parse_val (Suc n) s = Some (v, r)" for s v r
  proof (cases "skip_ws s")
    case (Cons c cs)
    have "length r < Suc (length cs)"
      using that Cons Suc
      by (auto split: if_splits list.splits dest!: scan_lit_length scan_num_length parse_str_length skip_ws_length intro: less_SucI less_trans)
    with skip_ws_length [OF Cons] show ?thesis by simp
  next
    case Nil
    with that show ?thesis by (simp only: parse_val.simps(2) list.case) simp
  qed
  have elems: "length r < length s" if "parse_elems (Suc n) s = Some (xs, r)" for s xs r
    using that Suc
    by (fastforce split: if_splits list.splits option.splits dest!: skip_ws_length)
  have members: "length r < length s" if "parse_members (Suc n) s = Some (ms, r)" for s ms r
    using that Suc
    by (fastforce split: if_splits list.splits option.splits dest!: skip_ws_length parse_str_length)
  from val elems members show ?case by blast
qed simp

lemmas parse_val_length = parse_length [THEN conjunct1, rule_format]

section \<open>Enough is enough\<close>

lemma parse_more_fuel:
  "(\<forall>s. 2 * length s + 1 \<le> n \<longrightarrow> parse_val (Suc n) s = parse_val n s)
   \<and> (\<forall>s. 2 * length s + 2 \<le> n \<longrightarrow> parse_elems (Suc n) s = parse_elems n s)
   \<and> (\<forall>s. 2 * length s + 2 \<le> n \<longrightarrow> parse_members (Suc n) s = parse_members n s)"
proof (induction n)
  case (Suc n)
  have val: "parse_val (Suc (Suc n)) s = parse_val (Suc n) s" if "2 * length s + 1 \<le> Suc n" for s
  proof (cases "skip_ws s")
    case (Cons c cs)
    then have "2 * length cs + 2 \<le> n" using that skip_ws_length [OF Cons] by simp
    then have "parse_elems (Suc n) cs = parse_elems n cs" "parse_members (Suc n) cs = parse_members n cs" using Suc by blast+
    then show ?thesis by (simp only: parse_val.simps(2) Cons list.case)
  next
    case Nil
    then show ?thesis by (simp only: parse_val.simps(2) list.case)
  qed
  have elems: "parse_elems (Suc (Suc n)) s = parse_elems (Suc n) s" if s: "2 * length s + 2 \<le> Suc n" for s
  proof (cases "parse_val n s")
    case (Some x)
    obtain v r where x: "x = (v, r)" by fastforce
    have "parse_val (Suc n) s = Some (v, r)" using Suc s Some x by simp
    moreover have "parse_elems (Suc n) cs = parse_elems n cs" if "skip_ws r = c # cs" for c cs
      using Suc s skip_ws_length [OF that] parse_val_length [OF Some [unfolded x]] by simp
    ultimately show ?thesis
      by (cases "skip_ws r") (simp_all only: parse_elems.simps(2) Some x option.case prod.case list.case)
  next
    case None
    with Suc s show ?thesis by simp
  qed
  have members: "parse_members (Suc (Suc n)) s = parse_members (Suc n) s" if s: "2 * length s + 2 \<le> Suc n" for s
  proof -
    have held: "parse_val (Suc n) ds = parse_val n ds" if "skip_ws s = c # cs" "parse_str cs = Some (k, r)" "skip_ws r = d # ds" for c cs k r d ds
      using Suc s skip_ws_length [OF that(1)] parse_str_length [OF that(2)] skip_ws_length [OF that(3)] by simp
    have rest: "parse_members (Suc n) es = parse_members n es"
      if "skip_ws s = c # cs" "parse_str cs = Some (k, r)" "skip_ws r = d # ds" "parse_val n ds = Some (v, q)" "skip_ws q = e # es"
      for c cs k r d ds v q e es
      using Suc s skip_ws_length [OF that(1)] parse_str_length [OF that(2)] skip_ws_length [OF that(3)] parse_val_length [OF that(4)]
        skip_ws_length [OF that(5)] by simp
    note unfold = parse_members.simps(2) [of "Suc n" s] parse_members.simps(2) [of n s] option.case prod.case list.case
    show ?thesis
    proof (cases "\<exists>c cs k r d ds. skip_ws s = c # cs \<and> parse_str cs = Some (k, r) \<and> skip_ws r = d # ds")
      case True
      then obtain c cs k r d ds where h: "skip_ws s = c # cs" "parse_str cs = Some (k, r)" "skip_ws r = d # ds" by blast
      show ?thesis
      proof (cases "\<exists>v q e es. parse_val n ds = Some (v, q) \<and> skip_ws q = e # es")
        case True
        then obtain v q e es where v: "parse_val n ds = Some (v, q)" "skip_ws q = e # es" by blast
        show ?thesis by (simp only: unfold h v held [OF h] rest [OF h v])
      next
        case False
        then have "parse_val n ds = None \<or> (\<exists>v q. parse_val n ds = Some (v, q) \<and> skip_ws q = [])"
          by (metis list.exhaust option.exhaust prod.exhaust)
        then show ?thesis by (elim disjE exE conjE) (simp_all only: unfold h held [OF h])
      qed
    next
      case False
      then have "skip_ws s = [] \<or> (\<exists>c cs. skip_ws s = c # cs \<and> (parse_str cs = None \<or> (\<exists>k r. parse_str cs = Some (k, r) \<and> skip_ws r = [])))"
        by (metis list.exhaust option.exhaust prod.exhaust)
      then show ?thesis by (elim disjE exE conjE) (simp_all only: unfold)
    qed
  qed
  from val elems members show ?case by blast
qed simp

lemma parse_fuel_enough:
  assumes "fuel_of s \<le> n"
  shows "parse_val n s = parse_val (fuel_of s) s"
  using assms
proof (induction n rule: dec_induct)
  case (step n)
  then have "2 * length s + 1 \<le> n" by (simp add: fuel_of_def)
  with parse_more_fuel [of n] step.IH show ?case by simp
qed simp

end
