(* ===== verification/Client_Properties.thy ===== *)
theory Client_Properties
  imports Tunnel_Runs Cluster_Runs Json_Fuel Route_Controller Sample_World
begin

text \<open>
  The properties of the platform client: errors, answers, paths and bodies, the paged listing, and
  the factory that keeps clients.
\<close>

section \<open>Errors\<close>

text \<open>
  Wrapping an error with a message, as the controllers do on the way up, changes neither the
  retry decision nor the reason it is reported with.
\<close>

lemma Classify_wrap:
  "f_Permanent (Classify (ErrWrap msg e)) = f_Permanent (Classify e) \<and>
   f_Reason (Classify (ErrWrap msg e)) = f_Reason (Classify e)"
  by (simp add: Classify_def split: option.split)

text \<open>
  C26. The error envelope of the API is read back whole: from a failed answer whose body is the
  envelope with a code, the error has that code, that message and the status of the answer.
\<close>

theorem parseAPIError_envelope:
  assumes "resp_Body resp = render (JObj [(''error'', JStr code), (''message'', JStr msg)])"
    and "\<not> resp_Broken resp" and "code \<noteq> []" and "length (resp_Body resp) \<le> error_read_limit"
  shows "parseAPIError m u resp =
    \<lparr>ae_Status = resp_StatusCode resp, ae_Code = code, ae_Message = msg, ae_Method = m, ae_URL = u\<rparr>"
proof -
  have wf: "wf_json (JObj [(''error'', JStr code), (''message'', JStr msg)])" by simp
  have raw: "take error_read_limit (resp_Body resp) = resp_Body resp" using assms(4) by simp
  have "parse_envelope (resp_Body resp) = Some (code, msg)"
    by (simp add: assms(1) parse_envelope_def parse_all_render [OF wf] dec_envelope_def dec_struct_def lower_char_def
        del: render.simps)
  moreover have "resp_Body resp \<noteq> []" using render_head [OF wf] assms(1) by auto
  ultimately show ?thesis using assms(2,3) raw by (simp add: parseAPIError_def Let_def)
qed

theorem parseAPIError_envelope_witness:
  "let resp = \<lparr>resp_StatusCode = 409,
       resp_Body = render (JObj [(''error'', JStr ''HOSTNAME_CONFLICT''), (''message'', JStr ''taken'')]), resp_Broken = False\<rparr> in
     ae_Code (parseAPIError ''POST'' ''u'' resp) = CodeHostnameConflict"
proof -
  let ?resp = "\<lparr>resp_StatusCode = 409,
       resp_Body = render (JObj [(''error'', JStr ''HOSTNAME_CONFLICT''), (''message'', JStr ''taken'')]), resp_Broken = False\<rparr>"
  have "length (resp_Body ?resp) \<le> 60" by code_simp
  moreover have "(60::nat) \<le> error_read_limit" by (simp add: error_read_limit_def)
  ultimately have "parseAPIError ''POST'' ''u'' ?resp = \<lparr>ae_Status = 409, ae_Code = ''HOSTNAME_CONFLICT'', ae_Message = ''taken'',
      ae_Method = ''POST'', ae_URL = ''u''\<rparr>"
    using parseAPIError_envelope [of ?resp "''HOSTNAME_CONFLICT''" "''taken''" "''POST''" "''u''"]
    by (simp del: render.simps)
  then show ?thesis by (simp add: Let_def CodeHostnameConflict_def del: render.simps)
qed

text \<open>
  An answer is taken for "not there" exactly when the platform said 404, whatever its body
  says: neither an unreachable platform nor any other refusal, nor an answer that does not decode,
  is mistaken for it.
\<close>

lemma answer_not_found_iff:
  "(case read_answer env s m p out zero ans of Inl e \<Rightarrow> IsNotFound e | Inr _ \<Rightarrow> False) \<longleftrightarrow>
     (case ans of Inl _ \<Rightarrow> False | Inr resp \<Rightarrow> resp_StatusCode resp = 404)"
proof -
  have "ae_Status (parseAPIError a b resp) = resp_StatusCode resp" for a b resp
    by (simp add: parseAPIError_def Let_def split: option.split prod.split)
  then show ?thesis
    by (auto simp: read_answer_def IsNotFound_def StatusOf_def split: sum.split option.split)
qed

section \<open>Paths and bodies\<close>

text \<open>
  Distinct identifiers give distinct paths: whatever characters they hold, two routes are
  addressed by the same path only when both their tunnels and themselves are the same.
\<close>

lemma routePath_injective: "routePath t r = routePath t' r' \<longleftrightarrow> t = t' \<and> r = r'"
proof
  assume "routePath t r = routePath t' r'"
  then have "PathEscape t @ CHR ''/'' # (''routes/'' @ PathEscape r) = PathEscape t' @ CHR ''/'' # (''routes/'' @ PathEscape r')"
    by (simp add: routePath_def routesPath_def)
  from split_at_slash [OF this PathEscape_no_slash(1) PathEscape_no_slash(1)] show "t = t' \<and> r = r'" by simp
qed simp

text \<open>
  C29. The bodies that create say what they mean: the server decodes the body of a tunnel's create
  to its name and external id, and the body a route's spec is turned into to every field of the
  route, whatever bytes the strings hold; a priority of 0, which the body leaves out, is decoded
  to 0.
\<close>

theorem create_bodies_roundtrip:
  "Option.bind (parse_first (render (enc_create_tunnel i))) (\<lambda>j. dec_create_tunnel j \<lparr>cti_Name = [], cti_ExternalID = []\<rparr>) = Some i
   \<and> Option.bind (parse_first (render (enc_create_route (create_input rt host port)))) (\<lambda>j. dec_create_route j zero_create_route)
      = Some (create_input rt host port)"
proof -
  have "wf_create (create_input rt host port)" by (simp add: wf_create_def create_input_def)
  then show ?thesis by (simp add: wf_enc_create_tunnel dec_enc_create_tunnel wf_enc_create_route dec_enc_create_route)
qed

text \<open>
  A tunnel is read back as it was sent: from the answer that carries a tunnel and its routes
  the client reads that tunnel with all its fields, time stamps that may be absent included, and
  those routes in their order.
\<close>

lemma tunnel_answer_read_back:
  assumes "wf_tunnel t" and "list_all wf_route rs"
  shows "read_answer env s ''GET'' p (Some dec_with_routes) \<lparr>wr_Tunnel = None, wr_Routes = []\<rparr>
      (Inr (writeJSON 200 (enc_with_routes \<lparr>wr_Tunnel = Some t, wr_Routes = rs\<rparr>)))
    = Inr \<lparr>wr_Tunnel = Some t, wr_Routes = rs\<rparr>"
  by (rule read_writeJSON) (simp_all add: assms wf_enc_with_routes dec_enc_with_routes)

lemma tunnel_answer_read_back_witness:
  "read_answer sample_env sample_service_client ''GET'' ''/'' (Some dec_with_routes) \<lparr>wr_Tunnel = None, wr_Routes = []\<rparr>
      (Inr (writeJSON 200 (enc_with_routes \<lparr>wr_Tunnel = Some (zero_tunnel\<lparr>nt_Name := ''web''\<rparr>), wr_Routes = [zero_route]\<rparr>)))
    = Inr \<lparr>wr_Tunnel = Some (zero_tunnel\<lparr>nt_Name := ''web''\<rparr>), wr_Routes = [zero_route]\<rparr>"
  by (rule tunnel_answer_read_back) (simp_all add: wf_tunnel_def zero_tunnel_def wf_route_def zero_route_def int64_def)

text \<open>
  The fuel of the parser never refuses an answer: with any more of it the first value of a text is
  read to the same result, so that what is refused is refused for its form or its nesting.
\<close>

lemma reading_needs_no_more_fuel:
  assumes "fuel_of s \<le> n"
  shows "parse_first s = map_option fst (Option.bind (parse_val n s) scanned)"
  by (simp add: parse_first_def parse_fuel_enough [OF assms])

text \<open>
  The body of an update carries exactly the fields that are set, also false, 0 and the empty
  string: what the server decodes is the input itself.
\<close>

lemma update_body_roundtrip:
  assumes "wf_update u"
  shows "Option.bind (parse_first (render (enc_update_route u))) (\<lambda>j. dec_update_route j empty_update) = Some u"
  using assms by (simp add: wf_enc_update_route dec_enc_update_route)

lemma update_body_roundtrip_witness:
  "let u = empty_update\<lparr>uri_Priority := Some 0, uri_Enabled := Some False\<rparr> in
     Option.bind (parse_first (render (enc_update_route u))) (\<lambda>j. dec_update_route j empty_update) = Some u"
  unfolding Let_def by (rule update_body_roundtrip) (simp add: wf_update_def empty_update_def int64_def)

section \<open>The paged listing\<close>

abbreviation page_path :: "nat \<Rightarrow> string" where
  "page_path offset \<equiv> ''/api/v2/tunnels?limit='' @ Itoa (int tunnelPageSize) @ ''&offset='' @ Itoa (int offset)"

definition zero_page :: tunnel_page where
  "zero_page = \<lparr>pg_Data = [], pg_Limit = 0, pg_Offset = 0\<rparr>"







text \<open>A server that holds \<open>rows\<close> and answers at most \<open>k\<close> of them from the offset on.\<close>

definition serves_rows :: "'x env \<Rightarrow> service \<Rightarrow> nat \<Rightarrow> TunnelSummary list \<Rightarrow> bool" where
  "serves_rows env c k rows =
     (\<forall>w offset. \<exists>w' p. run_state (do_request env c ''GET'' (page_path offset) None (Some dec_page) zero_page) w = (Inr p, w')
        \<and> pg_Data p = take k (drop offset rows) \<and> length (trace w') = Suc (length (trace w)))"

text \<open>The requests it takes to see that there are no more rows than \<open>m\<close>.\<close>

definition requests_for :: "nat \<Rightarrow> nat \<Rightarrow> nat" where
  "requests_for k m = Suc ((m + k - 1) div k)"

lemma requests_for_simps:
  assumes "0 < k"
  shows "requests_for k 0 = 1" "0 < m \<Longrightarrow> requests_for k m = Suc (requests_for k (m - min k m))"
proof -
  show "requests_for k 0 = 1" using assms by (simp add: requests_for_def)
  assume "0 < m"
  show "requests_for k m = Suc (requests_for k (m - min k m))"
  proof (cases "k \<le> m")
    case True
    then have "m + k - 1 = (m - 1) + k" using \<open>0 < m\<close> by simp
    then have "(m + k - 1) div k = Suc ((m - 1) div k)" using assms by (simp only: div_add_self2 Suc_eq_plus1)
    with True show ?thesis by (simp add: requests_for_def min_def)
  next
    case False
    then have "(m + k - 1) div k = 1" using \<open>0 < m\<close> by (intro div_nat_eqI) auto
    with False assms show ?thesis by (simp add: requests_for_def min_def)
  qed
qed

lemma list_pages_rows:
  assumes "serves_rows env c k rows" and "offset \<le> length rows" and "0 < k"
  shows "\<exists>w'. run_state (list_pages env c n offset (take offset rows)) w = (Inr (take (offset + n * k) rows), w')
    \<and> length (trace w') = length (trace w) + min n (requests_for k (length rows - offset))"
  using assms(2)
proof (induction n arbitrary: offset w)
  case 0
  then show ?case by simp
next
  case (Suc n)
  obtain w1 p where p: "run_state (do_request env c ''GET'' (page_path offset) None (Some dec_page) zero_page) w = (Inr p, w1)"
      "pg_Data p = take k (drop offset rows)" "length (trace w1) = Suc (length (trace w))"
    using assms(1) unfolding serves_rows_def by blast
  show ?case
  proof (cases "pg_Data p = []")
    case True
    with p(2) assms(3) Suc.prems have "offset = length rows" by simp
    with p True assms(3) show ?thesis by (simp add: zero_page_def requests_for_simps)
  next
    case False
    let ?next = "offset + length (pg_Data p)"
    have next_le: "?next \<le> length rows" using p(2) Suc.prems by simp
    have all: "take offset rows @ pg_Data p = take ?next rows"
      by (simp add: p(2) take_add [symmetric] min_def)
    have rows: "take (?next + n * k) rows = take (offset + Suc n * k) rows"
      using p(2) by (cases "length rows - offset \<le> k") (simp_all add: add.assoc min_def)
    have "0 < length rows - offset" using False p(2) by simp
    moreover have "length rows - offset - min k (length rows - offset) = length rows - ?next" by (simp add: p(2) min.commute)
    ultimately have "requests_for k (length rows - offset) = Suc (requests_for k (length rows - ?next))"
      using requests_for_simps(2) [OF assms(3)] by simp
    with Suc.IH [OF next_le, of w1] p False all rows show ?thesis by (auto simp: zero_page_def)
  qed
qed

text \<open>
  C30. Against a server that pages honestly, whatever size it caps its pages at, the listing returns
  the rows in order: all of them, unless they fill more than a thousand pages, when it returns the
  first thousand pages. It takes one request for every page and one more that comes back empty,
  and no more than a thousand in all.
\<close>

theorem ListTunnels_bounded_and_complete:
  assumes "serves_rows env c k rows" and "0 < k"
  shows "\<exists>w'. run_state (ListTunnels env c) w = (Inr (take (1000 * k) rows), w')
    \<and> length (trace w') = length (trace w) + min 1000 (requests_for k (length rows))"
  using list_pages_rows [OF assms(1) _ assms(2), of 0 listPageLimit w] by (simp add: ListTunnels_def listPageLimit_def)

text \<open>Such a server: it knows the addresses of its pages.\<close>

definition enc_page :: "TunnelSummary list \<Rightarrow> json" where
  "enc_page rows = JObj [(''data'', JArr (map enc_summary rows)), (''limit'', jint 100), (''offset'', jint 0)]"

definition paged_env :: "string \<Rightarrow> nat \<Rightarrow> TunnelSummary list \<Rightarrow> unit cluster env" where
  "paged_env base k rows = cluster_env (\<lambda>_ rq p.
     (Inr (writeJSON 200 (enc_page
        (case find (\<lambda>offset. rq_URL rq = base @ page_path offset) [0..<length rows] of
           None \<Rightarrow> [] | Some offset \<Rightarrow> take k (drop offset rows)))), p))"

lemma page_found:
  "(case find (\<lambda>o'. base @ page_path offset = base @ page_path o') [0..<length rows] of
      None \<Rightarrow> [] | Some o' \<Rightarrow> take k (drop o' rows)) = take k (drop offset rows)"
proof -
  have "find (\<lambda>o'. base @ page_path offset = base @ page_path o') xs = (if offset \<in> set xs then Some offset else None)" for xs
    by (induction xs) (auto simp: Itoa_inject)
  then show ?thesis by simp
qed

lemma dec_enc_page:
  assumes "list_all (\<lambda>s. wf_tunnel (sm_Tunnel s) \<and> int64 (sm_RouteCount s)) rows"
  shows "dec_page (enc_page rows) zero_page = Some \<lparr>pg_Data = rows, pg_Limit = 100, pg_Offset = 0\<rparr>" "wf_json (enc_page rows)"
proof -
  have "dec_elems dec_summary zero_summary (map enc_summary rows) = Some rows" "wf_elems (map enc_summary rows)"
    using assms by (induction rows) (simp_all add: dec_enc_summary, simp add: enc_summary_def)
  moreover have "int64 0" "int64 100" by (simp_all add: int64_def)
  ultimately show "dec_page (enc_page rows) zero_page = Some \<lparr>pg_Data = rows, pg_Limit = 100, pg_Offset = 0\<rparr>" "wf_json (enc_page rows)"
    by (simp_all add: dec_page_def enc_page_def zero_page_def dec_struct_def dec_list_def del: list.map)
qed

lemma paged_serves:
  assumes "list_all (\<lambda>s. wf_tunnel (sm_Tunnel s) \<and> int64 (sm_RouteCount s)) rows"
  shows "serves_rows (paged_env (srv_base c) k rows) c k rows"
  unfolding serves_rows_def
proof (intro allI)
  fix w :: "unit cluster world" and offset
  let ?page = "take k (drop offset rows)"
  have "list_all (\<lambda>s. wf_tunnel (sm_Tunnel s) \<and> int64 (sm_RouteCount s)) ?page"
    using assms by (auto simp: list_all_iff dest: in_set_takeD in_set_dropD)
  then have "read_answer env c m p (Some dec_page) zero_page (Inr (writeJSON 200 (enc_page ?page)))
      = Inr \<lparr>pg_Data = ?page, pg_Limit = 100, pg_Offset = 0\<rparr>" for env :: "unit cluster env" and m p
    by (intro read_writeJSON dec_enc_page) (simp_all add: enc_page_def)
  moreover have http: "http_do (paged_env (srv_base c) k rows) h (build_request c ''GET'' (page_path offset) None) x
      = (Inr (writeJSON 200 (enc_page ?page)), x)" for h x
    unfolding paged_env_def cluster_env_def env.simps build_request_def http_request.simps page_found by simp
  moreover have bad: "bad_url (paged_env (srv_base c) k rows) u = None" for u by (simp add: paged_env_def)
  ultimately show "\<exists>w' p. run_state (do_request (paged_env (srv_base c) k rows) c ''GET'' (page_path offset) None (Some dec_page) zero_page) w
      = (Inr p, w') \<and> pg_Data p = ?page \<and> length (trace w') = Suc (length (trace w))"
    unfolding run_do_request [OF bad http] by simp
qed

text \<open>Three tunnels in pages of two: three requests, the last of them empty.\<close>

definition sample_rows :: "TunnelSummary list" where
  "sample_rows = map (\<lambda>i. \<lparr>sm_Tunnel = zero_tunnel\<lparr>nt_ID := i, nt_Name := ''web''\<rparr>, sm_RouteCount = 2\<rparr>) [''tun-1'', ''tun-2'', ''tun-3'']"

definition bare_world :: "unit cluster world" where
  "bare_world = \<lparr>ext = \<lparr>cu_Tunnels = [], cu_Routes = [], cu_Secrets = [], cu_Services = [], cu_Deployments = [], cu_Version = 0,
     cu_Platform = ()\<rparr>, trace = [], clients = Map.empty\<rparr>"

theorem ListTunnels_bounded_and_complete_witness:
  "\<exists>w'. run_state (ListTunnels (paged_env (srv_base sample_service_client) 2 sample_rows) sample_service_client) bare_world
      = (Inr sample_rows, w') \<and> length (trace w') = 3"
proof -
  have "list_all (\<lambda>s. wf_tunnel (sm_Tunnel s) \<and> int64 (sm_RouteCount s)) sample_rows"
    by (simp add: sample_rows_def wf_tunnel_def zero_tunnel_def int64_def)
  from ListTunnels_bounded_and_complete [OF paged_serves [OF this, of sample_service_client 2], of bare_world]
  moreover have "length sample_rows = 3" "trace bare_world = []" by (simp_all add: sample_rows_def bare_world_def)
  ultimately show ?thesis by (simp add: requests_for_def)
qed

section \<open>The factory\<close>

text \<open>
  A rotated credential gets a new client: for one Tunnel, the key a client is cached under
  changes exactly when the resource version of its credential Secret does.
\<close>

lemma factory_key_follows_secret:
  assumes "config_of_secret t ua s = Inr (cfg, key)" and "config_of_secret t ua s' = Inr (cfg', key')"
  shows "key = key' \<longleftrightarrow> om_ResourceVersion (sec_Meta s) = om_ResourceVersion (sec_Meta s')"
  using assms by (auto simp: config_of_secret_def cache_key_def Let_def split: if_splits option.splits)

lemma factory_key_follows_secret_witness:
  "\<exists>cfg key cfg' key'. config_of_secret sample_tunnel ''ua'' sample_secret = Inr (cfg, key)
     \<and> config_of_secret sample_tunnel ''ua''
         (sample_secret\<lparr>sec_Meta := (sec_Meta sample_secret)\<lparr>om_ResourceVersion := ''7''\<rparr>\<rparr>) = Inr (cfg', key')
     \<and> key \<noteq> key'"
proof -
  let ?s = "sample_secret\<lparr>sec_Meta := (sec_Meta sample_secret)\<lparr>om_ResourceVersion := ''7''\<rparr>\<rparr>"
  obtain cfg key cfg' key' where c: "config_of_secret sample_tunnel ''ua'' sample_secret = Inr (cfg, key)"
      "config_of_secret sample_tunnel ''ua'' ?s = Inr (cfg', key')"
    by (simp add: config_of_secret_def sample_tunnel_def sample_secret_def secret_value_def id_key_def secret_key_def Let_def)
  moreover have "key \<noteq> key'"
    using factory_key_follows_secret [OF c] by (simp add: sample_secret_def sample_meta_def)
  ultimately show ?thesis by blast
qed

text \<open>What the factory does once the Secret has been read.\<close>

lemma run_apiClients_stored:
  assumes "lookup_object sec_Meta (nn (om_Namespace (tn_Meta t)) (cr_Name (ts_Credentials (tn_Spec t)))) (cu_Secrets (ext w)) = Inr s"
    and "config_of_secret t (operator_user_agent version) s = Inr (cfg, key)"
  shows "\<exists>e. run_state (apiClients (cluster_env h) version t) w = run_state (cached_client key cfg) (emit (ext w) e w)"
  using run_Get_Secret [of h "nn (om_Namespace (tn_Meta t)) (cr_Name (ts_Credentials (tn_Spec t)))" w] assms
  by (auto simp: apiClients_def CachedClientFor_def configFor_def Let_def)

lemma config_of_secret_cases:
  assumes "config_of_secret t ua s = Inr (cfg, key)"
  shows "cfg_ClientID cfg = secret_value s (id_key (ts_Credentials (tn_Spec t)))"
    and "cfg_ClientSecret cfg = secret_value s (secret_key (ts_Credentials (tn_Spec t)))"
    and "cfg_HTTPClient cfg = None" and "\<exists>c. New cfg = Inr c"
  using assms by (auto simp: config_of_secret_def New_def Let_def split: if_splits option.splits)

text \<open>
  C32. The cache key leaves out which keys of the Secret hold the credential. Of any two Tunnels of
  a namespace that take their credential from one Secret, under whatever keys, and talk to the same
  endpoints, the second is given the client that was built for the first, which acts with the
  identity and the secret the first one names.
\<close>

theorem factory_mixes_credentials:
  assumes "om_Namespace (tn_Meta u) = om_Namespace (tn_Meta t)" and "ts_Endpoints (tn_Spec u) = ts_Endpoints (tn_Spec t)"
    and "cr_Name (ts_Credentials (tn_Spec u)) = cr_Name (ts_Credentials (tn_Spec t))"
    and "lookup_object sec_Meta (nn (om_Namespace (tn_Meta t)) (cr_Name (ts_Credentials (tn_Spec t)))) (cu_Secrets (ext w)) = Inr s"
    and "config_of_secret t (operator_user_agent version) s = Inr (cfg, key)" and "clients w key = None"
    and "config_of_secret u (operator_user_agent version) s = Inr (cfg', key')"
  shows "\<exists>c w1 w2 oa. run_state (apiClients (cluster_env h) version t) w = (Inr c, w1)
     \<and> run_state (apiClients (cluster_env h) version u) w1 = (Inr c, w2)
     \<and> srv_http (cl_Tunnel c) = OAuthClient oa
     \<and> oa_ClientID oa = secret_value s (id_key (ts_Credentials (tn_Spec t)))
     \<and> oa_ClientSecret oa = secret_value s (secret_key (ts_Credentials (tn_Spec t)))"
proof -
  have same: "key' = key"
    using assms(1-3,5,7) by (auto simp: config_of_secret_def cache_key_def Let_def split: if_splits option.splits)
  obtain c where c: "New cfg = Inr c" using config_of_secret_cases(4) [OF assms(5)] by blast
  obtain e where "run_state (apiClients (cluster_env h) version t) w = run_state (cached_client key cfg) (emit (ext w) e w)"
    using run_apiClients_stored [OF assms(4,5)] by blast
  then obtain w1 where w1: "run_state (apiClients (cluster_env h) version t) w = (Inr c, w1)" "clients w1 key = Some c" "ext w1 = ext w"
    using assms(6) c by (simp add: cached_client_def)
  have "lookup_object sec_Meta (nn (om_Namespace (tn_Meta u)) (cr_Name (ts_Credentials (tn_Spec u)))) (cu_Secrets (ext w1)) = Inr s"
    using assms(1,3,4) w1(3) by simp
  from run_apiClients_stored [OF this assms(7)] obtain e' where
    "run_state (apiClients (cluster_env h) version u) w1 = run_state (cached_client key' cfg') (emit (ext w1) e' w1)" by blast
  then have "\<exists>w2. run_state (apiClients (cluster_env h) version u) w1 = (Inr c, w2)"
    using w1(2) same by (simp add: cached_client_def)
  then show ?thesis
    using w1(1) New_oauth [OF c config_of_secret_cases(3) [OF assms(5)]] config_of_secret_cases(1,2) [OF assms(5)] by auto
qed

text \<open>Two Tunnels that read one Secret under different keys, where the second names another identity.\<close>

definition shared_secret :: Secret where
  "shared_secret = \<lparr>sec_Meta = sample_meta ''cred'' ''uid-2'', sec_Type = ''Opaque'',
     sec_Data = [''client_id'' \<mapsto> ''id'', ''client_secret'' \<mapsto> ''secret'', ''other_id'' \<mapsto> ''id2'']\<rparr>"

definition other_tunnel :: Tunnel where
  "other_tunnel = sample_tunnel\<lparr>tn_Meta := sample_meta ''other'' ''uid-9'',
     tn_Spec := (tn_Spec sample_tunnel)\<lparr>ts_Credentials :=
       \<lparr>cr_Name = ''cred'', cr_ClientIDKey = ''other_id'', cr_ClientSecretKey = []\<rparr>\<rparr>\<rparr>"

definition shared_world :: "fakeAPI cluster world" where
  "shared_world = sample_world\<lparr>ext := sample_cluster\<lparr>cu_Secrets := [shared_secret]\<rparr>\<rparr>"

theorem factory_mixes_credentials_witness:
  "\<exists>c w1 w2 oa. run_state (apiClients sample_env ''dev'' sample_tunnel) shared_world = (Inr c, w1)
     \<and> run_state (apiClients sample_env ''dev'' other_tunnel) w1 = (Inr c, w2)
     \<and> srv_http (cl_Tunnel c) = OAuthClient oa \<and> oa_ClientID oa = ''id''
     \<and> secret_value shared_secret (id_key (ts_Credentials (tn_Spec other_tunnel))) = ''id2''"
proof -
  note defs = sample_tunnel_def other_tunnel_def shared_secret_def
  have same: "om_Namespace (tn_Meta other_tunnel) = om_Namespace (tn_Meta sample_tunnel)"
    "ts_Endpoints (tn_Spec other_tunnel) = ts_Endpoints (tn_Spec sample_tunnel)"
    "cr_Name (ts_Credentials (tn_Spec other_tunnel)) = cr_Name (ts_Credentials (tn_Spec sample_tunnel))"
    by (simp_all add: defs sample_meta_def)
  have read: "lookup_object sec_Meta (nn (om_Namespace (tn_Meta sample_tunnel)) (cr_Name (ts_Credentials (tn_Spec sample_tunnel))))
      (cu_Secrets (ext shared_world)) = Inr shared_secret"
    by (simp add: shared_world_def lookup_object_def defs sample_meta_def key_of_def)
  have "\<exists>cfg key. config_of_secret sample_tunnel ua shared_secret = Inr (cfg, key)"
    "\<exists>cfg key. config_of_secret other_tunnel ua shared_secret = Inr (cfg, key)" for ua
    by (simp_all add: defs config_of_secret_def secret_value_def id_key_def secret_key_def Let_def)
  then obtain cfg key cfg' key' where
    conf: "config_of_secret sample_tunnel (operator_user_agent ''dev'') shared_secret = Inr (cfg, key)"
      "config_of_secret other_tunnel (operator_user_agent ''dev'') shared_secret = Inr (cfg', key')"
    by blast
  have "clients shared_world key = None" by (simp add: shared_world_def sample_world_def)
  from factory_mixes_credentials [OF same read conf(1) this conf(2), of "fake_http sample_endpoint"]
  show ?thesis
    by (auto simp: fake_env_def secret_value_def id_key_def shared_secret_def other_tunnel_def sample_tunnel_def)
qed

end
