(* ===== verification/Watch_Properties.thy ===== *)
theory Watch_Properties
  imports Sample_World
begin

text \<open>
  What wakes the controllers: the routes that depend on a Tunnel or a Service, the Tunnel that owns
  a Secret or a Deployment; and what does not.
\<close>

lemma namespace_stays:
  assumes "owner_lib (SetControllerReference env)" and "om_Namespace (sec_Meta s) = om_Namespace (tn_Meta t)"
    and "mutate_token_secret env t token s = Inr s'"
  shows "owner_requests KTunnel (sec_Meta s') = [tunnel_key t]"
  using assms owner_lib.set_owner_requests [OF assms(1)]
  by (auto simp: mutate_token_secret_def Let_def split: sum.splits)

lemma deployment_stays:
  assumes "owner_lib (SetControllerReference env)" and "om_Namespace (dp_Meta d) = om_Namespace (tn_Meta t)"
    and "mutate_deployment env t desired d = Inr d'"
  shows "owner_requests KTunnel (dp_Meta d') = [tunnel_key t]"
  using assms owner_lib.set_owner_requests [OF assms(1)]
  by (auto simp: mutate_deployment_def Let_def split: sum.splits)

text \<open>
  C23. An event of the cluster wakes exactly the TunnelRoutes it matters to: an event of a TunnelRoute
  that route, an event of a Tunnel every route of the namespace that goes through it, an event of
  a Service every route of the namespace that sends traffic to it, and any other event none.
\<close>

theorem event_wakes_dependent_routes:
  assumes "watch_lib enqueue" and "route_lister (rr_Client r) routes"
  shows "set (fst (run_state (event_requests enqueue (route_controller r) k m) w)) =
    (case k of
       KTunnelRoute \<Rightarrow> {key_of m}
     | KTunnel \<Rightarrow> {route_key q |q. q \<in> set (routes (ext w)) \<and> om_Namespace (tr_Meta q) = om_Namespace m
         \<and> rs_TunnelRef (tr_Spec q) = om_Name m}
     | KService \<Rightarrow> {route_key q |q. q \<in> set (routes (ext w)) \<and> om_Namespace (tr_Meta q) = om_Namespace m
         \<and> map_option sv_Name (rs_Service (tr_Spec q)) = Some (om_Name m)}
     | _ \<Rightarrow> {})"
proof -
  have index: "s \<in> set (index_service_name q) \<longleftrightarrow> map_option sv_Name (rs_Service (tr_Spec q)) = Some s" for s q
    by (cases "rs_Service (tr_Spec q)") (auto simp: index_service_name_def)
  show ?thesis
    using route_lister.routesOfTunnel_run [OF assms(2), of m w] route_lister.routesOfService_run [OF assms(2), of m w]
    by (cases k) (fastforce simp: watch_lib.route_events [OF assms(1)] index)+
qed

theorem event_wakes_dependent_routes_witness:
  "set (fst (run_state (event_requests ref_enqueue (route_controller sample_route_reconciler) KTunnel
      (tn_Meta sample_tunnel)) sample_world)) = {nn ''team'' ''shop''}"
proof -
  have client: "rr_Client sample_route_reconciler = cluster_env (fake_http sample_endpoint)"
    by (simp add: sample_route_reconciler_def fake_env_def)
  have "route_lister (rr_Client sample_route_reconciler) cu_Routes"
    unfolding client by (rule cluster_lister.route_lister_axioms)
  from event_wakes_dependent_routes [OF ref_watch.watch_lib_axioms this, of KTunnel "tn_Meta sample_tunnel" sample_world]
  show ?thesis
    by (auto simp: sample_world_def sample_cluster_def sample_route_def sample_tunnel_def sample_meta_def key_of_def)
qed

text \<open>
  C24. What the operator makes for a Tunnel wakes that Tunnel and nothing else: an event of the token
  Secret or of the agent Deployment, as the operator writes them, is a request for the Tunnel they
  were made for, and none for any route.
\<close>

theorem owned_objects_wake_their_tunnel:
  assumes "watch_lib enqueue" and "owner_lib (SetControllerReference env)"
    and "mutate_token_secret env t token (blank_secret (om_Namespace (tn_Meta t)) name) = Inr s"
    and "mutate_deployment env t desired (blank_deployment (om_Namespace (tn_Meta t)) name') = Inr d"
  shows "event_requests enqueue (tunnel_controller r) KSecret (sec_Meta s) = ret [tunnel_key t]
    \<and> event_requests enqueue (tunnel_controller r) KDeployment (dp_Meta d) = ret [tunnel_key t]
    \<and> event_requests enqueue (route_controller rr) KSecret (sec_Meta s) = ret []
    \<and> event_requests enqueue (route_controller rr) KDeployment (dp_Meta d) = ret []"
proof -
  have "owner_requests KTunnel (sec_Meta s) = [tunnel_key t]"
    by (rule namespace_stays [OF assms(2) _ assms(3)]) (simp add: blank_secret_def)
  moreover have "owner_requests KTunnel (dp_Meta d) = [tunnel_key t]"
    by (rule deployment_stays [OF assms(2) _ assms(4)]) (simp add: blank_deployment_def)
  ultimately show ?thesis
    by (simp add: watch_lib.tunnel_events [OF assms(1)] watch_lib.route_events [OF assms(1)])
qed

theorem owned_objects_wake_their_tunnel_witness:
  "\<exists>s d. mutate_token_secret sample_env sample_tunnel ''tok'' (blank_secret ''team'' ''web-token'') = Inr s
     \<and> mutate_deployment sample_env sample_tunnel (buildAgentDeployment sample_tunnel ''agent:1'' ''1'')
         (blank_deployment ''team'' ''web'') = Inr d
     \<and> event_requests ref_enqueue (tunnel_controller sample_tunnel_reconciler) KSecret (sec_Meta s)
         = ret [nn ''team'' ''web'']
     \<and> event_requests ref_enqueue (tunnel_controller sample_tunnel_reconciler) KDeployment (dp_Meta d)
         = ret [nn ''team'' ''web'']"
proof -
  have lib: "SetControllerReference sample_env = ref_SetControllerReference"
    by (simp add: fake_env_def cluster_env_def)
  have owner: "owner_lib (SetControllerReference sample_env)"
    unfolding lib by (rule ref_owner.owner_lib_axioms)
  have meta: "om_Namespace (tn_Meta sample_tunnel) = ''team''" "tunnel_key sample_tunnel = nn ''team'' ''web''"
    by (simp_all add: sample_tunnel_def sample_meta_def key_of_def)
  obtain s where s: "mutate_token_secret sample_env sample_tunnel ''tok'' (blank_secret ''team'' ''web-token'') = Inr s"
    by (simp add: mutate_token_secret_def lib ref_SetControllerReference_def blank_secret_def zero_meta_def Let_def)
  obtain d where d: "mutate_deployment sample_env sample_tunnel (buildAgentDeployment sample_tunnel ''agent:1'' ''1'')
         (blank_deployment ''team'' ''web'') = Inr d"
    by (simp add: mutate_deployment_def lib ref_SetControllerReference_def blank_deployment_def zero_meta_def Let_def)
  from owned_objects_wake_their_tunnel [OF ref_watch.watch_lib_axioms owner, of sample_tunnel "''tok''" "''web-token''" s
      "buildAgentDeployment sample_tunnel ''agent:1'' ''1''" "''web''" d sample_tunnel_reconciler]
  show ?thesis using s d unfolding meta by blast
qed

text \<open>
  A credential Secret is not watched: an event of a Secret that no Tunnel controls, such as the
  one a user gives a Tunnel to read its credential from, wakes nothing, in whichever way it
  changed. The object whose credential was fixed is looked at again when its requeue is due.
\<close>

lemma credential_secret_wakes_nothing:
  assumes "watch_lib enqueue" and "find or_Controller (om_OwnerReferences m) = None"
  shows "event_requests enqueue (tunnel_controller r) KSecret m = ret []
    \<and> event_requests enqueue (route_controller rr) KSecret m = ret []"
  using assms(2)
  by (simp add: watch_lib.tunnel_events [OF assms(1)] watch_lib.route_events [OF assms(1)] owner_requests_def)

lemma credential_secret_wakes_nothing_witness:
  "event_requests ref_enqueue (tunnel_controller sample_tunnel_reconciler) KSecret (sec_Meta sample_secret) = ret []
   \<and> event_requests ref_enqueue (route_controller sample_route_reconciler) KSecret (sec_Meta sample_secret) = ret []"
  by (rule credential_secret_wakes_nothing [OF ref_watch.watch_lib_axioms])
     (simp add: sample_secret_def sample_meta_def zero_meta_def)

end
