(* ===== verification/Tunnel_Convergence.thy ===== *)
theory Tunnel_Convergence
  imports Tunnel_Runs Cluster_Runs
begin

text \<open>
  One reconcile of a Tunnel is enough: with the platform at hand and a readable credential, it ends
  with exactly one tunnel on the platform for the object, whose identifier is recorded, whose current
  credential is in the token Secret, and an agent that will be rolled to it; a reconcile of an object
  that is there already changes nothing on the platform; and the reconcile of an object marked for
  deletion takes both away. Each method of the reconciler is run on the cluster in memory and the
  fake platform.
\<close>

section \<open>The object and its client\<close>

text \<open>The same object, whatever its status, finalizers and version.\<close>

definition same_object :: "Tunnel \<Rightarrow> Tunnel \<Rightarrow> bool" where
  "same_object t t' = (tn_Spec t' = tn_Spec t \<and> om_Name (tn_Meta t') = om_Name (tn_Meta t)
     \<and> om_Namespace (tn_Meta t') = om_Namespace (tn_Meta t) \<and> om_UID (tn_Meta t') = om_UID (tn_Meta t)
     \<and> om_DeletionTimestamp (tn_Meta t') = om_DeletionTimestamp (tn_Meta t))"

lemma same_object_refl [simp]: "same_object t t"
  by (simp add: same_object_def)

lemma same_object_trans: "same_object t t' \<Longrightarrow> same_object t' t'' \<Longrightarrow> same_object t t''"
  by (simp add: same_object_def)

lemma same_object_key: "same_object t t' \<Longrightarrow> key_of (tn_Meta t') = key_of (tn_Meta t)"
  by (simp add: same_object_def key_of_def)

text \<open>Nothing but the Tunnel objects differs.\<close>

definition untouched :: "fakeAPI cluster \<Rightarrow> fakeAPI cluster \<Rightarrow> bool" where
  "untouched x x' = (cu_Secrets x' = cu_Secrets x \<and> cu_Deployments x' = cu_Deployments x \<and> cu_Platform x' = cu_Platform x)"

definition credential_ready :: "string \<Rightarrow> string \<Rightarrow> Tunnel \<Rightarrow> fakeAPI cluster world \<Rightarrow> bool" where
  "credential_ready ep ua t w =
     (\<exists>secret cfg key c.
        lookup_object sec_Meta (nn (om_Namespace (tn_Meta t)) (cr_Name (ts_Credentials (tn_Spec t)))) (cu_Secrets (ext w)) = Inr secret
        \<and> config_of_secret t ua secret = Inr (cfg, key)
        \<and> (clients w key = Some c \<or> clients w key = None \<and> New cfg = Inr c) \<and> srv_base (cl_Tunnel c) = ep)"

lemma credential_ready_same:
  assumes "credential_ready ep ua t w" and "same_object t t'" and "untouched (ext w) (ext w')" and "clients w' = clients w"
  shows "credential_ready ep ua t' w'"
proof -
  have "tn_Spec t' = tn_Spec t" "om_Namespace (tn_Meta t') = om_Namespace (tn_Meta t)"
    using assms(2) by (simp_all add: same_object_def)
  then have "config_of_secret t' ua secret = config_of_secret t ua secret" for secret
    unfolding config_of_secret_def by (simp only:)
  then show ?thesis
    using assms by (simp add: credential_ready_def same_object_def untouched_def)
qed

lemma run_apiClients:
  assumes "credential_ready ep (operator_user_agent version) t w"
  shows "\<exists>c w'. run_state (apiClients (fake_env ep) version t) w = (Inr c, w') \<and> srv_base (cl_Tunnel c) = ep \<and> ext w' = ext w
    \<and> credential_ready ep (operator_user_agent version) t w'"
proof -
  obtain secret cfg key c where
    s: "lookup_object sec_Meta (nn (om_Namespace (tn_Meta t)) (cr_Name (ts_Credentials (tn_Spec t)))) (cu_Secrets (ext w)) = Inr secret"
    and cfg: "config_of_secret t (operator_user_agent version) secret = Inr (cfg, key)"
    and c: "clients w key = Some c \<or> clients w key = None \<and> New cfg = Inr c" "srv_base (cl_Tunnel c) = ep"
    using assms by (auto simp: credential_ready_def)
  obtain e where "run_state (Get_Secret (fake_env ep) (nn (om_Namespace (tn_Meta t)) (cr_Name (ts_Credentials (tn_Spec t))))) w
      = (Inr secret, emit (ext w) e w)"
    using run_Get_Secret [of "fake_http ep" "nn (om_Namespace (tn_Meta t)) (cr_Name (ts_Credentials (tn_Spec t)))" w] s
    by (auto simp: fake_env_def)
  then have "run_state (configFor (fake_env ep) t (operator_user_agent version)) w = (Inr (cfg, key), emit (ext w) e w)"
    by (simp add: configFor_def cfg Let_def)
  then obtain w' where w': "run_state (apiClients (fake_env ep) version t) w = (Inr c, w')" "ext w' = ext w" "clients w' key = Some c"
    using c by (auto simp: apiClients_def CachedClientFor_def cached_client_def)
  moreover have "credential_ready ep (operator_user_agent version) t w'"
    using s cfg c(2) w'(2,3) by (auto simp: credential_ready_def)
  ultimately show ?thesis using c(2) by blast
qed

section \<open>The finalizer\<close>

lemma run_add_tunnel_finalizer:
  assumes "stored (ext w) t" and "om_DeletionTimestamp (tn_Meta t) = None"
  shows "\<exists>t' w'. run_state (add_tunnel_finalizer (fake_env ep) t) w = (Inr t', w') \<and> stored (ext w') t' \<and> same_object t t'
    \<and> tn_Status t' = tn_Status t \<and> TunnelFinalizer \<in> set (om_Finalizers (tn_Meta t')) \<and> untouched (ext w) (ext w')
    \<and> clients w' = clients w"
proof (cases "TunnelFinalizer \<in> set (om_Finalizers (tn_Meta t))")
  case True
  have "t\<lparr>tn_Meta := (tn_Meta t)\<lparr>om_Finalizers := om_Finalizers (tn_Meta t)\<rparr>\<rparr> = t" by simp
  with True assms(1) show ?thesis
    by (simp add: add_tunnel_finalizer_def fake_env_def ref_AddFinalizer_def untouched_def)
next
  case False
  let ?fs = "om_Finalizers (tn_Meta t) @ [TunnelFinalizer]"
  let ?t' = "t\<lparr>tn_Meta := (tn_Meta t)\<lparr>om_Finalizers := ?fs, om_ResourceVersion := show_nat (cu_Version (ext w))\<rparr>\<rparr>"
  obtain c where c: "run_state (Update_Tunnel (cluster_env (fake_http ep)) (t\<lparr>tn_Meta := (tn_Meta t)\<lparr>om_Finalizers := ?fs\<rparr>\<rparr>)) w
      = (Inr ?t', emit (rewritten (ext w) ?t') c w)"
    using run_Update_Tunnel [OF assms(1) refl refl] by blast
  have "stored (rewritten (ext w) ?t') ?t'"
    using assms(1) by (rule stored_rewritten) (simp_all add: assms(2))
  with False c show ?thesis
    by (auto simp: add_tunnel_finalizer_def fake_env_def ref_AddFinalizer_def same_object_def untouched_def Let_def)
qed

section \<open>The tunnel on the platform\<close>

lemma run_record_external_id:
  assumes "stored (ext w) t" and "om_DeletionTimestamp (tn_Meta t) = None" and "om_UID (tn_Meta t) \<noteq> []"
  shows "\<exists>t' w'. run_state (record_external_id (fake_env ep) t) w = ((t', None), w') \<and> stored (ext w') t' \<and> same_object t t'
    \<and> om_Finalizers (tn_Meta t') = om_Finalizers (tn_Meta t) \<and> st_ExternalID (tn_Status t') \<noteq> []
    \<and> untouched (ext w) (ext w')"
proof (cases "st_ExternalID (tn_Status t) = []")
  case False
  then show ?thesis using assms(1) by (simp add: record_external_id_def untouched_def)
next
  case True
  let ?s = "(tn_Status t)\<lparr>st_ExternalID := om_UID (tn_Meta t)\<rparr>"
  let ?t' = "t\<lparr>tn_Meta := (tn_Meta t)\<lparr>om_ResourceVersion := show_nat (cu_Version (ext w))\<rparr>, tn_Status := ?s\<rparr>"
  obtain c where c: "run_state (StatusUpdate_Tunnel (cluster_env (fake_http ep)) (t\<lparr>tn_Status := ?s\<rparr>)) w
      = (Inr ?t', emit (rewritten (ext w) ?t') c w)"
    using run_StatusUpdate_Tunnel [OF assms(1) refl refl] by blast
  have "stored (rewritten (ext w) ?t') ?t'"
    using assms(1) by (rule stored_rewritten) (simp_all add: assms(2))
  with True c assms(3) show ?thesis
    by (auto simp: record_external_id_def fake_env_def same_object_def untouched_def Let_def)
qed

text \<open>Only the platform differs.\<close>

definition only_platform :: "fakeAPI cluster \<Rightarrow> fakeAPI cluster \<Rightarrow> bool" where
  "only_platform x x' = (x' = x\<lparr>cu_Platform := cu_Platform x'\<rparr>)"

lemma only_platform_refl [simp]: "only_platform x x"
  by (simp add: only_platform_def)

lemma only_platform_step [simp]: "only_platform (ext w) ((ext w)\<lparr>cu_Platform := f\<rparr>)"
  by (simp add: only_platform_def)

lemma only_platform_trans: "only_platform x y \<Longrightarrow> only_platform y z \<Longrightarrow> only_platform x z"
  unfolding only_platform_def by (metis cluster.surjective cluster.update_convs(7) cluster.select_convs(7))

lemma only_platform_sel:
  assumes "only_platform x y"
  shows "cu_Secrets y = cu_Secrets x" "cu_Deployments y = cu_Deployments x" "cu_Tunnels y = cu_Tunnels x"
  by (subst assms [unfolded only_platform_def], simp)+

lemma of_external_fresh:
  assumes "sound_tunnels f" and "of_external f (cti_ExternalID i) = None" and "cti_ExternalID i \<noteq> []"
  shows "of_external (with_fresh i f) (cti_ExternalID i)
      = Some (''tun-'' @ show_nat (Suc (fa_nextID f)), fresh_tunnel i (Suc (fa_nextID f)))"
    and "map_of (fa_tunnels (with_fresh i f)) (''tun-'' @ show_nat (Suc (fa_nextID f)))
      = Some (fresh_tunnel i (Suc (fa_nextID f)))"
proof -
  let ?k = "''tun-'' @ show_nat (Suc (fa_nextID f))"
  have "map_of (fa_tunnels f) ?k = None"
    using fresh_id_new [OF assms(1)] by (simp only: map_of_eq_None_iff) simp
  then show held: "map_of (fa_tunnels (with_fresh i f)) ?k = Some (fresh_tunnel i (Suc (fa_nextID f)))"
    by (simp add: with_fresh_def map_add_def)
  show "of_external (with_fresh i f) (cti_ExternalID i) = Some (?k, fresh_tunnel i (Suc (fa_nextID f)))"
    by (rule external_of_held [OF sound_with_fresh [OF assms(1,2)] held _ assms(3)]) (simp add: external_of_def)
qed

text \<open>Creating is finding, or making once: the answer is the one tunnel of the external id, with its credential when made.\<close>

definition the_tunnel :: "string \<Rightarrow> fakeAPI \<Rightarrow> fakeAPI \<Rightarrow> fakeTunnel \<Rightarrow> string \<Rightarrow> bool" where
  "the_tunnel uid f f' ft tok =
     (sound_tunnels f' \<and> of_external f' uid = Some (nt_ID (ft_tunnel ft), ft)
      \<and> (tok = ft_token ft \<and> of_external f uid = None \<or> tok = [] \<and> of_external f uid = Some (nt_ID (ft_tunnel ft), ft)))"

lemma run_create_and_read:
  assumes "sound_tunnels (plat w)" and "cti_ExternalID i \<noteq> []"
  shows "\<exists>ft tok w'. run_state (create_and_read (fake_env (srv_base s)) s i) w = (Inr (Some (ft_tunnel ft), tok), w')
    \<and> the_tunnel (cti_ExternalID i) (plat w) (plat w') ft tok \<and> only_platform (ext w) (ext w')"
proof (cases "of_external (plat w) (cti_ExternalID i)")
  case None
  let ?f = "with_fresh i (plat w)" and ?k = "''tun-'' @ show_nat (Suc (fa_nextID (plat w)))"
    and ?ft = "fresh_tunnel i (Suc (fa_nextID (plat w)))"
  obtain cr c where cr: "run_state (CreateTunnel (fake_env (srv_base s)) s i) w = (Inr cr, fake_step ?f c w)"
      "cre_TunnelID cr = ?k" "cre_TunnelToken cr = ft_token ?ft"
    using run_CreateTunnel_fresh [OF assms(2) None, of s] unfolding fresh_sel by blast
  have sound: "sound_tunnels (plat (fake_step ?f c w))" using sound_with_fresh [OF assms(1) None] by simp
  note fresh = of_external_fresh [OF assms(1) None assms(2)]
  obtain c' where "run_state (GetTunnel (fake_env (srv_base s)) s ?k) (fake_step ?f c w) =
      (Inr \<lparr>wr_Tunnel = Some (ft_tunnel ?ft), wr_Routes = fa_routes ?f ?k\<rparr>, fake_step ?f c' (fake_step ?f c w))"
    using run_GetTunnel [OF sound, of ?k ?ft s] fresh(2) by auto
  then have "run_state (create_and_read (fake_env (srv_base s)) s i) w =
      (Inr (Some (ft_tunnel ?ft), ft_token ?ft), fake_step ?f c' (fake_step ?f c w))"
    unfolding create_and_read_def by (simp add: cr(1)) (simp add: cr(2,3))
  moreover have "the_tunnel (cti_ExternalID i) (plat w) ?f ?ft (ft_token ?ft)"
    using fresh(1) sound None by (simp add: the_tunnel_def)
  ultimately show ?thesis by (intro exI conjI) (assumption | simp)+
next
  case (Some x)
  obtain k ft where x: "x = (k, ft)" by fastforce
  let ?f = "(plat w)\<lparr>fa_creates := Suc (fa_creates (plat w))\<rparr>"
  have held: "map_of (fa_tunnels (plat w)) k = Some ft" using of_external_map [OF assms(1)] Some x by blast
  have k: "nt_ID (ft_tunnel ft) = k" using sound_entry(3) [OF assms(1) held] .
  obtain cr c where cr: "run_state (CreateTunnel (fake_env (srv_base s)) s i) w = (Inr cr, fake_step ?f c w)"
      "cre_TunnelID cr = k" "cre_TunnelToken cr = []"
    using run_CreateTunnel_adopt [OF assms(2)] Some x k by blast
  have sound: "sound_tunnels (plat (fake_step ?f c w))"
    using assms(1) by (simp add: sound_tunnels_def wf_entry_def [abs_def])
  obtain c' where "run_state (GetTunnel (fake_env (srv_base s)) s k) (fake_step ?f c w) =
      (Inr \<lparr>wr_Tunnel = Some (ft_tunnel ft), wr_Routes = fa_routes ?f k\<rparr>, fake_step ?f c' (fake_step ?f c w))"
    using run_GetTunnel [OF sound, of k ft s] held by auto
  then have "run_state (create_and_read (fake_env (srv_base s)) s i) w =
      (Inr (Some (ft_tunnel ft), []), fake_step ?f c' (fake_step ?f c w))"
    unfolding create_and_read_def by (simp add: cr)
  moreover have "the_tunnel (cti_ExternalID i) (plat w) ?f ft []"
    using sound Some x k by (simp add: the_tunnel_def)
  ultimately show ?thesis by (intro exI conjI) (assumption | simp)+
qed

lemma run_create_tunnel:
  assumes "stored (ext w) t" and "om_DeletionTimestamp (tn_Meta t) = None" and "om_UID (tn_Meta t) \<noteq> []"
    and "sound_tunnels (plat w)"
  shows "\<exists>t' ft tok w'. run_state (create_tunnel (fake_env (srv_base s)) s t) w = ((t', Inr (Some (ft_tunnel ft), tok)), w')
    \<and> stored (ext w') t' \<and> same_object t t' \<and> om_Finalizers (tn_Meta t') = om_Finalizers (tn_Meta t)
    \<and> st_ExternalID (tn_Status t') \<noteq> [] \<and> the_tunnel (om_UID (tn_Meta t)) (plat w) (plat w') ft tok
    \<and> cu_Secrets (ext w') = cu_Secrets (ext w) \<and> cu_Deployments (ext w') = cu_Deployments (ext w)"
proof -
  obtain t' w1 where t': "run_state (record_external_id (fake_env (srv_base s)) t) w = ((t', None), w1)" "stored (ext w1) t'"
      "same_object t t'" "om_Finalizers (tn_Meta t') = om_Finalizers (tn_Meta t)" "st_ExternalID (tn_Status t') \<noteq> []"
      "untouched (ext w) (ext w1)"
    using run_record_external_id [OF assms(1-3)] by blast
  let ?i = "\<lparr>cti_Name = ts_DisplayName (tn_Spec t'), cti_ExternalID = om_UID (tn_Meta t)\<rparr>"
  have "sound_tunnels (plat w1)" using assms(4) t'(6) by (simp add: untouched_def)
  then obtain ft tok w2 where made: "run_state (create_and_read (fake_env (srv_base s)) s ?i) w1 = (Inr (Some (ft_tunnel ft), tok), w2)"
      "the_tunnel (om_UID (tn_Meta t)) (plat w1) (plat w2) ft tok" "only_platform (ext w1) (ext w2)"
    using run_create_and_read [of w1 ?i s] assms(3) by auto
  have "run_state (create_tunnel (fake_env (srv_base s)) s t) w = ((t', Inr (Some (ft_tunnel ft), tok)), w2)"
    by (simp add: create_tunnel_def t'(1) made(1) Let_def)
  moreover have "stored (ext w2) t'" using t'(2) only_platform_sel [OF made(3)] by (simp add: stored_def)
  moreover have "plat w1 = plat w" using t'(6) by (simp add: untouched_def)
  ultimately show ?thesis
    using made(2) t' only_platform_sel [OF made(3)] by (fastforce simp: untouched_def)
qed

text \<open>
  What the status records of the tunnel: nothing, a tunnel of this object, or one that is gone
  from the platform.
\<close>

definition recorded :: "Tunnel \<Rightarrow> fakeAPI \<Rightarrow> bool" where
  "recorded t f = (let i = st_TunnelID (tn_Status t) in
     i = [] \<or> (st_ExternalID (tn_Status t) \<noteq> [] \<and> plain_id i
       \<and> (case map_of (fa_tunnels f) i of None \<Rightarrow> True | Some ft \<Rightarrow> external_of (i, ft) = om_UID (tn_Meta t))))"

lemma run_ensureTunnel:
  assumes "stored (ext w) t" and "om_DeletionTimestamp (tn_Meta t) = None" and "om_UID (tn_Meta t) \<noteq> []"
    and "sound_tunnels (plat w)" and "recorded t (plat w)"
  shows "\<exists>t' ft tok w'. run_state (ensureTunnel (fake_env (srv_base s)) s t) w = ((t', Inr (Some (ft_tunnel ft), tok)), w')
    \<and> stored (ext w') t' \<and> same_object t t' \<and> om_Finalizers (tn_Meta t') = om_Finalizers (tn_Meta t)
    \<and> st_ExternalID (tn_Status t') \<noteq> [] \<and> the_tunnel (om_UID (tn_Meta t)) (plat w) (plat w') ft tok
    \<and> cu_Secrets (ext w') = cu_Secrets (ext w) \<and> cu_Deployments (ext w') = cu_Deployments (ext w)
    \<and> (map_of (fa_tunnels (plat w)) (st_TunnelID (tn_Status t)) \<noteq> None \<longrightarrow> plat w' = plat w)"
proof -
  let ?i = "st_TunnelID (tn_Status t)"
  show ?thesis
  proof (cases "?i = []")
    case True
    have "map_of (fa_tunnels (plat w)) [] = None"
      using sound_entry(2) [OF assms(4), of "[]"] by (cases "map_of (fa_tunnels (plat w)) []") (auto simp: plain_id_def)
    with True run_create_tunnel [OF assms(1-4), of s] show ?thesis by (auto simp: ensureTunnel_def)
  next
    case False
    show ?thesis
    proof (cases "map_of (fa_tunnels (plat w)) ?i")
      case None
      obtain e c where e: "run_state (GetTunnel (fake_env (srv_base s)) s ?i) w = (Inl e, fake_step (plat w) c w)" "IsNotFound e"
        using run_GetTunnel_missing [OF _ None, of s] assms(5) False by (auto simp: recorded_def Let_def)
      have "stored (ext (fake_step (plat w) c w)) t" "sound_tunnels (plat (fake_step (plat w) c w))"
        using assms(1,4) by (simp_all add: stored_def)
      from run_create_tunnel [OF this(1) assms(2,3) this(2), of s] e None False show ?thesis
        by (auto simp: ensureTunnel_def)
    next
      case (Some ft)
      have ext: "external_of (?i, ft) = om_UID (tn_Meta t)" and id: "nt_ID (ft_tunnel ft) = ?i"
        and rec: "st_ExternalID (tn_Status t) \<noteq> []"
        using assms(5) Some False sound_entry(3) [OF assms(4) Some] by (simp_all add: recorded_def Let_def)
      obtain c where "run_state (GetTunnel (fake_env (srv_base s)) s ?i) w =
          (Inr \<lparr>wr_Tunnel = Some (ft_tunnel ft), wr_Routes = fa_routes (plat w) ?i\<rparr>, fake_step (plat w) c w)"
        using run_GetTunnel [OF assms(4) Some] by blast
      then have "run_state (ensureTunnel (fake_env (srv_base s)) s t) w = ((t, Inr (Some (ft_tunnel ft), [])), fake_step (plat w) c w)"
        using False by (simp add: ensureTunnel_def)
      moreover have "the_tunnel (om_UID (tn_Meta t)) (plat w) (plat w) ft []"
        using assms(4) external_of_held [OF assms(4) Some ext assms(3)] id by (simp add: the_tunnel_def)
      ultimately show ?thesis using assms(1) rec by (intro exI conjI) (assumption | simp add: stored_def)+
    qed
  qed
qed

section \<open>Its credential\<close>

text \<open>The token the Secret of a Tunnel holds; none when there is no Secret.\<close>

definition stored_token :: "'p cluster \<Rightarrow> Tunnel \<Rightarrow> string" where
  "stored_token x t =
     (case lookup_object sec_Meta (token_name t) (cu_Secrets x) of Inr s \<Rightarrow> secret_value s tokenSecretKey | Inl _ \<Rightarrow> [])"

text \<open>A stored token is the one the platform expects.\<close>

definition token_current :: "fakeAPI cluster \<Rightarrow> Tunnel \<Rightarrow> bool" where
  "token_current x t = (case of_external (cu_Platform x) (om_UID (tn_Meta t)) of
     None \<Rightarrow> True | Some (i, ft) \<Rightarrow> stored_token x t = [] \<or> stored_token x t = ft_token ft)"

lemma of_external_rotated:
  assumes "sound_tunnels f" and "of_external f uid = Some (i, ft)" and "uid \<noteq> []" and "token \<noteq> []"
  shows "of_external (with_token i token f) uid = Some (i, ft\<lparr>ft_token := token\<rparr>)"
proof -
  have held: "map_of (fa_tunnels (with_token i token f)) i = Some (ft\<lparr>ft_token := token\<rparr>)"
    using of_external_map [OF assms(1,2)] by (simp add: with_token_def map_of_with_token)
  show ?thesis
    by (rule external_of_held [OF sound_with_token [OF assms(1,4)] held _ assms(3)])
       (use of_external_SomeD(2) [OF assms(2)] in \<open>simp add: external_of_def\<close>)
qed

lemma run_Eventf: "run_state (Eventf k ty reason action note) w = ((), emit (ext w) (CEvent k ty reason action note) w)"
  by (simp add: Eventf_def emit_def)

lemma run_stored:
  assumes "secret_free (ext w) t"
  shows "\<exists>sec w'. run_state (store_token (fake_env ep) t token) w = (Inr sec, w')
    \<and> lookup_object sec_Meta (token_name t) (cu_Secrets (ext w')) = Inr sec \<and> secret_value sec tokenSecretKey = token
    \<and> takeable t (sec_Meta sec)
    \<and> plat w' = plat w \<and> cu_Tunnels (ext w') = cu_Tunnels (ext w) \<and> cu_Deployments (ext w') = cu_Deployments (ext w)"
  using run_store_token [OF assms, of "fake_http ep" token] by (fastforce simp: fake_env_def dest: secret_written_sel)

text \<open>A stored token is kept unless the tunnel was made just now; only the lack of one brings the platform's.\<close>

definition kept :: "bool \<Rightarrow> string \<Rightarrow> string \<Rightarrow> string" where
  "kept there token current = (if there \<and> token \<noteq> [] then token else current)"

lemma run_ensureCredentialSecret:
  assumes "secret_free (ext w) t" and "sound_tunnels (plat w)" and "uid \<noteq> []"
    and "of_external (plat w) uid = Some (i, ft)" and "tok = ft_token ft \<or> tok = []"
  shows "\<exists>sec ft' w'. run_state (ensureCredentialSecret (fake_env (srv_base s)) s t i tok) w = (Inr sec, w')
    \<and> lookup_object sec_Meta (token_name t) (cu_Secrets (ext w')) = Inr sec
    \<and> secret_value sec tokenSecretKey = kept (tok = []) (stored_token (ext w) t) (ft_token ft')
    \<and> takeable t (sec_Meta sec)
    \<and> sound_tunnels (plat w') \<and> of_external (plat w') uid = Some (i, ft') \<and> ft_tunnel ft' = ft_tunnel ft
    \<and> cu_Tunnels (ext w') = cu_Tunnels (ext w) \<and> cu_Deployments (ext w') = cu_Deployments (ext w)
    \<and> (tok = [] \<and> stored_token (ext w) t \<noteq> [] \<longrightarrow> plat w' = plat w)"
proof (cases "tok = []")
  case False
  with assms(5) have tok: "tok = ft_token ft" by simp
  obtain sec w' where st: "run_state (store_token (fake_env (srv_base s)) t tok) w = (Inr sec, w')"
      "lookup_object sec_Meta (token_name t) (cu_Secrets (ext w')) = Inr sec" "secret_value sec tokenSecretKey = tok"
      "takeable t (sec_Meta sec)" "plat w' = plat w" "cu_Tunnels (ext w') = cu_Tunnels (ext w)"
      "cu_Deployments (ext w') = cu_Deployments (ext w)"
    using run_stored [OF assms(1), of "srv_base s" tok] by blast
  then have "run_state (ensureCredentialSecret (fake_env (srv_base s)) s t i tok) w = (Inr sec, w')"
    using False by (simp add: ensureCredentialSecret_def)
  moreover have "secret_value sec tokenSecretKey = kept (tok = []) (stored_token (ext w) t) (ft_token ft)"
    using st(3) tok False by (simp add: kept_def)
  moreover have "sound_tunnels (plat w')" "of_external (plat w') uid = Some (i, ft)" using st(5) assms(2,4) by simp_all
  ultimately show ?thesis using st(2,4,6,7) False by blast
next
  case True
  have held: "map_of (fa_tunnels (plat w)) i = Some ft" using of_external_map [OF assms(2,4)] .
  obtain c where read: "run_state (Get_Secret (fake_env (srv_base s)) (token_name t)) w =
      (map_sum ErrKube id (lookup_object sec_Meta (token_name t) (cu_Secrets (ext w))), emit (ext w) c w)"
    using run_Get_Secret unfolding fake_env_def by blast
  show ?thesis
  proof (cases "stored_token (ext w) t = []")
    case False
    then have "\<exists>sec. lookup_object sec_Meta (token_name t) (cu_Secrets (ext w)) = Inr sec"
      by (cases "lookup_object sec_Meta (token_name t) (cu_Secrets (ext w))") (simp_all add: stored_token_def)
    then obtain sec where sec: "lookup_object sec_Meta (token_name t) (cu_Secrets (ext w)) = Inr sec" ..
    then have val: "secret_value sec tokenSecretKey = stored_token (ext w) t" by (simp add: stored_token_def)
    then have "run_state (ensureCredentialSecret (fake_env (srv_base s)) s t i tok) w = (Inr sec, emit (ext w) c w)"
      using True False read sec by (simp add: ensureCredentialSecret_def)
    moreover have "takeable t (sec_Meta sec)" using assms(1) sec by (simp add: secret_free_def)
    moreover have "secret_value sec tokenSecretKey = kept (tok = []) (stored_token (ext w) t) (ft_token ft)"
      using True False val by (simp add: kept_def)
    ultimately show ?thesis using assms(2,4) sec by (intro exI conjI) (assumption | simp)+
  next
    case empty: True
    let ?w1 = "emit (ext w) c w"
    define token where "token = ft_token ft @ ''-rotated-'' @ show_nat (Suc (fa_rotations (plat w)))"
    have nonempty: "token \<noteq> []" by (simp add: token_def)
    let ?f = "with_token i token (plat w)"
    obtain c2 where rot: "run_state (RotateToken (fake_env (srv_base s)) s i) ?w1 =
        (Inr \<lparr>rot_TunnelID = i, rot_TunnelToken = token\<rparr>, fake_step ?f c2 ?w1)"
      using run_RotateToken [of ?w1 i ft token s] assms(2) held by (auto simp: token_def)
    define w2 where "w2 = emit (ext (fake_step ?f c2 ?w1)) (CEvent (tunnel_key t) EventTypeNormal ''CredentialRotated'' ''Rotating''
        ''Issued a new tunnel credential because none was stored'') (fake_step ?f c2 ?w1)"
    have w2: "ext w2 = (ext w)\<lparr>cu_Platform := ?f\<rparr>" by (simp add: w2_def)
    have "secret_free (ext w2) t" using assms(1) by (simp add: w2 secret_free_def)
    from run_stored [OF this, of "srv_base s" token] obtain sec w3 where st:
      "run_state (store_token (fake_env (srv_base s)) t token) w2 = (Inr sec, w3)"
      "lookup_object sec_Meta (token_name t) (cu_Secrets (ext w3)) = Inr sec" "secret_value sec tokenSecretKey = token"
      "takeable t (sec_Meta sec)" "plat w3 = plat w2" "cu_Tunnels (ext w3) = cu_Tunnels (ext w2)"
      "cu_Deployments (ext w3) = cu_Deployments (ext w2)"
      by blast
    have "\<not> (case map_sum ErrKube id (lookup_object sec_Meta (token_name t) (cu_Secrets (ext w))) of
        Inr s \<Rightarrow> secret_value s tokenSecretKey \<noteq> [] | Inl _ \<Rightarrow> False)"
      using empty by (auto simp: stored_token_def split: sum.splits)
    moreover have "\<not> (case map_sum ErrKube id (lookup_object sec_Meta (token_name t) (cu_Secrets (ext w))) of
        Inl err \<Rightarrow> \<not> kIsNotFound (fake_env (srv_base s)) err | Inr _ \<Rightarrow> False)"
      by (auto simp: lookup_object_def fake_env_def ref_IsNotFound_def NotFoundError_def split: sum.splits option.splits)
    ultimately have "run_state (ensureCredentialSecret (fake_env (srv_base s)) s t i tok) w = (Inr sec, w3)"
      unfolding ensureCredentialSecret_def Let_def using True st(1)
      by (simp add: read rot run_Eventf w2_def)
    moreover have "of_external ?f uid = Some (i, ft\<lparr>ft_token := token\<rparr>)" "sound_tunnels ?f"
      using of_external_rotated [OF assms(2,4,3) nonempty] sound_with_token [OF assms(2) nonempty] by simp_all
    ultimately show ?thesis using st w2 empty by (intro exI [of _ sec] exI [of _ "ft\<lparr>ft_token := token\<rparr>"] exI [of _ w3]) (simp add: kept_def)
  qed
qed

section \<open>The whole reconcile\<close>

text \<open>What a reconcile needs: the object as it is stored, a platform in order, a credential to reach it with.\<close>

definition reconcilable :: "string \<Rightarrow> string \<Rightarrow> Tunnel \<Rightarrow> fakeAPI cluster world \<Rightarrow> bool" where
  "reconcilable ep ua t w =
     (stored (ext w) t \<and> om_UID (tn_Meta t) \<noteq> [] \<and> sound_tunnels (plat w) \<and> recorded t (plat w)
      \<and> credential_ready ep ua t w \<and> secret_free (ext w) t \<and> deployment_free (ext w) t)"

text \<open>
  What it leaves: the object with its finalizer, synced, recording the one tunnel the platform has
  for it; the token Secret with a credential, given by the tunnel's current one; the agent, rolled
  to that Secret; both still the operator's to write. The credential it should be is the current one.
\<close>

definition realised_with :: "(string \<Rightarrow> string) \<Rightarrow> Tunnel \<Rightarrow> fakeAPI cluster \<Rightarrow> bool" where
  "realised_with v t x =
     (\<exists>t' i ft sec d. stored x t' \<and> same_object t t' \<and> TunnelFinalizer \<in> set (om_Finalizers (tn_Meta t'))
        \<and> cond_true (st_Conditions (tn_Status t')) TunnelConditionSynced
        \<and> st_TunnelID (tn_Status t') = i \<and> st_ExternalID (tn_Status t') \<noteq> []
        \<and> sound_tunnels (cu_Platform x) \<and> of_external (cu_Platform x) (om_UID (tn_Meta t)) = Some (i, ft)
        \<and> lookup_object sec_Meta (token_name t) (cu_Secrets x) = Inr sec \<and> secret_value sec tokenSecretKey = v (ft_token ft)
        \<and> takeable t (sec_Meta sec) \<and> lookup_object dp_Meta (agent_name t) (cu_Deployments x) = Inr d \<and> takeable t (dp_Meta d)
        \<and> pt_Annotations (ds_Template (dp_Spec d)) credentialVersionAnnotation = Some (om_ResourceVersion (sec_Meta sec)))"

abbreviation realised :: "Tunnel \<Rightarrow> fakeAPI cluster \<Rightarrow> bool" where
  "realised \<equiv> realised_with (\<lambda>token. token)"

lemma tn_Status_self: "(\<exists>s. t' = t\<lparr>tn_Status := s\<rparr>) \<Longrightarrow> t' = t\<lparr>tn_Status := tn_Status t'\<rparr>"
  by auto

lemma set_conditions_status:
  "\<exists>s. setSynced env t a b c = t\<lparr>tn_Status := s\<rparr>" "\<exists>s. setAgentAvailable env t d = t\<lparr>tn_Status := s\<rparr>"
  "\<exists>s. setReady env t online = t\<lparr>tn_Status := s\<rparr>"
  by (auto simp: setSynced_def setAgentAvailable_def setReady_def with_tunnel_cond_def Let_def split: prod.split option.split)

lemma synced_status_status:
  "synced_status env t remote sec d = t\<lparr>tn_Status := tn_Status (synced_status env t remote sec d)\<rparr>"
proof (rule tn_Status_self)
  let ?t0 = "t\<lparr>tn_Status := (tn_Status t)\<lparr>st_TunnelID := nt_ID remote, st_Subdomain := nt_TunnelSubdomain remote,
    st_WireGuardIP := nt_WireGuardIP remote, st_CredentialSecret := om_Name (sec_Meta sec),
    st_OnlineStatus := nt_OnlineStatus remote, st_CNAMETarget := nt_TunnelSubdomain remote\<rparr>\<rparr>"
  obtain s1 where s1: "setSynced env ?t0 ConditionTrue ''Synced'' ''The tunnel exists and its credential is stored.'' = ?t0\<lparr>tn_Status := s1\<rparr>"
    using set_conditions_status(1) by blast
  obtain s2 where s2: "setAgentAvailable env (?t0\<lparr>tn_Status := s1\<rparr>) (Some d) = ?t0\<lparr>tn_Status := s1\<rparr>\<lparr>tn_Status := s2\<rparr>"
    using set_conditions_status(2) by blast
  obtain s3 where "setReady env (?t0\<lparr>tn_Status := s1\<rparr>\<lparr>tn_Status := s2\<rparr>) (nt_OnlineStatus remote)
      = ?t0\<lparr>tn_Status := s1\<rparr>\<lparr>tn_Status := s2\<rparr>\<lparr>tn_Status := s3\<rparr>"
    using set_conditions_status(3) by blast
  then have "synced_status env t remote sec d = t\<lparr>tn_Status := s3\<rparr>"
    unfolding synced_status_def Let_def s1 s2 by simp
  then show "\<exists>s. synced_status env t remote sec d = t\<lparr>tn_Status := s\<rparr>" ..
qed

lemma synced_status_sel:
  "st_TunnelID (tn_Status (synced_status env t remote sec d)) = nt_ID remote"
  "st_ExternalID (tn_Status (synced_status env t remote sec d)) = st_ExternalID (tn_Status t)"
  by (simp_all add: synced_status_def setReady_def setAgentAvailable_def setSynced_def with_tunnel_cond_def Let_def
      split: prod.split)

lemma synced_status_synced:
  "cond_true (st_Conditions (tn_Status (synced_status (fake_env ep) t remote sec d))) TunnelConditionSynced"
  by (simp add: synced_status_def setReady_def setAgentAvailable_def setSynced_def with_tunnel_cond_def Let_def fake_env_def
      ref_cond.cond_true_set split: prod.split)

lemma run_tunnel_finish:
  assumes "stored (ext w) t0" and "om_DeletionTimestamp (tn_Meta t0) = None" and "t = t0\<lparr>tn_Status := s\<rparr>"
  shows "\<exists>t' w'. run_state (tunnel_finish (fake_env ep) t r None) w = (Returned r None, w') \<and> stored (ext w') t'
    \<and> same_object t0 t' \<and> om_Finalizers (tn_Meta t') = om_Finalizers (tn_Meta t0)
    \<and> tn_Status t' = s\<lparr>st_ObservedGeneration := om_Generation (tn_Meta t0)\<rparr> \<and> untouched (ext w) (ext w')"
proof -
  let ?s = "s\<lparr>st_ObservedGeneration := om_Generation (tn_Meta t0)\<rparr>"
  let ?t' = "t0\<lparr>tn_Meta := (tn_Meta t0)\<lparr>om_ResourceVersion := show_nat (cu_Version (ext w))\<rparr>, tn_Status := ?s\<rparr>"
  obtain c where c: "run_state (StatusUpdate_Tunnel (cluster_env (fake_http ep)) (t0\<lparr>tn_Status := ?s\<rparr>)) w
      = (Inr ?t', emit (rewritten (ext w) ?t') c w)"
    using run_StatusUpdate_Tunnel [OF assms(1) refl refl] by blast
  have "stored (rewritten (ext w) ?t') ?t'"
    using assms(1) by (rule stored_rewritten) (simp_all add: assms(2))
  with c assms(3) show ?thesis
    by (auto simp: tunnel_finish_def fake_env_def same_object_def untouched_def Let_def)
qed

lemma run_tunnel_realise:
  assumes "stored (ext w) t" and "om_DeletionTimestamp (tn_Meta t) = None" and "om_UID (tn_Meta t) \<noteq> []"
    and "TunnelFinalizer \<in> set (om_Finalizers (tn_Meta t))" and "st_ExternalID (tn_Status t) \<noteq> []"
    and "secret_free (ext w) t" and "deployment_free (ext w) t" and "sound_tunnels (plat w)"
    and "of_external (plat w) (om_UID (tn_Meta t)) = Some (nt_ID (ft_tunnel ft), ft)"
    and "tok = ft_token ft \<or> tok = []" and "rc_Client r = fake_env (srv_base s)"
  shows "\<exists>w'. run_state (tunnel_realise r s t (ft_tunnel ft) tok) w = (Returned \<lparr>res_RequeueAfter = resyncPeriod\<rparr> None, w')
    \<and> realised_with (kept (tok = []) (stored_token (ext w) t)) t (ext w') \<and> (tok = [] \<and> stored_token (ext w) t \<noteq> [] \<longrightarrow> plat w' = plat w)"
proof -
  let ?i = "nt_ID (ft_tunnel ft)"
  obtain sec ft' w1 where sec: "run_state (ensureCredentialSecret (fake_env (srv_base s)) s t ?i tok) w = (Inr sec, w1)"
      "lookup_object sec_Meta (token_name t) (cu_Secrets (ext w1)) = Inr sec"
      "secret_value sec tokenSecretKey = kept (tok = []) (stored_token (ext w) t) (ft_token ft')" "takeable t (sec_Meta sec)"
      "sound_tunnels (plat w1)" "of_external (plat w1) (om_UID (tn_Meta t)) = Some (?i, ft')"
      "cu_Tunnels (ext w1) = cu_Tunnels (ext w)" "cu_Deployments (ext w1) = cu_Deployments (ext w)"
      "tok = [] \<and> stored_token (ext w) t \<noteq> [] \<longrightarrow> plat w1 = plat w"
    using run_ensureCredentialSecret [OF assms(6,8,3,9,10)] by blast
  let ?v = "om_ResourceVersion (sec_Meta sec)"
  have "deployment_free (ext w1) t" using assms(7) sec(8) by (simp add: deployment_free_def)
  then obtain d x c where d: "run_state (ensureAgentDeployment (fake_env (srv_base s)) (rc_DefaultAgentImage r) t ?v) w1 = (Inr d, emit x c w1)"
      "lookup_object dp_Meta (agent_name t) (cu_Deployments x) = Inr d"
      "ds_Template (dp_Spec d) = ds_Template (dp_Spec (buildAgentDeployment t (rc_DefaultAgentImage r) ?v))"
      "takeable t (dp_Meta d)" "deployment_written t (ext w1) x"
    using run_ensureAgentDeployment [of w1 t "fake_http (srv_base s)"] unfolding fake_env_def by blast
  let ?w2 = "emit x c w1"
  have frame: "cu_Tunnels x = cu_Tunnels (ext w)" "cu_Secrets x = cu_Secrets (ext w1)" "cu_Platform x = plat w1"
    using deployment_written_sel [OF d(5)] sec(7) by simp_all
  have st: "stored (ext ?w2) t" using assms(1) frame by (simp add: stored_def)
  let ?s = "tn_Status (synced_status (fake_env (srv_base s)) t (ft_tunnel ft) sec d)"
  obtain t' w3 where fin: "run_state (tunnel_finish (fake_env (srv_base s)) (synced_status (fake_env (srv_base s)) t (ft_tunnel ft) sec d)
        \<lparr>res_RequeueAfter = resyncPeriod\<rparr> None) ?w2 = (Returned \<lparr>res_RequeueAfter = resyncPeriod\<rparr> None, w3)"
      "stored (ext w3) t'" "same_object t t'" "om_Finalizers (tn_Meta t') = om_Finalizers (tn_Meta t)"
      "tn_Status t' = ?s\<lparr>st_ObservedGeneration := om_Generation (tn_Meta t)\<rparr>" "untouched (ext ?w2) (ext w3)"
    using run_tunnel_finish [OF st assms(2) synced_status_status] by blast
  have "run_state (tunnel_realise r s t (ft_tunnel ft) tok) w = (Returned \<lparr>res_RequeueAfter = resyncPeriod\<rparr> None, w3)"
    by (simp add: tunnel_realise_def assms(11) sec(1) d(1) fin(1) Let_def)
  moreover have "pt_Annotations (ds_Template (dp_Spec d)) credentialVersionAnnotation = Some ?v"
    by (simp add: d(3) buildAgentDeployment_def Let_def)
  moreover have "cond_true (st_Conditions (tn_Status t')) TunnelConditionSynced" "st_TunnelID (tn_Status t') = ?i"
    "st_ExternalID (tn_Status t') \<noteq> []"
    using assms(5) by (simp_all add: fin(5) synced_status_synced synced_status_sel)
  moreover have "plat w3 = plat w1" "cu_Secrets (ext w3) = cu_Secrets (ext w1)" "cu_Deployments (ext w3) = cu_Deployments x"
    using fin(6) frame by (simp_all add: untouched_def)
  ultimately show ?thesis
    unfolding realised_with_def using fin(2-4) assms(4) sec(2-6,9) d(2,4) by (metis (no_types, lifting))
qed

text \<open>The parts of the state the remaining steps read stay as they are.\<close>

lemma same_secrets:
  assumes "same_object t t'" and "cu_Secrets x' = cu_Secrets x" and "cu_Deployments x' = cu_Deployments x"
  shows "secret_free x' t' = secret_free x t" "deployment_free x' t' = deployment_free x t" "stored_token x' t' = stored_token x t"
    "takeable t' m = takeable t m"
proof -
  have take: "takeable t' = takeable t" using assms(1) by (simp add: takeable_def [abs_def] same_object_def)
  have names: "token_name t' = token_name t" "agent_name t' = agent_name t" using assms(1) by (simp_all add: same_object_def)
  show "secret_free x' t' = secret_free x t" "deployment_free x' t' = deployment_free x t" "stored_token x' t' = stored_token x t"
    "takeable t' m = takeable t m"
    unfolding secret_free_def deployment_free_def stored_token_def by (simp_all only: assms(2,3) take names)
qed

lemma realised_same: "same_object t t' \<Longrightarrow> realised_with v t' x \<Longrightarrow> realised_with v t x"
  unfolding realised_with_def by (fastforce simp: same_object_def takeable_def)

definition in_place :: "Tunnel \<Rightarrow> fakeAPI cluster \<Rightarrow> bool" where
  "in_place t x = (map_of (fa_tunnels (cu_Platform x)) (st_TunnelID (tn_Status t)) \<noteq> None \<and> stored_token x t \<noteq> [])"

text \<open>The token kept for a tunnel that is there already, and what is left alone then.\<close>

abbreviation kept_of :: "Tunnel \<Rightarrow> fakeAPI cluster \<Rightarrow> string \<Rightarrow> string" where
  "kept_of t x \<equiv> kept (of_external (cu_Platform x) (om_UID (tn_Meta t)) \<noteq> None) (stored_token x t)"

definition same_credential :: "Tunnel \<Rightarrow> fakeAPI cluster \<Rightarrow> fakeAPI cluster \<Rightarrow> bool" where
  "same_credential t x x' = (of_external (cu_Platform x) (om_UID (tn_Meta t)) \<noteq> None \<and> stored_token x t \<noteq> []
     \<longrightarrow> of_external (cu_Platform x') (om_UID (tn_Meta t)) = of_external (cu_Platform x) (om_UID (tn_Meta t)))"

lemma run_tunnel_sync:
  assumes "reconcilable ep (operator_user_agent version) t w" and "om_DeletionTimestamp (tn_Meta t) = None"
    and "TunnelFinalizer \<in> set (om_Finalizers (tn_Meta t))"
    and "r = main_tunnel_reconciler (fake_env ep) version img"
  shows "\<exists>w'. run_state (tunnel_sync r t) w = (Returned \<lparr>res_RequeueAfter = resyncPeriod\<rparr> None, w')
    \<and> realised_with (kept_of t (ext w)) t (ext w') \<and> same_credential t (ext w) (ext w') \<and> (in_place t (ext w) \<longrightarrow> plat w' = plat w)"
proof -
  let ?uid = "om_UID (tn_Meta t)"
  have pre: "stored (ext w) t" "?uid \<noteq> []" "sound_tunnels (plat w)" "recorded t (plat w)"
    "secret_free (ext w) t" "deployment_free (ext w) t" and ready: "credential_ready ep (operator_user_agent version) t w"
    using assms(1) by (simp_all add: reconcilable_def)
  obtain c w1 where c: "run_state (apiClients (fake_env ep) version t) w = (Inr c, w1)" "srv_base (cl_Tunnel c) = ep" "ext w1 = ext w"
    using run_apiClients [OF ready] by blast
  let ?s = "cl_Tunnel c"
  obtain t' ft tok w2 where e: "run_state (ensureTunnel (fake_env (srv_base ?s)) ?s t) w1 = ((t', Inr (Some (ft_tunnel ft), tok)), w2)"
      "stored (ext w2) t'" "same_object t t'" "om_Finalizers (tn_Meta t') = om_Finalizers (tn_Meta t)"
      "st_ExternalID (tn_Status t') \<noteq> []" "the_tunnel ?uid (plat w1) (plat w2) ft tok"
      "cu_Secrets (ext w2) = cu_Secrets (ext w1)" "cu_Deployments (ext w2) = cu_Deployments (ext w1)"
      "map_of (fa_tunnels (plat w1)) (st_TunnelID (tn_Status t)) \<noteq> None \<longrightarrow> plat w2 = plat w1"
    using run_ensureTunnel [of w1 t ?s] pre assms(2) c(3) by auto
  have uid: "om_UID (tn_Meta t') = ?uid" "om_DeletionTimestamp (tn_Meta t') = None"
    using e(3) assms(2) by (simp_all add: same_object_def)
  note same = same_secrets [OF e(3) e(7,8)]
  have tunnel: "sound_tunnels (plat w2)" "of_external (plat w2) (om_UID (tn_Meta t')) = Some (nt_ID (ft_tunnel ft), ft)"
    using e(6) uid by (simp_all add: the_tunnel_def)
  have "ft_token ft \<noteq> []"
    using sound_entry(1) [OF tunnel(1) of_external_map [OF tunnel]] by (simp add: wf_entry_def)
  then have tok: "tok = ft_token ft \<or> tok = []" "tok = [] \<longleftrightarrow> of_external (plat w) ?uid \<noteq> None"
    "tok = [] \<longrightarrow> of_external (plat w2) ?uid = of_external (plat w) ?uid"
    using e(6) c(3) by (auto simp: the_tunnel_def)
  have "\<exists>w'. run_state (tunnel_realise r ?s t' (ft_tunnel ft) tok) w2 = (Returned \<lparr>res_RequeueAfter = resyncPeriod\<rparr> None, w')
      \<and> realised_with (kept (tok = []) (stored_token (ext w2) t')) t' (ext w') \<and> (tok = [] \<and> stored_token (ext w2) t' \<noteq> [] \<longrightarrow> plat w' = plat w2)"
    by (rule run_tunnel_realise [OF e(2) uid(2)]) (use pre same c assms(3,4) e(4,5) tunnel tok(1) uid in simp_all)
  then obtain w' where w': "run_state (tunnel_realise r ?s t' (ft_tunnel ft) tok) w2 = (Returned \<lparr>res_RequeueAfter = resyncPeriod\<rparr> None, w')"
      "realised_with (kept (tok = []) (stored_token (ext w2) t')) t' (ext w')" "tok = [] \<and> stored_token (ext w2) t' \<noteq> [] \<longrightarrow> plat w' = plat w2"
    by blast
  have "run_state (tunnel_sync r t) w = (Returned \<lparr>res_RequeueAfter = resyncPeriod\<rparr> None, w')"
    using e(1) w'(1) c(1,2) by (simp add: tunnel_sync_def assms(4) Let_def)
  moreover have "plat w' = plat w" if "in_place t (ext w)"
  proof -
    have held: "map_of (fa_tunnels (plat w)) (st_TunnelID (tn_Status t)) \<noteq> None" "stored_token (ext w2) t' \<noteq> []"
      using that same(3) c(3) by (simp_all add: in_place_def)
    then obtain ft0 where ft0: "map_of (fa_tunnels (plat w)) (st_TunnelID (tn_Status t)) = Some ft0" by blast
    then have "external_of (st_TunnelID (tn_Status t), ft0) = ?uid"
      using pre(4) sound_entry(2) [OF pre(3) ft0] by (auto simp: recorded_def plain_id_def Let_def)
    then have "of_external (plat w) ?uid \<noteq> None" using external_of_held [OF pre(3) ft0] pre(2) by simp
    then have "tok = []" using tok(2) by simp
    with held w'(3) e(9) c(3) show ?thesis by simp
  qed
  moreover have "realised_with (kept_of t (ext w)) t (ext w')"
    using realised_same [OF e(3) w'(2)] same(3) tok(2) c(3) by simp
  moreover have "same_credential t (ext w) (ext w')"
    using w'(3) tok(2,3) same(3) c(3) by (auto simp: same_credential_def)
  ultimately show ?thesis by blast
qed

lemma run_tunnel_Reconcile:
  assumes "reconcilable ep (operator_user_agent version) t w" and "om_DeletionTimestamp (tn_Meta t) = None"
    and "r = main_tunnel_reconciler (fake_env ep) version img"
  shows "\<exists>w'. run_state (tunnel_Reconcile r (tunnel_key t)) w = (Returned \<lparr>res_RequeueAfter = resyncPeriod\<rparr> None, w')
    \<and> realised_with (kept_of t (ext w)) t (ext w') \<and> same_credential t (ext w) (ext w') \<and> (in_place t (ext w) \<longrightarrow> plat w' = plat w)"
proof -
  have st: "stored (ext w) t" using assms(1) by (simp add: reconcilable_def)
  obtain e where e: "run_state (Get_Tunnel (fake_env ep) (tunnel_key t)) w = (Inr t, emit (ext w) e w)"
    using run_Get_Tunnel [of "fake_http ep" "tunnel_key t" w] st by (auto simp: fake_env_def stored_def)
  let ?w1 = "emit (ext w) e w"
  obtain t1 w2 where t1: "run_state (add_tunnel_finalizer (fake_env ep) t) ?w1 = (Inr t1, w2)" "stored (ext w2) t1" "same_object t t1"
      "tn_Status t1 = tn_Status t" "TunnelFinalizer \<in> set (om_Finalizers (tn_Meta t1))" "untouched (ext w) (ext w2)" "clients w2 = clients w"
    using run_add_tunnel_finalizer [of ?w1 t ep] st assms(2) by auto
  have frame: "cu_Secrets (ext w2) = cu_Secrets (ext w)" "cu_Deployments (ext w2) = cu_Deployments (ext w)" "plat w2 = plat w"
    using t1(6) by (simp_all add: untouched_def)
  note same = same_secrets [OF t1(3) frame(1,2)]
  have uid: "om_UID (tn_Meta t1) = om_UID (tn_Meta t)" using t1(3) by (simp add: same_object_def)
  have "recorded t1 (plat w2) = recorded t (plat w)"
    unfolding recorded_def by (simp only: uid t1(4) frame(3))
  then have "reconcilable ep (operator_user_agent version) t1 w2"
    using assms(1) t1(2) same(1,2) frame(3) uid credential_ready_same [OF _ t1(3,6,7)] by (simp add: reconcilable_def)
  moreover have "om_DeletionTimestamp (tn_Meta t1) = None" using t1(3) assms(2) by (simp add: same_object_def)
  ultimately obtain w' where "run_state (tunnel_sync r t1) w2 = (Returned \<lparr>res_RequeueAfter = resyncPeriod\<rparr> None, w')"
      "realised_with (kept_of t1 (ext w2)) t1 (ext w')" "same_credential t1 (ext w2) (ext w')" "in_place t1 (ext w2) \<longrightarrow> plat w' = plat w2"
    using run_tunnel_sync [OF _ _ t1(5) assms(3)] by blast
  moreover have "in_place t1 (ext w2) = in_place t (ext w)" "kept_of t1 (ext w2) = kept_of t (ext w)"
    "same_credential t1 (ext w2) (ext w') = same_credential t (ext w) (ext w')" for w' :: "fakeAPI cluster world"
    using same(3) frame(3) t1(4) uid by (simp_all add: in_place_def same_credential_def)
  ultimately show ?thesis
    using e t1(1) assms(2) frame(3) realised_same [OF t1(3)] by (auto simp: tunnel_Reconcile_def assms(3) Let_def)
qed

lemma realised_current:
  assumes "realised_with (kept_of t x) t x'" and "same_credential t x x'" and "token_current x t"
  shows "realised t x'"
proof (cases "of_external (cu_Platform x) (om_UID (tn_Meta t)) \<noteq> None \<and> stored_token x t \<noteq> []")
  case True
  then have "kept_of t x (ft_token ft) = ft_token ft" if "of_external (cu_Platform x') (om_UID (tn_Meta t)) = Some (i, ft)" for i ft
    using assms(2,3) that by (auto simp: kept_def same_credential_def token_current_def)
  with assms(1) show ?thesis unfolding realised_with_def by metis
next
  case False
  then have "kept_of t x = (\<lambda>token. token)" by (auto simp: kept_def fun_eq_iff)
  with assms(1) show ?thesis by simp
qed

section \<open>Deletion\<close>

text \<open>The status points at what the platform has for the object, or the lookup by external id will find it.\<close>

definition deletable :: "Tunnel \<Rightarrow> fakeAPI \<Rightarrow> bool" where
  "deletable t f = (case of_external f (om_UID (tn_Meta t)) of
     None \<Rightarrow> st_TunnelID (tn_Status t) = [] \<or> plain_id (st_TunnelID (tn_Status t))
   | Some (i, ft) \<Rightarrow> st_ExternalID (tn_Status t) \<noteq> [] \<and> st_TunnelID (tn_Status t) \<in> {[], i})"

lemma of_external_deleted:
  assumes "sound_tunnels f" and "uid \<noteq> []" and "case of_external f uid of None \<Rightarrow> True | Some (j, ft) \<Rightarrow> i = j"
  shows "of_external (fake_delete_tunnel i f) uid = None"
  unfolding of_external_None
proof
  fix x
  assume x: "x \<in> set (fa_tunnels (fake_delete_tunnel i f))"
  then have in_f: "x \<in> set (fa_tunnels f)" "fst x \<noteq> i" by (auto simp: fake_delete_tunnel_def)
  show "external_of x \<noteq> uid"
  proof
    assume "external_of x = uid"
    moreover from this obtain y where y: "of_external f uid = Some y"
      using in_f of_external_None [of f uid] by (cases "of_external f uid") auto
    ultimately have "x = y"
      using external_unique [OF assms(1) in_f(1) of_external_SomeD(1) [OF y]] of_external_SomeD(2) [OF y] assms(2) by simp
    with y assms(3) in_f(2) show False by (cases y) auto
  qed
qed

lemma run_drop_tunnel_finalizer:
  assumes "stored (ext w) t" and "om_DeletionTimestamp (tn_Meta t) \<noteq> None" and "om_Finalizers (tn_Meta t) = [TunnelFinalizer]"
  shows "\<exists>w'. run_state (drop_tunnel_finalizer (fake_env ep) t) w = (Returned zero_result None, w')
    \<and> lookup_object tn_Meta (tunnel_key t) (cu_Tunnels (ext w')) = Inl NotFoundError \<and> plat w' = plat w"
proof -
  let ?t' = "t\<lparr>tn_Meta := (tn_Meta t)\<lparr>om_Finalizers := [], om_ResourceVersion := show_nat (cu_Version (ext w))\<rparr>\<rparr>"
  obtain c where c: "run_state (Update_Tunnel (cluster_env (fake_http ep)) (t\<lparr>tn_Meta := (tn_Meta t)\<lparr>om_Finalizers := []\<rparr>\<rparr>)) w
      = (Inr ?t', emit (rewritten (ext w) ?t') c w)"
    using run_Update_Tunnel [OF assms(1) refl refl] by blast
  have "lookup_object tn_Meta (tunnel_key ?t') (replace_object tn_Meta ?t' (cu_Tunnels (ext w))) = Inl NotFoundError"
    by (rule lookup_replace_gone) (simp_all add: assms(2))
  then have "lookup_object tn_Meta (tunnel_key t) (cu_Tunnels (rewritten (ext w) ?t')) = Inl NotFoundError"
    by (simp add: rewritten_def)
  with c assms(3) show ?thesis
    by (auto simp: drop_tunnel_finalizer_def fake_env_def ref_RemoveFinalizer_def)
qed

lemma run_clean_up_tunnel:
  assumes "stored (ext w) t" and "om_DeletionTimestamp (tn_Meta t) \<noteq> None" and "om_Finalizers (tn_Meta t) = [TunnelFinalizer]"
    and "om_UID (tn_Meta t) \<noteq> []" and "sound_tunnels (plat w)" and "deletable t (plat w)"
  shows "\<exists>w'. run_state (clean_up_tunnel (fake_env (srv_base s)) s t) w = (Returned zero_result None, w')
    \<and> lookup_object tn_Meta (tunnel_key t) (cu_Tunnels (ext w')) = Inl NotFoundError
    \<and> of_external (plat w') (om_UID (tn_Meta t)) = None"
proof -
  let ?uid = "om_UID (tn_Meta t)" and ?id = "st_TunnelID (tn_Status t)"
  define i where "i = (if ?id \<noteq> [] then ?id else case of_external (plat w) ?uid of None \<Rightarrow> [] | Some (k, _) \<Rightarrow> k)"
  have held: "nt_ID (ft_tunnel ft) = k \<and> plain_id k" if "of_external (plat w) ?uid = Some (k, ft)" for k ft
    using sound_entry(2,3) [OF assms(5) of_external_map [OF assms(5) that]] by simp
  have i: "i = [] \<and> of_external (plat w) ?uid = None
      \<or> plain_id i \<and> (case of_external (plat w) ?uid of None \<Rightarrow> True | Some (j, ft) \<Rightarrow> i = j)"
    using assms(6) held by (auto simp: i_def deletable_def split: option.splits)
  have "\<exists>w1. run_state (tunnel_to_delete (fake_env (srv_base s)) s t) w = (Inr i, w1) \<and> ext w1 = ext w"
  proof (cases "?id = []")
    case True
    with run_FindTunnel [OF assms(5,4), of s] held show ?thesis
      by (cases "of_external (plat w) ?uid") (auto simp: tunnel_to_delete_def i_def)
  qed (simp add: tunnel_to_delete_def i_def)
  then obtain w1 where w1: "run_state (tunnel_to_delete (fake_env (srv_base s)) s t) w = (Inr i, w1)" "ext w1 = ext w" by blast
  have st: "stored (ext w1) t" using assms(1) w1(2) by simp
  show ?thesis
  proof (cases "i = []")
    case True
    with i have "of_external (plat w) ?uid = None" by (auto simp: plain_id_def)
    with True w1 run_drop_tunnel_finalizer [OF st assms(2,3), of "srv_base s"] show ?thesis
      by (auto simp: clean_up_tunnel_def release_tunnel_def)
  next
    case False
    with i have plain: "plain_id i" "case of_external (plat w) ?uid of None \<Rightarrow> True | Some (j, ft) \<Rightarrow> i = j" by auto
    obtain c where c: "run_state (DeleteTunnel (fake_env (srv_base s)) s i) w1 = (Inr (), fake_step (fake_delete_tunnel i (plat w1)) c w1)"
      using run_DeleteTunnel [OF plain(1)] by blast
    have "stored (ext (fake_step (fake_delete_tunnel i (plat w1)) c w1)) t" using st by (simp add: stored_def)
    from run_drop_tunnel_finalizer [OF this assms(2,3), of "srv_base s"] obtain w' where
      "run_state (drop_tunnel_finalizer (fake_env (srv_base s)) t) (fake_step (fake_delete_tunnel i (plat w1)) c w1) = (Returned zero_result None, w')"
      "lookup_object tn_Meta (tunnel_key t) (cu_Tunnels (ext w')) = Inl NotFoundError"
      "plat w' = fake_delete_tunnel i (plat w)"
      using w1(2) by auto
    with False w1(1) c of_external_deleted [OF assms(5,4) plain(2)] show ?thesis
      by (auto simp: clean_up_tunnel_def release_tunnel_def)
  qed
qed

lemma run_delete_start:
  assumes "stored (ext w) t" and "om_DeletionTimestamp (tn_Meta t) \<noteq> None"
    and "r = main_tunnel_reconciler (fake_env ep) version img"
  shows "\<exists>e. run_state (tunnel_Reconcile r (tunnel_key t)) w = run_state (tunnel_reconcileDelete r t) (emit (ext w) e w)"
proof -
  obtain e where "run_state (Get_Tunnel (fake_env ep) (tunnel_key t)) w = (Inr t, emit (ext w) e w)"
    using run_Get_Tunnel [of "fake_http ep" "tunnel_key t" w] assms(1) by (auto simp: fake_env_def stored_def)
  with assms(2) show ?thesis by (intro exI [of _ e]) (simp add: tunnel_Reconcile_def assms(3) Let_def)
qed

lemma fake_contains [simp]: "ContainsFinalizer (fake_env ep) fs f \<longleftrightarrow> f \<in> set fs"
  by (simp add: fake_env_def ref_ContainsFinalizer_def)

lemma run_delete_reaches_platform:
  assumes "stored (ext w) t" and "om_DeletionTimestamp (tn_Meta t) \<noteq> None" and "om_Finalizers (tn_Meta t) = [TunnelFinalizer]"
    and "st_ExternalID (tn_Status t) \<noteq> []" and "credential_ready ep (operator_user_agent version) t w"
    and "r = main_tunnel_reconciler (fake_env ep) version img"
  shows "\<exists>(c :: Client) w2. run_state (tunnel_Reconcile r (tunnel_key t)) w = run_state (clean_up_tunnel (fake_env ep) (cl_Tunnel c) t) w2
    \<and> srv_base (cl_Tunnel c) = ep \<and> ext w2 = ext w"
proof -
  obtain e where e: "run_state (tunnel_Reconcile r (tunnel_key t)) w = run_state (tunnel_reconcileDelete r t) (emit (ext w) e w)"
    using run_delete_start [OF assms(1,2,6)] by blast
  have "credential_ready ep (operator_user_agent version) t (emit (ext w) e w)"
    using assms(5) by (simp add: credential_ready_def)
  from run_apiClients [OF this] obtain c w2 where
    c: "run_state (apiClients (fake_env ep) version t) (emit (ext w) e w) = (Inr c, w2)" "srv_base (cl_Tunnel c) = ep" "ext w2 = ext w"
    by auto
  have "run_state (tunnel_reconcileDelete r t) (emit (ext w) e w) = run_state (clean_up_tunnel (fake_env ep) (cl_Tunnel c) t) w2"
    using assms(3,4) c(1) by (simp add: tunnel_reconcileDelete_def assms(6) Let_def)
  with c e show ?thesis by metis
qed

lemma run_tunnel_deletion:
  assumes "stored (ext w) t" and "om_DeletionTimestamp (tn_Meta t) \<noteq> None" and "om_Finalizers (tn_Meta t) = [TunnelFinalizer]"
    and "om_UID (tn_Meta t) \<noteq> []" and "sound_tunnels (plat w)" and "deletable t (plat w)"
    and "credential_ready ep (operator_user_agent version) t w"
    and "r = main_tunnel_reconciler (fake_env ep) version img"
  shows "\<exists>w'. run_state (tunnel_Reconcile r (tunnel_key t)) w = (Returned zero_result None, w')
    \<and> lookup_object tn_Meta (tunnel_key t) (cu_Tunnels (ext w')) = Inl NotFoundError
    \<and> of_external (plat w') (om_UID (tn_Meta t)) = None"
proof (cases "st_ExternalID (tn_Status t) = []")
  case True
  then have "of_external (plat w) (om_UID (tn_Meta t)) = None"
    using assms(6) by (auto simp: deletable_def split: option.splits)
  moreover obtain e where "run_state (tunnel_Reconcile r (tunnel_key t)) w = run_state (drop_tunnel_finalizer (fake_env ep) t) (emit (ext w) e w)"
    using run_delete_start [OF assms(1,2,8)] True assms(3) by (auto simp: tunnel_reconcileDelete_def assms(8) Let_def)
  ultimately show ?thesis
    using run_drop_tunnel_finalizer [of "emit (ext w) e w" t ep] assms(1-3) by auto
next
  case False
  obtain c :: Client and w2 where "run_state (tunnel_Reconcile r (tunnel_key t)) w = run_state (clean_up_tunnel (fake_env ep) (cl_Tunnel c) t) w2"
      "srv_base (cl_Tunnel c) = ep" "ext w2 = ext w"
    using run_delete_reaches_platform [OF assms(1-3) False assms(7,8)] by blast
  with run_clean_up_tunnel [of w2 t "cl_Tunnel c"] assms(1-6) show ?thesis by simp
qed

text \<open>A recorded identifier is what is deleted, whatever else the platform has for the object.\<close>

lemma of_external_delete_missing:
  assumes "map_of (fa_tunnels f) i = None"
  shows "of_external (fake_delete_tunnel i f) uid = of_external f uid"
proof -
  have "filter (\<lambda>(k, _). k \<noteq> i) (fa_tunnels f) = fa_tunnels f"
    using assms by (auto simp: filter_id_conv map_of_eq_None_iff image_iff)
  then show ?thesis by (simp add: of_external_def fake_delete_tunnel_def)
qed

lemma run_clean_up_recorded:
  assumes "stored (ext w) t" and "om_DeletionTimestamp (tn_Meta t) \<noteq> None" and "om_Finalizers (tn_Meta t) = [TunnelFinalizer]"
    and "plain_id (st_TunnelID (tn_Status t))"
  shows "\<exists>w'. run_state (clean_up_tunnel (fake_env (srv_base s)) s t) w = (Returned zero_result None, w')
    \<and> lookup_object tn_Meta (tunnel_key t) (cu_Tunnels (ext w')) = Inl NotFoundError
    \<and> plat w' = fake_delete_tunnel (st_TunnelID (tn_Status t)) (plat w)"
proof -
  let ?i = "st_TunnelID (tn_Status t)"
  have i: "?i \<noteq> []" using assms(4) by (simp add: plain_id_def)
  obtain c where c: "run_state (DeleteTunnel (fake_env (srv_base s)) s ?i) w = (Inr (), fake_step (fake_delete_tunnel ?i (plat w)) c w)"
    using run_DeleteTunnel [OF assms(4)] by blast
  have "stored (ext (fake_step (fake_delete_tunnel ?i (plat w)) c w)) t" using assms(1) by (simp add: stored_def)
  from run_drop_tunnel_finalizer [OF this assms(2,3), of "srv_base s"] i c show ?thesis
    by (auto simp: clean_up_tunnel_def tunnel_to_delete_def release_tunnel_def)
qed

lemma run_recorded_deletion:
  assumes "stored (ext w) t" and "om_DeletionTimestamp (tn_Meta t) \<noteq> None" and "om_Finalizers (tn_Meta t) = [TunnelFinalizer]"
    and "plain_id (st_TunnelID (tn_Status t))" and "st_ExternalID (tn_Status t) \<noteq> []"
    and "credential_ready ep (operator_user_agent version) t w"
    and "r = main_tunnel_reconciler (fake_env ep) version img"
  shows "\<exists>w'. run_state (tunnel_Reconcile r (tunnel_key t)) w = (Returned zero_result None, w')
    \<and> lookup_object tn_Meta (tunnel_key t) (cu_Tunnels (ext w')) = Inl NotFoundError
    \<and> plat w' = fake_delete_tunnel (st_TunnelID (tn_Status t)) (plat w)"
proof -
  obtain c :: Client and w2 where "run_state (tunnel_Reconcile r (tunnel_key t)) w = run_state (clean_up_tunnel (fake_env ep) (cl_Tunnel c) t) w2"
      "srv_base (cl_Tunnel c) = ep" "ext w2 = ext w"
    using run_delete_reaches_platform [OF assms(1-3,5-7)] by blast
  with run_clean_up_recorded [of w2 t "cl_Tunnel c"] assms(1-4) show ?thesis by simp
qed

end
