(* ===== verification/Route_Convergence.thy ===== *)
theory Route_Convergence
  imports Tunnel_Convergence Ensure_Route
begin

text \<open>
  One reconcile of a TunnelRoute is enough as well: the route is published in the tunnel its spec
  names, the status says where, and nothing else on the platform is touched; and a route marked for
  deletion goes with its published counterpart. Each method of the reconciler is run on the cluster
  in memory and the fake platform.
\<close>

section \<open>The object\<close>

definition same_route :: "TunnelRoute \<Rightarrow> TunnelRoute \<Rightarrow> bool" where
  "same_route r r' = (tr_Spec r' = tr_Spec r \<and> key_of (tr_Meta r') = key_of (tr_Meta r)
     \<and> om_DeletionTimestamp (tr_Meta r') = om_DeletionTimestamp (tr_Meta r) \<and> om_UID (tr_Meta r') = om_UID (tr_Meta r))"

lemma same_route_refl [simp]: "same_route r r"
  by (simp add: same_route_def)

lemma same_route_trans: "same_route r r' \<Longrightarrow> same_route r' r'' \<Longrightarrow> same_route r r''"
  by (simp add: same_route_def)

lemma same_route_status [simp]: "same_route r (r'\<lparr>tr_Status := s\<rparr>) = same_route r r'" "same_route (r\<lparr>tr_Status := s\<rparr>) r' = same_route r r'"
  by (simp_all add: same_route_def)

lemma same_route_spec:
  assumes "same_route r r'"
  shows "routeType r' = routeType r" "pathPrefix r' = pathPrefix r" "route_matches q r' host port = route_matches q r host port"
    "identityChanged q r' = identityChanged q r"
  using assms
  by (simp_all add: same_route_def route_matches_def identityChanged_def routeType_def pathPrefix_def priority_def enabled_def
      upstreamScheme_def)

text \<open>Only the TunnelRoute objects differ.\<close>

definition untouched_by_route :: "fakeAPI cluster \<Rightarrow> fakeAPI cluster \<Rightarrow> bool" where
  "untouched_by_route x x' = (cu_Tunnels x' = cu_Tunnels x \<and> cu_Secrets x' = cu_Secrets x
     \<and> cu_Services x' = cu_Services x \<and> cu_Platform x' = cu_Platform x)"

lemma run_add_route_finalizer:
  assumes "stored_route (ext w) r" and "om_DeletionTimestamp (tr_Meta r) = None"
  shows "\<exists>r' w'. run_state (add_route_finalizer (fake_env ep) r) w = (Inr r', w') \<and> stored_route (ext w') r' \<and> same_route r r'
    \<and> tr_Status r' = tr_Status r \<and> TunnelRouteFinalizer \<in> set (om_Finalizers (tr_Meta r'))
    \<and> untouched_by_route (ext w) (ext w') \<and> clients w' = clients w"
proof (cases "TunnelRouteFinalizer \<in> set (om_Finalizers (tr_Meta r))")
  case True
  have "r\<lparr>tr_Meta := (tr_Meta r)\<lparr>om_Finalizers := om_Finalizers (tr_Meta r)\<rparr>\<rparr> = r" by simp
  with True assms(1) show ?thesis
    by (simp add: add_route_finalizer_def fake_env_def ref_AddFinalizer_def untouched_by_route_def)
next
  case False
  let ?fs = "om_Finalizers (tr_Meta r) @ [TunnelRouteFinalizer]"
  let ?r' = "r\<lparr>tr_Meta := (tr_Meta r)\<lparr>om_Finalizers := ?fs, om_ResourceVersion := show_nat (cu_Version (ext w))\<rparr>\<rparr>"
  obtain c where c: "run_state (Update_TunnelRoute (cluster_env (fake_http ep)) (r\<lparr>tr_Meta := (tr_Meta r)\<lparr>om_Finalizers := ?fs\<rparr>\<rparr>)) w
      = (Inr ?r', emit (rewritten_route (ext w) ?r') c w)"
    using run_Update_TunnelRoute [OF assms(1) refl refl] by blast
  have "stored_route (rewritten_route (ext w) ?r') ?r'"
    using assms(1) by (rule stored_rewritten_route) (simp_all add: key_of_def)
  with False c show ?thesis
    by (auto simp: add_route_finalizer_def fake_env_def ref_AddFinalizer_def same_route_def untouched_by_route_def key_of_def Let_def)
qed

lemma run_route_finish:
  assumes "stored_route (ext w) r0" and "om_DeletionTimestamp (tr_Meta r0) = None" and "r = r0\<lparr>tr_Status := s\<rparr>"
  shows "\<exists>r' w'. run_state (route_finish (fake_env ep) r out None) w = (Returned out None, w') \<and> stored_route (ext w') r'
    \<and> same_route r0 r' \<and> om_Finalizers (tr_Meta r') = om_Finalizers (tr_Meta r0)
    \<and> tr_Status r' = s\<lparr>rt_ObservedGeneration := om_Generation (tr_Meta r0)\<rparr> \<and> untouched_by_route (ext w) (ext w')"
proof -
  let ?s = "s\<lparr>rt_ObservedGeneration := om_Generation (tr_Meta r0)\<rparr>"
  let ?r' = "r0\<lparr>tr_Meta := (tr_Meta r0)\<lparr>om_ResourceVersion := show_nat (cu_Version (ext w))\<rparr>, tr_Status := ?s\<rparr>"
  obtain c where c: "run_state (StatusUpdate_TunnelRoute (cluster_env (fake_http ep)) (r0\<lparr>tr_Status := ?s\<rparr>)) w
      = (Inr ?r', emit (rewritten_route (ext w) ?r') c w)"
    using run_StatusUpdate_TunnelRoute [OF assms(1) refl refl] by blast
  have "stored_route (rewritten_route (ext w) ?r') ?r'"
    using assms(1) by (rule stored_rewritten_route) (simp_all add: assms(2) key_of_def)
  with c assms(3) show ?thesis
    by (auto simp: route_finish_def fake_env_def same_route_def untouched_by_route_def key_of_def Let_def)
qed

section \<open>The upstream\<close>

text \<open>Where the spec sends the traffic, read off the cluster.\<close>

definition upstream_of :: "string \<Rightarrow> TunnelRoute \<Rightarrow> 'p cluster \<Rightarrow> (string \<times> int32) option" where
  "upstream_of domain r x =
     (case rs_Upstream (tr_Spec r) of
        Some u \<Rightarrow> Some (up_Host u, up_Port u)
      | None \<Rightarrow>
     (case rs_Service (tr_Spec r) of
        None \<Rightarrow> None
      | Some target \<Rightarrow>
     (case lookup_object svc_Meta (nn (om_Namespace (tr_Meta r)) (sv_Name target)) (cu_Services x) of
        Inl _ \<Rightarrow> None
      | Inr svc \<Rightarrow>
     (case servicePort svc (sv_Port target) of
        Inl _ \<Rightarrow> None
      | Inr port \<Rightarrow> Some (om_Name (svc_Meta svc) @ ''.'' @ om_Namespace (svc_Meta svc) @ ''.svc.'' @ domain, port)))))"

lemma upstream_of_same:
  assumes "same_route r r'" and "cu_Services x' = cu_Services x"
  shows "upstream_of domain r' x' = upstream_of domain r x"
proof -
  have "tr_Spec r' = tr_Spec r" "om_Namespace (tr_Meta r') = om_Namespace (tr_Meta r)"
    using assms(1) by (simp_all add: same_route_def key_of_def)
  then show ?thesis unfolding upstream_of_def by (simp only: assms(2))
qed

lemma run_resolveUpstream:
  assumes "upstream_of (rr_ClusterDomain rec) r (ext w) = Some (host, port)" and "rr_Client rec = fake_env ep"
  shows "\<exists>w'. run_state (resolveUpstream rec r) w = (Some (Inr (host, port)), w') \<and> ext w' = ext w \<and> clients w' = clients w"
proof (cases "rs_Upstream (tr_Spec r)")
  case (Some u)
  with assms(1) show ?thesis by (simp add: upstream_of_def resolveUpstream_def)
next
  case None
  with assms(1) obtain target where target: "rs_Service (tr_Spec r) = Some target"
    by (auto simp: upstream_of_def split: option.splits)
  let ?k = "nn (om_Namespace (tr_Meta r)) (sv_Name target)"
  obtain e where e: "run_state (Get_Service (fake_env ep) ?k) w =
      (map_sum ErrKube id (lookup_object svc_Meta ?k (cu_Services (ext w))), emit (ext w) e w)"
    using run_Get_Service unfolding fake_env_def by blast
  with None target assms show ?thesis
    by (auto simp: upstream_of_def resolveUpstream_def split: sum.splits)
qed

section \<open>Publishing\<close>

lemma route_status_self: "(\<exists>s. r' = r\<lparr>tr_Status := s\<rparr>) \<Longrightarrow> r' = r\<lparr>tr_Status := tr_Status r'\<rparr>"
  by auto

lemma route_conditions_status:
  "\<exists>s. route_setResolved env r a b c = r\<lparr>tr_Status := s\<rparr>" "\<exists>s. route_setSynced env r a b c = r\<lparr>tr_Status := s\<rparr>"
  "\<exists>s. route_setReady env r = r\<lparr>tr_Status := s\<rparr>"
  by (auto simp: route_setResolved_def route_setSynced_def route_setReady_def with_route_cond_def Let_def split: prod.split)

lemma published_status_status:
  "published_status env r remote i host port = r\<lparr>tr_Status := tr_Status (published_status env r remote i host port)\<rparr>"
proof (rule route_status_self)
  let ?r0 = "r\<lparr>tr_Status := (tr_Status r)\<lparr>rt_RouteID := ro_ID remote, rt_TunnelID := i, rt_UpstreamHost := host, rt_UpstreamPort := port\<rparr>\<rparr>"
  obtain s1 where s1: "route_setSynced env ?r0 ConditionTrue ''Synced'' ''The route is published.'' = ?r0\<lparr>tr_Status := s1\<rparr>"
    using route_conditions_status(2) by blast
  obtain s2 where "route_setReady env (?r0\<lparr>tr_Status := s1\<rparr>) = ?r0\<lparr>tr_Status := s1\<rparr>\<lparr>tr_Status := s2\<rparr>"
    using route_conditions_status(3) by blast
  then have "published_status env r remote i host port = r\<lparr>tr_Status := s2\<rparr>"
    unfolding published_status_def s1 by simp
  then show "\<exists>s. published_status env r remote i host port = r\<lparr>tr_Status := s\<rparr>" ..
qed

lemma published_status_sel:
  "rt_RouteID (tr_Status (published_status env r remote i host port)) = ro_ID remote"
  "rt_TunnelID (tr_Status (published_status env r remote i host port)) = i"
  by (simp_all add: published_status_def route_setReady_def route_setSynced_def with_route_cond_def Let_def split: prod.split)

lemma published_status_ready:
  assumes "cond_true (rt_Conditions (tr_Status r)) TunnelRouteConditionResolved"
  shows "cond_true (rt_Conditions (tr_Status (published_status (fake_env ep) r remote i host port))) TunnelRouteConditionReady"
  using assms
  by (simp add: published_status_def route_setReady_def route_setSynced_def with_route_cond_def Let_def fake_env_def
      ref_cond.cond_true_set split: prod.split)

text \<open>
  What a reconcile leaves of a route: the object with its finalizer, ready, recording the published
  route and its tunnel; on the platform the routes of that tunnel with the published one in place,
  matching the spec, and everything else as it was.
\<close>

definition published :: "TunnelRoute \<Rightarrow> string \<Rightarrow> string \<Rightarrow> int32 \<Rightarrow> fakeAPI cluster \<Rightarrow> fakeAPI cluster \<Rightarrow> bool" where
  "published r i host port x x' =
     (\<exists>r' q. stored_route x' r' \<and> same_route r r' \<and> TunnelRouteFinalizer \<in> set (om_Finalizers (tr_Meta r'))
        \<and> rt_RouteID (tr_Status r') = ro_ID q \<and> rt_TunnelID (tr_Status r') = i
        \<and> cond_true (rt_Conditions (tr_Status r')) TunnelRouteConditionReady
        \<and> route_matches q r host port
        \<and> fa_routes (cu_Platform x') = (fa_routes (cu_Platform x))(i := routes_after r (fa_routes (cu_Platform x) i) q)
        \<and> fa_tunnels (cu_Platform x') = fa_tunnels (cu_Platform x))"

text \<open>The route is on the platform already, as the spec wants it.\<close>

definition in_place_route :: "TunnelRoute \<Rightarrow> string \<Rightarrow> string \<Rightarrow> int32 \<Rightarrow> fakeAPI \<Rightarrow> bool" where
  "in_place_route r i host port f = (\<exists>q. pick_route r (fa_routes f i) = Some q \<and> route_matches q r host port)"

lemma pick_route_same:
  assumes "tr_Spec r' = tr_Spec r" and "rt_RouteID (tr_Status r') = rt_RouteID (tr_Status r)"
  shows "pick_route r' rs = pick_route r rs"
  unfolding pick_route_def pathPrefix_def by (simp only: assms)

lemma resolved_same:
  "same_route r (route_setResolved env r a b c)" "pick_route (route_setResolved env r a b c) rs = pick_route r rs"
  by (simp add: route_setResolved_def with_route_cond_def same_route_def)
     (rule pick_route_same, simp_all add: route_setResolved_def with_route_cond_def)

lemma routes_after_same:
  assumes "same_route r r'" and "rt_RouteID (tr_Status r') = rt_RouteID (tr_Status r)"
  shows "routes_after r' rs q = routes_after r rs q"
proof -
  have "pick_route r' rs = pick_route r rs" using assms by (intro pick_route_same) (simp_all add: same_route_def)
  then show ?thesis
    using same_route_spec(4) [OF assms(1)] by (simp add: routes_after_def split: option.split)
qed

lemma run_publish_route:
  assumes "fake_ok (ext w) i" and "fake_room (ext w) i" and "same_route r rt" and "\<And>rs. pick_route rt rs = pick_route r rs"
  shows "\<exists>q w'. run_state (ensureRoute (fake_env (srv_base s)) s rt i host port) w = (Inr q, w')
    \<and> fake_confined i (ext w) (ext w') \<and> route_matches q r host port
    \<and> fa_routes (plat w') i = routes_after r (fa_routes (plat w) i) q
    \<and> (in_place_route r i host port (plat w) \<longrightarrow> ext w' = ext w)"
proof -
  obtain q w' where q: "run_state (ensureRoute (fake_env (srv_base s)) s rt i host port) w = (Inr q, w')"
      "fake_confined i (ext w) (ext w')" "route_matches q rt host port"
      "fa_routes (plat w') i = routes_after rt (fa_routes (plat w) i) q"
    using fake_routes.ensureRoute_publishes [OF assms(1,2)] by blast
  have "ext w' = ext w" if quiet: "in_place_route r i host port (plat w)"
  proof -
    obtain q0 where "pick_route rt (fa_routes (plat w) i) = Some q0" "route_matches q0 rt host port"
      using quiet same_route_spec(3) [OF assms(3)] assms(4) by (auto simp: in_place_route_def)
    from fake_routes.ensureRoute_settled [OF assms(1) this, of s] q(1) show ?thesis by auto
  qed
  moreover have "routes_after rt rs q = routes_after r rs q" for rs
    using same_route_spec(4) [OF assms(3)] assms(4) by (simp add: routes_after_def split: option.split)
  ultimately show ?thesis using q same_route_spec(3) [OF assms(3)] by auto
qed

lemma run_route_publish:
  assumes "stored_route (ext w) r" and "om_DeletionTimestamp (tr_Meta r) = None"
    and "TunnelRouteFinalizer \<in> set (om_Finalizers (tr_Meta r))"
    and "credential_ready ep (operator_user_agent version) t w" and "st_TunnelID (tn_Status t) = i"
    and "fake_ok (ext w) i" and "fake_room (ext w) i" and "rec = main_route_reconciler (fake_env ep) version domain"
  shows "\<exists>w'. run_state (route_publish rec r t host port) w = (Returned \<lparr>res_RequeueAfter = resyncPeriod\<rparr> None, w')
    \<and> published r i host port (ext w) (ext w') \<and> (in_place_route r i host port (plat w) \<longrightarrow> plat w' = plat w)"
proof -
  obtain c w1 where c: "run_state (apiClients (fake_env ep) version t) w = (Inr c, w1)" "srv_base (cl_Tunnel c) = ep" "ext w1 = ext w"
    using run_apiClients [OF assms(4)] by blast
  let ?m = "''Sending traffic to '' @ host @ '':'' @ Itoa (sint port) @ ''.''"
  define rt where "rt = route_setResolved (fake_env ep) r ConditionTrue ''Resolved'' ?m"
  have rt: "same_route r rt" "\<And>rs. pick_route rt rs = pick_route r rs" unfolding rt_def by (rule resolved_same)+
  obtain q w2 where q: "run_state (ensureRoute (fake_env ep) (cl_Tunnel c) rt i host port) w1 = (Inr q, w2)"
      "fake_confined i (ext w) (ext w2)" "route_matches q r host port"
      "fa_routes (plat w2) i = routes_after r (fa_routes (plat w) i) q"
      "in_place_route r i host port (plat w) \<longrightarrow> ext w2 = ext w"
    using run_publish_route [of w1 i r rt "cl_Tunnel c" host port] assms(6,7) rt c(2,3) by auto
  note frame = fake_confined_sel [OF q(2)]
  have st: "stored_route (ext w2) r" using assms(1) frame(2) by (simp add: stored_route_def)
  define p where "p = published_status (fake_env ep) rt q i host port"
  have p: "p = r\<lparr>tr_Status := tr_Status p\<rparr>"
  proof -
    obtain s where s: "rt = r\<lparr>tr_Status := s\<rparr>" using route_conditions_status(1) unfolding rt_def by blast
    show ?thesis using published_status_status [of "fake_env ep" rt q i host port] by (simp add: p_def s)
  qed
  obtain r' w3 where fin: "run_state (route_finish (fake_env ep) p \<lparr>res_RequeueAfter = resyncPeriod\<rparr> None) w2
        = (Returned \<lparr>res_RequeueAfter = resyncPeriod\<rparr> None, w3)"
      "stored_route (ext w3) r'" "same_route r r'" "om_Finalizers (tr_Meta r') = om_Finalizers (tr_Meta r)"
      "tr_Status r' = (tr_Status p)\<lparr>rt_ObservedGeneration := om_Generation (tr_Meta r)\<rparr>" "untouched_by_route (ext w2) (ext w3)"
    using run_route_finish [OF st assms(2) p] by blast
  have "run_state (route_publish rec r t host port) w = (Returned \<lparr>res_RequeueAfter = resyncPeriod\<rparr> None, w3)"
    using c(1) q(1) fin(1) by (simp add: route_publish_def assms(5,8) rt_def [symmetric] p_def [symmetric] Let_def del: append.simps)
  moreover have "cond_true (rt_Conditions (tr_Status rt)) TunnelRouteConditionResolved"
    by (simp add: rt_def route_setResolved_def with_route_cond_def fake_env_def ref_cond.cond_true_set del: append.simps)
  then have "cond_true (rt_Conditions (tr_Status r')) TunnelRouteConditionReady"
    unfolding fin(5) p_def by (simp add: published_status_ready)
  moreover have "rt_RouteID (tr_Status r') = ro_ID q" "rt_TunnelID (tr_Status r') = i"
    by (simp_all add: fin(5) p_def published_status_sel)
  moreover have "plat w3 = plat w2" using fin(6) by (simp add: untouched_by_route_def)
  moreover have "fa_routes (plat w2) = (fa_routes (plat w))(i := routes_after r (fa_routes (plat w) i) q)"
    using q(4) frame(5) by (auto simp: fun_eq_iff)
  ultimately show ?thesis
    unfolding published_def using fin(2-4) assms(3) q(3,5) frame(4) by (metis (no_types, lifting))
qed

text \<open>What a reconcile needs: object and tunnel as they are stored, a platform in order, the upstream and a credential.\<close>

definition publishable :: "string \<Rightarrow> string \<Rightarrow> string \<Rightarrow> TunnelRoute \<Rightarrow> Tunnel \<Rightarrow> string \<Rightarrow> int32 \<Rightarrow> fakeAPI cluster world \<Rightarrow> bool" where
  "publishable ep ua domain r t host port w =
     (stored_route (ext w) r
      \<and> lookup_object tn_Meta (nn (om_Namespace (tr_Meta r)) (rs_TunnelRef (tr_Spec r))) (cu_Tunnels (ext w)) = Inr t
      \<and> fake_ok (ext w) (st_TunnelID (tn_Status t)) \<and> fake_room (ext w) (st_TunnelID (tn_Status t))
      \<and> credential_ready ep ua t w \<and> upstream_of domain r (ext w) = Some (host, port))"

lemma credential_ready_untouched:
  assumes "credential_ready ep ua t w" and "cu_Secrets (ext w') = cu_Secrets (ext w)" and "clients w' = clients w"
  shows "credential_ready ep ua t w'"
  using assms by (simp add: credential_ready_def)

lemma run_route_sync:
  assumes "publishable ep (operator_user_agent version) domain r t host port w" and "om_DeletionTimestamp (tr_Meta r) = None"
    and "TunnelRouteFinalizer \<in> set (om_Finalizers (tr_Meta r))" and "st_TunnelID (tn_Status t) = i"
    and "rec = main_route_reconciler (fake_env ep) version domain"
  shows "\<exists>w'. run_state (route_sync rec r t) w = (Returned \<lparr>res_RequeueAfter = resyncPeriod\<rparr> None, w')
    \<and> published r i host port (ext w) (ext w') \<and> (in_place_route r i host port (plat w) \<longrightarrow> plat w' = plat w)"
proof -
  have i: "st_TunnelID (tn_Status t) \<noteq> []" using assms(1) by (auto simp: publishable_def fake_ok_def plain_id_def)
  have "upstream_of (rr_ClusterDomain rec) r (ext w) = Some (host, port)" "rr_Client rec = fake_env ep"
    using assms(1,5) by (simp_all add: publishable_def)
  then obtain w1 where w1: "run_state (resolveUpstream rec r) w = (Some (Inr (host, port)), w1)" "ext w1 = ext w" "clients w1 = clients w"
    using run_resolveUpstream by blast
  have "credential_ready ep (operator_user_agent version) t w1"
    by (rule credential_ready_untouched [of _ _ _ w]) (use assms(1) w1 in \<open>simp_all add: publishable_def\<close>)
  moreover have "stored_route (ext w1) r" "fake_ok (ext w1) i" "fake_room (ext w1) i"
    using assms(1,4) w1(2) by (simp_all add: publishable_def)
  ultimately obtain w' where "run_state (route_publish rec r t host port) w1 = (Returned \<lparr>res_RequeueAfter = resyncPeriod\<rparr> None, w')"
      "published r i host port (ext w1) (ext w')" "in_place_route r i host port (plat w1) \<longrightarrow> plat w' = plat w1"
    using run_route_publish [OF _ assms(2,3) _ assms(4) _ _ assms(5)] by blast
  with i w1 show ?thesis by (simp add: route_sync_def Let_def)
qed

lemma run_route_Reconcile:
  assumes "publishable ep (operator_user_agent version) domain r t host port w" and "om_DeletionTimestamp (tr_Meta r) = None"
    and "st_TunnelID (tn_Status t) = i" and "rec = main_route_reconciler (fake_env ep) version domain"
  shows "\<exists>w'. run_state (route_Reconcile rec (route_key r)) w = (Returned \<lparr>res_RequeueAfter = resyncPeriod\<rparr> None, w')
    \<and> published r i host port (ext w) (ext w') \<and> (in_place_route r i host port (plat w) \<longrightarrow> plat w' = plat w)"
proof -
  have st: "stored_route (ext w) r" using assms(1) by (simp add: publishable_def)
  let ?k = "nn (om_Namespace (tr_Meta r)) (rs_TunnelRef (tr_Spec r))"
  obtain e1 where e1: "run_state (Get_TunnelRoute (fake_env ep) (route_key r)) w = (Inr r, emit (ext w) e1 w)"
    using run_Get_TunnelRoute [of "fake_http ep" "route_key r" w] st by (auto simp: fake_env_def stored_route_def)
  let ?w1 = "emit (ext w) e1 w"
  obtain e2 where e2: "run_state (Get_Tunnel (fake_env ep) ?k) ?w1 = (Inr t, emit (ext w) e2 ?w1)"
    using run_Get_Tunnel [of "fake_http ep" ?k ?w1] assms(1) by (auto simp: fake_env_def publishable_def)
  let ?w2 = "emit (ext w) e2 ?w1"
  obtain r1 w3 where r1: "run_state (add_route_finalizer (fake_env ep) r) ?w2 = (Inr r1, w3)" "stored_route (ext w3) r1" "same_route r r1"
      "tr_Status r1 = tr_Status r" "TunnelRouteFinalizer \<in> set (om_Finalizers (tr_Meta r1))" "untouched_by_route (ext w) (ext w3)"
      "clients w3 = clients w"
    using run_add_route_finalizer [of ?w2 r ep] st assms(2) by auto
  have frame: "cu_Tunnels (ext w3) = cu_Tunnels (ext w)" "cu_Secrets (ext w3) = cu_Secrets (ext w)"
      "cu_Services (ext w3) = cu_Services (ext w)" "plat w3 = plat w"
    using r1(6) by (simp_all add: untouched_by_route_def)
  have spec: "tr_Spec r1 = tr_Spec r" "om_Namespace (tr_Meta r1) = om_Namespace (tr_Meta r)" "om_DeletionTimestamp (tr_Meta r1) = None"
    using r1(3) assms(2) by (simp_all add: same_route_def key_of_def)
  have "publishable ep (operator_user_agent version) domain r1 t host port w3"
    using assms(1) r1(2) frame spec upstream_of_same [OF r1(3) frame(3)] credential_ready_untouched [OF _ frame(2) r1(7)]
    by (simp add: publishable_def fake_ok_def fake_room_def)
  from run_route_sync [OF this spec(3) r1(5) assms(3,4)] obtain w' where w':
      "run_state (route_sync rec r1 t) w3 = (Returned \<lparr>res_RequeueAfter = resyncPeriod\<rparr> None, w')"
      "published r1 i host port (ext w3) (ext w')" "in_place_route r1 i host port (plat w3) \<longrightarrow> plat w' = plat w3"
    by blast
  have id: "rt_RouteID (tr_Status r1) = rt_RouteID (tr_Status r)" using r1(4) by simp
  have "run_state (route_Reconcile rec (route_key r)) w = (Returned \<lparr>res_RequeueAfter = resyncPeriod\<rparr> None, w')"
    using e1 e2 r1(1) w'(1) assms(2) by (simp add: route_Reconcile_def assms(4) Let_def)
  moreover have "published r i host port (ext w) (ext w')"
    using w'(2) same_route_trans [OF r1(3)]
    unfolding published_def routes_after_same [OF r1(3) id] same_route_spec(3) [OF r1(3)] frame(4) by blast
  moreover have "in_place_route r1 i host port (plat w3) = in_place_route r i host port (plat w)"
    unfolding in_place_route_def pick_route_same [OF spec(1) id] same_route_spec(3) [OF r1(3)] frame(4) ..
  ultimately show ?thesis using w'(3) frame(4) by auto
qed

section \<open>Deletion\<close>

text \<open>The routes of a tunnel once the one of an object is deleted: by its recorded identifier, or else the one found for it.\<close>

definition routes_left :: "TunnelRoute \<Rightarrow> Route list \<Rightarrow> Route list" where
  "routes_left r rs =
     (case (if rt_RouteID (tr_Status r) \<noteq> [] then Some (rt_RouteID (tr_Status r)) else map_option ro_ID (pick_route r rs)) of
        None \<Rightarrow> rs | Some j \<Rightarrow> filter (\<lambda>q. ro_ID q \<noteq> j) rs)"

text \<open>What the platform has afterwards: nothing changes for a route whose tunnel is gone or was never created.\<close>

definition platform_left :: "TunnelRoute \<Rightarrow> fakeAPI cluster \<Rightarrow> string \<Rightarrow> Route list" where
  "platform_left r x =
     (case lookup_object tn_Meta (nn (om_Namespace (tr_Meta r)) (rs_TunnelRef (tr_Spec r))) (cu_Tunnels x) of
        Inl _ \<Rightarrow> fa_routes (cu_Platform x)
      | Inr t \<Rightarrow>
          let i = st_TunnelID (tn_Status t) in
          if i = [] then fa_routes (cu_Platform x)
          else (fa_routes (cu_Platform x))(i := routes_left r (fa_routes (cu_Platform x) i)))"

definition removable :: "string \<Rightarrow> string \<Rightarrow> TunnelRoute \<Rightarrow> fakeAPI cluster world \<Rightarrow> bool" where
  "removable ep ua r w =
     (stored_route (ext w) r \<and> om_Finalizers (tr_Meta r) = [TunnelRouteFinalizer]
      \<and> (rt_RouteID (tr_Status r) = [] \<or> plain_id (rt_RouteID (tr_Status r)))
      \<and> (case lookup_object tn_Meta (nn (om_Namespace (tr_Meta r)) (rs_TunnelRef (tr_Spec r))) (cu_Tunnels (ext w)) of
           Inl _ \<Rightarrow> True
         | Inr t \<Rightarrow> st_TunnelID (tn_Status t) = []
             \<or> fake_ok (ext w) (st_TunnelID (tn_Status t)) \<and> credential_ready ep ua t w))"

lemma run_drop_route_finalizer:
  assumes "stored_route (ext w) r" and "om_DeletionTimestamp (tr_Meta r) \<noteq> None" and "om_Finalizers (tr_Meta r) = [TunnelRouteFinalizer]"
  shows "\<exists>w'. run_state (drop_route_finalizer (fake_env ep) r) w = (Returned zero_result None, w')
    \<and> lookup_object tr_Meta (route_key r) (cu_Routes (ext w')) = Inl NotFoundError \<and> plat w' = plat w"
proof -
  let ?r' = "r\<lparr>tr_Meta := (tr_Meta r)\<lparr>om_Finalizers := [], om_ResourceVersion := show_nat (cu_Version (ext w))\<rparr>\<rparr>"
  obtain c where "run_state (Update_TunnelRoute (cluster_env (fake_http ep)) (r\<lparr>tr_Meta := (tr_Meta r)\<lparr>om_Finalizers := []\<rparr>\<rparr>)) w
      = (Inr ?r', emit (rewritten_route (ext w) ?r') c w)"
    using run_Update_TunnelRoute [OF assms(1) refl refl] by blast
  moreover have "lookup_object tr_Meta (key_of (tr_Meta ?r')) (replace_object tr_Meta ?r' (cu_Routes (ext w))) = Inl NotFoundError"
    by (rule lookup_replace_gone) (simp_all add: assms(2))
  ultimately show ?thesis
    by (simp add: drop_route_finalizer_def fake_env_def assms(3) ref_RemoveFinalizer_def rewritten_route_def key_of_def)
qed

lemma run_clean_up_route:
  assumes "fake_ok (ext w) i" and "rt_RouteID (tr_Status r) = [] \<or> plain_id (rt_RouteID (tr_Status r))"
  shows "\<exists>w'. run_state (clean_up_route (fake_env (srv_base s)) s r i) w = (Inr (), w')
    \<and> cu_Routes (ext w') = cu_Routes (ext w)
    \<and> fa_routes (plat w') = (fa_routes (plat w))(i := routes_left r (fa_routes (plat w) i))"
proof -
  have i: "plain_id i" using assms(1) by (simp add: fake_ok_def)
  have delete: "\<exists>w'. run_state (DeleteRoute (fake_env (srv_base s)) s i j) w0 = (Inr (), w') \<and> cu_Routes (ext w') = cu_Routes (ext w0)
      \<and> fa_routes (plat w') = (fa_routes (plat w0))(i := filter (\<lambda>q. ro_ID q \<noteq> j) (fa_routes (plat w0) i))" if "plain_id j" for j w0
    using run_DeleteRoute [OF i that, of s w0] by auto
  show ?thesis
  proof (cases "rt_RouteID (tr_Status r) = []")
    case False
    with assms(2) delete [of "rt_RouteID (tr_Status r)" w] show ?thesis
      by (auto simp: clean_up_route_def route_to_delete_def routes_left_def)
  next
    case True
    obtain w1 where w1: "run_state (findRoute (fake_env (srv_base s)) s r i) w = (Inr (pick_route r (fa_routes (plat w) i)), w1)" "ext w1 = ext w"
      using fake_routes.run_findRoute [OF assms(1)] by blast
    show ?thesis
    proof (cases "pick_route r (fa_routes (plat w) i)")
      case None
      with True w1 show ?thesis by (simp add: clean_up_route_def route_to_delete_def routes_left_def)
    next
      case (Some q)
      have "plain_id (ro_ID q)"
        using sound_routes_ids(1) [OF _ pick_in [OF Some]] assms(1) by (auto simp: fake_ok_def)
      from delete [OF this, of w1] True w1 Some show ?thesis
        by (auto simp: clean_up_route_def route_to_delete_def routes_left_def)
    qed
  qed
qed

lemma run_deleteRemoteRoute:
  assumes "lookup_object tn_Meta (nn (om_Namespace (tr_Meta r)) (rs_TunnelRef (tr_Spec r))) (cu_Tunnels (ext w)) = Inr t"
    and "fake_ok (ext w) i" and "credential_ready ep (operator_user_agent version) t w"
    and "rt_RouteID (tr_Status r) = [] \<or> plain_id (rt_RouteID (tr_Status r))"
    and "rec = main_route_reconciler (fake_env ep) version domain"
  shows "\<exists>w'. run_state (deleteRemoteRoute rec r i) w = (Inr (), w') \<and> cu_Routes (ext w') = cu_Routes (ext w)
    \<and> fa_routes (plat w') = (fa_routes (plat w))(i := routes_left r (fa_routes (plat w) i))"
proof -
  let ?k = "nn (om_Namespace (tr_Meta r)) (rs_TunnelRef (tr_Spec r))"
  obtain e where e: "run_state (Get_Tunnel (fake_env ep) ?k) w = (Inr t, emit (ext w) e w)"
    using run_Get_Tunnel [of "fake_http ep" ?k w] assms(1) by (auto simp: fake_env_def)
  have "credential_ready ep (operator_user_agent version) t (emit (ext w) e w)"
    by (rule credential_ready_untouched [OF assms(3)]) simp_all
  then obtain c w1 where c: "run_state (apiClients (fake_env ep) version t) (emit (ext w) e w) = (Inr c, w1)"
      "srv_base (cl_Tunnel c) = ep" "ext w1 = ext w"
    using run_apiClients by fastforce
  with run_clean_up_route [of w1 i r "cl_Tunnel c"] assms(2,4) e show ?thesis
    by (auto simp: deleteRemoteRoute_def assms(5) Let_def)
qed

lemma run_route_deletion:
  assumes "removable ep (operator_user_agent version) r w" and "om_DeletionTimestamp (tr_Meta r) \<noteq> None"
    and "rec = main_route_reconciler (fake_env ep) version domain"
  shows "\<exists>w'. run_state (route_Reconcile rec (route_key r)) w = (Returned zero_result None, w')
    \<and> lookup_object tr_Meta (route_key r) (cu_Routes (ext w')) = Inl NotFoundError
    \<and> fa_routes (plat w') = platform_left r (ext w)"
proof -
  let ?k = "nn (om_Namespace (tr_Meta r)) (rs_TunnelRef (tr_Spec r))"
  have st: "stored_route (ext w) r" "om_Finalizers (tr_Meta r) = [TunnelRouteFinalizer]" using assms(1) by (simp_all add: removable_def)
  obtain e1 where e1: "run_state (Get_TunnelRoute (fake_env ep) (route_key r)) w = (Inr r, emit (ext w) e1 w)"
    using run_Get_TunnelRoute [of "fake_http ep" "route_key r" w] st(1) by (auto simp: fake_env_def stored_route_def)
  let ?w1 = "emit (ext w) e1 w"
  obtain e2 where e2: "run_state (Get_Tunnel (fake_env ep) ?k) ?w1 = (map_sum ErrKube id (lookup_object tn_Meta ?k (cu_Tunnels (ext w))), emit (ext w) e2 ?w1)"
    using run_Get_Tunnel [of "fake_http ep" ?k ?w1] by (auto simp: fake_env_def)
  let ?w2 = "emit (ext w) e2 ?w1"
  have start: "run_state (route_Reconcile rec (route_key r)) w =
      run_state (route_reconcileDelete rec r (map_sum ErrKube id (lookup_object tn_Meta ?k (cu_Tunnels (ext w))))) ?w2"
    using e1 e2 assms(2) by (simp add: route_Reconcile_def assms(3) Let_def)
  have drop: "\<exists>w'. run_state (drop_route_finalizer (fake_env ep) r) w0 = (Returned zero_result None, w')
      \<and> lookup_object tr_Meta (route_key r) (cu_Routes (ext w')) = Inl NotFoundError \<and> plat w' = plat w0"
    if "cu_Routes (ext w0) = cu_Routes (ext w)" for w0
    using run_drop_route_finalizer [of w0 r ep] st assms(2) that by (simp add: stored_route_def)
  show ?thesis
  proof (cases "lookup_object tn_Meta ?k (cu_Tunnels (ext w))")
    case (Inl err)
    then have "kIsNotFound (fake_env ep) (ErrKube err)"
      by (auto simp: lookup_object_def fake_env_def ref_IsNotFound_def NotFoundError_def split: option.splits)
    with start Inl st(2) drop [of ?w2] show ?thesis
      by (auto simp: route_reconcileDelete_def assms(3) platform_left_def Let_def)
  next
    case (Inr t)
    show ?thesis
    proof (cases "st_TunnelID (tn_Status t) = []")
      case True
      with start Inr st(2) drop [of ?w2] show ?thesis
        by (auto simp: route_reconcileDelete_def assms(3) platform_left_def Let_def)
    next
      case False
      have "credential_ready ep (operator_user_agent version) t ?w2"
        by (rule credential_ready_untouched [of _ _ _ w]) (use assms(1) Inr False in \<open>simp_all add: removable_def\<close>)
      then obtain w3 where w3: "run_state (deleteRemoteRoute rec r (st_TunnelID (tn_Status t))) ?w2 = (Inr (), w3)"
          "cu_Routes (ext w3) = cu_Routes (ext w)"
          "fa_routes (plat w3) = (fa_routes (plat w))(st_TunnelID (tn_Status t) := routes_left r (fa_routes (plat w) (st_TunnelID (tn_Status t))))"
        using run_deleteRemoteRoute [of r ?w2 t "st_TunnelID (tn_Status t)" ep version rec domain] assms(1,3) Inr False
        by (auto simp: removable_def)
      with start Inr False st(2) drop [OF w3(2)] show ?thesis
        by (auto simp: route_reconcileDelete_def assms(3) platform_left_def Let_def)
    qed
  qed
qed

end
