(* ===== verification/Tunnel_Frame.thy ===== *)
theory Tunnel_Frame
  imports Tunnel_Convergence
begin

text \<open>
  What a reconcile of a live Tunnel leaves alone: the TunnelRoutes, the Services, every Secret but the
  one it keeps the token in, and the routes on the platform. It is shown call by call, for whatever
  identifiers the platform answers.
\<close>

section \<open>The frame\<close>

definition around :: "NamespacedName \<Rightarrow> fakeAPI cluster \<Rightarrow> fakeAPI cluster \<Rightarrow> bool" where
  "around k x x' = (cu_Routes x' = cu_Routes x \<and> cu_Services x' = cu_Services x
     \<and> (\<forall>k'. k' \<noteq> k \<longrightarrow> lookup_object sec_Meta k' (cu_Secrets x') = lookup_object sec_Meta k' (cu_Secrets x))
     \<and> fa_routes (cu_Platform x') = fa_routes (cu_Platform x))"

lemma around_refl [simp]: "around k x x"
  by (simp add: around_def)

lemma around_trans: "around k x y \<Longrightarrow> around k y z \<Longrightarrow> around k x z"
  by (simp add: around_def)

text \<open>The operator's memory of clients stays as it is too.\<close>

definition within :: "NamespacedName \<Rightarrow> fakeAPI cluster world \<Rightarrow> fakeAPI cluster world \<Rightarrow> bool" where
  "within k w w' = (around k (ext w) (ext w') \<and> clients w' = clients w)"

lemma within_refl [simp]: "within k w w"
  by (simp add: within_def)

lemma within_trans: "within k w w1 \<Longrightarrow> within k w1 w' \<Longrightarrow> within k w w'"
  using around_trans by (auto simp: within_def)

text \<open>A program that stays within the frame, and the fact \<open>K\<close> of its result.\<close>

definition frames :: "NamespacedName \<Rightarrow> (fakeAPI cluster, 'a) io \<Rightarrow> ('a \<Rightarrow> bool) \<Rightarrow> bool" where
  "frames k m K = (\<forall>w. wp m (\<lambda>a w'. K a \<and> within k w w') w)"

abbreviation framed :: "NamespacedName \<Rightarrow> (fakeAPI cluster, 'a) io \<Rightarrow> bool" where
  "framed k m \<equiv> frames k m (\<lambda>_. True)"

named_theorems frame_intro \<open>programs that stay within the frame of a Tunnel\<close>

lemma framesD: "frames k m K \<Longrightarrow> run_state m w = (a, w') \<Longrightarrow> K a \<and> within k w w'"
  unfolding frames_def by (drule spec, erule (1) run_stateD)

lemma frames_ret [frame_intro]: "K a \<Longrightarrow> frames k (ret a) K"
  by (simp add: frames_def wp_return)

lemma frames_bind:
  assumes "frames k m K" and "\<And>a. K a \<Longrightarrow> frames k (f a) L"
  shows "frames k (State_Monad.bind m f) L"
  unfolding frames_def wp_bind
proof
  fix w
  have "wp m (\<lambda>a w'. K a \<and> within k w w') w" using assms(1) by (simp add: frames_def)
  then show "wp m (\<lambda>a. wp (f a) (\<lambda>b w'. L b \<and> within k w w')) w"
  proof (rule wp_mono)
    fix a and w1 :: "fakeAPI cluster world"
    assume 1: "K a \<and> within k w w1"
    then have "wp (f a) (\<lambda>b w'. L b \<and> within k w1 w') w1" using assms(2) by (simp add: frames_def)
    then show "wp (f a) (\<lambda>b w'. L b \<and> within k w w') w1"
      by (rule wp_mono) (use 1 within_trans in blast)
  qed
qed

lemma framed_bind [frame_intro]: "framed k m \<Longrightarrow> (\<And>a. frames k (f a) L) \<Longrightarrow> frames k (State_Monad.bind m f) L"
  by (rule frames_bind)

lemma frames_Eventf [frame_intro]: "framed k (Eventf obj etype reason action note)"
  by (simp add: frames_def within_def wp_simps)

lemma frames_kube_call:
  assumes "\<And>x r x'. f x = (r, x') \<Longrightarrow> K (map_sum ErrKube id r) \<and> around k x x'"
  shows "frames k (kube_call f ev) K"
  using assms by (auto simp: frames_def within_def wp_def run_kube_call split: prod.split)

section \<open>The calls to the cluster\<close>

lemma around_commit:
  "commit (\<lambda>objs y. y\<lparr>cu_Tunnels := objs\<rparr>) r x = (a, x') \<Longrightarrow> around k x x'"
  "commit (\<lambda>objs y. y\<lparr>cu_Deployments := objs\<rparr>) r' x = (a', x') \<Longrightarrow> around k x x'"
  by (auto simp: commit_def around_def split: sum.splits)

lemma frames_reads [frame_intro]: "framed k (Get_Secret (fake_env ep) k')"
  unfolding call_defs by (rule frames_kube_call) (simp add: fake_env_def cluster_env_def)

lemma frames_tunnel_writes:
  "frames k (Update_Tunnel (fake_env ep) t) (\<lambda>r. \<forall>t'. r = Inr t' \<longrightarrow> tunnel_key t' = tunnel_key t)"
  "frames k (StatusUpdate_Tunnel (fake_env ep) t) (\<lambda>r. \<forall>t'. r = Inr t' \<longrightarrow> tunnel_key t' = tunnel_key t)"
proof -
  have each: "(\<forall>t'. map_sum ErrKube id a = Inr t' \<longrightarrow> tunnel_key t' = tunnel_key t) \<and> around k x x'"
    if "update_tunnel_in t x = (a, x') \<or> status_tunnel_in t x = (a, x')" for x a x'
    using that write_tunnel_keys [of t x _ x'] around_commit(1) [of _ x a x' k]
    by (cases a) (auto simp: update_tunnel_in_def status_tunnel_in_def)
  show "frames k (Update_Tunnel (fake_env ep) t) (\<lambda>r. \<forall>t'. r = Inr t' \<longrightarrow> tunnel_key t' = tunnel_key t)"
    unfolding call_defs by (rule frames_kube_call, rule each) (simp add: fake_env_def cluster_env_def)
  show "frames k (StatusUpdate_Tunnel (fake_env ep) t) (\<lambda>r. \<forall>t'. r = Inr t' \<longrightarrow> tunnel_key t' = tunnel_key t)"
    unfolding call_defs by (rule frames_kube_call, rule each) (simp add: fake_env_def cluster_env_def)
qed

lemma framed_status [frame_intro]: "framed k (StatusUpdate_Tunnel (fake_env ep) t)"
  using frames_tunnel_writes(2) [of k ep t] by (auto simp: frames_def elim: wp_mono)

text \<open>A Secret is found or made under its name, and written under it.\<close>

lemma apply_secret_other:
  assumes "apply_object sec_Meta stamp_secret s f v ss = Inr (s', ss')" and "k' \<noteq> key_of (sec_Meta s)"
    and "\<And>o' s'. f o' = Inr s' \<Longrightarrow> key_of (sec_Meta s') = key_of (sec_Meta o')"
  shows "lookup_object sec_Meta k' ss' = lookup_object sec_Meta k' ss"
proof -
  have stamp: "key_of (sec_Meta (stamp_secret v' s')) = key_of (sec_Meta s')" for v' s' by (simp add: stamp_secret_def)
  show ?thesis
  proof (cases "lookup_object sec_Meta (key_of (sec_Meta s)) ss")
    case (Inl e)
    then show ?thesis
      using assms(1,2) assms(3) [of s] stamp by (auto simp: apply_object_def lookup_object_def split: sum.splits)
  next
    case (Inr old)
    then have "key_of (sec_Meta old) = key_of (sec_Meta s)" by (rule lookup_key)
    then show ?thesis
      using assms(1,2) assms(3) [of old] stamp Inr by (auto simp: apply_object_def lookup_replace_other split: sum.splits)
  qed
qed

lemma frames_store_token [frame_intro]:
  assumes "k = token_name t"
  shows "framed k (store_token (fake_env ep) t token)"
  unfolding store_token_def call_defs
proof (rule frames_kube_call)
  fix x r x'
  assume run: "k_apply_secret (fake_env ep) (blank_secret (om_Namespace (tn_Meta t)) (tokenSecretName (om_Name (tn_Meta t))))
      (mutate_token_secret (fake_env ep) t token) x = (r, x')"
  have key: "key_of (sec_Meta (blank_secret (om_Namespace (tn_Meta t)) (tokenSecretName (om_Name (tn_Meta t))))) = k"
    by (simp add: assms blank_secret_def key_of_def)
  have same: "key_of (sec_Meta s') = key_of (sec_Meta o')" if "mutate_token_secret (fake_env ep) t token o' = Inr s'" for o' s'
    using that by (auto simp: mutate_token_secret_def fake_env_def cluster_env_def ref_SetControllerReference_def key_of_def Let_def
        split: if_splits sum.splits)
  show "True \<and> around k x x'"
    using run apply_secret_other [OF _ _ same] key
    by (auto simp: fake_env_def cluster_env_def commit_def around_def split: sum.splits)
qed

lemma frames_agent [frame_intro]: "framed k (ensureAgentDeployment (fake_env ep) img t v)"
  unfolding ensureAgentDeployment_def Let_def call_defs
  by (rule frames_kube_call) (auto simp: fake_env_def cluster_env_def intro: around_commit(2))

section \<open>The requests to the platform\<close>

lemma serve_frame:
  assumes "fake_serve rq path q f = (r, f')" and "rq_Method rq = ''GET'' \<or> rq_Method rq = ''POST'' \<and> \<not> HasSuffix path ''/routes''"
  shows "fa_routes f' = fa_routes f"
  using assms
  by (auto simp: fake_serve_def fake_createTunnel_def fake_rotateToken_def Let_def split: if_splits option.splits prod.splits)

lemma framed_request:
  assumes "srv_base s = ep" and "\<And>f a f'. fake_http ep (srv_http s) (build_request s m p b) f = (a, f') \<Longrightarrow> fa_routes f' = fa_routes f"
  shows "framed k (do_request (fake_env ep) s m p b out zero)"
  unfolding frames_def
proof
  fix w :: "fakeAPI cluster world"
  obtain a f where f: "fake_http ep (srv_http s) (build_request s m p b) (plat w) = (a, f)" by fastforce
  with assms(2) have "fa_routes f = fa_routes (plat w)" by blast
  then show "wp (do_request (fake_env ep) s m p b out zero) (\<lambda>_ w'. True \<and> within k w w') w"
    using run_fake_request [of s m p b w a f out zero] f assms(1) by (simp add: wp_def within_def around_def fake_step_def)
qed

lemma fake_http_GET: "rq_Method rq = ''GET'' \<Longrightarrow> fake_http ep c rq f = (a, f') \<Longrightarrow> fa_routes f' = fa_routes f"
  by (auto simp: fake_http_def Let_def dest: serve_frame split: if_splits option.splits prod.splits)

lemma framed_GetTunnel [frame_intro]: "srv_base s = ep \<Longrightarrow> framed k (GetTunnel (fake_env ep) s i)"
  unfolding GetTunnel_def by (rule framed_request) (auto dest: fake_http_GET [rotated])

lemma framed_CreateTunnel [frame_intro]: "srv_base s = ep \<Longrightarrow> framed k (CreateTunnel (fake_env ep) s i)"
  unfolding CreateTunnel_def
  by (rule framed_request) (auto simp: fake_create_tunnel fake_createTunnel_def Let_def split: prod.splits option.splits if_splits)

lemma trim_last:
  assumes "c \<noteq> CHR ''/''"
  shows "last (trim_slashes (xs @ [c])) = c"
  using assms by (simp add: trim_slashes_def dropWhile_append3)

lemma framed_RotateToken [frame_intro]:
  assumes "srv_base s = ep"
  shows "framed k (RotateToken (fake_env ep) s i)"
  unfolding RotateToken_def
proof (rule framed_request [OF assms])
  fix f a f'
  let ?rq = "build_request s ''POST'' (''/api/v2/tunnels/'' @ PathEscape i @ ''/rotate-token'') None"
    and ?path = "trim_slashes (CHR ''/'' # i @ ''/rotate-token'')"
  assume "fake_http ep (srv_http s) ?rq f = (a, f')"
  then obtain r where r: "fake_serve ?rq ?path [] f = (r, f')"
    unfolding fake_http_path [OF assms no_question_tunnel(1) unescape_tunnelPath(2)] by (auto split: prod.splits)
  have "last ?path = CHR ''n''" using trim_last [of "CHR ''n''" "CHR ''/'' # i @ ''/rotate-toke''"] by simp
  then have "\<not> HasSuffix ?path ''/routes''" by (auto dest: HasSuffix_last)
  with serve_frame [OF r] show "fa_routes f' = fa_routes f" by simp
qed

section \<open>The methods of the reconciler\<close>

lemma framed_finish [frame_intro]: "framed k (tunnel_finish (fake_env ep) t res e)"
  unfolding tunnel_finish_def Let_def by (auto intro!: frame_intro split: sum.split option.split)

lemma framed_fail [frame_intro]: "framed k (tunnel_fail (fake_env ep) t a e)"
  unfolding tunnel_fail_def Let_def by (auto intro!: frame_intro)

lemma frames_record: "frames k (record_external_id (fake_env ep) t) (\<lambda>a. tunnel_key (fst a) = tunnel_key t)"
  unfolding record_external_id_def Let_def
  by (auto intro!: frames_bind [OF frames_tunnel_writes(2)] frames_ret split: sum.split)

lemma frames_create:
  assumes "srv_base s = ep"
  shows "frames k (create_tunnel (fake_env ep) s t) (\<lambda>a. tunnel_key (fst a) = tunnel_key t)"
  unfolding create_tunnel_def create_and_read_def Let_def
  by (rule frames_bind [OF frames_record]) (auto intro!: frame_intro simp: assms split: sum.split option.split)

lemma frames_ensure:
  assumes "srv_base s = ep"
  shows "frames k (ensureTunnel (fake_env ep) s t) (\<lambda>a. tunnel_key (fst a) = tunnel_key t)"
  unfolding ensureTunnel_def Let_def
  by (auto intro!: frame_intro frames_create [OF assms] simp: assms split: sum.split)

lemma framed_credential [frame_intro]:
  "srv_base s = ep \<Longrightarrow> k = token_name t \<Longrightarrow> framed k (ensureCredentialSecret (fake_env ep) s t i tok)"
  unfolding ensureCredentialSecret_def Let_def by (auto intro!: frame_intro split: sum.split)

lemma framed_realise:
  assumes "srv_base s = ep" and "k = token_name t" and "rc_Client r = fake_env ep"
  shows "framed k (tunnel_realise r s t remote tok)"
  unfolding tunnel_realise_def Let_def assms(3) using assms(1,2) by (auto intro!: frame_intro split: sum.split)

text \<open>A credential that was good stays good, unless it is kept in the token Secret itself.\<close>

abbreviation credential_name :: "Tunnel \<Rightarrow> NamespacedName" where
  "credential_name t \<equiv> nn (om_Namespace (tn_Meta t)) (cr_Name (ts_Credentials (tn_Spec t)))"

lemma credential_ready_within:
  assumes "credential_ready ep ua t w" and "same_object t t'" and "within k w w'" and "credential_name t \<noteq> k"
  shows "credential_ready ep ua t' w'"
proof -
  have parts: "tn_Spec t' = tn_Spec t" "om_Namespace (tn_Meta t') = om_Namespace (tn_Meta t)"
    using assms(2) by (simp_all add: same_object_def)
  then have "config_of_secret t' ua secret = config_of_secret t ua secret" for secret
    unfolding config_of_secret_def by (simp only:)
  then show ?thesis
    using assms(1,3,4) unfolding credential_ready_def parts by (simp add: within_def around_def)
qed

lemma run_reconcile_around:
  assumes "reconcilable ep (operator_user_agent version) t w" and "om_DeletionTimestamp (tn_Meta t) = None"
    and "run_state (tunnel_Reconcile (main_tunnel_reconciler (fake_env ep) version img) (tunnel_key t)) w = (out, w')"
  shows "around (token_name t) (ext w) (ext w')"
    and "credential_name t \<noteq> token_name t \<Longrightarrow> same_object t t' \<Longrightarrow> credential_ready ep (operator_user_agent version) t' w'"
proof -
  let ?r = "main_tunnel_reconciler (fake_env ep) version img"
  have r: "rc_Client ?r = fake_env ep" "rc_API ?r = apiClients (fake_env ep) version" by simp_all
  have st: "stored (ext w) t" using assms(1) by (simp add: reconcilable_def)
  obtain e where e: "run_state (Get_Tunnel (fake_env ep) (tunnel_key t)) w = (Inr t, emit (ext w) e w)"
    using run_Get_Tunnel [of "fake_http ep" "tunnel_key t" w] st by (auto simp: fake_env_def stored_def)
  obtain t1 w2 where t1: "run_state (add_tunnel_finalizer (fake_env ep) t) (emit (ext w) e w) = (Inr t1, w2)"
      "same_object t t1" "untouched (ext w) (ext w2)" "clients w2 = clients w"
    using run_add_tunnel_finalizer [of "emit (ext w) e w" t ep] st assms(2) by auto
  have "framed (token_name t) (add_tunnel_finalizer (fake_env ep) t)"
    unfolding add_tunnel_finalizer_def Let_def
    by (auto intro!: frames_bind [OF frames_tunnel_writes(1)] frame_intro split: prod.split)
  from framesD [OF this t1(1)] have before: "around (token_name t) (ext w) (ext w2)" by (simp add: within_def)
  have "credential_ready ep (operator_user_agent version) t1 w2"
    using assms(1) credential_ready_same [OF _ t1(2-4)] by (simp add: reconcilable_def)
  from run_apiClients [OF this] obtain c w3 where
      c: "run_state (apiClients (fake_env ep) version t1) w2 = (Inr c, w3)" "srv_base (cl_Tunnel c) = ep" "ext w3 = ext w2"
      "credential_ready ep (operator_user_agent version) t1 w3"
    by blast
  have k: "token_name t = token_name t1" using t1(2) by (simp add: same_object_def)
  let ?rest = "State_Monad.bind (ensureTunnel (fake_env ep) (cl_Tunnel c) t1) (\<lambda>ensured. case ensured of
      (t, Inl err) \<Rightarrow> tunnel_fail (fake_env ep) t ''resolving the tunnel'' err
    | (t, Inr (None, _)) \<Rightarrow> ret Panicked
    | (t, Inr (Some remote, tok)) \<Rightarrow> tunnel_realise ?r (cl_Tunnel c) t remote tok)"
  have "framed (token_name t) ?rest"
    unfolding k using c(2)
    by (intro frames_bind [OF frames_ensure]) (auto intro!: frame_intro framed_realise simp: key_of_def split: sum.split option.split)
  moreover have "run_state ?rest w3 = (out, w')"
    using assms(2,3) e t1(1) c(1) by (simp add: tunnel_Reconcile_def tunnel_sync_def Let_def)
  ultimately have after: "within (token_name t) w3 w'" by (auto dest: framesD)
  then show "around (token_name t) (ext w) (ext w')" using before c(3) around_trans by (simp add: within_def)
  assume "credential_name t \<noteq> token_name t" and "same_object t t'"
  moreover have "credential_name t1 = credential_name t" "same_object t1 t'"
    using t1(2) \<open>same_object t t'\<close> by (simp_all add: same_object_def)
  ultimately show "credential_ready ep (operator_user_agent version) t' w'"
    using credential_ready_within [OF c(4) _ after] by simp
qed

end
