(* ===== verification/Convergence_Properties.thy ===== *)
theory Convergence_Properties
  imports Route_Convergence Tunnel_Frame Sample_World
begin

text \<open>
  The properties of whole reconciles against a platform that answers: they converge, they are
  idempotent, and a deletion completes; and where they leave something behind.
\<close>

section \<open>Tunnels\<close>

text \<open>
  C8. One reconcile realises a Tunnel. Whether the platform has nothing for the object, has a tunnel
  that the status never recorded, has the recorded one, or lost it, a reconcile with a readable
  credential ends without error, to be repeated at the resync period, and leaves: the object with
  its finalizer, synced and recording a tunnel; that tunnel on the platform, the only one with the
  object's external id; its current credential in the token Secret; the agent's pods annotated
  with that Secret's version. The token Secret and the agent's Deployment are missing or the
  operator's to write, the status records no other object's tunnel, and a token already stored is the
  one the platform expects; below is what happens when it is not. When tunnel and credential were there already, the platform is left
  exactly as it was: nothing created, nothing rotated.
\<close>

theorem tunnel_converges:
  assumes "reconcilable ep (operator_user_agent version) t w" and "om_DeletionTimestamp (tn_Meta t) = None"
    and "token_current (ext w) t"
  shows "\<exists>w'. run_state (tunnel_Reconcile (main_tunnel_reconciler (fake_env ep) version img) (tunnel_key t)) w
      = (Returned \<lparr>res_RequeueAfter = resyncPeriod\<rparr> None, w')
    \<and> realised t (ext w') \<and> (in_place t (ext w) \<longrightarrow> plat w' = plat w)"
  using run_tunnel_Reconcile [OF assms(1,2) refl] realised_current [OF _ _ assms(3)] by blast

lemma sample_credential:
  assumes "cu_Secrets (ext w) = sample_secret # ss" and "clients w = Map.empty"
  shows "credential_ready sample_endpoint (operator_user_agent ''dev'') sample_tunnel w"
  unfolding credential_ready_def
  by (rule exI [of _ sample_secret])
     (simp add: assms sample_tunnel_def sample_secret_def sample_meta_def zero_meta_def
        lookup_object_def key_of_def config_of_secret_def secret_value_def id_key_def secret_key_def New_def sample_endpoint_def
        TrimSuffix_def HasSuffix_def Let_def)

lemma sample_credential_ready: "credential_ready sample_endpoint (operator_user_agent ''dev'') sample_tunnel sample_world"
  by (rule sample_credential) (simp_all add: sample_world_def sample_cluster_def)

lemma newFake_sound: "sound_tunnels newFakeAPI"
  by (simp add: sound_tunnels_def newFakeAPI_def)

lemma sample_reconcilable: "reconcilable sample_endpoint (operator_user_agent ''dev'') sample_tunnel sample_world"
proof -
  have "stored (ext sample_world) sample_tunnel"
    by (simp add: stored_def sample_world_def sample_cluster_def lookup_object_def)
  moreover have "recorded sample_tunnel (plat sample_world)" "om_UID (tn_Meta sample_tunnel) \<noteq> []"
    by (simp_all add: recorded_def sample_tunnel_def sample_meta_def)
  moreover have "secret_free (ext sample_world) sample_tunnel" "deployment_free (ext sample_world) sample_tunnel"
    by code_simp+
  ultimately show ?thesis
    using sample_credential_ready newFake_sound
    by (simp add: reconcilable_def) (simp add: sample_world_def sample_cluster_def)
qed

theorem tunnel_converges_witness:
  "\<exists>w'. run_state (tunnel_Reconcile sample_tunnel_reconciler (nn ''team'' ''web'')) sample_world
      = (Returned \<lparr>res_RequeueAfter = resyncPeriod\<rparr> None, w') \<and> realised sample_tunnel (ext w')"
proof -
  have "om_DeletionTimestamp (tn_Meta sample_tunnel) = None" "tunnel_key sample_tunnel = nn ''team'' ''web''"
    by (simp_all add: sample_tunnel_def sample_meta_def zero_meta_def key_of_def)
  moreover have "token_current (ext sample_world) sample_tunnel"
    by (simp add: token_current_def of_external_def sample_world_def sample_cluster_def newFakeAPI_def)
  ultimately show ?thesis
    using tunnel_converges [OF sample_reconcilable, of "''agent:1''"] by (auto simp: sample_tunnel_reconciler_def)
qed

text \<open>
  A deletion completes. A Tunnel marked for deletion whose tunnel is the recorded one, or was
  never recorded, goes with one reconcile: the platform has no tunnel with its external id any
  more and the object is gone from the cluster.
\<close>

lemma tunnel_deletion_completes:
  assumes "stored (ext w) t" and "om_DeletionTimestamp (tn_Meta t) \<noteq> None" and "om_Finalizers (tn_Meta t) = [TunnelFinalizer]"
    and "om_UID (tn_Meta t) \<noteq> []" and "sound_tunnels (plat w)" and "deletable t (plat w)"
    and "credential_ready ep (operator_user_agent version) t w"
  shows "\<exists>w'. run_state (tunnel_Reconcile (main_tunnel_reconciler (fake_env ep) version img) (tunnel_key t)) w
      = (Returned zero_result None, w')
    \<and> lookup_object tn_Meta (tunnel_key t) (cu_Tunnels (ext w')) = Inl NotFoundError
    \<and> of_external (plat w') (om_UID (tn_Meta t)) = None"
  by (rule run_tunnel_deletion [OF assms refl])

text \<open>The sample tunnel on its way out, created on the platform but never recorded.\<close>

definition leaving_tunnel :: Tunnel where
  "leaving_tunnel = sample_tunnel\<lparr>
     tn_Meta := (tn_Meta sample_tunnel)\<lparr>om_DeletionTimestamp := Some ''now'', om_Finalizers := [TunnelFinalizer]\<rparr>,
     tn_Status := (tn_Status sample_tunnel)\<lparr>st_ExternalID := ''uid-1''\<rparr>\<rparr>"

definition leaving_world :: "fakeAPI cluster world" where
  "leaving_world = sample_world\<lparr>ext := sample_cluster\<lparr>cu_Tunnels := [leaving_tunnel], cu_Platform := sample_fake\<rparr>\<rparr>"

lemma sample_fake_sound:
  "sound_tunnels sample_fake" "\<exists>ft. of_external sample_fake ''uid-1'' = Some (''tun-1'', ft) \<and> ft_token ft \<noteq> ''old''"
proof -
  let ?i = "\<lparr>cti_Name = ''web'', cti_ExternalID = ''uid-1''\<rparr>"
  have none: "of_external newFakeAPI (cti_ExternalID ?i) = None" "cti_ExternalID ?i \<noteq> []"
    by (simp_all add: of_external_def newFakeAPI_def)
  have eq: "sample_fake = with_fresh ?i newFakeAPI"
    using fake_creates [OF none(2,1)] by (auto simp: sample_fake_def)
  show "sound_tunnels sample_fake" unfolding eq by (rule sound_with_fresh [OF newFake_sound none(1)])
  have "''tun-'' @ show_nat (Suc (fa_nextID newFakeAPI)) = ''tun-1''" by code_simp
  then show "\<exists>ft. of_external sample_fake ''uid-1'' = Some (''tun-1'', ft) \<and> ft_token ft \<noteq> ''old''"
    using of_external_fresh(1) [OF newFake_sound none] by (simp add: eq)
qed

lemma tunnel_deletion_completes_witness:
  "of_external (plat leaving_world) ''uid-1'' \<noteq> None \<and>
   (\<exists>w'. run_state (tunnel_Reconcile sample_tunnel_reconciler (nn ''team'' ''web'')) leaving_world = (Returned zero_result None, w')
      \<and> lookup_object tn_Meta (nn ''team'' ''web'') (cu_Tunnels (ext w')) = Inl NotFoundError
      \<and> of_external (plat w') ''uid-1'' = None)"
proof -
  have meta: "om_DeletionTimestamp (tn_Meta leaving_tunnel) \<noteq> None" "om_Finalizers (tn_Meta leaving_tunnel) = [TunnelFinalizer]"
    "tunnel_key leaving_tunnel = nn ''team'' ''web''" "om_UID (tn_Meta leaving_tunnel) = ''uid-1''"
    by (simp_all add: leaving_tunnel_def sample_tunnel_def sample_meta_def key_of_def)
  have plat: "plat leaving_world = sample_fake" by (simp add: leaving_world_def)
  have st: "stored (ext leaving_world) leaving_tunnel"
    by (simp add: stored_def leaving_world_def lookup_object_def)
  have del: "deletable leaving_tunnel (plat leaving_world)"
    using sample_fake_sound(2)
    by (auto simp: deletable_def plat meta leaving_tunnel_def sample_tunnel_def split: option.split)
  have "config_of_secret leaving_tunnel ua secret = config_of_secret sample_tunnel ua secret" for ua secret
    by (simp add: config_of_secret_def leaving_tunnel_def Let_def)
  then have cred: "credential_ready sample_endpoint (operator_user_agent ''dev'') leaving_tunnel leaving_world"
    using sample_credential_ready
    by (simp add: credential_ready_def leaving_world_def leaving_tunnel_def sample_world_def)
  from tunnel_deletion_completes [OF st meta(1,2) _ _ del cred, of "''agent:1''"] sample_fake_sound meta(3,4)
  show ?thesis by (auto simp: plat sample_tunnel_reconciler_def)
qed

text \<open>
  C37. A stale record hides a tunnel. When the recorded tunnel is gone from the platform and another
  one carries the object's external id, made and never recorded, the deletion still completes, and
  that tunnel stays on the platform with no object that knows of it.
\<close>

theorem stale_record_leaks_tunnel:
  assumes "stored (ext w) t" and "om_DeletionTimestamp (tn_Meta t) \<noteq> None" and "om_Finalizers (tn_Meta t) = [TunnelFinalizer]"
    and "st_ExternalID (tn_Status t) \<noteq> []" and "plain_id (st_TunnelID (tn_Status t))"
    and "map_of (fa_tunnels (plat w)) (st_TunnelID (tn_Status t)) = None"
    and "credential_ready ep (operator_user_agent version) t w"
  shows "\<exists>w'. run_state (tunnel_Reconcile (main_tunnel_reconciler (fake_env ep) version img) (tunnel_key t)) w
      = (Returned zero_result None, w')
    \<and> lookup_object tn_Meta (tunnel_key t) (cu_Tunnels (ext w')) = Inl NotFoundError
    \<and> of_external (plat w') (om_UID (tn_Meta t)) = of_external (plat w) (om_UID (tn_Meta t))"
proof -
  obtain w' where "run_state (tunnel_Reconcile (main_tunnel_reconciler (fake_env ep) version img) (tunnel_key t)) w = (Returned zero_result None, w')"
      "lookup_object tn_Meta (tunnel_key t) (cu_Tunnels (ext w')) = Inl NotFoundError"
      "plat w' = fake_delete_tunnel (st_TunnelID (tn_Status t)) (plat w)"
    using run_recorded_deletion [OF assms(1-3,5,4,7) refl] by blast
  with of_external_delete_missing [OF assms(6)] show ?thesis by auto
qed

definition stale_tunnel :: Tunnel where
  "stale_tunnel = leaving_tunnel\<lparr>tn_Status := (tn_Status leaving_tunnel)\<lparr>st_TunnelID := ''tun-0''\<rparr>\<rparr>"

definition stale_world :: "fakeAPI cluster world" where
  "stale_world = sample_world\<lparr>ext := sample_cluster\<lparr>cu_Tunnels := [stale_tunnel], cu_Platform := sample_fake\<rparr>\<rparr>"

theorem stale_record_leaks_tunnel_witness:
  "\<exists>w'. run_state (tunnel_Reconcile sample_tunnel_reconciler (nn ''team'' ''web'')) stale_world = (Returned zero_result None, w')
     \<and> lookup_object tn_Meta (nn ''team'' ''web'') (cu_Tunnels (ext w')) = Inl NotFoundError
     \<and> of_external (plat w') ''uid-1'' \<noteq> None"
proof -
  have meta: "om_DeletionTimestamp (tn_Meta stale_tunnel) \<noteq> None" "om_Finalizers (tn_Meta stale_tunnel) = [TunnelFinalizer]"
    "tunnel_key stale_tunnel = nn ''team'' ''web''" "om_UID (tn_Meta stale_tunnel) = ''uid-1''"
    "st_ExternalID (tn_Status stale_tunnel) \<noteq> []" "plain_id (st_TunnelID (tn_Status stale_tunnel))"
    by (simp_all add: stale_tunnel_def leaving_tunnel_def sample_tunnel_def sample_meta_def key_of_def plain_id_def)
  have st: "stored (ext stale_world) stale_tunnel"
    by (simp add: stored_def stale_world_def lookup_object_def)
  have "map_of (fa_tunnels sample_fake) ''tun-0'' = None" by code_simp
  then have none: "map_of (fa_tunnels (plat stale_world)) (st_TunnelID (tn_Status stale_tunnel)) = None"
    by (simp add: stale_world_def stale_tunnel_def)
  have "config_of_secret stale_tunnel ua secret = config_of_secret sample_tunnel ua secret" for ua secret
    by (simp add: config_of_secret_def stale_tunnel_def leaving_tunnel_def Let_def)
  then have cred: "credential_ready sample_endpoint (operator_user_agent ''dev'') stale_tunnel stale_world"
    using sample_credential_ready
    by (simp add: credential_ready_def stale_world_def stale_tunnel_def leaving_tunnel_def sample_world_def)
  have "plat stale_world = sample_fake" by (simp add: stale_world_def)
  with stale_record_leaks_tunnel [OF st meta(1,2,5,6) none cred, of "''agent:1''"] sample_fake_sound(2) meta(3,4)
  show ?thesis by (auto simp: sample_tunnel_reconciler_def)
qed

text \<open>Reconciles of one Tunnel in a row, with what each came to.\<close>

primrec reconciles_in_a_row :: "'x TunnelReconciler \<Rightarrow> NamespacedName \<Rightarrow> nat \<Rightarrow> ('x, outcome list) io" where
  "reconciles_in_a_row r k 0 = ret []"
| "reconciles_in_a_row r k (Suc n) = do {
     out \<leftarrow> tunnel_Reconcile r k;
     outs \<leftarrow> reconciles_in_a_row r k n;
     ret (out # outs)
   }"

text \<open>One reconcile with a token that is not the platform's leaves the same state of affairs.\<close>

lemma stale_token_step:
  assumes "reconcilable ep (operator_user_agent version) t w" and "om_DeletionTimestamp (tn_Meta t) = None"
    and "of_external (plat w) (om_UID (tn_Meta t)) = Some (i, ft)" and "stored_token (ext w) t \<noteq> []"
    and "credential_name t \<noteq> token_name t"
  shows "\<exists>w' t'. run_state (tunnel_Reconcile (main_tunnel_reconciler (fake_env ep) version img) (tunnel_key t)) w
      = (Returned \<lparr>res_RequeueAfter = resyncPeriod\<rparr> None, w')
    \<and> same_object t t' \<and> cond_true (st_Conditions (tn_Status t')) TunnelConditionSynced
    \<and> reconcilable ep (operator_user_agent version) t' w' \<and> stored_token (ext w') t = stored_token (ext w) t
    \<and> of_external (plat w') (om_UID (tn_Meta t)) = Some (i, ft)"
proof -
  obtain w' where w': "run_state (tunnel_Reconcile (main_tunnel_reconciler (fake_env ep) version img) (tunnel_key t)) w
      = (Returned \<lparr>res_RequeueAfter = resyncPeriod\<rparr> None, w')" "realised_with (kept_of t (ext w)) t (ext w')"
      "same_credential t (ext w) (ext w')"
    using run_tunnel_Reconcile [OF assms(1,2) refl] by blast
  have kept: "kept_of t (ext w) = (\<lambda>_. stored_token (ext w) t)" using assms(3,4) by (simp add: kept_def fun_eq_iff)
  have held: "of_external (plat w') (om_UID (tn_Meta t)) = Some (i, ft)" using w'(3) assms(3,4) by (simp add: same_credential_def)
  obtain t' sec d where t': "stored (ext w') t'" "same_object t t'" "cond_true (st_Conditions (tn_Status t')) TunnelConditionSynced"
      "st_TunnelID (tn_Status t') = i" "st_ExternalID (tn_Status t') \<noteq> []" "sound_tunnels (plat w')"
    and sec: "lookup_object sec_Meta (token_name t) (cu_Secrets (ext w')) = Inr sec" "secret_value sec tokenSecretKey = stored_token (ext w) t"
      "takeable t (sec_Meta sec)"
    and d: "lookup_object dp_Meta (agent_name t) (cu_Deployments (ext w')) = Inr d" "takeable t (dp_Meta d)"
    using w'(2) held unfolding realised_with_def kept by auto
  have parts: "om_Name (tn_Meta t') = om_Name (tn_Meta t)" "om_Namespace (tn_Meta t') = om_Namespace (tn_Meta t)"
      "om_UID (tn_Meta t') = om_UID (tn_Meta t)"
    using t'(2) by (simp_all add: same_object_def)
  have "map_of (fa_tunnels (plat w')) i = Some ft" by (rule of_external_map [OF t'(6) held])
  moreover from this have "plain_id i" by (rule sound_entry(2) [OF t'(6)])
  moreover have "external_of (i, ft) = om_UID (tn_Meta t)" using of_external_SomeD(2) [OF held] by simp
  ultimately have "recorded t' (plat w')" using t'(4,5) parts(3) by (simp add: recorded_def)
  moreover have "secret_free (ext w') t'" "deployment_free (ext w') t'"
    using sec(1,3) d unfolding secret_free_def deployment_free_def takeable_def parts by simp_all
  moreover have "credential_ready ep (operator_user_agent version) t' w'"
    by (rule run_reconcile_around(2) [OF assms(1,2) w'(1) assms(5) t'(2)])
  ultimately have "reconcilable ep (operator_user_agent version) t' w'"
    using assms(1) t'(1,6) parts(3) by (simp add: reconcilable_def)
  moreover have "stored_token (ext w') t = stored_token (ext w) t" by (simp add: stored_token_def sec(1,2))
  ultimately show ?thesis using w'(1) t'(2,3) held by blast
qed

text \<open>
  C35. A dead credential is never replaced. When the token Secret holds a token, the platform has the
  object's tunnel and expects another, then however many reconciles follow one another, each with
  every call answered, a readable credential and a Secret and a Deployment that are the operator's
  to write, every one of them ends without error and reports the object synced, and the Secret still
  holds that token and the platform still expects the other. That is the state after a tunnel that
  was made anew could not be read back, so that its token was dropped. The operator's own
  credential is kept in another Secret than the token.
\<close>

theorem stale_token_never_replaced:
  assumes "reconcilable ep (operator_user_agent version) t w" and "om_DeletionTimestamp (tn_Meta t) = None"
    and "of_external (plat w) (om_UID (tn_Meta t)) = Some (i, ft)"
    and "stored_token (ext w) t \<noteq> []" and "stored_token (ext w) t \<noteq> ft_token ft"
    and "credential_name t \<noteq> token_name t"
  shows "\<exists>w' t'. run_state (reconciles_in_a_row (main_tunnel_reconciler (fake_env ep) version img) (tunnel_key t) (Suc n)) w
      = (replicate (Suc n) (Returned \<lparr>res_RequeueAfter = resyncPeriod\<rparr> None), w')
    \<and> stored (ext w') t' \<and> same_object t t' \<and> cond_true (st_Conditions (tn_Status t')) TunnelConditionSynced
    \<and> stored_token (ext w') t = stored_token (ext w) t
    \<and> of_external (plat w') (om_UID (tn_Meta t)) = Some (i, ft)"
  using assms
proof (induction n arbitrary: t w)
  case 0
  from stale_token_step [OF 0(1-4,6), of img] show ?case by (fastforce simp: reconcilable_def)
next
  case (Suc n)
  obtain w1 t1 where w1: "run_state (tunnel_Reconcile (main_tunnel_reconciler (fake_env ep) version img) (tunnel_key t)) w
      = (Returned \<lparr>res_RequeueAfter = resyncPeriod\<rparr> None, w1)" "same_object t t1"
      "reconcilable ep (operator_user_agent version) t1 w1" "stored_token (ext w1) t = stored_token (ext w) t"
      "of_external (plat w1) (om_UID (tn_Meta t)) = Some (i, ft)"
    using stale_token_step [OF Suc.prems(1-4,6), of img] by blast
  have parts: "tn_Spec t1 = tn_Spec t" "om_Name (tn_Meta t1) = om_Name (tn_Meta t)" "om_Namespace (tn_Meta t1) = om_Namespace (tn_Meta t)"
      "om_UID (tn_Meta t1) = om_UID (tn_Meta t)" "om_DeletionTimestamp (tn_Meta t1) = None"
    using w1(2) Suc.prems(2) by (simp_all add: same_object_def)
  have same: "stored_token x t1 = stored_token x t" "tunnel_key t1 = tunnel_key t" for x :: "fakeAPI cluster"
    by (simp_all add: stored_token_def key_of_def parts)
  have "of_external (plat w1) (om_UID (tn_Meta t1)) = Some (i, ft)" "stored_token (ext w1) t1 \<noteq> []" "stored_token (ext w1) t1 \<noteq> ft_token ft"
    "credential_name t1 \<noteq> token_name t1"
    using w1(4,5) Suc.prems(4-6) by (simp_all add: same parts)
  from Suc.IH [OF w1(3) parts(5) this] obtain w' t' where w':
      "run_state (reconciles_in_a_row (main_tunnel_reconciler (fake_env ep) version img) (tunnel_key t) (Suc n)) w1
        = (replicate (Suc n) (Returned \<lparr>res_RequeueAfter = resyncPeriod\<rparr> None), w')"
      "stored (ext w') t'" "same_object t1 t'" "cond_true (st_Conditions (tn_Status t')) TunnelConditionSynced"
      "stored_token (ext w') t = stored_token (ext w) t" "of_external (plat w') (om_UID (tn_Meta t)) = Some (i, ft)"
    unfolding same parts w1(4) by blast
  have "run_state (reconciles_in_a_row (main_tunnel_reconciler (fake_env ep) version img) (tunnel_key t) (Suc (Suc n))) w
      = (replicate (Suc (Suc n)) (Returned \<lparr>res_RequeueAfter = resyncPeriod\<rparr> None), w')"
    unfolding reconciles_in_a_row.simps(2) [of _ _ "Suc n"] by (simp add: w1(1) w'(1) del: reconciles_in_a_row.simps)
  then show ?case using w'(2-) same_object_trans [OF w1(2)] by blast
qed

text \<open>The sample tunnel on the platform and adopted, with the token of an earlier one stored.\<close>

definition old_secret :: Secret where
  "old_secret = \<lparr>sec_Meta = sample_meta (tokenSecretName ''web'') ''uid-5'', sec_Type = ''Opaque'', sec_Data = [tokenSecretKey \<mapsto> ''old'']\<rparr>"

definition old_world :: "fakeAPI cluster world" where
  "old_world = sample_world\<lparr>ext := sample_cluster\<lparr>cu_Secrets := [sample_secret, old_secret], cu_Platform := sample_fake\<rparr>\<rparr>"

theorem stale_token_never_replaced_witness:
  "stored_token (ext old_world) sample_tunnel = ''old'' \<and>
   (\<exists>w' t' ft. run_state (reconciles_in_a_row sample_tunnel_reconciler (nn ''team'' ''web'') 3) old_world
       = (replicate 3 (Returned \<lparr>res_RequeueAfter = resyncPeriod\<rparr> None), w')
     \<and> stored (ext w') t' \<and> cond_true (st_Conditions (tn_Status t')) TunnelConditionSynced
     \<and> stored_token (ext w') sample_tunnel = ''old''
     \<and> of_external (plat w') ''uid-1'' = Some (''tun-1'', ft) \<and> ft_token ft \<noteq> ''old'')"
proof -
  have meta: "om_DeletionTimestamp (tn_Meta sample_tunnel) = None" "tunnel_key sample_tunnel = nn ''team'' ''web''"
      "om_UID (tn_Meta sample_tunnel) = ''uid-1''"
    by (simp_all add: sample_tunnel_def sample_meta_def zero_meta_def key_of_def)
  have token: "stored_token (ext old_world) sample_tunnel = ''old''" by code_simp
  have "sound_tunnels (plat old_world)" using sample_fake_sound(1) by (simp add: old_world_def)
  moreover have "stored (ext old_world) sample_tunnel"
    by (simp add: stored_def old_world_def sample_cluster_def lookup_object_def)
  moreover have "recorded sample_tunnel (plat old_world)" "om_UID (tn_Meta sample_tunnel) \<noteq> []"
    by (simp_all add: recorded_def sample_tunnel_def sample_meta_def)
  moreover have "secret_free (ext old_world) sample_tunnel" "deployment_free (ext old_world) sample_tunnel"
    by code_simp+
  moreover have "credential_ready sample_endpoint (operator_user_agent ''dev'') sample_tunnel old_world"
    by (rule sample_credential) (simp_all add: old_world_def sample_world_def)
  ultimately have rec: "reconcilable sample_endpoint (operator_user_agent ''dev'') sample_tunnel old_world"
    by (simp add: reconcilable_def)
  obtain ft where ft: "of_external (plat old_world) (om_UID (tn_Meta sample_tunnel)) = Some (''tun-1'', ft)" "ft_token ft \<noteq> ''old''"
    using sample_fake_sound(2) meta(3) by (auto simp: old_world_def)
  have stale: "stored_token (ext old_world) sample_tunnel \<noteq> []" "stored_token (ext old_world) sample_tunnel \<noteq> ft_token ft"
    using token ft(2) by auto
  have "length ''cred'' < length (tokenSecretName ''web'')" by (simp add: tokenSecretName_def)
  then have "''cred'' \<noteq> tokenSecretName ''web''" by (metis less_irrefl)
  then have "credential_name sample_tunnel \<noteq> token_name sample_tunnel"
    by (simp add: sample_tunnel_def sample_meta_def)
  from stale_token_never_replaced [OF rec meta(1) ft(1) stale this, of "''agent:1''" 2] token ft(2) meta(2,3)
  show ?thesis by (auto simp: sample_tunnel_reconciler_def numeral_3_eq_3 numeral_2_eq_2 simp del: reconciles_in_a_row.simps replicate.simps)
qed

section \<open>Routes\<close>

text \<open>
  C9. One reconcile publishes a TunnelRoute. With its tunnel on the platform, a readable credential
  and an upstream that resolves, it ends without error, to be repeated at the resync period; the
  object has its finalizer, is Ready and records the tunnel and the identifier of the published
  route; on the platform that route matches the spec in every field, and the other routes of the
  tunnel, every other tunnel and its routes are as they were. When the route was there as the spec
  wants it, the platform is left exactly as it was.
\<close>

theorem route_converges:
  assumes "publishable ep (operator_user_agent version) domain r t host port w" and "om_DeletionTimestamp (tr_Meta r) = None"
  shows "\<exists>w'. run_state (route_Reconcile (main_route_reconciler (fake_env ep) version domain) (route_key r)) w
      = (Returned \<lparr>res_RequeueAfter = resyncPeriod\<rparr> None, w')
    \<and> published r (st_TunnelID (tn_Status t)) host port (ext w) (ext w')
    \<and> (in_place_route r (st_TunnelID (tn_Status t)) host port (plat w) \<longrightarrow> plat w' = plat w)"
  by (rule run_route_Reconcile [OF assms refl refl])

text \<open>The sample tunnel recorded, and its route to be published.\<close>

definition recorded_tunnel :: "string \<Rightarrow> Tunnel" where
  "recorded_tunnel i = sample_tunnel\<lparr>tn_Status := (tn_Status sample_tunnel)\<lparr>st_TunnelID := i, st_ExternalID := ''uid-1''\<rparr>\<rparr>"

definition serving_world :: "TunnelRoute \<Rightarrow> fakeAPI \<Rightarrow> fakeAPI cluster world" where
  "serving_world r f = sample_world\<lparr>ext := sample_cluster\<lparr>cu_Tunnels := [recorded_tunnel ''tun-1''], cu_Routes := [r], cu_Platform := f\<rparr>\<rparr>"

lemma serving_credential:
  "credential_ready sample_endpoint (operator_user_agent ''dev'') (recorded_tunnel i) (serving_world r f)"
proof -
  have "config_of_secret (recorded_tunnel i) ua secret = config_of_secret sample_tunnel ua secret" for ua secret
    by (simp add: config_of_secret_def recorded_tunnel_def Let_def)
  moreover have "credential_ready sample_endpoint (operator_user_agent ''dev'') sample_tunnel (serving_world r f)"
    by (rule sample_credential) (simp_all add: serving_world_def sample_world_def sample_cluster_def)
  ultimately show ?thesis by (simp add: credential_ready_def recorded_tunnel_def)
qed

lemma serving_sel:
  "stored_route (ext (serving_world r f)) r" "plat (serving_world r f) = f"
  "lookup_object tn_Meta (nn ''team'' ''web'') (cu_Tunnels (ext (serving_world r f))) = Inr (recorded_tunnel ''tun-1'')"
  "st_TunnelID (tn_Status (recorded_tunnel i)) = i"
  by (simp_all add: serving_world_def stored_route_def lookup_object_def recorded_tunnel_def sample_tunnel_def sample_meta_def key_of_def)

lemma sample_route_sel:
  "om_Namespace (tr_Meta sample_route) = ''team''" "rs_TunnelRef (tr_Spec sample_route) = ''web''"
  "om_DeletionTimestamp (tr_Meta sample_route) = None" "route_key sample_route = nn ''team'' ''shop''"
  by (simp_all add: sample_route_def sample_meta_def zero_meta_def key_of_def)

abbreviation shop_host :: string where
  "shop_host \<equiv> ''shop.team.svc.cluster.local''"

lemma serving_upstream:
  assumes "om_Namespace (tr_Meta r) = ''team''" and "rs_Upstream (tr_Spec r) = None"
    and "rs_Service (tr_Spec r) = Some \<lparr>sv_Name = ''shop'', sv_Port = StrVal ''http''\<rparr>"
  shows "upstream_of ''cluster.local'' r (ext (serving_world r f)) = Some (shop_host, 80)"
  using assms
  by (simp add: upstream_of_def serving_world_def sample_cluster_def sample_service_def sample_meta_def zero_meta_def lookup_object_def
      key_of_def servicePort_def)

text \<open>The platform with the sample tunnel and some routes.\<close>

definition fake_with :: "string \<Rightarrow> Route list \<Rightarrow> fakeAPI" where
  "fake_with i rs = sample_fake\<lparr>fa_routes := (fa_routes sample_fake)(i := rs)\<rparr>"

lemma fake_with_ok:
  assumes "sound_routes 1 rs" and "length rs = 1 \<or> rs = []"
  shows "fake_ok (ext (serving_world r (fake_with ''tun-1'' rs))) ''tun-1''" "fake_room (ext (serving_world r (fake_with ''tun-1'' rs))) ''tun-1''"
    "fake_ok (ext (serving_world r (fake_with ''tun-0'' qs))) ''tun-1''" "fake_room (ext (serving_world r (fake_with ''tun-0'' qs))) ''tun-1''"
proof -
  have "fa_routes sample_fake ''tun-1'' = []" "map_of (fa_tunnels sample_fake) ''tun-1'' \<noteq> None" "fa_nextID sample_fake = 1" by code_simp+
  then show "fake_ok (ext (serving_world r (fake_with ''tun-1'' rs))) ''tun-1''" "fake_room (ext (serving_world r (fake_with ''tun-1'' rs))) ''tun-1''"
      "fake_ok (ext (serving_world r (fake_with ''tun-0'' qs))) ''tun-1''" "fake_room (ext (serving_world r (fake_with ''tun-0'' qs))) ''tun-1''"
    using assms by (auto simp: fake_ok_def fake_room_def fake_with_def serving_sel sound_routes_def plain_id_def)
qed

lemma shop_publishable:
  assumes "same_route sample_route r"
  shows "publishable sample_endpoint (operator_user_agent ''dev'') ''cluster.local'' r (recorded_tunnel ''tun-1'') shop_host 80
      (serving_world r (fake_with ''tun-0'' qs))"
proof -
  have "rs_Upstream (tr_Spec r) = None" "rs_Service (tr_Spec r) = Some \<lparr>sv_Name = ''shop'', sv_Port = StrVal ''http''\<rparr>"
    "om_Namespace (tr_Meta r) = ''team''" "rs_TunnelRef (tr_Spec r) = ''web''"
    using assms sample_route_sel by (simp_all add: same_route_def key_of_def sample_route_def)
  moreover have "sound_routes 1 []" by (simp add: sound_routes_def)
  ultimately show ?thesis
    using fake_with_ok(3,4) serving_credential by (simp add: publishable_def serving_sel serving_upstream)
qed

theorem route_converges_witness:
  "\<exists>w'. run_state (route_Reconcile sample_route_reconciler (nn ''team'' ''shop'')) (serving_world sample_route (fake_with ''tun-0'' []))
      = (Returned \<lparr>res_RequeueAfter = resyncPeriod\<rparr> None, w')
    \<and> published sample_route ''tun-1'' shop_host 80 (ext (serving_world sample_route (fake_with ''tun-0'' []))) (ext w')"
proof -
  note ready = shop_publishable [OF same_route_refl]
  show ?thesis
    using route_converges [OF ready sample_route_sel(3)]
    by (auto simp: sample_route_reconciler_def serving_sel sample_route_sel)
qed

text \<open>
  C36. A route that moves leaves itself behind. When the object records a route in one tunnel and its
  spec names another, the reconcile publishes it in the latter, records that tunnel, and reports
  success; the recorded route is still published in the former, which the object names no longer.
\<close>

theorem moved_route_left_behind:
  assumes "publishable ep (operator_user_agent version) domain r t host port w" and "om_DeletionTimestamp (tr_Meta r) = None"
    and "rt_TunnelID (tr_Status r) \<noteq> st_TunnelID (tn_Status t)"
    and "q \<in> set (fa_routes (plat w) (rt_TunnelID (tr_Status r)))" and "ro_ID q = rt_RouteID (tr_Status r)"
  shows "\<exists>w' r'. run_state (route_Reconcile (main_route_reconciler (fake_env ep) version domain) (route_key r)) w
      = (Returned \<lparr>res_RequeueAfter = resyncPeriod\<rparr> None, w')
    \<and> stored_route (ext w') r' \<and> same_route r r' \<and> cond_true (rt_Conditions (tr_Status r')) TunnelRouteConditionReady
    \<and> rt_TunnelID (tr_Status r') = st_TunnelID (tn_Status t)
    \<and> q \<in> set (fa_routes (plat w') (rt_TunnelID (tr_Status r)))"
  using run_route_Reconcile [OF assms(1,2) refl refl] assms(3,4) unfolding published_def
  by (metis (no_types, lifting) fun_upd_other)

definition moved_route :: TunnelRoute where
  "moved_route = sample_route\<lparr>tr_Status := (tr_Status sample_route)\<lparr>rt_RouteID := ''rt-0'', rt_TunnelID := ''tun-0''\<rparr>\<rparr>"

theorem moved_route_left_behind_witness:
  "\<exists>w' r'. run_state (route_Reconcile sample_route_reconciler (nn ''team'' ''shop''))
        (serving_world moved_route (fake_with ''tun-0'' [zero_route\<lparr>ro_ID := ''rt-0''\<rparr>]))
      = (Returned \<lparr>res_RequeueAfter = resyncPeriod\<rparr> None, w')
    \<and> stored_route (ext w') r' \<and> rt_TunnelID (tr_Status r') = ''tun-1''
    \<and> zero_route\<lparr>ro_ID := ''rt-0''\<rparr> \<in> set (fa_routes (plat w') ''tun-0'')"
proof -
  let ?q = "zero_route\<lparr>ro_ID := ''rt-0''\<rparr>"
  have same: "same_route sample_route moved_route" by (simp add: moved_route_def)
  have moved: "om_DeletionTimestamp (tr_Meta moved_route) = None" "route_key moved_route = nn ''team'' ''shop''"
    "rt_TunnelID (tr_Status moved_route) = ''tun-0''" "rt_RouteID (tr_Status moved_route) = ''rt-0''"
    using sample_route_sel by (simp_all add: moved_route_def)
  have "rt_TunnelID (tr_Status moved_route) \<noteq> st_TunnelID (tn_Status (recorded_tunnel ''tun-1''))"
    "?q \<in> set (fa_routes (plat (serving_world moved_route (fake_with ''tun-0'' [?q]))) (rt_TunnelID (tr_Status moved_route)))"
    "ro_ID ?q = rt_RouteID (tr_Status moved_route)"
    by (simp_all add: moved serving_sel fake_with_def)
  from moved_route_left_behind [OF shop_publishable [OF same] moved(1) this] show ?thesis
    by (auto simp: sample_route_reconciler_def serving_sel moved)
qed

text \<open>
  C16. The deletion of a route completes. A TunnelRoute marked for deletion that no finalizer but the
  operator's holds goes with one reconcile, when its Tunnel's tunnel is on the platform and the
  credential can be read, or there is no Tunnel or no tunnel on record (and identifiers on record are
  plain path segments):
  the object is gone from the cluster and its route from the tunnel it names, by the recorded
  identifier or, when none was recorded, as the one found for its hostname and path; every other
  route stays. When the tunnel is gone or was never created, there is nothing to take away and the
  object goes at once.
\<close>

theorem route_deletion_completes:
  assumes "removable ep (operator_user_agent version) r w" and "om_DeletionTimestamp (tr_Meta r) \<noteq> None"
  shows "\<exists>w'. run_state (route_Reconcile (main_route_reconciler (fake_env ep) version domain) (route_key r)) w
      = (Returned zero_result None, w')
    \<and> lookup_object tr_Meta (route_key r) (cu_Routes (ext w')) = Inl NotFoundError
    \<and> fa_routes (plat w') = platform_left r (ext w)"
  by (rule run_route_deletion [OF assms refl])

definition leaving_route :: TunnelRoute where
  "leaving_route = sample_route\<lparr>
     tr_Meta := (tr_Meta sample_route)\<lparr>om_DeletionTimestamp := Some ''now'', om_Finalizers := [TunnelRouteFinalizer]\<rparr>\<rparr>"

definition shop_route :: Route where
  "shop_route = zero_route\<lparr>ro_ID := ''rt-1'', ro_Hostname := ''shop.example'', ro_PathPrefix := ''/''\<rparr>"

theorem route_deletion_completes_witness:
  "\<exists>w'. run_state (route_Reconcile sample_route_reconciler (nn ''team'' ''shop''))
        (serving_world leaving_route (fake_with ''tun-1'' [shop_route])) = (Returned zero_result None, w')
    \<and> lookup_object tr_Meta (nn ''team'' ''shop'') (cu_Routes (ext w')) = Inl NotFoundError
    \<and> fa_routes (plat w') ''tun-1'' = []"
proof -
  have r: "om_Namespace (tr_Meta leaving_route) = ''team''" "rs_TunnelRef (tr_Spec leaving_route) = ''web''"
    "om_DeletionTimestamp (tr_Meta leaving_route) \<noteq> None" "route_key leaving_route = nn ''team'' ''shop''"
    "om_Finalizers (tr_Meta leaving_route) = [TunnelRouteFinalizer]" "rt_RouteID (tr_Status leaving_route) = []"
    "rs_Hostname (tr_Spec leaving_route) = ''shop.example''" "pathPrefix leaving_route = ''/''"
    by (simp_all add: leaving_route_def sample_route_def sample_meta_def key_of_def pathPrefix_def)
  have "ro_ID shop_route = ''rt-'' @ show_nat 1" by code_simp
  then have "sound_routes 1 [shop_route]"
    by (auto simp: sound_routes_def wf_route_def shop_route_def zero_route_def int64_def)
  then have rem: "removable sample_endpoint (operator_user_agent ''dev'') leaving_route (serving_world leaving_route (fake_with ''tun-1'' [shop_route]))"
    using fake_with_ok(1) [of "[shop_route]"] serving_credential by (simp add: removable_def r serving_sel)
  have "platform_left leaving_route (ext (serving_world leaving_route (fake_with ''tun-1'' [shop_route]))) ''tun-1'' = []"
    by (simp add: platform_left_def r serving_sel routes_left_def pick_route_def fake_with_def) (simp add: shop_route_def)
  with route_deletion_completes [OF rem r(3), of "''cluster.local''"] show ?thesis
    by (auto simp: sample_route_reconciler_def r)
qed

end
