(* ===== verification/Faults.thy ===== *)
theory Faults
  imports Fake_Runs
begin

text \<open>
  An unreliable connection to the cluster and to the platform. Any call may fail without effect, or
  take effect and lose its answer; which calls do is a list in the state, so that a claim about
  every list is one about every way calls can fail. A crash is a list in which every call fails
  from some point on. An error of the connection is never one that says the object is not there.
\<close>

section \<open>The environment\<close>

datatype fault = Works | Fails | Loses

definition unreliable :: "'e \<Rightarrow> ('x \<Rightarrow> ('e + 'a) \<times> 'x) \<Rightarrow> 'x \<times> fault list \<Rightarrow> ('e + 'a) \<times> 'x \<times> fault list" where
  "unreliable err f s =
     (case s of (x, fs) \<Rightarrow>
       (case f x of (r, x') \<Rightarrow>
         (case fs of
            [] \<Rightarrow> (r, x', [])
          | Works # gs \<Rightarrow> (r, x', gs)
          | Fails # gs \<Rightarrow> (Inl err, x, gs)
          | Loses # gs \<Rightarrow> (Inl err, x', gs))))"

definition TimeoutError :: KubeError where
  "TimeoutError = \<lparr>ke_Reason = ''Timeout'', ke_Message = ''request did not complete''\<rparr>"

abbreviation ku :: "('x \<Rightarrow> (KubeError + 'a) \<times> 'x) \<Rightarrow> 'x \<times> fault list \<Rightarrow> (KubeError + 'a) \<times> 'x \<times> fault list" where
  "ku \<equiv> unreliable TimeoutError"

definition faulty :: "'x env \<Rightarrow> ('x \<times> fault list) env" where
  "faulty b =
     \<lparr>AddFinalizer = AddFinalizer b, RemoveFinalizer = RemoveFinalizer b, ContainsFinalizer = ContainsFinalizer b,
      SetStatusCondition = SetStatusCondition b, IsStatusConditionTrue = IsStatusConditionTrue b,
      kIsNotFound = kIsNotFound b, IgnoreNotFound = IgnoreNotFound b, SetControllerReference = SetControllerReference b,
      bad_url = bad_url b, json_error = json_error b,
      k_get_tunnel = (\<lambda>k. ku (k_get_tunnel b k)), k_get_route = (\<lambda>k. ku (k_get_route b k)),
      k_get_secret = (\<lambda>k. ku (k_get_secret b k)), k_get_service = (\<lambda>k. ku (k_get_service b k)),
      k_list_routes = (\<lambda>ns idx. ku (k_list_routes b ns idx)),
      k_update_tunnel = (\<lambda>t. ku (k_update_tunnel b t)), k_status_tunnel = (\<lambda>t. ku (k_status_tunnel b t)),
      k_update_route = (\<lambda>r. ku (k_update_route b r)), k_status_route = (\<lambda>r. ku (k_status_route b r)),
      k_apply_secret = (\<lambda>s f. ku (k_apply_secret b s f)), k_apply_deployment = (\<lambda>d f. ku (k_apply_deployment b d f)),
      http_do = (\<lambda>c rq. unreliable ''connection reset'' (http_do b c rq))\<rparr>"

lemma faulty_lib [simp]:
  "AddFinalizer (faulty b) = AddFinalizer b" "RemoveFinalizer (faulty b) = RemoveFinalizer b"
  "ContainsFinalizer (faulty b) = ContainsFinalizer b" "SetStatusCondition (faulty b) = SetStatusCondition b"
  "IsStatusConditionTrue (faulty b) = IsStatusConditionTrue b" "kIsNotFound (faulty b) = kIsNotFound b"
  "IgnoreNotFound (faulty b) = IgnoreNotFound b" "SetControllerReference (faulty b) = SetControllerReference b"
  "bad_url (faulty b) = bad_url b" "json_error (faulty b) = json_error b"
  by (simp_all add: faulty_def)

section \<open>Attempts\<close>

text \<open>The cluster and platform of a world under an unreliable connection.\<close>

abbreviation here :: "('x \<times> fault list) world \<Rightarrow> 'x" where
  "here w \<equiv> fst (ext w)"

definition still :: "'x \<Rightarrow> 'x world" where
  "still x = \<lparr>ext = x, trace = [], clients = Map.empty\<rparr>"

lemma ext_still [simp]: "ext (still x) = x"
  by (simp add: still_def)

definition broken_call :: "gerr \<Rightarrow> bool" where
  "broken_call e = (\<not> IsNotFound e \<and> \<not> ref_IsNotFound e)"

text \<open>
  A step over the unreliable connection is the step itself, or it ends with an error of the
  connection before or after the step; the operator's memory is not touched.
\<close>

definition attempts :: "('x \<times> fault list, gerr + 'a) io \<Rightarrow> ('x, gerr + 'a) io \<Rightarrow> bool" where
  "attempts mf m =
     (\<forall>w. let (r, w') = run_state mf w; (r0, w0) = run_state m (still (here w)) in
        clients w' = clients w
        \<and> (r = r0 \<and> here w' = ext w0
            \<or> (\<exists>e. r = Inl e \<and> broken_call e \<and> (here w' = here w \<or> here w' = ext w0))))"

lemma wp_attempts:
  assumes "attempts mf m" and "run_state m (still (here w)) = (r0, w0)"
    and "\<And>w'. clients w' = clients w \<Longrightarrow> here w' = ext w0 \<Longrightarrow> Q r0 w'"
    and "\<And>e w'. broken_call e \<Longrightarrow> clients w' = clients w \<Longrightarrow> here w' = here w \<or> here w' = ext w0 \<Longrightarrow> Q (Inl e) w'"
  shows "wp mf Q w"
proof -
  obtain r w' where r: "run_state mf w = (r, w')" by fastforce
  from assms(1) [unfolded attempts_def, rule_format, of w] r assms(2)
  have "clients w' = clients w" "r = r0 \<and> here w' = ext w0 \<or> (\<exists>e. r = Inl e \<and> broken_call e \<and> (here w' = here w \<or> here w' = ext w0))"
    by simp_all
  then show ?thesis using assms(3,4) r by (auto simp: wp_def)
qed

lemma attempts_kube_call: "attempts (kube_call (ku f) ev) (kube_call f ev')"
proof -
  have "broken_call (ErrKube TimeoutError)"
    by (simp add: broken_call_def TimeoutError_def IsNotFound_def StatusOf_def ref_IsNotFound_def)
  then show ?thesis
    by (auto simp: attempts_def run_kube_call unreliable_def split: prod.splits list.splits fault.splits)
qed

lemma attempts_kube:
  "attempts (Get_Tunnel (faulty b) k) (Get_Tunnel b k)" "attempts (Get_TunnelRoute (faulty b) k) (Get_TunnelRoute b k)"
  "attempts (Get_Secret (faulty b) k) (Get_Secret b k)" "attempts (Get_Service (faulty b) k) (Get_Service b k)"
  "attempts (Update_Tunnel (faulty b) t) (Update_Tunnel b t)" "attempts (StatusUpdate_Tunnel (faulty b) t) (StatusUpdate_Tunnel b t)"
  "attempts (Update_TunnelRoute (faulty b) r) (Update_TunnelRoute b r)"
  "attempts (StatusUpdate_TunnelRoute (faulty b) r) (StatusUpdate_TunnelRoute b r)"
  "attempts (CreateOrUpdate_Secret (faulty b) s f) (CreateOrUpdate_Secret b s f)"
  "attempts (CreateOrUpdate_Deployment (faulty b) d g) (CreateOrUpdate_Deployment b d g)"
  unfolding call_defs by (simp_all add: faulty_def attempts_kube_call)

text \<open>A request without an answer is a transport error; the address is the same over both connections.\<close>

lemma attempts_do_request:
  "attempts (do_request (faulty b) s m p body out zero) (do_request b s m p body out zero)"
proof -
  have "read_answer (faulty b) s m p out zero ans = read_answer b s m p out zero ans" for ans
    unfolding read_answer_def faulty_lib ..
  moreover have "\<exists>e. read_answer b s m p out zero (Inl msg) = Inl e \<and> broken_call e" for msg
    by (simp add: read_answer_def broken_call_def IsNotFound_def StatusOf_def ref_IsNotFound_def)
  ultimately show ?thesis
    unfolding attempts_def do_request_def HTTP_Do_def
    by (auto simp: run_ext_call unreliable_def faulty_def split: option.splits prod.splits list.splits fault.splits)
qed

end
