(* ===== verification/System_State.thy ===== *)
theory System_State
  imports Faults Tunnel_Convergence
begin

text \<open>
  The invariant of a cluster with its platform while the operator works on it: what is on the platform
  for a Tunnel, what the object says of it, and what its token Secret holds agree in every state
  between two calls. It is kept by a write of one object, by a change of one tunnel of the
  platform, and by a write of one Secret or Deployment.
\<close>

section \<open>The invariant\<close>

text \<open>The platform the endpoints of a Tunnel lead to.\<close>

definition platform_of :: "Tunnel \<Rightarrow> string" where
  "platform_of t = TrimSuffix
     (case ts_Endpoints (tn_Spec t) of None \<Rightarrow> DefaultTunnelEndpoint
        | Some e \<Rightarrow> if ep_API e = [] then DefaultTunnelEndpoint else ep_API e) ''/''"

text \<open>
  A recorded identifier is one the platform gave to this object; what the platform has for the object is
  what it records or has not recorded yet, behind the finalizer and with the external id on
  record; and a stored token is that tunnel's.
\<close>

definition id_ok :: "string \<Rightarrow> string \<Rightarrow> fakeAPI \<Rightarrow> bool" where
  "id_ok i uid f = (i = [] \<or> (\<exists>k \<le> fa_nextID f. i = ''tun-'' @ show_nat k)
     \<and> (\<forall>ft. map_of (fa_tunnels f) i = Some ft \<longrightarrow> external_of (i, ft) = uid))"

definition held_ok :: "Tunnel \<Rightarrow> string \<Rightarrow> fakeAPI \<Rightarrow> bool" where
  "held_ok t token f =
     (case of_external f (om_UID (tn_Meta t)) of
        None \<Rightarrow> om_DeletionTimestamp (tn_Meta t) = None \<longrightarrow> st_TunnelID (tn_Status t) = [] \<and> token = []
      | Some (i, ft) \<Rightarrow> TunnelFinalizer \<in> set (om_Finalizers (tn_Meta t)) \<and> st_ExternalID (tn_Status t) \<noteq> []
          \<and> st_TunnelID (tn_Status t) \<in> {[], i} \<and> token \<in> {[], ft_token ft})"

definition tunnel_ok :: "string \<Rightarrow> Tunnel \<Rightarrow> fakeAPI cluster \<Rightarrow> bool" where
  "tunnel_ok ep t x =
     (om_UID (tn_Meta t) \<noteq> [] \<and> platform_of t = ep
      \<and> (st_TunnelID (tn_Status t) \<noteq> [] \<longrightarrow> st_ExternalID (tn_Status t) \<noteq> [])
      \<and> id_ok (st_TunnelID (tn_Status t)) (om_UID (tn_Meta t)) (cu_Platform x)
      \<and> held_ok t (stored_token x t) (cu_Platform x)
      \<and> secret_free x t \<and> deployment_free x t)"

definition versions_ok :: "fakeAPI cluster \<Rightarrow> bool" where
  "versions_ok x = list_all (\<lambda>t. \<exists>n < cu_Version x. om_ResourceVersion (tn_Meta t) = show_nat n) (cu_Tunnels x)"

definition no_orphans :: "fakeAPI cluster \<Rightarrow> bool" where
  "no_orphans x = list_all (\<lambda>e. external_of e \<in> set (map (\<lambda>t. om_UID (tn_Meta t)) (cu_Tunnels x))) (fa_tunnels (cu_Platform x))"

text \<open>The routes of each tunnel have identifiers of their own, all given out by the platform.\<close>

definition listed :: "nat \<Rightarrow> Route list \<Rightarrow> bool" where
  "listed n rs = (distinct (map ro_ID rs) \<and> list_all (\<lambda>r. \<exists>k \<le> n. ro_ID r = ''rt-'' @ show_nat k) rs)"

definition lists_ok :: "fakeAPI \<Rightarrow> bool" where
  "lists_ok f = (\<forall>k. listed (fa_nextID f) (fa_routes f k))"

definition sys_ok :: "string \<Rightarrow> fakeAPI cluster \<Rightarrow> bool" where
  "sys_ok ep x =
     (sound_tunnels (cu_Platform x) \<and> lists_ok (cu_Platform x) \<and> no_orphans x \<and> versions_ok x
      \<and> distinct (map tunnel_key (cu_Tunnels x)) \<and> distinct (map (\<lambda>t. om_UID (tn_Meta t)) (cu_Tunnels x))
      \<and> list_all (\<lambda>t. tunnel_ok ep t x) (cu_Tunnels x))"

section \<open>Reading it\<close>

lemma sys_ok_member:
  assumes "sys_ok ep x" and "t \<in> set (cu_Tunnels x)"
  shows "tunnel_ok ep t x" "stored x t"
proof -
  show "tunnel_ok ep t x" using assms by (simp add: sys_ok_def list_all_iff)
  have "find (\<lambda>y. tunnel_key y = tunnel_key t) ts = Some t" if "distinct (map tunnel_key ts)" "t \<in> set ts" for ts
    using that by (induction ts) (auto simp: rev_image_eqI)
  then show "stored x t" using assms by (simp add: stored_def lookup_object_def sys_ok_def)
qed

lemma stored_member: "stored x t \<Longrightarrow> t \<in> set (cu_Tunnels x)"
  by (auto simp: stored_def lookup_object_def find_Some_iff split: option.splits)

lemma same_key_same:
  assumes "sys_ok ep x" and "t \<in> set (cu_Tunnels x)" and "t' \<in> set (cu_Tunnels x)"
    and "tunnel_key t' = tunnel_key t \<or> om_UID (tn_Meta t') = om_UID (tn_Meta t)"
  shows "t' = t"
  using assms by (auto simp: sys_ok_def distinct_map dest: inj_onD)

lemma sys_ok_owner:
  assumes "sys_ok ep x" and "e \<in> set (fa_tunnels (cu_Platform x))"
  shows "\<exists>t \<in> set (cu_Tunnels x). om_UID (tn_Meta t) = external_of e"
  using assms by (fastforce simp: sys_ok_def no_orphans_def list_all_iff image_iff)

lemma external_in_use:
  assumes "sys_ok ep x" and "of_external (cu_Platform x) e = Some y"
  shows "e \<in> set (map (\<lambda>t. om_UID (tn_Meta t)) (cu_Tunnels x))"
  using assms of_external_SomeD [OF assms(2)] by (auto simp: sys_ok_def no_orphans_def list_all_iff)

text \<open>A Tunnel's invariant reads its own part of the state only.\<close>

lemma tunnel_ok_cong:
  assumes "tunnel_ok ep t x"
    and "of_external (cu_Platform x') (om_UID (tn_Meta t)) = of_external (cu_Platform x) (om_UID (tn_Meta t))"
    and "id_ok (st_TunnelID (tn_Status t)) (om_UID (tn_Meta t)) (cu_Platform x')"
    and "lookup_object sec_Meta (token_name t) (cu_Secrets x') = lookup_object sec_Meta (token_name t) (cu_Secrets x)"
    and "lookup_object dp_Meta (agent_name t) (cu_Deployments x') = lookup_object dp_Meta (agent_name t) (cu_Deployments x)"
  shows "tunnel_ok ep t x'"
  using assms by (simp add: tunnel_ok_def held_ok_def stored_token_def secret_free_def deployment_free_def)

section \<open>What keeps it\<close>

lemma listed_mono: "listed n rs \<Longrightarrow> n \<le> m \<Longrightarrow> listed m rs"
  using le_trans by (fastforce simp: listed_def list_all_iff)

lemma listed_filter: "listed n rs \<Longrightarrow> listed n (filter P rs)"
  by (auto simp: listed_def list_all_iff distinct_map_filter)

lemma lists_ok_mono: "lists_ok f \<Longrightarrow> fa_routes f' = fa_routes f \<Longrightarrow> fa_nextID f \<le> fa_nextID f' \<Longrightarrow> lists_ok f'"
  using listed_mono by (fastforce simp: lists_ok_def)

lemma rewritten_version [simp]: "cu_Version (rewritten x new) = Suc (cu_Version x)"
  by (simp add: rewritten_def)

lemma tunnel_ok_rewritten [simp]: "tunnel_ok ep t (rewritten x new) = tunnel_ok ep t x"
  by (simp add: tunnel_ok_def stored_token_def secret_free_def deployment_free_def)

text \<open>A write of one object, that lets it go only when the platform has nothing for it.\<close>

lemma sys_ok_rewritten:
  assumes "sys_ok ep x" and old: "old \<in> set (cu_Tunnels x)"
    and key: "tunnel_key new = tunnel_key old" and uid: "om_UID (tn_Meta new) = om_UID (tn_Meta old)"
    and version: "om_ResourceVersion (tn_Meta new) = show_nat (cu_Version x)"
    and gone: "om_DeletionTimestamp (tn_Meta new) \<noteq> None \<Longrightarrow> om_Finalizers (tn_Meta new) = [] \<Longrightarrow>
      of_external (cu_Platform x) (om_UID (tn_Meta old)) = None"
    and kept: "om_DeletionTimestamp (tn_Meta new) = None \<or> om_Finalizers (tn_Meta new) \<noteq> [] \<Longrightarrow> tunnel_ok ep new x"
  shows "sys_ok ep (rewritten x new)"
proof (cases "om_DeletionTimestamp (tn_Meta new) \<noteq> None \<and> om_Finalizers (tn_Meta new) = []")
  case True
  let ?ts = "filter (\<lambda>y. tunnel_key y \<noteq> tunnel_key old) (cu_Tunnels x)"
  have ts: "cu_Tunnels (rewritten x new) = ?ts" using True key by (simp add: rewritten_def replace_object_def)
  have "external_of e \<in> set (map (\<lambda>t. om_UID (tn_Meta t)) ?ts)" if e: "e \<in> set (fa_tunnels (cu_Platform x))" for e
  proof -
    obtain t where t: "t \<in> set (cu_Tunnels x)" "om_UID (tn_Meta t) = external_of e"
      using sys_ok_owner [OF assms(1) e] by blast
    moreover have "external_of e \<noteq> om_UID (tn_Meta old)" using gone True e by (auto simp: of_external_None)
    ultimately have "tunnel_key t \<noteq> tunnel_key old" using same_key_same [OF assms(1) old t(1)] by auto
    with t show ?thesis by (auto simp: image_iff)
  qed
  then show ?thesis
    using assms(1) by (auto simp: sys_ok_def ts no_orphans_def versions_ok_def list_all_iff distinct_map_filter less_Suc_eq)
next
  case False
  let ?g = "\<lambda>y. if tunnel_key y = tunnel_key old then new else y"
  have ts: "cu_Tunnels (rewritten x new) = map ?g (cu_Tunnels x)" using False key by (auto simp: rewritten_def replace_object_def)
  have g: "tunnel_key (?g y) = tunnel_key y \<and> om_UID (tn_Meta (?g y)) = om_UID (tn_Meta y)" if "y \<in> set (cu_Tunnels x)" for y
    using same_key_same [OF assms(1) old that] key uid by auto
  then have same: "map tunnel_key (map ?g (cu_Tunnels x)) = map tunnel_key (cu_Tunnels x)"
    "map (\<lambda>t. om_UID (tn_Meta t)) (map ?g (cu_Tunnels x)) = map (\<lambda>t. om_UID (tn_Meta t)) (cu_Tunnels x)"
    by simp_all
  have "versions_ok (rewritten x new)"
    using assms(1) version by (fastforce simp: versions_ok_def ts list_all_iff sys_ok_def)
  moreover have "list_all (\<lambda>t. tunnel_ok ep t x) (map ?g (cu_Tunnels x))"
    using assms(1) kept False by (auto simp: sys_ok_def list_all_iff)
  ultimately show ?thesis
    using assms(1) unfolding sys_ok_def no_orphans_def ts same rewritten_sel tunnel_ok_rewritten by blast
qed

text \<open>
  The platform changed for one external id: no other tunnel appears, goes or changes, and an identifier
  in use was in use for the same external id before, or is new.
\<close>

definition changed_for :: "string \<Rightarrow> fakeAPI \<Rightarrow> fakeAPI \<Rightarrow> bool" where
  "changed_for uid f f' =
     (sound_tunnels f' \<and> (lists_ok f \<longrightarrow> lists_ok f') \<and> fa_nextID f \<le> fa_nextID f' \<and> (\<forall>e. e \<noteq> uid \<longrightarrow> of_external f' e = of_external f e)
      \<and> (\<forall>k ft. k \<le> fa_nextID f \<longrightarrow> map_of (fa_tunnels f') (''tun-'' @ show_nat k) = Some ft \<longrightarrow>
           (\<exists>ft'. map_of (fa_tunnels f) (''tun-'' @ show_nat k) = Some ft' \<and> external_of (''tun-'' @ show_nat k, ft') = external_of (''tun-'' @ show_nat k, ft))))"

lemma id_ok_changed:
  assumes "id_ok i e f" and "changed_for uid f f'"
  shows "id_ok i e f'"
proof (cases "i = []")
  case False
  then obtain k where k: "k \<le> fa_nextID f" "i = ''tun-'' @ show_nat k"
      "\<And>ft. map_of (fa_tunnels f) i = Some ft \<Longrightarrow> external_of (i, ft) = e"
    using assms(1) unfolding id_ok_def by blast
  have "external_of (i, ft) = e" if "map_of (fa_tunnels f') i = Some ft" for ft
    using assms(2) k that unfolding changed_for_def by metis
  moreover have "k \<le> fa_nextID f'" using k(1) assms(2) by (simp add: changed_for_def)
  ultimately show ?thesis using k(2) unfolding id_ok_def by blast
qed (simp add: id_ok_def)

lemma sys_ok_platform:
  assumes "sys_ok ep x" and t: "t \<in> set (cu_Tunnels x)" and f: "changed_for (om_UID (tn_Meta t)) (cu_Platform x) f'"
    and ok: "held_ok t (stored_token x t) f'"
  shows "sys_ok ep (x\<lparr>cu_Platform := f'\<rparr>)"
proof -
  let ?x = "x\<lparr>cu_Platform := f'\<rparr>"
  have "tunnel_ok ep u ?x" if u: "u \<in> set (cu_Tunnels x)" for u
  proof -
    note mine = sys_ok_member(1) [OF assms(1) u]
    have id: "id_ok (st_TunnelID (tn_Status u)) (om_UID (tn_Meta u)) f'"
      using id_ok_changed [OF _ f] mine by (simp add: tunnel_ok_def)
    show ?thesis
    proof (cases "u = t")
      case True
      with mine id ok show ?thesis by (simp add: tunnel_ok_def stored_token_def secret_free_def deployment_free_def)
    next
      case False
      then have "om_UID (tn_Meta u) \<noteq> om_UID (tn_Meta t)" using same_key_same [OF assms(1) t u] by blast
      then show ?thesis by (intro tunnel_ok_cong [OF mine]) (use id f in \<open>simp_all add: changed_for_def\<close>)
    qed
  qed
  moreover have "external_of e \<in> set (map (\<lambda>t. om_UID (tn_Meta t)) (cu_Tunnels x))" if e: "e \<in> set (fa_tunnels f')" for e
  proof (cases "external_of e = om_UID (tn_Meta t)")
    case False
    moreover have "of_external f' (external_of e) \<noteq> None" using e of_external_None by blast
    ultimately show ?thesis using f external_in_use [OF assms(1)] by (auto simp: changed_for_def)
  qed (use t in auto)
  ultimately show ?thesis
    using assms(1) f by (auto simp: sys_ok_def no_orphans_def versions_ok_def list_all_iff changed_for_def)
qed

lemma sys_ok_secret:
  assumes "sys_ok ep x" and t: "t \<in> set (cu_Tunnels x)" and w: "secret_written t x x'"
    and ok: "held_ok t (stored_token x' t) (cu_Platform x)" "secret_free x' t"
  shows "sys_ok ep x'"
proof -
  note sel = secret_written_sel [OF w]
  have "tunnel_ok ep u x'" if u: "u \<in> set (cu_Tunnels x)" for u
  proof (cases "u = t")
    case True
    then show ?thesis using sys_ok_member(1) [OF assms(1) u] ok sel(3,4) by (simp add: tunnel_ok_def deployment_free_def)
  next
    case False
    then have "token_name u \<noteq> token_name t" using same_key_same [OF assms(1) t u] by (auto simp: key_of_def)
    then show ?thesis
      by (intro tunnel_ok_cong [OF sys_ok_member(1) [OF assms(1) u]])
         (use sel sys_ok_member(1) [OF assms(1) u] in \<open>simp_all add: tunnel_ok_def\<close>)
  qed
  then show ?thesis
    using assms(1) sel by (auto simp: sys_ok_def no_orphans_def versions_ok_def list_all_iff less_Suc_eq)
qed

lemma sys_ok_deployment:
  assumes "sys_ok ep x" and t: "t \<in> set (cu_Tunnels x)" and w: "deployment_written t x x'" and ok: "deployment_free x' t"
  shows "sys_ok ep x'"
proof -
  note sel = deployment_written_sel [OF w]
  have "tunnel_ok ep u x'" if u: "u \<in> set (cu_Tunnels x)" for u
  proof (cases "u = t")
    case True
    then show ?thesis using sys_ok_member(1) [OF assms(1) u] ok sel(3,4) by (simp add: tunnel_ok_def stored_token_def secret_free_def)
  next
    case False
    then have "agent_name u \<noteq> agent_name t" using same_key_same [OF assms(1) t u] by (auto simp: key_of_def agentDeploymentName_def)
    then show ?thesis
      by (intro tunnel_ok_cong [OF sys_ok_member(1) [OF assms(1) u]])
         (use sel sys_ok_member(1) [OF assms(1) u] in \<open>simp_all add: tunnel_ok_def\<close>)
  qed
  then show ?thesis
    using assms(1) sel by (auto simp: sys_ok_def no_orphans_def versions_ok_def list_all_iff less_Suc_eq)
qed

end
