(* ===== verification/System_Runs.thy ===== *)
theory System_Runs
  imports System_State
begin

text \<open>
  Every call of a reconcile of a Tunnel keeps the invariant, whether it works, fails or loses its
  answer: rules for the calls over the unreliable connection, put together method by method.
\<close>

section \<open>The operator at work\<close>

definition clients_ok :: "string \<Rightarrow> (string \<rightharpoonup> Client) \<Rightarrow> bool" where
  "clients_ok ep cs = (\<forall>c \<in> ran cs. srv_base (cl_Tunnel c) = ep)"

text \<open>The invariant of the whole; and with a Tunnel at hand that is as the cluster has it, or was so.\<close>

definition keeps :: "string \<Rightarrow> (fakeAPI cluster \<times> fault list) world \<Rightarrow> bool" where
  "keeps ep w = (sys_ok ep (here w) \<and> clients_ok ep (clients w))"

definition mine :: "string \<Rightarrow> Tunnel \<Rightarrow> (fakeAPI cluster \<times> fault list) world \<Rightarrow> bool" where
  "mine ep t w = (keeps ep w \<and> t \<in> set (cu_Tunnels (here w)))"

definition stale :: "Tunnel \<Rightarrow> fakeAPI cluster \<Rightarrow> bool" where
  "stale t x = (\<exists>old \<in> set (cu_Tunnels x). tunnel_key old = tunnel_key t \<and> om_UID (tn_Meta old) = om_UID (tn_Meta t)
     \<and> (om_ResourceVersion (tn_Meta old) = om_ResourceVersion (tn_Meta t) \<longrightarrow> tn_Meta old = tn_Meta t \<and> tn_Spec old = tn_Spec t))"

definition outdated :: "string \<Rightarrow> Tunnel \<Rightarrow> (fakeAPI cluster \<times> fault list) world \<Rightarrow> bool" where
  "outdated ep t w = (keeps ep w \<and> stale t (here w) \<and> tunnel_ok ep t (here w) \<and> om_DeletionTimestamp (tn_Meta t) = None)"

lemma mine_ok: "mine ep t w \<Longrightarrow> tunnel_ok ep t (here w)"
  using sys_ok_member(1) by (simp add: mine_def keeps_def)

lemma mine_outdated: "mine ep t w \<Longrightarrow> om_DeletionTimestamp (tn_Meta t) = None \<Longrightarrow> outdated ep t w"
  using mine_ok [of ep t w] by (auto simp: outdated_def stale_def mine_def)

lemma keeps_emit [simp]: "keeps ep (emit (ext w) c w) = keeps ep w" "mine ep t (emit (ext w) c w) = mine ep t w"
  "outdated ep t (emit (ext w) c w) = outdated ep t w"
  by (simp_all add: keeps_def mine_def outdated_def)

text \<open>What the invariant reads of a Tunnel: a change of its conditions or of its version leaves it alone.\<close>

lemma tunnel_ok_same:
  assumes "same_object t t'" and "om_Finalizers (tn_Meta t') = om_Finalizers (tn_Meta t)"
    and "st_TunnelID (tn_Status t') = st_TunnelID (tn_Status t)" and "st_ExternalID (tn_Status t') = st_ExternalID (tn_Status t)"
  shows "tunnel_ok ep t' x = tunnel_ok ep t x"
proof -
  have parts: "tn_Spec t' = tn_Spec t" "om_UID (tn_Meta t') = om_UID (tn_Meta t)"
    "om_DeletionTimestamp (tn_Meta t') = om_DeletionTimestamp (tn_Meta t)"
    using assms(1) by (simp_all add: same_object_def)
  show ?thesis
    unfolding tunnel_ok_def held_ok_def platform_of_def
    by (simp only: parts assms(2-4) same_secrets [OF assms(1) refl refl])
qed

lemma tunnel_ok_status:
  assumes "st_TunnelID s = st_TunnelID (tn_Status t)" and "st_ExternalID s = st_ExternalID (tn_Status t)"
  shows "tunnel_ok ep (t\<lparr>tn_Status := s\<rparr>) x = tunnel_ok ep t x"
  by (rule tunnel_ok_same) (simp_all add: same_object_def assms)

lemma outdated_status:
  assumes "st_TunnelID s = st_TunnelID (tn_Status t)" and "st_ExternalID s = st_ExternalID (tn_Status t)"
  shows "outdated ep (t\<lparr>tn_Status := s\<rparr>) w = outdated ep t w"
  using tunnel_ok_status [OF assms] by (simp add: outdated_def stale_def)

lemma tunnel_ok_version [simp]: "tunnel_ok ep (t\<lparr>tn_Meta := (tn_Meta t)\<lparr>om_ResourceVersion := v\<rparr>\<rparr>) x = tunnel_ok ep t x"
  by (rule tunnel_ok_same) (simp_all add: same_object_def)

section \<open>Writes of the object\<close>

text \<open>The object with a new version.\<close>

abbreviation versioned :: "Tunnel \<Rightarrow> fakeAPI cluster \<Rightarrow> Tunnel" where
  "versioned t x \<equiv> t\<lparr>tn_Meta := (tn_Meta t)\<lparr>om_ResourceVersion := show_nat (cu_Version x)\<rparr>\<rparr>"

lemma keeps_rewritten:
  assumes "outdated ep t w" and "old \<in> set (cu_Tunnels (here w))" and "tunnel_key old = tunnel_key t"
    and "om_UID (tn_Meta old) = om_UID (tn_Meta t)" and "clients w' = clients w"
    and "here w' = rewritten (here w) (versioned t (here w))"
  shows "mine ep (versioned t (here w)) w'"
proof -
  let ?new = "versioned t (here w)"
  have ok: "sys_ok ep (here w)" using assms(1) by (simp add: outdated_def keeps_def)
  have "sys_ok ep (rewritten (here w) ?new)"
    by (rule sys_ok_rewritten [OF ok assms(2)]) (use assms(1,3,4) in \<open>simp_all add: outdated_def keeps_def\<close>)
  moreover have "stored (rewritten (here w) ?new) ?new"
    by (rule stored_rewritten [OF sys_ok_member(2) [OF ok assms(2)]]) (use assms(1,3) in \<open>simp_all add: outdated_def keeps_def\<close>)
  ultimately show ?thesis
    using assms(1,5,6) stored_member by (simp add: mine_def keeps_def outdated_def)
qed

lemma wp_StatusUpdate:
  assumes out: "outdated ep t w"
    and good: "\<And>w'. mine ep (versioned t (here w)) w' \<Longrightarrow> here w' = rewritten (here w) (versioned t (here w)) \<Longrightarrow>
      Q (Inr (versioned t (here w))) w'"
    and bad: "\<And>e w'. outdated ep t w' \<Longrightarrow> Q (Inl e) w'"
  shows "wp (StatusUpdate_Tunnel (faulty (fake_env ep)) t) Q w"
proof -
  let ?x = "here w" and ?new = "versioned t (here w)"
  have ok: "sys_ok ep ?x" using out by (simp add: outdated_def keeps_def)
  obtain old where old: "old \<in> set (cu_Tunnels ?x)" "tunnel_key old = tunnel_key t" "om_UID (tn_Meta old) = om_UID (tn_Meta t)"
      "om_ResourceVersion (tn_Meta old) = om_ResourceVersion (tn_Meta t) \<longrightarrow> tn_Meta old = tn_Meta t \<and> tn_Spec old = tn_Spec t"
    using out by (auto simp: outdated_def stale_def)
  have st: "stored ?x old" by (rule sys_ok_member(2) [OF ok old(1)])
  have same: "outdated ep t w'" if "clients w' = clients w" "here w' = here w" for w'
    using out that by (simp add: outdated_def keeps_def)
  show ?thesis
  proof (cases "om_ResourceVersion (tn_Meta old) = om_ResourceVersion (tn_Meta t)")
    case False
    obtain c where "run_state (StatusUpdate_Tunnel (fake_env ep) t) (still ?x) = (Inl (ErrKube ConflictError), emit ?x c (still ?x))"
      using st old(2) False
      by (auto simp: StatusUpdate_Tunnel_def run_kube_call fake_env_def cluster_env_def status_tunnel_in_def write_object_def
          commit_def stored_def)
    then show ?thesis
      by (rule wp_attempts [OF attempts_kube(6)]) (auto intro!: bad same)
  next
    case True
    with old(4) have "t = old\<lparr>tn_Status := tn_Status t\<rparr>" by simp
    moreover have "?new = old\<lparr>tn_Meta := (tn_Meta old)\<lparr>om_ResourceVersion := show_nat (cu_Version (ext (still ?x)))\<rparr>, tn_Status := tn_Status t\<rparr>"
      using True old(4) by simp
    ultimately obtain c where run: "run_state (StatusUpdate_Tunnel (fake_env ep) t) (still ?x) = (Inr ?new, emit (rewritten ?x ?new) c (still ?x))"
      using run_StatusUpdate_Tunnel [of "still ?x" old t "tn_Status t" ?new "fake_http ep"] st by (auto simp: fake_env_def)
    have after: "mine ep ?new w'" if "clients w' = clients w" "here w' = rewritten ?x ?new" for w'
      by (rule keeps_rewritten [OF out old(1-3) that])
    have "outdated ep t w'" if w': "clients w' = clients w" "here w' = rewritten ?x ?new" for w'
    proof -
      obtain n where "n < cu_Version ?x" "om_ResourceVersion (tn_Meta t) = show_nat n"
        using ok old(1) True by (auto simp: sys_ok_def versions_ok_def list_all_iff)
      then have "om_ResourceVersion (tn_Meta ?new) \<noteq> om_ResourceVersion (tn_Meta t)" by simp
      then have "stale t (here w')"
        using after [OF w'] unfolding stale_def mine_def by (intro bexI [of _ ?new]) (simp_all add: key_of_def)
      with after [OF w'] out show ?thesis using w'(2) by (simp add: outdated_def mine_def)
    qed
    then show ?thesis
      using after
      by (intro wp_attempts [OF attempts_kube(6) run]) (auto intro: good bad same)
  qed
qed

lemma wp_Update:
  assumes mine: "mine ep t w" and new: "new = t\<lparr>tn_Meta := (tn_Meta t)\<lparr>om_Finalizers := fs\<rparr>\<rparr>"
    and gone: "om_DeletionTimestamp (tn_Meta t) \<noteq> None \<Longrightarrow> fs = [] \<Longrightarrow> of_external (cu_Platform (here w)) (om_UID (tn_Meta t)) = None"
    and kept: "om_DeletionTimestamp (tn_Meta t) = None \<or> fs \<noteq> [] \<Longrightarrow> tunnel_ok ep new (here w)"
    and good: "\<And>w'. keeps ep w' \<Longrightarrow> om_DeletionTimestamp (tn_Meta t) = None \<or> fs \<noteq> [] \<longrightarrow> mine ep (versioned new (here w)) w' \<Longrightarrow>
      here w' = rewritten (here w) (versioned new (here w)) \<Longrightarrow> Q (Inr (versioned new (here w))) w'"
    and bad: "\<And>e w'. keeps ep w' \<Longrightarrow> Q (Inl e) w'"
  shows "wp (Update_Tunnel (faulty (fake_env ep)) new) Q w"
proof -
  let ?x = "here w" and ?new = "versioned new (here w)"
  have ok: "sys_ok ep ?x" "clients_ok ep (clients w)" and t: "t \<in> set (cu_Tunnels ?x)" using mine by (simp_all add: mine_def keeps_def)
  have st: "stored ?x t" by (rule sys_ok_member(2) [OF ok(1) t])
  obtain c where run: "run_state (Update_Tunnel (fake_env ep) new) (still ?x) = (Inr ?new, emit (rewritten ?x ?new) c (still ?x))"
    using run_Update_Tunnel [of "still ?x" t new fs ?new "fake_http ep"] st new by (auto simp: fake_env_def)
  have "sys_ok ep (rewritten ?x ?new)"
  proof (rule sys_ok_rewritten [OF ok(1) t])
    show "tunnel_ok ep ?new ?x" if "om_DeletionTimestamp (tn_Meta ?new) = None \<or> om_Finalizers (tn_Meta ?new) \<noteq> []"
      unfolding tunnel_ok_version using that kept by (simp add: new)
  qed (use gone in \<open>simp_all add: new key_of_def\<close>)
  moreover have "stored (rewritten ?x ?new) ?new" if "om_DeletionTimestamp (tn_Meta t) = None \<or> fs \<noteq> []"
    by (rule stored_rewritten [OF st]) (use that in \<open>simp_all add: new key_of_def\<close>)
  ultimately show ?thesis
    using ok stored_member
    by (intro wp_attempts [OF attempts_kube(5) run]) (auto intro!: good bad simp: keeps_def mine_def)
qed

section \<open>Ending a reconcile\<close>

lemma outdated_conditions [simp]:
  "outdated ep (setSynced env t a b c) w = outdated ep t w" "outdated ep (setAgentAvailable env t d) w = outdated ep t w"
  "outdated ep (setReady env t online) w = outdated ep t w"
  "outdated ep (t\<lparr>tn_Status := (tn_Status t)\<lparr>st_ObservedGeneration := g\<rparr>\<rparr>) w = outdated ep t w"
proof -
  have cond: "outdated ep (with_tunnel_cond env t a b c d) w = outdated ep t w" for t a b c d
    unfolding with_tunnel_cond_def by (rule outdated_status) simp_all
  show "outdated ep (setSynced env t a b c) w = outdated ep t w" "outdated ep (setAgentAvailable env t d) w = outdated ep t w"
    "outdated ep (setReady env t online) w = outdated ep t w"
    by (simp_all add: setSynced_def setAgentAvailable_def setReady_def cond Let_def split: prod.split)
qed (rule outdated_status, simp_all)

lemma wp_finish:
  assumes "outdated ep t w"
  shows "wp (tunnel_finish (faulty (fake_env ep)) t r e) (\<lambda>_. keeps ep) w"
  unfolding tunnel_finish_def Let_def wp_simps
  by (rule wp_StatusUpdate [where ep = ep])
     (use assms in \<open>auto simp: wp_simps mine_def outdated_def [of _ t] split: option.split\<close>)

lemma wp_fail:
  assumes "outdated ep t w"
  shows "wp (tunnel_fail (faulty (fake_env ep)) t a e) (\<lambda>_. keeps ep) w"
  unfolding tunnel_fail_def Let_def wp_simps by (auto intro!: wp_finish simp: assms)

section \<open>Calls that leave the objects alone\<close>

text \<open>The rule for a call that may change the platform, or one Secret or Deployment, and keeps the invariant if it does.\<close>

lemma wp_call:
  assumes "attempts mf m" and "run_state m (still (here w)) = (r0, w0)" and "mine ep t w"
    and "sys_ok ep (ext w0)" and "cu_Tunnels (ext w0) = cu_Tunnels (here w)"
    and "\<And>w'. mine ep t w' \<Longrightarrow> here w' = ext w0 \<Longrightarrow> Q r0 w'"
    and "\<And>e w'. mine ep t w' \<Longrightarrow> broken_call e \<Longrightarrow> here w' = here w \<or> here w' = ext w0 \<Longrightarrow> Q (Inl e) w'"
  shows "wp mf Q w"
proof (rule wp_attempts [OF assms(1,2)])
  fix w' :: "(fakeAPI cluster \<times> fault list) world"
  assume "clients w' = clients w" "here w' = ext w0"
  then show "Q r0 w'" using assms(3-5) by (intro assms(6)) (simp_all add: mine_def keeps_def)
next
  fix e and w' :: "(fakeAPI cluster \<times> fault list) world"
  assume e: "broken_call e" "clients w' = clients w" "here w' = here w \<or> here w' = ext w0"
  then show "Q (Inl e) w'" using assms(3-5) by (intro assms(7)) (auto simp: mine_def keeps_def)
qed

text \<open>A read changes nothing at all.\<close>

lemma wp_read:
  assumes "attempts mf m" and "run_state m (still (here w)) = (r0, w0)" and "ext w0 = here w"
    and "\<And>w'. here w' = here w \<Longrightarrow> clients w' = clients w \<Longrightarrow> Q r0 w'"
    and "\<And>e w'. broken_call e \<Longrightarrow> here w' = here w \<Longrightarrow> clients w' = clients w \<Longrightarrow> Q (Inl e) w'"
  shows "wp mf Q w"
  by (rule wp_attempts [OF assms(1,2)]) (use assms(3-5) in auto)

lemma mine_same: "mine ep t w \<Longrightarrow> here w' = here w \<Longrightarrow> clients w' = clients w \<Longrightarrow> mine ep t w'"
  by (simp add: mine_def keeps_def)

lemma attempts_client:
  "attempts (CreateTunnel (faulty b) s i) (CreateTunnel b s i)" "attempts (GetTunnel (faulty b) s j) (GetTunnel b s j)"
  "attempts (RotateToken (faulty b) s j) (RotateToken b s j)" "attempts (DeleteTunnel (faulty b) s j) (DeleteTunnel b s j)"
  unfolding CreateTunnel_def GetTunnel_def RotateToken_def DeleteTunnel_def by (rule attempts_do_request)+

lemma attempts_bind_ret:
  assumes "attempts mf m"
  shows "attempts (State_Monad.bind mf (\<lambda>r. ret (case r of Inl e \<Rightarrow> Inl e | Inr x \<Rightarrow> g x)))
    (State_Monad.bind m (\<lambda>r. ret (case r of Inl e \<Rightarrow> Inl e | Inr x \<Rightarrow> g x)))"
  using assms unfolding attempts_def
  by (fastforce split: prod.splits)

lemma attempts_Find: "attempts (FindTunnelByExternalID (faulty b) s e) (FindTunnelByExternalID b s e)"
proof -
  have shape: "FindTunnelByExternalID env s e = State_Monad.bind (do_request env s ''GET'' (''/api/v2/tunnels?external_id='' @ QueryEscape e) None (Some dec_data) [])
      (\<lambda>r. ret (case r of Inl e \<Rightarrow> Inl e | Inr rows \<Rightarrow> Inr (case rows of [] \<Rightarrow> None | x # _ \<Rightarrow> Some x)))" for env :: "'c env"
    unfolding FindTunnelByExternalID_def
    by (rule arg_cong [where f = "State_Monad.bind _"]) (auto simp: fun_eq_iff split: sum.split list.split)
  show ?thesis unfolding shape by (rule attempts_bind_ret [OF attempts_do_request])
qed

section \<open>Changes of the platform\<close>

lemma map_of_held: "sound_tunnels f \<Longrightarrow> y \<in> set (fa_tunnels f) \<Longrightarrow> map_of (fa_tunnels f) (fst y) = Some (snd y)"
  by (intro map_of_is_SomeI) (simp_all add: sound_tunnels_def)

lemma find_append: "find P (xs @ ys) = (case find P xs of None \<Rightarrow> find P ys | Some x \<Rightarrow> Some x)"
  by (induction xs) auto

lemma changed_for_fresh:
  assumes "sound_tunnels f" and "of_external f (cti_ExternalID i) = None"
  shows "changed_for (cti_ExternalID i) f (with_fresh i f)"
proof -
  have "of_external (with_fresh i f) e = of_external f e" if "e \<noteq> cti_ExternalID i" for e
    using that by (simp add: of_external_def with_fresh_def external_of_def find_append split: option.split)
  moreover have "map_of (fa_tunnels (with_fresh i f)) (''tun-'' @ show_nat k) = map_of (fa_tunnels f) (''tun-'' @ show_nat k)"
    if "k \<le> fa_nextID f" for k
    using that by (simp add: with_fresh_def map_add_def split: option.split)
  moreover have "lists_ok (with_fresh i f)" if "lists_ok f"
    by (rule lists_ok_mono [OF that]) (simp_all add: with_fresh_def)
  ultimately show ?thesis using sound_with_fresh [OF assms] by (simp add: changed_for_def with_fresh_def)
qed

lemma changed_for_creates:
  assumes "sound_tunnels f"
  shows "changed_for uid f (f\<lparr>fa_creates := n\<rparr>)"
proof -
  have "sound_tunnels (f\<lparr>fa_creates := n\<rparr>)" using assms by (simp add: sound_tunnels_def wf_entry_def [abs_def])
  then show ?thesis by (simp add: changed_for_def lists_ok_def)
qed

lemma changed_for_token:
  assumes "sound_tunnels f" and "of_external f uid = Some (i, ft)" and "token \<noteq> []"
  shows "changed_for uid f (with_token i token f)"
proof -
  have "of_external (with_token i token f) e = of_external f e" if "e \<noteq> uid" for e
  proof -
    have ext: "external_of ((\<lambda>(k, x). (k, if k = i then x\<lparr>ft_token := token\<rparr> else x)) y) = external_of y" for y
      by (simp add: external_of_def split: prod.split)
    have other: "fst y \<noteq> i" if y: "y \<in> set (fa_tunnels f)" "external_of y = e" for y
      using map_of_held [OF assms(1) y(1)] of_external_map [OF assms(1,2)] of_external_SomeD(2) [OF assms(2)] y(2) \<open>e \<noteq> uid\<close>
      by (cases y) auto
    then have "find (\<lambda>x. external_of x = e) (map (\<lambda>(k, x). (k, if k = i then x\<lparr>ft_token := token\<rparr> else x)) ts)
        = find (\<lambda>x. external_of x = e) ts" if "set ts \<subseteq> set (fa_tunnels f)" for ts
      using that
    proof (induction ts)
      case (Cons y ts)
      with other [of y] ext [of y] show ?case by (cases y) auto
    qed simp
    then show ?thesis by (simp add: of_external_def with_token_def)
  qed
  moreover have "external_of (j, (if j = i then \<lambda>x. x\<lparr>ft_token := token\<rparr> else id) ft') = external_of (j, ft')" for j ft'
    by (simp add: external_of_def)
  then have "\<exists>ft'. map_of (fa_tunnels f) j = Some ft' \<and> external_of (j, ft') = external_of (j, x)"
    if "map_of (fa_tunnels (with_token i token f)) j = Some x" for j x
    using that by (auto simp: with_token_def map_of_with_token)
  ultimately show ?thesis using sound_with_token [OF assms(1,3)] by (simp add: changed_for_def with_token_def lists_ok_def)
qed

lemma changed_for_deleted:
  assumes "sound_tunnels f" and "\<And>ft. map_of (fa_tunnels f) i = Some ft \<Longrightarrow> external_of (i, ft) = uid"
  shows "changed_for uid f (fake_delete_tunnel i f)"
proof -
  have "of_external (fake_delete_tunnel i f) e = of_external f e" if "e \<noteq> uid" for e
  proof -
    have other: "fst y \<noteq> i" if y: "y \<in> set (fa_tunnels f)" "external_of y = e" for y
      using map_of_held [OF assms(1) y(1)] assms(2) [of "snd y"] y(2) \<open>e \<noteq> uid\<close> by (cases y) auto
    then have "find (\<lambda>x. external_of x = e) (filter (\<lambda>(k, _). k \<noteq> i) ts) = find (\<lambda>x. external_of x = e) ts"
      if "set ts \<subseteq> set (fa_tunnels f)" for ts
      using that
    proof (induction ts)
      case (Cons y ts)
      with other [of y] show ?case by (cases y) auto
    qed simp
    then show ?thesis by (simp add: of_external_def fake_delete_tunnel_def)
  qed
  moreover have "map_of (fa_tunnels f) j = Some x" if "map_of (fa_tunnels (fake_delete_tunnel i f)) j = Some x" for j x
  proof -
    have "(j, x) \<in> set (fa_tunnels f)" using map_of_SomeD [OF that] by (simp add: fake_delete_tunnel_def)
    then show ?thesis using assms(1) by (simp add: sound_tunnels_def)
  qed
  ultimately show ?thesis using sound_delete [OF assms(1)] by (simp add: changed_for_def fake_delete_tunnel_def lists_ok_def listed_def)
qed

end
