(* ===== verification/System_Reconcile.thy ===== *)
theory System_Reconcile
  imports System_Runs
begin

text \<open>
  The reconcile of a Tunnel over an unreliable connection, method by method: each keeps the
  invariant of the cluster with its platform, wherever it is cut short.
\<close>

section \<open>The tunnel on the platform\<close>

lemma tunnel_ok_external:
  assumes "tunnel_ok ep t x" and "e \<noteq> []"
  shows "tunnel_ok ep (t\<lparr>tn_Status := (tn_Status t)\<lparr>st_ExternalID := e\<rparr>\<rparr>) x"
proof -
  let ?t = "t\<lparr>tn_Status := (tn_Status t)\<lparr>st_ExternalID := e\<rparr>\<rparr>"
  have "same_object t ?t" by (simp add: same_object_def)
  note same = same_secrets [OF this refl refl]
  show ?thesis
    using assms unfolding tunnel_ok_def held_ok_def platform_of_def same by (auto split: option.splits)
qed

lemma wp_record_external_id:
  assumes mine: "mine ep t w" and dt: "om_DeletionTimestamp (tn_Meta t) = None"
    and good: "\<And>t' w'. mine ep t' w' \<Longrightarrow> same_object t t' \<Longrightarrow> om_Finalizers (tn_Meta t') = om_Finalizers (tn_Meta t) \<Longrightarrow>
      st_ExternalID (tn_Status t') \<noteq> [] \<Longrightarrow> Q (t', None) w'"
    and bad: "\<And>t' e w'. outdated ep t' w' \<Longrightarrow> Q (t', Some e) w'"
  shows "wp (record_external_id (faulty (fake_env ep)) t) Q w"
proof (cases "st_ExternalID (tn_Status t) = []")
  case False
  then show ?thesis using mine by (simp add: record_external_id_def wp_simps good)
next
  case True
  let ?t = "t\<lparr>tn_Status := (tn_Status t)\<lparr>st_ExternalID := om_UID (tn_Meta t)\<rparr>\<rparr>"
  have out: "outdated ep t w" by (rule mine_outdated [OF mine dt])
  have uid: "om_UID (tn_Meta t) \<noteq> []" using mine_ok [OF mine] by (simp add: tunnel_ok_def)
  then have "outdated ep ?t w"
    using out tunnel_ok_external [OF mine_ok [OF mine] uid] by (simp add: outdated_def stale_def)
  then have "wp (StatusUpdate_Tunnel (faulty (fake_env ep)) ?t)
      (\<lambda>r w. Q (case r of Inl err \<Rightarrow> (?t, Some (ErrWrap ''recording the external id: '' err)) | Inr t' \<Rightarrow> (t', None)) w) w"
    by (rule wp_StatusUpdate) (auto intro!: good bad simp: same_object_def uid)
  then show ?thesis
    using True by (auto simp: record_external_id_def wp_simps Let_def elim!: wp_mono split: sum.splits)
qed

text \<open>The tunnel at hand: the object as it is stored and its tunnel as the platform has it.\<close>

definition has :: "string \<Rightarrow> Tunnel \<Rightarrow> string \<Rightarrow> fakeTunnel \<Rightarrow> (fakeAPI cluster \<times> fault list) world \<Rightarrow> bool" where
  "has ep t i ft w = (mine ep t w \<and> om_DeletionTimestamp (tn_Meta t) = None
     \<and> of_external (cu_Platform (here w)) (om_UID (tn_Meta t)) = Some (i, ft))"

lemma hasD:
  assumes "has ep t i ft w"
  shows "mine ep t w" "outdated ep t w" "t \<in> set (cu_Tunnels (here w))" "sys_ok ep (here w)"
    "sound_tunnels (cu_Platform (here w))" "map_of (fa_tunnels (cu_Platform (here w))) i = Some ft"
    "nt_ID (ft_tunnel ft) = i" "external_of (i, ft) = om_UID (tn_Meta t)" "om_UID (tn_Meta t) \<noteq> []"
proof -
  show mine: "mine ep t w" using assms by (simp add: has_def)
  then show "t \<in> set (cu_Tunnels (here w))" and ok: "sys_ok ep (here w)" by (simp_all add: mine_def keeps_def)
  show "outdated ep t w" using mine_outdated [OF mine] assms by (simp add: has_def)
  show sound: "sound_tunnels (cu_Platform (here w))" using ok by (simp add: sys_ok_def)
  show held: "map_of (fa_tunnels (cu_Platform (here w))) i = Some ft"
    by (rule of_external_map [OF sound, of "om_UID (tn_Meta t)"]) (use assms in \<open>simp add: has_def\<close>)
  show "nt_ID (ft_tunnel ft) = i" by (rule sound_entry(3) [OF sound held])
  show "external_of (i, ft) = om_UID (tn_Meta t)"
    by (rule of_external_SomeD(2) [of "cu_Platform (here w)"]) (use assms in \<open>simp add: has_def\<close>)
  show "om_UID (tn_Meta t) \<noteq> []" using mine_ok [OF mine] by (simp add: tunnel_ok_def)
qed

lemma has_same: "has ep t i ft w \<Longrightarrow> here w' = here w \<Longrightarrow> clients w' = clients w \<Longrightarrow> has ep t i ft w'"
  by (simp add: has_def mine_def keeps_def)

text \<open>Reading back a tunnel that is there.\<close>

lemma wp_GetTunnel:
  assumes has: "has ep t i ft w" and s: "srv_base s = ep"
    and good: "\<And>g w'. has ep t i ft w' \<Longrightarrow> wr_Tunnel g = Some (ft_tunnel ft) \<Longrightarrow> Q (Inr g) w'"
    and bad: "\<And>e w'. has ep t i ft w' \<Longrightarrow> broken_call e \<Longrightarrow> Q (Inl e) w'"
  shows "wp (GetTunnel (faulty (fake_env ep)) s i) Q w"
proof -
  obtain c where run: "run_state (GetTunnel (fake_env ep) s i) (still (here w)) =
      (Inr \<lparr>wr_Tunnel = Some (ft_tunnel ft), wr_Routes = fa_routes (plat (still (here w))) i\<rparr>, fake_step (plat (still (here w))) c (still (here w)))"
    using run_GetTunnel [of "still (here w)" i ft s] hasD(5,6) [OF has] s by auto
  show ?thesis
    by (rule wp_read [OF attempts_client(2) run]) (auto intro!: good bad has_same [OF has])
qed

lemma wp_create_and_read:
  assumes mine: "mine ep t w" and dt: "om_DeletionTimestamp (tn_Meta t) = None" and s: "srv_base s = ep"
    and fin: "TunnelFinalizer \<in> set (om_Finalizers (tn_Meta t))" and rec: "st_ExternalID (tn_Status t) \<noteq> []"
    and i: "cti_ExternalID i = om_UID (tn_Meta t)"
    and good: "\<And>ft tok w'. has ep t (nt_ID (ft_tunnel ft)) ft w' \<Longrightarrow> tok \<in> {[], ft_token ft} \<Longrightarrow> Q (Inr (Some (ft_tunnel ft), tok)) w'"
    and bad: "\<And>e w'. mine ep t w' \<Longrightarrow> Q (Inl e) w'"
  shows "wp (create_and_read (faulty (fake_env ep)) s i) Q w"
proof -
  let ?x = "here w" and ?uid = "om_UID (tn_Meta t)"
  have ok: "sys_ok ep ?x" "t \<in> set (cu_Tunnels ?x)" using mine by (simp_all add: mine_def keeps_def)
  have sound: "sound_tunnels (cu_Platform ?x)" using ok(1) by (simp add: sys_ok_def)
  note mine_ok = mine_ok [OF mine]
  then have uid: "?uid \<noteq> []" and held: "held_ok t (stored_token ?x t) (cu_Platform ?x)" by (simp_all add: tunnel_ok_def)
  text \<open>Either way a tunnel of the object is there after the first call.\<close>
  obtain k ft f cr c where made: "run_state (CreateTunnel (fake_env ep) s i) (still ?x) = (Inr cr, fake_step f c (still ?x))"
      "changed_for ?uid (cu_Platform ?x) f" "of_external f ?uid = Some (k, ft)" "cre_TunnelID cr = k"
      "cre_TunnelToken cr \<in> {[], ft_token ft}" "nt_ID (ft_tunnel ft) = k" "held_ok t (stored_token ?x t) f"
  proof (cases "of_external (cu_Platform ?x) ?uid")
    case None
    note fresh = of_external_fresh [OF sound, of i, unfolded i, OF None uid]
    have "held_ok t (stored_token ?x t) (with_fresh i (cu_Platform ?x))"
      using held None fresh(1) fin rec dt by (simp add: held_ok_def)
    moreover have "changed_for ?uid (cu_Platform ?x) (with_fresh i (cu_Platform ?x))"
      using changed_for_fresh [OF sound, of i] None by (simp add: i)
    ultimately show ?thesis
      using run_CreateTunnel_fresh [of i "still ?x" s] None uid i s fresh(1) that by fastforce
  next
    case (Some y)
    obtain k ft where y: "y = (k, ft)" by fastforce
    have "nt_ID (ft_tunnel ft) = k" using sound_entry(3) [OF sound of_external_map [OF sound]] Some y by blast
    moreover have "held_ok t (stored_token ?x t) ((cu_Platform ?x)\<lparr>fa_creates := Suc (fa_creates (cu_Platform ?x))\<rparr>)"
      using held by (simp add: held_ok_def)
    ultimately show ?thesis
      using run_CreateTunnel_adopt [of i "still ?x" k ft s] Some y uid i s changed_for_creates [OF sound] that by fastforce
  qed
  let ?x' = "ext (fake_step f c (still ?x))"
  have "sys_ok ep ?x'" using sys_ok_platform [OF ok made(2,7)] by simp
  moreover have "wp (GetTunnel (faulty (fake_env ep)) s k)
      (\<lambda>got. wp (case got of Inl err \<Rightarrow> ret (Inl err) | Inr g \<Rightarrow> ret (Inr (wr_Tunnel g, cre_TunnelToken cr))) Q) w'"
    if w': "mine ep t w'" "here w' = ?x'" for w'
  proof (rule wp_GetTunnel [OF _ s])
    show "has ep t k ft w'" using w' dt made(3) by (simp add: has_def)
  qed (use made(5,6) in \<open>auto simp: wp_simps has_def intro!: good bad\<close>)
  ultimately show ?thesis
    unfolding create_and_read_def wp_simps
    by (intro wp_call [OF attempts_client(1) made(1) mine]) (auto simp: made(4) wp_simps intro!: bad)
qed

lemma wp_create_tunnel:
  assumes mine: "mine ep t w" and dt: "om_DeletionTimestamp (tn_Meta t) = None" and s: "srv_base s = ep"
    and fin: "TunnelFinalizer \<in> set (om_Finalizers (tn_Meta t))"
    and good: "\<And>t' ft tok w'. has ep t' (nt_ID (ft_tunnel ft)) ft w' \<Longrightarrow> tok \<in> {[], ft_token ft} \<Longrightarrow>
      Q (t', Inr (Some (ft_tunnel ft), tok)) w'"
    and bad: "\<And>t' e w'. outdated ep t' w' \<Longrightarrow> Q (t', Inl e) w'"
  shows "wp (create_tunnel (faulty (fake_env ep)) s t) Q w"
  unfolding create_tunnel_def Let_def wp_simps
proof (rule wp_record_external_id [OF mine dt], goal_cases)
  case (1 t' w')
  then have t': "om_UID (tn_Meta t') = om_UID (tn_Meta t)" "om_DeletionTimestamp (tn_Meta t') = None"
    using dt by (simp_all add: same_object_def)
  show ?case
    unfolding prod.case option.case wp_simps
    by (rule wp_create_and_read [OF 1(1) t'(2) s])
       (use 1 fin t' mine_outdated in \<open>auto simp: wp_simps intro!: good bad\<close>)
qed (simp add: wp_simps bad)

lemma wp_ensureTunnel:
  assumes mine: "mine ep t w" and dt: "om_DeletionTimestamp (tn_Meta t) = None" and s: "srv_base s = ep"
    and fin: "TunnelFinalizer \<in> set (om_Finalizers (tn_Meta t))"
    and good: "\<And>t' ft tok w'. has ep t' (nt_ID (ft_tunnel ft)) ft w' \<Longrightarrow> tok \<in> {[], ft_token ft} \<Longrightarrow>
      Q (t', Inr (Some (ft_tunnel ft), tok)) w'"
    and bad: "\<And>t' e w'. outdated ep t' w' \<Longrightarrow> Q (t', Inl e) w'"
  shows "wp (ensureTunnel (faulty (fake_env ep)) s t) Q w"
proof (cases "st_TunnelID (tn_Status t) = []")
  case True
  then show ?thesis
    using wp_create_tunnel [OF mine dt s fin good bad] by (simp add: ensureTunnel_def)
next
  case False
  let ?i = "st_TunnelID (tn_Status t)"
  have "held_ok t (stored_token (here w) t) (cu_Platform (here w))" using mine_ok [OF mine] by (simp add: tunnel_ok_def)
  then obtain ft where has: "has ep t ?i ft w"
    using False dt mine by (auto simp: held_ok_def has_def split: option.splits)
  have "wp (GetTunnel (faulty (fake_env ep)) s ?i) (\<lambda>got. wp (case got of
      Inr g \<Rightarrow> ret (t, Inr (wr_Tunnel g, []))
    | Inl err \<Rightarrow> if IsNotFound err then create_tunnel (faulty (fake_env ep)) s t else ret (t, Inl err)) Q) w"
    by (rule wp_GetTunnel [OF has s])
       (use good [of t ft _ "[]"] bad hasD(2,7) [OF has] hasD(2) in \<open>auto simp: wp_simps broken_call_def\<close>)
  then show ?thesis using False by (simp add: ensureTunnel_def wp_bind)
qed

section \<open>The client\<close>

lemma config_reaches:
  assumes "config_of_secret t ua secret = Inr (cfg, key)" and "New cfg = Inr c"
  shows "srv_base (cl_Tunnel c) = platform_of t"
  using assms
  by (auto simp: config_of_secret_def New_def platform_of_def Let_def split: if_splits option.splits)

lemma wp_apiClients:
  assumes keeps: "keeps ep w" and t: "platform_of t = ep"
    and good: "\<And>c w'. keeps ep w' \<Longrightarrow> here w' = here w \<Longrightarrow> srv_base (cl_Tunnel c) = ep \<Longrightarrow> Q (Inr c) w'"
    and bad: "\<And>e w'. keeps ep w' \<Longrightarrow> here w' = here w \<Longrightarrow> Q (Inl e) w'"
  shows "wp (apiClients (faulty (fake_env ep)) version t) Q w"
proof -
  let ?k = "nn (om_Namespace (tn_Meta t)) (cr_Name (ts_Credentials (tn_Spec t)))"
  obtain c where run: "run_state (Get_Secret (fake_env ep) ?k) (still (here w)) =
      (map_sum ErrKube id (lookup_object sec_Meta ?k (cu_Secrets (ext (still (here w))))), emit (ext (still (here w))) c (still (here w)))"
    using run_Get_Secret unfolding fake_env_def by blast
  have cached: "wp (cached_client key cfg) Q w'"
    if w': "here w' = here w" "clients w' = clients w" and cfg: "config_of_secret t (operator_user_agent version) secret = Inr (cfg, key)"
    for w' cfg key secret
  proof -
    have ok: "keeps ep w'" using keeps w' by (simp add: keeps_def)
    then have "srv_base (cl_Tunnel c) = ep" if "clients w' key = Some c" for c
      using that by (auto simp: keeps_def clients_ok_def intro: ranI)
    moreover have "keeps ep (w'\<lparr>clients := (clients w')(key \<mapsto> c)\<rparr>)" if "New cfg = Inr c" for c
      using ok config_reaches [OF cfg that] t by (auto simp: keeps_def clients_ok_def ran_def)
    ultimately show ?thesis
      using ok w' config_reaches [OF cfg] t by (auto simp: wp_def cached_client_def intro!: good bad split: option.split sum.split)
  qed
  have same: "keeps ep w'" if "here w' = here w" "clients w' = clients w" for w'
    using keeps that by (simp add: keeps_def)
  show ?thesis
    unfolding apiClients_def CachedClientFor_def configFor_def Let_def wp_simps
    by (rule wp_read [OF attempts_kube(3) run])
       (auto simp: wp_simps intro: cached bad same split: sum.split prod.split)
qed

section \<open>Its credential\<close>

text \<open>What a step over the unreliable connection may leave of the tunnel at hand: all of it, or the object.\<close>

lemma wp_store_token:
  assumes has: "has ep t i ft w"
    and good: "\<And>sec w'. has ep t i ft w' \<Longrightarrow> Q (Inr sec) w'"
    and bad: "\<And>e w'. has ep t i ft w' \<Longrightarrow> Q (Inl e) w'"
  shows "wp (store_token (faulty (fake_env ep)) t (ft_token ft)) Q w"
proof -
  have "mutate_token_secret (faulty (fake_env ep)) t (ft_token ft) = mutate_token_secret (fake_env ep) t (ft_token ft)"
    by (simp add: mutate_token_secret_def fun_eq_iff Let_def)
  then have att: "attempts (store_token (faulty (fake_env ep)) t (ft_token ft)) (store_token (fake_env ep) t (ft_token ft))"
    unfolding store_token_def by (simp add: attempts_kube(9))
  note mine_ok = mine_ok [OF hasD(1) [OF has]]
  then have "secret_free (ext (still (here w))) t" by (simp add: tunnel_ok_def)
  then obtain sec x c where run: "run_state (store_token (fake_env ep) t (ft_token ft)) (still (here w)) = (Inr sec, emit x c (still (here w)))"
      "lookup_object sec_Meta (token_name t) (cu_Secrets x) = Inr sec" "secret_value sec tokenSecretKey = ft_token ft"
      "takeable t (sec_Meta sec)" "secret_written t (here w) x"
    using run_store_token [of "still (here w)" t "fake_http ep" "ft_token ft"] unfolding fake_env_def by auto
  have "held_ok t (stored_token x t) (cu_Platform (here w))"
    using mine_ok has run(2,3) by (simp add: tunnel_ok_def held_ok_def has_def stored_token_def)
  then have "sys_ok ep x"
    using sys_ok_secret [OF hasD(4,3) [OF has] run(5)] run(2,4) by (simp add: secret_free_def)
  then show ?thesis
    using has secret_written_sel [OF run(5)]
    by (intro wp_call [OF att run(1) hasD(1) [OF has]]) (auto simp: has_def intro!: good bad)
qed

lemma wp_RotateToken:
  assumes has: "has ep t i ft w" and s: "srv_base s = ep" and empty: "stored_token (here w) t = []"
    and good: "\<And>r ft' w'. has ep t i ft' w' \<Longrightarrow> rot_TunnelToken r = ft_token ft' \<Longrightarrow> Q (Inr r) w'"
    and bad: "\<And>e ft' w'. has ep t i ft' w' \<Longrightarrow> Q (Inl e) w'"
  shows "wp (RotateToken (faulty (fake_env ep)) s i) Q w"
proof -
  let ?x = "here w" and ?uid = "om_UID (tn_Meta t)"
  define token where "token = ft_token ft @ ''-rotated-'' @ show_nat (Suc (fa_rotations (cu_Platform ?x)))"
  have nonempty: "token \<noteq> []" by (simp add: token_def)
  let ?f = "with_token i token (cu_Platform ?x)" and ?ft = "ft\<lparr>ft_token := token\<rparr>"
  obtain c where run: "run_state (RotateToken (fake_env ep) s i) (still ?x) =
      (Inr \<lparr>rot_TunnelID = i, rot_TunnelToken = token\<rparr>, fake_step ?f c (still ?x))"
    using run_RotateToken [of "still ?x" i ft token s] hasD(5,6) [OF has] s by (auto simp: token_def)
  have at: "of_external (cu_Platform ?x) ?uid = Some (i, ft)" using has by (simp add: has_def)
  have rotated: "of_external ?f ?uid = Some (i, ?ft)"
    by (rule of_external_rotated [OF hasD(5) [OF has] at hasD(9) [OF has] nonempty])
  have "held_ok t (stored_token ?x t) ?f"
    using mine_ok [OF hasD(1) [OF has]] at rotated empty by (simp add: tunnel_ok_def held_ok_def)
  then have "sys_ok ep (?x\<lparr>cu_Platform := ?f\<rparr>)"
    by (rule sys_ok_platform [OF hasD(4,3) [OF has] changed_for_token [OF hasD(5) [OF has] at nonempty]])
  then show ?thesis
    using has rotated
    by (intro wp_call [OF attempts_client(3) run hasD(1) [OF has]])
       (auto simp: has_def intro: good [of ?ft] bad [of ?ft] bad [of ft])
qed

lemma wp_ensureCredentialSecret:
  assumes has: "has ep t i ft w" and s: "srv_base s = ep" and tok: "tok \<in> {[], ft_token ft}"
    and good: "\<And>sec ft' w'. has ep t i ft' w' \<Longrightarrow> Q (Inr sec) w'"
    and bad: "\<And>e ft' w'. has ep t i ft' w' \<Longrightarrow> Q (Inl e) w'"
  shows "wp (ensureCredentialSecret (faulty (fake_env ep)) s t i tok) Q w"
proof (cases "tok = []")
  case False
  then show ?thesis
    using tok wp_store_token [OF has] good bad by (simp add: ensureCredentialSecret_def)
next
  case True
  let ?found = "lookup_object sec_Meta (token_name t) (cu_Secrets (here w))"
  obtain c where run: "run_state (Get_Secret (fake_env ep) (token_name t)) (still (here w)) =
      (map_sum ErrKube id (lookup_object sec_Meta (token_name t) (cu_Secrets (ext (still (here w))))), emit (ext (still (here w))) c (still (here w)))"
    using run_Get_Secret unfolding fake_env_def by blast
  let ?issue = "\<lambda>r. case r of Inl err \<Rightarrow> ret (Inl (ErrWrap ''rotating the credential: '' err))
    | Inr rotated \<Rightarrow> do {
        _ \<leftarrow> Eventf (tunnel_key t) EventTypeNormal ''CredentialRotated'' ''Rotating''
          ''Issued a new tunnel credential because none was stored'';
        store_token (faulty (fake_env ep)) t (rot_TunnelToken rotated)
      }"
  have rotate: "wp (State_Monad.bind (RotateToken (faulty (fake_env ep)) s i) ?issue) Q w'"
    if w': "here w' = here w" "clients w' = clients w" and none: "stored_token (here w) t = []" for w'
    unfolding wp_bind
  proof (rule wp_RotateToken [OF has_same [OF has w'] s])
    fix r ft' and w2 :: "(fakeAPI cluster \<times> fault list) world"
    assume has': "has ep t i ft' w2" and r: "rot_TunnelToken r = ft_token ft'"
    show "wp (?issue (Inr r)) Q w2"
      unfolding sum.case wp_simps r
      by (rule wp_store_token) (use has' good bad in \<open>auto simp: has_def\<close>)
  qed (use none w' in \<open>simp_all add: wp_simps bad\<close>)
  have none: "stored_token (here w) t = []"
    if "\<not> (case map_sum ErrKube id ?found of Inr s \<Rightarrow> secret_value s tokenSecretKey \<noteq> [] | Inl _ \<Rightarrow> False)"
    using that by (cases ?found) (simp_all add: stored_token_def)
  have missing: "kIsNotFound (fake_env ep) e" if "map_sum ErrKube id ?found = Inl e" for e
    using that by (auto simp: lookup_object_def fake_env_def ref_IsNotFound_def NotFoundError_def split: option.splits)
  have broken: "broken_call e \<Longrightarrow> \<not> kIsNotFound (fake_env ep) e" for e by (simp add: broken_call_def fake_env_def)
  have return: "wp (ret r) Q w'" if "here w' = here w" "clients w' = clients w" for r w'
    using has_same [OF has that] by (cases r) (auto simp: wp_simps good bad)
  have "\<not> tok \<noteq> []" using True by simp
  then show ?thesis
    unfolding ensureCredentialSecret_def Let_def if_not_P [OF \<open>\<not> tok \<noteq> []\<close>]
    by (subst wp_bind, intro wp_read [OF attempts_kube(3) run])
       (auto simp del: wp_bind simp: broken intro: return rotate none)
qed

section \<open>Its agent and its status\<close>

lemma wp_ensureAgentDeployment:
  assumes has: "has ep t i ft w"
    and good: "\<And>d w'. has ep t i ft w' \<Longrightarrow> Q (Inr d) w'"
    and bad: "\<And>e w'. has ep t i ft w' \<Longrightarrow> Q (Inl e) w'"
  shows "wp (ensureAgentDeployment (faulty (fake_env ep)) img t v) Q w"
proof -
  have "mutate_deployment (faulty (fake_env ep)) t d = mutate_deployment (fake_env ep) t d" for d
    by (simp add: mutate_deployment_def fun_eq_iff Let_def)
  then have att: "attempts (ensureAgentDeployment (faulty (fake_env ep)) img t v) (ensureAgentDeployment (fake_env ep) img t v)"
    unfolding ensureAgentDeployment_def Let_def by (simp add: attempts_kube(10))
  have "deployment_free (ext (still (here w))) t" using mine_ok [OF hasD(1) [OF has]] by (simp add: tunnel_ok_def)
  then obtain d x c where run: "run_state (ensureAgentDeployment (fake_env ep) img t v) (still (here w)) = (Inr d, emit x c (still (here w)))"
      "lookup_object dp_Meta (agent_name t) (cu_Deployments x) = Inr d" "takeable t (dp_Meta d)" "deployment_written t (here w) x"
    using run_ensureAgentDeployment [of "still (here w)" t "fake_http ep" img v] unfolding fake_env_def by auto
  have "sys_ok ep x"
    using sys_ok_deployment [OF hasD(4,3) [OF has] run(4)] run(2,3) by (simp add: deployment_free_def)
  then show ?thesis
    using has deployment_written_sel [OF run(4)]
    by (intro wp_call [OF att run(1) hasD(1) [OF has]]) (auto simp: has_def intro!: good bad)
qed

text \<open>An identifier of the platform's tunnels is in order.\<close>

lemma id_ok_held:
  assumes "sound_tunnels f" and "map_of (fa_tunnels f) i = Some ft" and "external_of (i, ft) = uid"
  shows "id_ok i uid f"
proof -
  have "wf_entry f (i, ft)" using sound_entry(1) [OF assms(1,2)] .
  then show ?thesis using assms(2,3) by (auto simp: wf_entry_def id_ok_def)
qed

lemma outdated_synced:
  assumes has: "has ep t i ft w" and remote: "nt_ID remote = i"
  shows "outdated ep (synced_status env t remote sec d) w"
proof -
  let ?s = "tn_Status (synced_status env t remote sec d)" and ?x = "here w"
  let ?t = "t\<lparr>tn_Status := ?s\<rparr>"
  note ok = mine_ok [OF hasD(1) [OF has]] and sel = synced_status_sel [of env t remote sec d]
  have "same_object t ?t" by (simp add: same_object_def)
  note same = same_secrets [OF this refl refl]
  have "id_ok (nt_ID remote) (om_UID (tn_Meta t)) (cu_Platform ?x)"
    unfolding remote by (rule id_ok_held [OF hasD(5,6,8) [OF has]])
  then have "tunnel_ok ep ?t ?x"
    using ok has remote unfolding tunnel_ok_def held_ok_def platform_of_def same by (simp add: sel has_def)
  then show ?thesis
    using hasD(2) [OF has] by (subst synced_status_status) (simp add: outdated_def stale_def)
qed

lemma wp_tunnel_realise:
  assumes has: "has ep t i ft w" and s: "srv_base s = ep" and tok: "tok \<in> {[], ft_token ft}"
    and remote: "nt_ID remote = i" and r: "rc_Client r = faulty (fake_env ep)"
  shows "wp (tunnel_realise r s t remote tok) (\<lambda>_. keeps ep) w"
  unfolding tunnel_realise_def Let_def r remote wp_simps
proof (rule wp_ensureCredentialSecret [OF has s tok], goal_cases)
  case (1 sec ft' w')
  show ?case
    unfolding sum.case wp_simps
    by (rule wp_ensureAgentDeployment [OF 1])
       (auto simp: wp_simps has_def mine_def [of _ _ w' for w'] intro!: wp_finish outdated_synced remote)
next
  case (2 e ft' w')
  then show ?case by (simp add: wp_simps wp_fail hasD(2))
qed

section \<open>A reconcile of an object that stays\<close>

lemma wp_tunnel_sync:
  assumes mine: "mine ep t w" and dt: "om_DeletionTimestamp (tn_Meta t) = None"
    and fin: "TunnelFinalizer \<in> set (om_Finalizers (tn_Meta t))"
    and r: "r = main_tunnel_reconciler (faulty (fake_env ep)) version img"
  shows "wp (tunnel_sync r t) (\<lambda>_. keeps ep) w"
proof -
  have client: "rc_Client r = faulty (fake_env ep)" "rc_API r = apiClients (faulty (fake_env ep)) version"
    by (simp_all add: r main_tunnel_reconciler_def)
  have keeps: "keeps ep w" and ep: "platform_of t = ep" using mine mine_ok [OF mine] by (simp_all add: mine_def tunnel_ok_def)
  have mine': "mine ep t w'" if "keeps ep w'" "here w' = here w" for w'
    using mine that by (simp add: mine_def)
  show ?thesis
    unfolding tunnel_sync_def Let_def client wp_simps
  proof (rule wp_apiClients [OF keeps ep], goal_cases)
    case (1 c w')
    show ?case
      unfolding sum.case wp_simps
      by (rule wp_ensureTunnel [OF mine' [OF 1(1,2)] dt 1(3) fin])
         (auto simp: wp_simps 1(3) client intro!: wp_tunnel_realise wp_fail)
  next
    case (2 e w')
    then show ?case
      using mine_outdated [OF mine' dt] by (simp add: wp_simps wp_finish)
  qed
qed

lemma tunnel_ok_finalizers:
  assumes "tunnel_ok ep t x"
    and "of_external (cu_Platform x) (om_UID (tn_Meta t)) = None \<or> TunnelFinalizer \<in> set fs"
  shows "tunnel_ok ep (t\<lparr>tn_Meta := (tn_Meta t)\<lparr>om_Finalizers := fs\<rparr>\<rparr>) x"
proof -
  let ?t = "t\<lparr>tn_Meta := (tn_Meta t)\<lparr>om_Finalizers := fs\<rparr>\<rparr>"
  have "same_object t ?t" by (simp add: same_object_def)
  note same = same_secrets [OF this refl refl]
  show ?thesis
    using assms unfolding tunnel_ok_def held_ok_def platform_of_def same by (auto split: option.splits)
qed

lemma wp_add_tunnel_finalizer:
  assumes mine: "mine ep t w" and dt: "om_DeletionTimestamp (tn_Meta t) = None"
    and good: "\<And>t' w'. mine ep t' w' \<Longrightarrow> om_DeletionTimestamp (tn_Meta t') = None \<Longrightarrow>
      TunnelFinalizer \<in> set (om_Finalizers (tn_Meta t')) \<Longrightarrow> Q (Inr t') w'"
    and bad: "\<And>e w'. keeps ep w' \<Longrightarrow> Q (Inl e) w'"
  shows "wp (add_tunnel_finalizer (faulty (fake_env ep)) t) Q w"
proof (cases "TunnelFinalizer \<in> set (om_Finalizers (tn_Meta t))")
  case True
  have "t\<lparr>tn_Meta := (tn_Meta t)\<lparr>om_Finalizers := om_Finalizers (tn_Meta t)\<rparr>\<rparr> = t" by simp
  with True show ?thesis
    using good [OF mine dt] by (simp add: add_tunnel_finalizer_def fake_env_def ref_AddFinalizer_def wp_simps)
next
  case False
  let ?fs = "om_Finalizers (tn_Meta t) @ [TunnelFinalizer]"
  have "add_tunnel_finalizer (faulty (fake_env ep)) t = do {
      r \<leftarrow> Update_Tunnel (faulty (fake_env ep)) (t\<lparr>tn_Meta := (tn_Meta t)\<lparr>om_Finalizers := ?fs\<rparr>\<rparr>);
      ret (case r of Inl err \<Rightarrow> Inl (ErrWrap ''adding the finalizer: '' err) | Inr t' \<Rightarrow> Inr t')}"
    using False by (simp add: add_tunnel_finalizer_def fake_env_def ref_AddFinalizer_def Let_def)
  then show ?thesis
    using dt
    by (simp only: wp_simps)
       (rule wp_Update [OF mine refl], auto simp: wp_simps intro!: good bad tunnel_ok_finalizers mine_ok [OF mine])
qed

section \<open>A reconcile of an object that goes\<close>

lemma wp_drop_tunnel_finalizer:
  assumes mine: "mine ep t w" and dt: "om_DeletionTimestamp (tn_Meta t) \<noteq> None"
    and none: "of_external (cu_Platform (here w)) (om_UID (tn_Meta t)) = None"
  shows "wp (drop_tunnel_finalizer (faulty (fake_env ep)) t) (\<lambda>_. keeps ep) w"
  unfolding drop_tunnel_finalizer_def wp_simps
  by (rule wp_Update [OF mine refl]) (auto simp: none intro!: tunnel_ok_finalizers mine_ok [OF mine])

text \<open>What a deletion may be aimed at: nothing when nothing is there, else what is there.\<close>

definition aimed :: "Tunnel \<Rightarrow> string \<Rightarrow> fakeAPI \<Rightarrow> bool" where
  "aimed t i f =
     (if i = [] then of_external f (om_UID (tn_Meta t)) = None
      else plain_id i \<and> (\<forall>ft. map_of (fa_tunnels f) i = Some ft \<longrightarrow> external_of (i, ft) = om_UID (tn_Meta t))
        \<and> (case of_external f (om_UID (tn_Meta t)) of None \<Rightarrow> True | Some (j, ft) \<Rightarrow> i = j))"

lemma wp_release_tunnel:
  assumes mine: "mine ep t w" and dt: "om_DeletionTimestamp (tn_Meta t) \<noteq> None" and s: "srv_base s = ep"
    and i: "aimed t i (cu_Platform (here w))"
  shows "wp (release_tunnel (faulty (fake_env ep)) s t i) (\<lambda>_. keeps ep) w"
proof (cases "i = []")
  case True
  then show ?thesis using wp_drop_tunnel_finalizer [OF mine dt] i by (simp add: release_tunnel_def aimed_def)
next
  case False
  let ?x = "here w" and ?uid = "om_UID (tn_Meta t)"
  let ?f = "fake_delete_tunnel i (cu_Platform ?x)"
  have ok: "sys_ok ep ?x" "t \<in> set (cu_Tunnels ?x)" using mine by (simp_all add: mine_def keeps_def)
  have sound: "sound_tunnels (cu_Platform ?x)" using ok(1) by (simp add: sys_ok_def)
  have aim: "plain_id i" "\<And>ft. map_of (fa_tunnels (cu_Platform ?x)) i = Some ft \<Longrightarrow> external_of (i, ft) = ?uid"
    "case of_external (cu_Platform ?x) ?uid of None \<Rightarrow> True | Some (j, ft) \<Rightarrow> i = j"
    using i False by (auto simp: aimed_def)
  have uid: "?uid \<noteq> []" using mine_ok [OF mine] by (simp add: tunnel_ok_def)
  obtain c where run: "run_state (DeleteTunnel (fake_env ep) s i) (still ?x) = (Inr (), fake_step ?f c (still ?x))"
    using run_DeleteTunnel [OF aim(1), of s "still ?x"] s by auto
  have gone: "of_external ?f ?uid = None" by (rule of_external_deleted [OF sound uid aim(3)])
  have "sys_ok ep (?x\<lparr>cu_Platform := ?f\<rparr>)"
    by (rule sys_ok_platform [OF ok changed_for_deleted [OF sound aim(2)]]) (use gone dt in \<open>auto simp: held_ok_def\<close>)
  then show ?thesis
    using False gone dt unfolding release_tunnel_def if_P [OF False] wp_simps
    by (intro wp_call [OF attempts_client(4) run mine])
       (auto simp: wp_simps broken_call_def mine_def [of _ _ w' for w'] intro!: wp_drop_tunnel_finalizer)
qed

lemma plain_issued: "plain_id (''tun-'' @ show_nat k)"
  using show_nat_no_char [of "CHR ''/''" k] by (simp add: plain_id_def is_digit_def)

lemma wp_clean_up_tunnel:
  assumes mine: "mine ep t w" and dt: "om_DeletionTimestamp (tn_Meta t) \<noteq> None" and s: "srv_base s = ep"
  shows "wp (clean_up_tunnel (faulty (fake_env ep)) s t) (\<lambda>_. keeps ep) w"
proof -
  let ?x = "here w" and ?uid = "om_UID (tn_Meta t)" and ?i = "st_TunnelID (tn_Status t)"
  have sound: "sound_tunnels (cu_Platform ?x)" using mine by (simp add: mine_def keeps_def sys_ok_def)
  have ok: "?uid \<noteq> []" "id_ok ?i ?uid (cu_Platform ?x)" "held_ok t (stored_token ?x t) (cu_Platform ?x)"
    using mine_ok [OF mine] by (simp_all add: tunnel_ok_def)
  show ?thesis
  proof (cases "?i = []")
    case False
    then have "aimed t ?i (cu_Platform ?x)"
      using ok(2,3) plain_issued by (auto simp: aimed_def id_ok_def held_ok_def split: option.splits)
    then show ?thesis
      using wp_release_tunnel [OF mine dt s] False by (simp add: clean_up_tunnel_def tunnel_to_delete_def wp_simps)
  next
    case True
    let ?found = "map_option (\<lambda>x. \<lparr>sm_Tunnel = ft_tunnel (snd x), sm_RouteCount = 0\<rparr>) (of_external (cu_Platform ?x) ?uid)"
    obtain c where run: "run_state (FindTunnelByExternalID (fake_env ep) s ?uid) (still ?x) =
        (Inr ?found, fake_step (cu_Platform ?x) c (still ?x))"
      using run_FindTunnel [of "still ?x" ?uid s] sound ok(1) s by auto
    note same = mine_same [OF mine]
    have keeps: "keeps ep w'" if "here w' = here w" "clients w' = clients w" for w'
      using same [OF that] by (simp add: mine_def)
    have aimed: "aimed t (case ?found of None \<Rightarrow> [] | Some y \<Rightarrow> nt_ID (sm_Tunnel y)) (cu_Platform ?x)"
    proof (cases "of_external (cu_Platform ?x) ?uid")
      case (Some y)
      obtain k ft where y: "y = (k, ft)" by fastforce
      have held: "map_of (fa_tunnels (cu_Platform ?x)) k = Some ft" using of_external_map [OF sound] Some y by blast
      then show ?thesis
        using sound_entry(2,3) [OF sound held] of_external_SomeD(2) [OF Some] Some y by (simp add: aimed_def plain_id_def)
    qed (simp add: aimed_def)
    then show ?thesis
      unfolding clean_up_tunnel_def tunnel_to_delete_def Let_def if_not_P [OF not_not [THEN iffD2, OF True]] wp_simps
      by (intro wp_read [OF attempts_Find run])
         (use same in \<open>auto simp: wp_simps intro: keeps intro!: wp_release_tunnel [OF _ dt s] split: option.splits\<close>)
  qed
qed

lemma wp_tunnel_reconcileDelete:
  assumes mine: "mine ep t w" and dt: "om_DeletionTimestamp (tn_Meta t) \<noteq> None"
    and r: "r = main_tunnel_reconciler (faulty (fake_env ep)) version img"
  shows "wp (tunnel_reconcileDelete r t) (\<lambda>_. keeps ep) w"
proof -
  have client: "rc_Client r = faulty (fake_env ep)" "rc_API r = apiClients (faulty (fake_env ep)) version"
    by (simp_all add: r main_tunnel_reconciler_def)
  have keeps: "keeps ep w" and ep: "platform_of t = ep" using mine mine_ok [OF mine] by (simp_all add: mine_def tunnel_ok_def)
  have held: "held_ok t (stored_token (here w) t) (cu_Platform (here w))" using mine_ok [OF mine] by (simp add: tunnel_ok_def)
  have drop: "wp (drop_tunnel_finalizer (faulty (fake_env ep)) t) (\<lambda>_. keeps ep) w" if "st_ExternalID (tn_Status t) = []"
    by (rule wp_drop_tunnel_finalizer [OF mine dt]) (use held that in \<open>auto simp: held_ok_def split: option.splits\<close>)
  have clean: "wp (clean_up_tunnel (faulty (fake_env ep)) (cl_Tunnel c) t) (\<lambda>_. keeps ep) w'"
    if "keeps ep w'" "here w' = here w" "srv_base (cl_Tunnel c) = ep" for c w'
    by (rule wp_clean_up_tunnel [OF _ dt]) (use mine that in \<open>auto simp: mine_def\<close>)
  have "wp (apiClients (faulty (fake_env ep)) version t) (\<lambda>cl. wp (case cl of
      Inl err \<Rightarrow> do {
             _ \<leftarrow> Eventf (tunnel_key t) EventTypeWarning ''DeleteBlocked'' ''Deleting''
               (''Cannot delete the tunnel because its credential could not be read: '' @ Error err);
             ret (Returned \<lparr>res_RequeueAfter = permanentRetryPeriod\<rparr> None)
           }
    | Inr c \<Rightarrow> clean_up_tunnel (faulty (fake_env ep)) (cl_Tunnel c) t) (\<lambda>_. keeps ep)) w"
    by (rule wp_apiClients [OF keeps ep]) (auto simp: wp_simps clean)
  then show ?thesis
    unfolding tunnel_reconcileDelete_def Let_def client wp_if wp_bind
    using keeps drop by (simp add: wp_simps)
qed

section \<open>The whole reconcile\<close>

lemma wp_tunnel_Reconcile:
  assumes keeps: "keeps ep w" and r: "r = main_tunnel_reconciler (faulty (fake_env ep)) version img"
  shows "wp (tunnel_Reconcile r k) (\<lambda>_. keeps ep) w"
proof -
  obtain c where run: "run_state (Get_Tunnel (fake_env ep) k) (still (here w)) =
      (map_sum ErrKube id (lookup_object tn_Meta k (cu_Tunnels (ext (still (here w))))), emit (ext (still (here w))) c (still (here w)))"
    using run_Get_Tunnel unfolding fake_env_def by blast
  have client: "rc_Client r = faulty (fake_env ep)" by (simp add: r main_tunnel_reconciler_def)
  have kept: "keeps ep w'" if "here w' = here w" "clients w' = clients w" for w'
    using keeps that by (simp add: keeps_def)
  have found: "mine ep t w'" if "lookup_object tn_Meta k (cu_Tunnels (here w)) = Inr t" "here w' = here w" "clients w' = clients w" for t w'
    using that kept [OF that(2,3)] by (auto simp: mine_def lookup_object_def find_Some_iff split: option.splits)
  have delete: "wp (tunnel_reconcileDelete r t) (\<lambda>_. keeps ep) w'"
    if "om_DeletionTimestamp (tn_Meta t) \<noteq> None" "mine ep t w'" for t w'
    by (rule wp_tunnel_reconcileDelete [OF that(2,1) r])
  have sync: "wp (State_Monad.bind (add_tunnel_finalizer (faulty (fake_env ep)) t)
      (\<lambda>f. case f of Inl err \<Rightarrow> ret (Returned zero_result (Some err)) | Inr t \<Rightarrow> tunnel_sync r t)) (\<lambda>_. keeps ep) w'"
    if "om_DeletionTimestamp (tn_Meta t) = None" "mine ep t w'" for t w'
    unfolding wp_bind
    by (rule wp_add_tunnel_finalizer [OF that(2,1)]) (auto simp: wp_simps intro!: wp_tunnel_sync [OF _ _ _ r])
  show ?thesis
    unfolding tunnel_Reconcile_def Let_def client
    by (subst wp_bind, rule wp_read [OF attempts_kube(1) run])
       (auto simp: wp_return kept intro: delete sync found split: sum.split)
qed

end
