(* ===== verification/Route_Faults.thy ===== *)
theory Route_Faults
  imports System_Reconcile Route_Convergence
begin

text \<open>
  What a reconcile of a TunnelRoute guarantees to the rest of the system, with any of its calls
  failing or losing its answer: no Tunnel, Secret or Deployment changes and on the platform no tunnel
  comes, goes or changes, whatever identifiers the statuses hold and the platform answers.
  Hence it keeps the invariant of \<^verbatim>\<open>System_State\<close>.
\<close>

section \<open>The guarantee\<close>

text \<open>On the platform only routes change, and perhaps more identifiers are given out.\<close>

definition routes_fit :: "fakeAPI \<Rightarrow> bool" where
  "routes_fit f = (sound_tunnels f \<and> lists_ok f)"

definition undisturbed :: "fakeAPI \<Rightarrow> fakeAPI \<Rightarrow> bool" where
  "undisturbed f f' = (fa_tunnels f' = fa_tunnels f \<and> fa_nextID f \<le> fa_nextID f' \<and> routes_fit f')"

definition harmless :: "fakeAPI cluster \<Rightarrow> fakeAPI cluster \<Rightarrow> bool" where
  "harmless x x' = (cu_Tunnels x' = cu_Tunnels x \<and> cu_Secrets x' = cu_Secrets x \<and> cu_Deployments x' = cu_Deployments x
     \<and> cu_Version x \<le> cu_Version x' \<and> undisturbed (cu_Platform x) (cu_Platform x'))"

lemma undisturbed_refl: "routes_fit f \<Longrightarrow> undisturbed f f"
  by (simp add: undisturbed_def)

lemma harmless_refl: "routes_fit (cu_Platform x) \<Longrightarrow> harmless x x"
  by (simp add: harmless_def undisturbed_refl)

lemma harmless_trans [trans]: "harmless x y \<Longrightarrow> harmless y z \<Longrightarrow> harmless x z"
  by (simp add: harmless_def undisturbed_def)

lemma harmless_sound: "harmless x y \<Longrightarrow> routes_fit (cu_Platform y)"
  by (simp add: harmless_def undisturbed_def)

lemma harmless_ok:
  assumes "sys_ok ep x" and "harmless x x'"
  shows "sys_ok ep x'"
proof -
  have f: "of_external (cu_Platform x') e = of_external (cu_Platform x) e" for e
    using assms(2) by (simp add: of_external_def harmless_def undisturbed_def)
  have "id_ok i uid (cu_Platform x')" if "id_ok i uid (cu_Platform x)" for i uid
    using that assms(2) le_trans unfolding id_ok_def harmless_def undisturbed_def by metis
  then have "tunnel_ok ep t x'" if "tunnel_ok ep t x" for t
    using that assms(2) by (intro tunnel_ok_cong [OF that f]) (simp_all add: tunnel_ok_def harmless_def)
  moreover have "versions_ok x'"
    using assms less_le_trans unfolding sys_ok_def harmless_def versions_ok_def list_all_iff by metis
  ultimately show ?thesis
    using assms by (auto simp: sys_ok_def harmless_def undisturbed_def routes_fit_def no_orphans_def list_all_iff)
qed

section \<open>Requests to the routes of a tunnel\<close>

text \<open>The state with other routes, which fit, and perhaps one more identifier given out.\<close>

definition fit :: "nat \<Rightarrow> Route list \<Rightarrow> bool" where
  "fit n rs = (list_all wf_route rs \<and> listed n rs)"

lemma undisturbed_routes:
  assumes "routes_fit f" and n: "fa_nextID f \<le> n" and rs: "fit n rs"
  shows "undisturbed f (f\<lparr>fa_nextID := n, fa_routes := (fa_routes f)(i := rs)\<rparr>)"
proof -
  let ?f' = "f\<lparr>fa_nextID := n, fa_routes := (fa_routes f)(i := rs)\<rparr>"
  have "wf_entry ?f' e" if "wf_entry f e" for e
    using that n le_trans by (auto simp: wf_entry_def)
  then have "sound_tunnels ?f'"
    using assms by (auto simp: routes_fit_def sound_tunnels_def fit_def list_all_iff)
  moreover have "lists_ok ?f'"
    using assms listed_mono [OF _ n] by (simp add: routes_fit_def lists_ok_def fit_def)
  ultimately show ?thesis using n by (simp add: undisturbed_def routes_fit_def)
qed

lemma undisturbed_same_id:
  assumes "routes_fit f" and "fit (fa_nextID f) rs"
  shows "undisturbed f (f\<lparr>fa_routes := (fa_routes f)(i := rs)\<rparr>)"
  using undisturbed_routes [OF assms(1) le_refl assms(2)] by simp

lemma routes_fit_of: "routes_fit f \<Longrightarrow> fit (fa_nextID f) (fa_routes f k)"
  by (simp add: routes_fit_def sound_tunnels_def lists_ok_def fit_def)

lemma update_first_kept:
  assumes "update_first g j rs = Some (r, rs')" and "\<And>r. ro_ID (g r) = ro_ID r" and "\<And>r. wf_route r \<Longrightarrow> wf_route (g r)"
  shows "map ro_ID rs' = map ro_ID rs \<and> (list_all wf_route rs \<longrightarrow> list_all wf_route rs')"
  using assms by (induction rs arbitrary: rs') (auto split: if_splits option.splits)

lemma listed_ids: "map ro_ID rs' = map ro_ID rs \<Longrightarrow> listed n rs' = listed n rs"
proof -
  have "listed n xs = (distinct (map ro_ID xs) \<and> list_all (\<lambda>i. \<exists>k \<le> n. i = ''rt-'' @ show_nat k) (map ro_ID xs))" for xs
    by (simp add: listed_def list_all_iff)
  then show "map ro_ID rs' = map ro_ID rs \<Longrightarrow> listed n rs' = listed n rs" by simp
qed

lemma serve_PUT:
  assumes "routes_fit f" and "wf_update u"
    and "fake_serve (build_request s ''PUT'' p (Some (enc_update_route u))) path q f = (r, f')"
  shows "undisturbed f f'"
proof -
  have "undisturbed f g" if "fake_updateRoute i j u f = (r, g)" for i j r g
  proof (cases "update_first (apply_update u) j (fa_routes f i)")
    case None
    with that assms(1) show ?thesis by (simp add: fake_updateRoute_def undisturbed_refl)
  next
    case (Some p)
    then have g: "g = f\<lparr>fa_routes := (fa_routes f)(i := snd p)\<rparr>" using that by (auto simp: fake_updateRoute_def split: prod.splits)
    have "map ro_ID (snd p) = map ro_ID (fa_routes f i) \<and> (list_all wf_route (fa_routes f i) \<longrightarrow> list_all wf_route (snd p))"
      using Some assms(2) wf_apply_update by (intro update_first_kept [of "apply_update u" j _ "fst p"]) auto
    then have "fit (fa_nextID f) (snd p)"
      using routes_fit_of [OF assms(1), of i] listed_ids [of "snd p" "fa_routes f i"] by (simp add: fit_def)
    then show ?thesis unfolding g by (rule undisturbed_same_id [OF assms(1)])
  qed
  then show ?thesis
    using assms by (auto simp: fake_serve_def Let_def read_body_update undisturbed_refl split: option.splits)
qed

lemma serve_POST:
  assumes "routes_fit f" and "wf_create i" and "plain_id k"
    and "fake_serve (build_request s ''POST'' p (Some (enc_create_route i))) (k @ ''/routes'') q f = (r, f')"
  shows "undisturbed f f'"
proof -
  have "\<not> HasSuffix (k @ ''/routes'') ''/rotate-token''" by (auto dest: HasSuffix_last)
  moreover have "undisturbed f g" if "fake_createRoute k i f = (r, g)" for r g
  proof (cases "map_of (fa_tunnels f) k")
    case None
    with that assms(1) show ?thesis by (simp add: fake_createRoute_def undisturbed_refl)
  next
    case (Some t)
    let ?n = "Suc (fa_nextID f)" and ?r = "fake_new_route k (Suc (fa_nextID f)) i"
    have "wf_route ?r"
      using assms(2) by (simp add: fake_new_route_def wf_route_def wf_create_def zero_route_def int64_def)
    moreover have "ro_ID ?r = ''rt-'' @ show_nat ?n" by (simp add: fake_new_route_def)
    ultimately have "fit ?n (fa_routes f k @ [?r])"
      using routes_fit_of [OF assms(1), of k] le_SucI by (fastforce simp: fit_def listed_def list_all_iff)
    then show ?thesis
      using that Some undisturbed_routes [OF assms(1), of ?n _ k] by (auto simp: fake_createRoute_def Let_def)
  qed
  ultimately show ?thesis using assms(2,4) by (auto simp: fake_serve_def read_body_create)
qed

text \<open>A path with a slash in it is no tunnel's.\<close>

lemma serve_DELETE:
  assumes "routes_fit f" and "CHR ''/'' \<in> set path" and "rq_Method rq = ''DELETE''" and "fake_serve rq path q f = (r, f')"
  shows "undisturbed f f'"
proof -
  have "filter (\<lambda>(k, _). k \<noteq> path) (fa_tunnels f) = fa_tunnels f"
    using assms(1,2) plain_rt(2) by (auto simp: routes_fit_def sound_tunnels_def list_all_iff wf_entry_def plain_id_def filter_id_conv)
  then have "undisturbed f (fake_delete_tunnel path f)"
    using undisturbed_same_id [OF assms(1), of "[]" path] by (simp add: fake_delete_tunnel_def fit_def listed_def)
  moreover have "undisturbed f g" if "fake_deleteRoute i j f = (r, g)" for i j r g
  proof -
    have "fit (fa_nextID f) (filter (\<lambda>r. ro_ID r \<noteq> j) (fa_routes f i))"
      using routes_fit_of [OF assms(1), of i] listed_filter by (auto simp: fit_def list_all_iff)
    then show ?thesis using that undisturbed_same_id [OF assms(1)] by (auto simp: fake_deleteRoute_def)
  qed
  ultimately show ?thesis
    using assms(2-4) by (auto simp: fake_serve_def Let_def split: option.splits)
qed

lemma trim_keeps_slash:
  assumes "plain_id i"
  shows "CHR ''/'' \<in> set (trim_slashes (CHR ''/'' # i @ ''/routes/'' @ j))"
proof -
  let ?P = "\<lambda>c. c = CHR ''/''"
  have "dropWhile ?P (CHR ''/'' # i @ ''/routes/'' @ j) = i @ ''/routes/'' @ j"
    using assms by (cases i) (auto simp: plain_id_def)
  then have trim: "trim_slashes (CHR ''/'' # i @ ''/routes/'' @ j) = rev (dropWhile ?P (rev (CHR ''/'' # j) @ rev (i @ ''/routes'')))"
    by (simp add: trim_slashes_def)
  have "dropWhile ?P (rev (i @ ''/routes'')) = rev (i @ ''/routes'')" by simp
  then show ?thesis unfolding trim dropWhile_append by auto
qed

text \<open>The requests the operator sends to the routes of a tunnel.\<close>

inductive routes_request :: "string \<Rightarrow> string \<Rightarrow> json option \<Rightarrow> bool" where
  lists: "plain_id i \<Longrightarrow> routes_request ''GET'' (routesPath i) None"
| makes: "plain_id i \<Longrightarrow> wf_create inp \<Longrightarrow> routes_request ''POST'' (routesPath i) (Some (enc_create_route inp))"
| alters: "plain_id i \<Longrightarrow> wf_update u \<Longrightarrow> routes_request ''PUT'' (routePath i j) (Some (enc_update_route u))"
| removes: "plain_id i \<Longrightarrow> routes_request ''DELETE'' (routePath i j) None"

lemma routes_request_harmless:
  assumes "routes_request m p b" and "routes_fit f" and "srv_base s = ep"
    and "fake_http ep c (build_request s m p b) f = (a, f')"
  shows "undisturbed f f'"
  using assms(1)
proof cases
  case (lists i)
  then show ?thesis
    using assms by (auto simp: fake_list_routes undisturbed_refl)
next
  case (makes i inp)
  then show ?thesis
    using assms serve_POST [OF assms(2) makes(5,4)]
    by (auto simp: fake_http_path [OF assms(3), of _ "CHR ''/'' # i @ ''/routes''"] trim_routes split: prod.splits)
next
  case (alters i u j)
  then show ?thesis
    using assms serve_PUT [OF assms(2) alters(5)]
    by (auto simp: fake_http_path [OF assms(3), of _ "CHR ''/'' # i @ ''/routes/'' @ j"] split: prod.splits)
next
  case (removes i j)
  let ?path = "trim_slashes (CHR ''/'' # i @ ''/routes/'' @ j)"
  have "\<exists>r. fake_serve (build_request s m p b) ?path [] f = (r, f')"
    using removes assms(4)
    by (auto simp: fake_http_path [OF assms(3), of _ "CHR ''/'' # i @ ''/routes/'' @ j"] split: prod.splits)
  then obtain r where r: "fake_serve (build_request s m p b) ?path [] f = (r, f')" by blast
  show ?thesis
    by (rule serve_DELETE [OF assms(2) trim_keeps_slash [OF removes(4)] _ r]) (simp add: removes(1))
qed

section \<open>Programs that keep it\<close>

definition leaves :: "string \<Rightarrow> fakeAPI cluster \<Rightarrow> (fakeAPI cluster \<times> fault list) world \<Rightarrow> bool" where
  "leaves ep x w = (harmless x (here w) \<and> clients_ok ep (clients w))"

text \<open>\<open>guarantees ep x m\<close>: \<open>m\<close>, started after \<open>x\<close> and harmless changes of it, changes it harmlessly.\<close>

definition guarantees :: "string \<Rightarrow> fakeAPI cluster \<Rightarrow> (fakeAPI cluster \<times> fault list, 'a) io \<Rightarrow> bool" where
  "guarantees ep x m = (\<forall>w. leaves ep x w \<longrightarrow> wp m (\<lambda>_. leaves ep x) w)"

named_theorems guar_intro \<open>rules of the guarantee\<close>

lemma guar_ret [guar_intro]: "guarantees ep x (ret a)"
  by (simp add: guarantees_def wp_simps)

lemma guar_bind [guar_intro]: "guarantees ep x m \<Longrightarrow> (\<And>a. guarantees ep x (f a)) \<Longrightarrow> guarantees ep x (State_Monad.bind m f)"
  unfolding guarantees_def wp_bind by (blast intro: wp_mono)

lemma guar_Eventf [guar_intro]: "guarantees ep x (Eventf obj etype reason action note)"
  by (simp add: guarantees_def wp_simps leaves_def)

lemma guar_attempts:
  assumes "attempts mf m"
    and "\<And>y r w. routes_fit (cu_Platform y) \<Longrightarrow> run_state m (still y) = (r, w) \<Longrightarrow> harmless y (ext w)"
  shows "guarantees ep x mf"
  unfolding guarantees_def
proof (intro allI impI)
  fix w
  assume w: "leaves ep x w"
  obtain r w0 where run: "run_state m (still (here w)) = (r, w0)" by fastforce
  have "harmless (here w) (ext w0)"
    by (rule assms(2) [OF _ run]) (use w harmless_sound in \<open>auto simp: leaves_def\<close>)
  then show "wp mf (\<lambda>_. leaves ep x) w"
    using w by (intro wp_attempts [OF assms(1) run]) (auto simp: leaves_def intro: harmless_trans)
qed

lemma harmless_commit:
  assumes "commit (\<lambda>objs y. y\<lparr>cu_Routes := objs\<rparr>) r x = (a, x')" and "routes_fit (cu_Platform x)"
  shows "harmless x x'"
  using assms by (auto simp: commit_def harmless_def undisturbed_refl split: sum.splits)

lemma guar_reads [guar_intro]:
  "guarantees ep x (Get_TunnelRoute (faulty (fake_env ep)) k)" "guarantees ep x (Get_Service (faulty (fake_env ep)) k)"
  by (rule guar_attempts [OF attempts_kube(2)], fastforce simp: call_defs run_kube_call fake_env_def cluster_env_def intro: harmless_refl)
    (rule guar_attempts [OF attempts_kube(4)], fastforce simp: call_defs run_kube_call fake_env_def cluster_env_def intro: harmless_refl)

lemma guar_writes [guar_intro]:
  "guarantees ep x (Update_TunnelRoute (faulty (fake_env ep)) r)" "guarantees ep x (StatusUpdate_TunnelRoute (faulty (fake_env ep)) r)"
proof -
  have run: "harmless y (ext w)"
    if "routes_fit (cu_Platform y)"
      "run_state (Update_TunnelRoute (fake_env ep) r) (still y) = (a, w) \<or> run_state (StatusUpdate_TunnelRoute (fake_env ep) r) (still y) = (a, w)"
    for y a w
    using that
    by (auto simp: call_defs run_kube_call fake_env_def cluster_env_def update_route_in_def status_route_in_def
        intro: harmless_commit split: prod.splits)
  show "guarantees ep x (Update_TunnelRoute (faulty (fake_env ep)) r)"
    by (rule guar_attempts [OF attempts_kube(7)]) (blast intro: run)
  show "guarantees ep x (StatusUpdate_TunnelRoute (faulty (fake_env ep)) r)"
    by (rule guar_attempts [OF attempts_kube(8)]) (blast intro: run)
qed

lemma guar_request:
  assumes "routes_request m p b" and "srv_base s = ep"
  shows "guarantees ep x (do_request (faulty (fake_env ep)) s m p b out zero)"
proof (rule guar_attempts [OF attempts_do_request])
  fix y r w
  assume y: "routes_fit (cu_Platform y)" and run: "run_state (do_request (fake_env ep) s m p b out zero) (still y) = (r, w)"
  obtain a f where f: "fake_http ep (srv_http s) (build_request s m p b) (cu_Platform y) = (a, f)" by fastforce
  then have "ext w = y\<lparr>cu_Platform := f\<rparr>"
    using run run_fake_request [of s m p b "still y" a f out zero] assms(2) by auto
  with routes_request_harmless [OF assms(1) y assms(2) f] show "harmless y (ext w)"
    by (simp add: harmless_def)
qed

lemma guar_Get_Tunnel:
  assumes "\<And>t. t \<in> set (cu_Tunnels x) \<Longrightarrow> guarantees ep x (f (Inr t))" and "\<And>e. guarantees ep x (f (Inl e))"
  shows "guarantees ep x (State_Monad.bind (Get_Tunnel (faulty (fake_env ep)) k) f)"
  unfolding guarantees_def wp_bind
proof (intro allI impI)
  fix w
  assume w: "leaves ep x w"
  obtain c where run: "run_state (Get_Tunnel (fake_env ep) k) (still (here w)) =
      (map_sum ErrKube id (lookup_object tn_Meta k (cu_Tunnels (ext (still (here w))))), emit (ext (still (here w))) c (still (here w)))"
    using run_Get_Tunnel unfolding fake_env_def by blast
  have same: "leaves ep x w'" if "here w' = here w" "clients w' = clients w" for w'
    using w that by (simp add: leaves_def)
  have found: "t \<in> set (cu_Tunnels x)" if "lookup_object tn_Meta k (cu_Tunnels (here w)) = Inr t" for t
    using that w by (auto simp: leaves_def harmless_def lookup_object_def find_Some_iff split: option.splits)
  have "wp (f r) (\<lambda>_. leaves ep x) w'"
    if "guarantees ep x (f r)" "here w' = here w" "clients w' = clients w" for r w'
    using that(1) same [OF that(2,3)] by (simp add: guarantees_def)
  with found assms show "wp (Get_Tunnel (faulty (fake_env ep)) k) (\<lambda>a. wp (f a) (\<lambda>_. leaves ep x)) w"
    by (intro wp_read [OF attempts_kube(1) run]) (auto split: sum.splits, cases "lookup_object tn_Meta k (cu_Tunnels (here w))", auto)
qed

lemma guar_client:
  assumes ok: "sys_ok ep x" and t: "t \<in> set (cu_Tunnels x)"
    and "\<And>c. srv_base (cl_Tunnel c) = ep \<Longrightarrow> guarantees ep x (f (Inr c))" and "\<And>e. guarantees ep x (f (Inl e))"
  shows "guarantees ep x (State_Monad.bind (apiClients (faulty (fake_env ep)) version t) f)"
  unfolding guarantees_def wp_bind
proof (intro allI impI)
  fix w
  assume w: "leaves ep x w"
  then have keeps: "keeps ep w" using harmless_ok [OF ok] by (simp add: leaves_def keeps_def)
  have ep: "platform_of t = ep" using sys_ok_member(1) [OF ok t] by (simp add: tunnel_ok_def)
  have "leaves ep x w'" if "keeps ep w'" "here w' = here w" for w'
    using w that by (simp add: leaves_def keeps_def)
  then show "wp (apiClients (faulty (fake_env ep)) version t) (\<lambda>a. wp (f a) (\<lambda>_. leaves ep x)) w"
    using assms(3,4) by (intro wp_apiClients [OF keeps ep]) (auto simp: guarantees_def)
qed

section \<open>The methods of the reconciler\<close>

lemma recorded_id_plain:
  assumes "sys_ok ep x" and "t \<in> set (cu_Tunnels x)" and "st_TunnelID (tn_Status t) \<noteq> []"
  shows "plain_id (st_TunnelID (tn_Status t))"
  using sys_ok_member(1) [OF assms(1,2)] assms(3) plain_rt(2) unfolding tunnel_ok_def id_ok_def by metis

lemma guar_route_finish [guar_intro]: "guarantees ep x (route_finish (faulty (fake_env ep)) rt res e)"
  unfolding route_finish_def Let_def by (auto intro!: guar_intro split: sum.split option.split)

lemma guar_drop_finalizer [guar_intro]: "guarantees ep x (drop_route_finalizer (faulty (fake_env ep)) rt)"
  unfolding drop_route_finalizer_def by (intro guar_intro)

lemma guar_add_finalizer [guar_intro]: "guarantees ep x (add_route_finalizer (faulty (fake_env ep)) rt)"
  unfolding add_route_finalizer_def Let_def by (auto intro!: guar_intro split: prod.split)

lemma guar_route_calls [guar_intro]:
  assumes "plain_id i" and "srv_base s = ep"
  shows "guarantees ep x (ListRoutes (faulty (fake_env ep)) s i)"
    "wf_create inp \<Longrightarrow> guarantees ep x (CreateRoute (faulty (fake_env ep)) s i inp)"
    "wf_update u \<Longrightarrow> guarantees ep x (UpdateRoute (faulty (fake_env ep)) s i j u)"
    "guarantees ep x (DeleteRoute (faulty (fake_env ep)) s i j)"
  using assms unfolding ListRoutes_def CreateRoute_def UpdateRoute_def DeleteRoute_def
  by (auto intro!: guar_bind guar_ret guar_request routes_request.intros)

lemma guar_ensureRoute [guar_intro]:
  assumes "plain_id i" and "srv_base s = ep"
  shows "guarantees ep x (ensureRoute (faulty (fake_env ep)) s rt i host port)"
proof -
  have "wf_create (create_input rt host port)" by (simp add: wf_create_def create_input_def)
  then show ?thesis
    using assms unfolding ensureRoute_def findRoute_def create_and_reconcile_def reconcile_drift_def routeDrift_fields
    by (auto intro!: guar_intro split: sum.split option.split)
qed

lemma guar_clean_up [guar_intro]:
  assumes "plain_id i" and "srv_base s = ep"
  shows "guarantees ep x (clean_up_route (faulty (fake_env ep)) s rt i)"
  using assms unfolding clean_up_route_def route_to_delete_def findRoute_def Let_def
  by (auto intro!: guar_intro split: sum.split option.split)

lemma guar_resolve [guar_intro]: "rr_Client r = faulty (fake_env ep) \<Longrightarrow> guarantees ep x (resolveUpstream r rt)"
  unfolding resolveUpstream_def by (auto intro!: guar_intro split: sum.split option.split)

lemma guar_route_Reconcile:
  assumes ok: "sys_ok ep x" and r: "r = main_route_reconciler (faulty (fake_env ep)) version domain"
  shows "guarantees ep x (route_Reconcile r k)"
proof -
  have client: "rr_Client r = faulty (fake_env ep)" "rr_API r = apiClients (faulty (fake_env ep)) version"
    by (simp_all add: r)
  have publish: "guarantees ep x (route_publish r rt t host port)"
    if "t \<in> set (cu_Tunnels x)" "st_TunnelID (tn_Status t) \<noteq> []" for rt t host port
    using recorded_id_plain [OF ok that] unfolding route_publish_def Let_def client
    by (intro guar_client [OF ok that(1)]) (auto intro!: guar_intro split: sum.split)
  have sync: "guarantees ep x (route_sync r rt t)" if "t \<in> set (cu_Tunnels x)" for rt t
    using publish [OF that] unfolding route_sync_def Let_def client
    by (auto intro!: guar_intro client split: sum.split option.split)
  have "guarantees ep x (deleteRemoteRoute r rt i)" if "plain_id i" for rt i
    using that unfolding deleteRemoteRoute_def Let_def client
    by (intro guar_Get_Tunnel) (simp, rule guar_client [OF ok], auto intro!: guar_intro)
  then have delete: "guarantees ep x (route_reconcileDelete r rt (Inr t))" if "t \<in> set (cu_Tunnels x)" for rt t
    using recorded_id_plain [OF ok that] unfolding route_reconcileDelete_def Let_def client
    by (auto intro!: guar_intro split: sum.split)
  have "guarantees ep x (route_reconcileDelete r rt (Inl e))" for rt e
    unfolding route_reconcileDelete_def Let_def client by (auto intro!: guar_intro)
  moreover have "guarantees ep x (State_Monad.bind (add_route_finalizer (faulty (fake_env ep)) rt)
      (\<lambda>f. case f of Inl err \<Rightarrow> ret (Returned zero_result (Some err)) | Inr rt \<Rightarrow> route_sync r rt t))"
    if "t \<in> set (cu_Tunnels x)" for rt t
    using sync [OF that] by (auto intro!: guar_intro split: sum.split)
  ultimately show ?thesis
    using delete unfolding route_Reconcile_def Let_def client
    by (intro guar_bind [OF guar_reads(1)])
      (auto intro!: guar_Get_Tunnel intro: guar_intro split: sum.split)
qed

end
