(* ===== verification/System.thy ===== *)
theory System
  imports Route_Faults
begin

text \<open>
  The operator in its surroundings as a transition system: reconciles of any Tunnel and of any
  TunnelRoute at any time, with any of their calls failing or losing its answer; restarts of the
  operator; users who create, change and delete Tunnels; whatever else changes in the cluster or on
  the platform without touching what the operator owns. The invariant holds in every reachable state.
\<close>

section \<open>Transition systems\<close>

locale safe_system =
  fixes init :: "'s \<Rightarrow> bool" and step :: "'s \<Rightarrow> 's \<Rightarrow> bool" and inv :: "'s \<Rightarrow> bool"
  assumes init_inv: "init s \<Longrightarrow> inv s" and step_inv: "inv s \<Longrightarrow> step s s' \<Longrightarrow> inv s'"
begin

lemma steps_inv: "rtranclp step s s' \<Longrightarrow> inv s \<Longrightarrow> inv s'"
  by (induction rule: rtranclp_induct) (auto intro: step_inv)

lemma reached: "\<exists>s0. init s0 \<and> rtranclp step s0 s \<Longrightarrow> inv s"
  using steps_inv init_inv by blast

end

section \<open>The steps\<close>

text \<open>The cluster with its platform, and the clients the operator has cached.\<close>

type_synonym system = "fakeAPI cluster \<times> (string \<rightharpoonup> Client)"

text \<open>
  What users do with Tunnels. A new object has an identity of its own and no status; of an earlier
  object of its name nothing is left under the names its Secret and its Deployment will take.
\<close>

definition creatable :: "string \<Rightarrow> Tunnel \<Rightarrow> fakeAPI cluster \<Rightarrow> bool" where
  "creatable ep t x =
     (tunnel_key t \<notin> set (map tunnel_key (cu_Tunnels x)) \<and> om_UID (tn_Meta t) \<noteq> []
      \<and> om_UID (tn_Meta t) \<notin> set (map (\<lambda>u. om_UID (tn_Meta u)) (cu_Tunnels x))
      \<and> om_DeletionTimestamp (tn_Meta t) = None \<and> st_TunnelID (tn_Status t) = [] \<and> platform_of t = ep
      \<and> stored_token x t = [] \<and> secret_free x t \<and> deployment_free x t)"

definition user_create :: "Tunnel \<Rightarrow> fakeAPI cluster \<Rightarrow> fakeAPI cluster" where
  "user_create t x = x\<lparr>cu_Version := Suc (cu_Version x), cu_Tunnels := cu_Tunnels x @ [versioned t x]\<rparr>"

definition user_edit :: "TunnelSpec \<Rightarrow> int \<Rightarrow> Tunnel \<Rightarrow> fakeAPI cluster \<Rightarrow> fakeAPI cluster" where
  "user_edit spec generation t x =
     rewritten x (versioned (t\<lparr>tn_Spec := spec, tn_Meta := (tn_Meta t)\<lparr>om_Generation := generation\<rparr>\<rparr>) x)"

definition user_delete :: "string \<Rightarrow> Tunnel \<Rightarrow> fakeAPI cluster \<Rightarrow> fakeAPI cluster" where
  "user_delete now t x = rewritten x (versioned (t\<lparr>tn_Meta := (tn_Meta t)\<lparr>om_DeletionTimestamp := Some now\<rparr>\<rparr>) x)"

text \<open>
  Changes elsewhere: the Tunnels and the platform stay, a token Secret stays or loses its token, and
  no other controller takes the operator's Secrets and Deployments.
\<close>

definition elsewhere :: "fakeAPI cluster \<Rightarrow> fakeAPI cluster \<Rightarrow> bool" where
  "elsewhere x x' =
     (cu_Tunnels x' = cu_Tunnels x \<and> cu_Platform x' = cu_Platform x \<and> cu_Version x \<le> cu_Version x'
      \<and> (\<forall>t \<in> set (cu_Tunnels x). stored_token x' t \<in> {[], stored_token x t} \<and> secret_free x' t \<and> deployment_free x' t))"

text \<open>Changes on the platform: tunnels connect and disconnect, routes come and go, but its tunnels stay.\<close>

definition entry_of :: "string \<times> fakeTunnel \<Rightarrow> string \<times> string \<times> string" where
  "entry_of e = (fst e, ft_token (snd e), external_of e)"

definition same_tunnels :: "fakeAPI \<Rightarrow> fakeAPI \<Rightarrow> bool" where
  "same_tunnels f f' = (map entry_of (fa_tunnels f') = map entry_of (fa_tunnels f)
     \<and> fa_nextID f \<le> fa_nextID f' \<and> sound_tunnels f' \<and> lists_ok f')"

inductive step :: "string \<Rightarrow> string \<Rightarrow> string \<Rightarrow> system \<Rightarrow> system \<Rightarrow> bool" for ep version img where
  reconciles: "run_state (tunnel_Reconcile (main_tunnel_reconciler (faulty (fake_env ep)) version img) k)
      \<lparr>ext = (x, faults), trace = [], clients = cs\<rparr> = (out, w) \<Longrightarrow> step ep version img (x, cs) (here w, clients w)"
| publishes: "run_state (route_Reconcile (main_route_reconciler (faulty (fake_env ep)) version domain) k)
      \<lparr>ext = (x, faults), trace = [], clients = cs\<rparr> = (out, w) \<Longrightarrow> step ep version img (x, cs) (here w, clients w)"
| restarts: "step ep version img (x, cs) (x, Map.empty)"
| creates: "creatable ep t x \<Longrightarrow> step ep version img (x, cs) (user_create t x, cs)"
| edits: "t \<in> set (cu_Tunnels x) \<Longrightarrow> platform_of (t\<lparr>tn_Spec := spec\<rparr>) = ep \<Longrightarrow>
    step ep version img (x, cs) (user_edit spec generation t x, cs)"
| deletes: "t \<in> set (cu_Tunnels x) \<Longrightarrow> step ep version img (x, cs) (user_delete now t x, cs)"
| changes: "elsewhere x x' \<Longrightarrow> step ep version img (x, cs) (x', cs)"
| serves: "same_tunnels (cu_Platform x) f \<Longrightarrow> step ep version img (x, cs) (x\<lparr>cu_Platform := f\<rparr>, cs)"

inductive_cases step_elim: "step ep version img (x, cs) s'"

definition initial :: "system \<Rightarrow> bool" where
  "initial s = (cu_Tunnels (fst s) = [] \<and> cu_Platform (fst s) = newFakeAPI \<and> snd s = Map.empty)"

definition reachable :: "string \<Rightarrow> string \<Rightarrow> string \<Rightarrow> system \<Rightarrow> bool" where
  "reachable ep version img s = (\<exists>s0. initial s0 \<and> rtranclp (step ep version img) s0 s)"

section \<open>Each step keeps the invariant\<close>

definition system_ok :: "string \<Rightarrow> system \<Rightarrow> bool" where
  "system_ok ep s = (sys_ok ep (fst s) \<and> clients_ok ep (snd s))"

lemma initial_ok: "initial s \<Longrightarrow> system_ok ep s"
  by (simp add: initial_def system_ok_def sys_ok_def clients_ok_def no_orphans_def versions_ok_def sound_tunnels_def lists_ok_def listed_def newFakeAPI_def)

lemma reconciles_ok:
  assumes "system_ok ep (x, cs)"
    and "run_state (tunnel_Reconcile (main_tunnel_reconciler (faulty (fake_env ep)) version img) k)
      \<lparr>ext = (x, faults), trace = [], clients = cs\<rparr> = (out, w)"
  shows "system_ok ep (here w, clients w)"
proof -
  have "keeps ep \<lparr>ext = (x, faults), trace = [], clients = cs\<rparr>" using assms(1) by (simp add: keeps_def system_ok_def)
  from run_stateD [OF assms(2) wp_tunnel_Reconcile [OF this refl]] show ?thesis by (simp add: keeps_def system_ok_def)
qed

lemma user_create_ok:
  assumes ok: "sys_ok ep x" and t: "creatable ep t x"
  shows "sys_ok ep (user_create t x)"
proof -
  let ?t = "versioned t x" and ?x = "user_create t x"
  have none: "of_external (cu_Platform x) (om_UID (tn_Meta t)) = None"
    using external_in_use [OF ok] t by (cases "of_external (cu_Platform x) (om_UID (tn_Meta t))") (auto simp: creatable_def)
  have same: "tunnel_ok ep u ?x = tunnel_ok ep u x" for u
    by (simp add: tunnel_ok_def user_create_def stored_token_def secret_free_def deployment_free_def)
  have "tunnel_ok ep t x" using t none by (simp add: tunnel_ok_def creatable_def id_ok_def held_ok_def)
  then have "list_all (\<lambda>u. tunnel_ok ep u ?x) (cu_Tunnels ?x)"
    using ok unfolding same by (simp add: user_create_def sys_ok_def)
  moreover have "no_orphans ?x" using ok by (auto simp: sys_ok_def no_orphans_def user_create_def list_all_iff)
  moreover have "versions_ok ?x"
    using ok by (fastforce simp: sys_ok_def versions_ok_def user_create_def list_all_iff)
  ultimately show ?thesis
    using ok t by (simp add: sys_ok_def) (simp add: creatable_def user_create_def)
qed

text \<open>A change of the object by its user goes through one write.\<close>

lemma user_write_ok:
  assumes ok: "sys_ok ep x" and t: "t \<in> set (cu_Tunnels x)"
    and same: "key_of m = tunnel_key t" "om_UID m = om_UID (tn_Meta t)" "om_Finalizers m = om_Finalizers (tn_Meta t)"
    and dt: "om_DeletionTimestamp m = om_DeletionTimestamp (tn_Meta t) \<or> om_DeletionTimestamp m \<noteq> None"
    and ep: "platform_of (t\<lparr>tn_Spec := spec\<rparr>) = ep"
  shows "sys_ok ep (rewritten x (versioned (t\<lparr>tn_Spec := spec, tn_Meta := m\<rparr>) x))"
proof (rule sys_ok_rewritten [OF ok t])
  note mine = sys_ok_member(1) [OF ok t]
  then have held: "held_ok t (stored_token x t) (cu_Platform x)" by (simp add: tunnel_ok_def)
  show "of_external (cu_Platform x) (om_UID (tn_Meta t)) = None"
    if "om_Finalizers (tn_Meta (versioned (t\<lparr>tn_Spec := spec, tn_Meta := m\<rparr>) x)) = []"
    using that held same(3) by (auto simp: held_ok_def split: option.splits)
  show "tunnel_ok ep (versioned (t\<lparr>tn_Spec := spec, tn_Meta := m\<rparr>) x) x"
  proof -
    let ?t = "t\<lparr>tn_Spec := spec, tn_Meta := m\<rparr>"
    have names: "token_name ?t = token_name t" "agent_name ?t = agent_name t" "takeable ?t = takeable t"
      using same by (simp_all add: key_of_def takeable_def [abs_def])
    have "stored_token x ?t = stored_token x t" "secret_free x ?t = secret_free x t" "deployment_free x ?t = deployment_free x t"
      unfolding stored_token_def secret_free_def deployment_free_def names by (rule refl)+
    moreover have "platform_of ?t = ep" using ep by (simp add: platform_of_def)
    moreover have "held_ok ?t (stored_token x t) (cu_Platform x)"
      using held same dt by (auto simp: held_ok_def split: option.splits)
    ultimately show ?thesis using mine same unfolding tunnel_ok_version by (simp add: tunnel_ok_def)
  qed
qed (use same in \<open>simp_all\<close>)

lemma elsewhere_ok:
  assumes "sys_ok ep x" and "elsewhere x x'"
  shows "sys_ok ep x'"
proof -
  have "held_ok t token' f" if "held_ok t token f" "token' \<in> {[], token}" for t token token' f
    using that by (auto simp: held_ok_def split: option.splits)
  then have "list_all (\<lambda>t. tunnel_ok ep t x') (cu_Tunnels x')"
    using assms by (fastforce simp: elsewhere_def sys_ok_def tunnel_ok_def list_all_iff)
  moreover have "versions_ok x'"
    using assms unfolding versions_ok_def elsewhere_def sys_ok_def list_all_iff by (metis less_le_trans)
  ultimately show ?thesis using assms by (simp add: elsewhere_def sys_ok_def no_orphans_def)
qed

lemma find_map: "map_option g (find (\<lambda>x. Q (g x)) xs) = find Q (map g xs)"
  by (induction xs) auto

lemma same_tunnels_find:
  assumes "same_tunnels f f'"
  shows "map_option entry_of (of_external f' e) = map_option entry_of (of_external f e)"
proof -
  have "of_external f e = find (\<lambda>x. snd (snd (entry_of x)) = e) (fa_tunnels f)" for f
    by (simp add: of_external_def entry_of_def)
  then have "map_option entry_of (of_external f e) = find (\<lambda>y. snd (snd y) = e) (map entry_of (fa_tunnels f))" for f
    by (simp add: find_map [where Q = "\<lambda>y. snd (snd y) = e"])
  then show ?thesis using assms by (simp add: same_tunnels_def)
qed

lemma same_tunnels_member:
  assumes "same_tunnels f f'" and "x \<in> set (fa_tunnels f')"
  shows "\<exists>y \<in> set (fa_tunnels f). fst y = fst x \<and> external_of y = external_of x"
proof -
  have "entry_of x \<in> entry_of ` set (fa_tunnels f)"
    using assms by (metis same_tunnels_def imageI list.set_map)
  then obtain y where "y \<in> set (fa_tunnels f)" "entry_of x = entry_of y" by blast
  then show ?thesis by (intro bexI [of _ y]) (simp_all add: entry_of_def)
qed

lemma serves_ok:
  assumes ok: "sys_ok ep x" and f: "same_tunnels (cu_Platform x) f"
  shows "sys_ok ep (x\<lparr>cu_Platform := f\<rparr>)"
proof -
  let ?f = "cu_Platform x"
  have sound: "sound_tunnels ?f" using ok by (simp add: sys_ok_def)
  have id: "id_ok i uid f" if before: "id_ok i uid ?f" for i uid
  proof (cases "i = []")
    case False
    then obtain k where k: "k \<le> fa_nextID ?f" "i = ''tun-'' @ show_nat k"
        "\<And>ft. map_of (fa_tunnels ?f) i = Some ft \<Longrightarrow> external_of (i, ft) = uid"
      using before by (auto simp: id_ok_def)
    have "external_of (i, ft) = uid" if at: "map_of (fa_tunnels f) i = Some ft" for ft
    proof -
      obtain y where y: "y \<in> set (fa_tunnels ?f)" "fst y = i" "external_of y = external_of (i, ft)"
        using same_tunnels_member [OF f map_of_SomeD [OF at]] by auto
      then show ?thesis using map_of_held [OF sound y(1)] k(3) [of "snd y"] y(2,3) by (simp add: external_of_def)
    qed
    moreover have "k \<le> fa_nextID f" using k(1) f by (simp add: same_tunnels_def)
    ultimately show ?thesis using k(2) unfolding id_ok_def by blast
  qed (simp add: id_ok_def)
  have held: "held_ok t token f" if "held_ok t token ?f" for t token
    using that same_tunnels_find [OF f, of "om_UID (tn_Meta t)"]
    by (auto simp: held_ok_def entry_of_def split: option.splits)
  have "tunnel_ok ep t (x\<lparr>cu_Platform := f\<rparr>)" if "tunnel_ok ep t x" for t
    using that id held by (simp add: tunnel_ok_def stored_token_def secret_free_def deployment_free_def)
  moreover have "no_orphans (x\<lparr>cu_Platform := f\<rparr>)"
  proof -
    have "external_of e \<in> set (map (\<lambda>t. om_UID (tn_Meta t)) (cu_Tunnels x))" if e: "e \<in> set (fa_tunnels f)" for e
    proof -
      obtain y where "y \<in> set (fa_tunnels ?f)" "external_of y = external_of e" using same_tunnels_member [OF f e] by blast
      with sys_ok_owner [OF ok, of y] show ?thesis by (metis imageI list.set_map)
    qed
    then show ?thesis by (simp add: no_orphans_def list_all_iff)
  qed
  ultimately show ?thesis
    using ok f by (auto simp: sys_ok_def same_tunnels_def versions_ok_def list_all_iff)
qed

lemma publishes_ok:
  assumes "system_ok ep (x, cs)"
    and "run_state (route_Reconcile (main_route_reconciler (faulty (fake_env ep)) version domain) k)
      \<lparr>ext = (x, faults), trace = [], clients = cs\<rparr> = (out, w)"
  shows "harmless x (here w)" "system_ok ep (here w, clients w)"
proof -
  have ok: "sys_ok ep x" using assms(1) by (simp add: system_ok_def)
  then have "leaves ep x \<lparr>ext = (x, faults), trace = [], clients = cs\<rparr>"
    using assms(1) by (simp add: leaves_def system_ok_def harmless_refl sys_ok_def routes_fit_def)
  with guar_route_Reconcile [OF ok refl, of version domain k]
  have "wp (route_Reconcile (main_route_reconciler (faulty (fake_env ep)) version domain) k) (\<lambda>_. leaves ep x)
      \<lparr>ext = (x, faults), trace = [], clients = cs\<rparr>" by (simp add: guarantees_def)
  from run_stateD [OF assms(2) this] have "leaves ep x w" .
  then show "harmless x (here w)" "system_ok ep (here w, clients w)"
    using harmless_ok [OF ok] by (simp_all add: leaves_def system_ok_def)
qed

lemma step_ok:
  assumes "system_ok ep s" and "step ep version img s s'"
  shows "system_ok ep s'"
  using assms(2,1)
proof cases
  case (edits t x spec cs generation)
  then have "sys_ok ep (rewritten x (versioned (t\<lparr>tn_Spec := spec, tn_Meta := (tn_Meta t)\<lparr>om_Generation := generation\<rparr>\<rparr>) x))"
    using assms(1) by (intro user_write_ok) (simp_all add: system_ok_def key_of_def)
  then show ?thesis using edits assms(1) by (simp add: system_ok_def user_edit_def)
next
  case (deletes t x cs now)
  have "platform_of (t\<lparr>tn_Spec := tn_Spec t\<rparr>) = ep"
    using sys_ok_member(1) [of ep x t] deletes assms(1) by (simp add: system_ok_def tunnel_ok_def)
  then have "sys_ok ep (rewritten x (versioned (t\<lparr>tn_Spec := tn_Spec t, tn_Meta := (tn_Meta t)\<lparr>om_DeletionTimestamp := Some now\<rparr>\<rparr>) x))"
    using deletes assms(1) by (intro user_write_ok) (simp_all add: system_ok_def key_of_def)
  then show ?thesis using deletes assms(1) by (simp add: system_ok_def user_delete_def)
next
  case publishes
  then show ?thesis using publishes_ok(2) assms(1) by blast
next
  case reconciles
  then show ?thesis using reconciles_ok assms(1) by blast
qed (use assms(1) in \<open>auto simp: system_ok_def user_create_ok elsewhere_ok serves_ok clients_ok_def\<close>)

interpretation operator: safe_system initial "step ep version img" "system_ok ep" for ep version img
  by unfold_locales (rule initial_ok, assumption, rule step_ok)

lemma reachable_ok: "reachable ep version img s \<Longrightarrow> system_ok ep s"
  unfolding reachable_def by (rule operator.reached)

end
