(* ===== verification/Fault_Free.thy ===== *)
theory Fault_Free
  imports Faults
begin

text \<open>
  An environment inside a larger one: where every call of the larger one answers as the smaller one
  does, a reconcile runs alike in both. The connection that never fails is the instance: what is
  proved of reconciles without faults is proved of the runs of the unreliable connection whose
  list of faults is empty.
\<close>

section \<open>Environments inside environments\<close>

definition lifted :: "('x \<Rightarrow> 'y) \<Rightarrow> 'x world \<Rightarrow> 'y world" where
  "lifted l w = \<lparr>ext = l (ext w), trace = trace w, clients = clients w\<rparr>"

lemma lifted_sel [simp]: "ext (lifted l w) = l (ext w)" "trace (lifted l w) = trace w" "clients (lifted l w) = clients w"
  by (simp_all add: lifted_def)

lemma lifted_emit: "emit (l x) c (lifted l w) = lifted l (emit x c w)"
  by (simp add: emit_def lifted_def)

text \<open>One program does in the larger world what another does in the smaller.\<close>

definition mirrors :: "('x \<Rightarrow> 'y) \<Rightarrow> ('y, 'a) io \<Rightarrow> ('x, 'a) io \<Rightarrow> bool" where
  "mirrors l m' m = (\<forall>w. run_state m' (lifted l w) = apsnd (lifted l) (run_state m w))"

named_theorems mirrors_intro \<open>programs that run alike in both environments\<close>

lemma mirrorsD: "mirrors l m' m \<Longrightarrow> run_state m w = (a, w') \<Longrightarrow> run_state m' (lifted l w) = (a, lifted l w')"
  by (simp add: mirrors_def)

lemma mirrors_ret [mirrors_intro]: "mirrors l (ret x) (ret x)"
  by (simp add: mirrors_def)

lemma mirrors_bind [mirrors_intro]:
  "mirrors l m' m \<Longrightarrow> (\<And>a. mirrors l (f' a) (f a)) \<Longrightarrow> mirrors l (State_Monad.bind m' f') (State_Monad.bind m f)"
  by (simp add: mirrors_def split: prod.split)

lemma mirrors_kube_call:
  "(\<And>x. g (l x) = apsnd l (f x)) \<Longrightarrow> mirrors l (kube_call g ev) (kube_call f ev)"
  by (auto simp: mirrors_def run_kube_call lifted_emit split: prod.split)

lemma mirrors_Eventf [mirrors_intro]: "mirrors l (Eventf k ty reason action note) (Eventf k ty reason action note)"
  by (simp add: mirrors_def Eventf_def lifted_def)

lemma mirrors_cached_client [mirrors_intro]: "mirrors l (cached_client key cfg) (cached_client key cfg)"
  by (auto simp: mirrors_def cached_client_def lifted_def split: option.split sum.split)

locale env_embedding =
  fixes b :: "'x env" and c :: "'y env" and lift :: "'x \<Rightarrow> 'y"
  assumes lib [simp]: "AddFinalizer c = AddFinalizer b" "RemoveFinalizer c = RemoveFinalizer b"
      "ContainsFinalizer c = ContainsFinalizer b" "SetStatusCondition c = SetStatusCondition b"
      "IsStatusConditionTrue c = IsStatusConditionTrue b" "kIsNotFound c = kIsNotFound b"
      "IgnoreNotFound c = IgnoreNotFound b" "SetControllerReference c = SetControllerReference b"
      "bad_url c = bad_url b" "json_error c = json_error b"
    and calls: "k_get_tunnel c k (lift x) = apsnd lift (k_get_tunnel b k x)"
      "k_get_route c k (lift x) = apsnd lift (k_get_route b k x)"
      "k_get_secret c k (lift x) = apsnd lift (k_get_secret b k x)"
      "k_get_service c k (lift x) = apsnd lift (k_get_service b k x)"
      "k_list_routes c ns idx (lift x) = apsnd lift (k_list_routes b ns idx x)"
      "k_update_tunnel c t (lift x) = apsnd lift (k_update_tunnel b t x)"
      "k_status_tunnel c t (lift x) = apsnd lift (k_status_tunnel b t x)"
      "k_update_route c r (lift x) = apsnd lift (k_update_route b r x)"
      "k_status_route c r (lift x) = apsnd lift (k_status_route b r x)"
      "k_apply_secret c s f (lift x) = apsnd lift (k_apply_secret b s f x)"
      "k_apply_deployment c d g (lift x) = apsnd lift (k_apply_deployment b d g x)"
    and http: "http_do c h rq (lift x) = apsnd lift (http_do b h rq x)"
begin

lemma kube [mirrors_intro]:
  "mirrors lift (Get_Tunnel c k) (Get_Tunnel b k)" "mirrors lift (Get_TunnelRoute c k) (Get_TunnelRoute b k)"
  "mirrors lift (Get_Secret c k) (Get_Secret b k)" "mirrors lift (Get_Service c k) (Get_Service b k)"
  "mirrors lift (List_TunnelRoutes c ns idx) (List_TunnelRoutes b ns idx)"
  "mirrors lift (Update_Tunnel c t) (Update_Tunnel b t)" "mirrors lift (StatusUpdate_Tunnel c t) (StatusUpdate_Tunnel b t)"
  "mirrors lift (Update_TunnelRoute c r) (Update_TunnelRoute b r)"
  "mirrors lift (StatusUpdate_TunnelRoute c r) (StatusUpdate_TunnelRoute b r)"
  "mirrors lift (CreateOrUpdate_Secret c s f) (CreateOrUpdate_Secret b s f)"
  "mirrors lift (CreateOrUpdate_Deployment c d g) (CreateOrUpdate_Deployment b d g)"
  unfolding call_defs by (intro mirrors_kube_call calls)+

lemma request [mirrors_intro]:
  "mirrors lift (do_request c s m p body out zero) (do_request b s m p body out zero)"
proof -
  have same: "read_answer c s m p out zero ans = read_answer b s m p out zero ans" for ans
    unfolding read_answer_def lib ..
  have "mirrors lift (HTTP_Do c h rq) (HTTP_Do b h rq)" for h rq
    by (auto simp: mirrors_def HTTP_Do_def run_ext_call http lifted_emit split: prod.split)
  then show ?thesis
    unfolding do_request_def lib same by (cases "bad_url b (srv_base s @ p)") (auto intro!: mirrors_intro)
qed

lemma platform [mirrors_intro]:
  "mirrors lift (CreateTunnel c s i) (CreateTunnel b s i)" "mirrors lift (GetTunnel c s j) (GetTunnel b s j)"
  "mirrors lift (RotateToken c s j) (RotateToken b s j)" "mirrors lift (DeleteTunnel c s j) (DeleteTunnel b s j)"
  "mirrors lift (FindTunnelByExternalID c s e) (FindTunnelByExternalID b s e)"
  unfolding CreateTunnel_def GetTunnel_def RotateToken_def DeleteTunnel_def FindTunnelByExternalID_def
  by (auto intro!: mirrors_intro split: sum.split list.split)

text \<open>The pure parts of the reconciler read the environment's helpers only.\<close>

lemma conditions [simp]: "setSynced c = setSynced b" "setAgentAvailable c = setAgentAvailable b" "setReady c = setReady b"
proof -
  have cond: "with_tunnel_cond c = with_tunnel_cond b" by (intro ext) (simp only: with_tunnel_cond_def lib)
  show "setSynced c = setSynced b" "setAgentAvailable c = setAgentAvailable b" "setReady c = setReady b"
    by (intro ext, simp only: setSynced_def setAgentAvailable_def setReady_def cond lib)+
qed

lemma callbacks [simp]: "synced_status c = synced_status b" "mutate_token_secret c = mutate_token_secret b"
  "mutate_deployment c = mutate_deployment b"
  by (intro ext, simp only: synced_status_def mutate_token_secret_def mutate_deployment_def conditions lib)+

lemma client [mirrors_intro]: "mirrors lift (apiClients c version t) (apiClients b version t)"
  unfolding apiClients_def CachedClientFor_def configFor_def Let_def
  by (auto intro!: mirrors_intro split: sum.split prod.split)

lemma finish [mirrors_intro]: "mirrors lift (tunnel_finish c t res e) (tunnel_finish b t res e)"
  unfolding tunnel_finish_def Let_def by (auto intro!: mirrors_intro split: sum.split option.split)

lemma fail [mirrors_intro]: "mirrors lift (tunnel_fail c t a e) (tunnel_fail b t a e)"
  unfolding tunnel_fail_def Let_def by (auto intro!: mirrors_intro)

lemma create [mirrors_intro]: "mirrors lift (create_tunnel c s t) (create_tunnel b s t)"
  unfolding create_tunnel_def record_external_id_def create_and_read_def Let_def
  by (auto intro!: mirrors_intro split: sum.split option.split prod.split)

lemma ensure [mirrors_intro]: "mirrors lift (ensureTunnel c s t) (ensureTunnel b s t)"
  unfolding ensureTunnel_def Let_def by (auto intro!: mirrors_intro split: sum.split)

lemma credential [mirrors_intro]: "mirrors lift (ensureCredentialSecret c s t i tok) (ensureCredentialSecret b s t i tok)"
  unfolding ensureCredentialSecret_def store_token_def Let_def by (auto intro!: mirrors_intro split: sum.split)

lemma agent [mirrors_intro]: "mirrors lift (ensureAgentDeployment c img t v) (ensureAgentDeployment b img t v)"
  unfolding ensureAgentDeployment_def Let_def by (auto intro!: mirrors_intro)

lemma clean_up [mirrors_intro]: "mirrors lift (clean_up_tunnel c s t) (clean_up_tunnel b s t)"
  "mirrors lift (drop_tunnel_finalizer c t) (drop_tunnel_finalizer b t)"
  unfolding clean_up_tunnel_def tunnel_to_delete_def release_tunnel_def drop_tunnel_finalizer_def Let_def
  by (auto intro!: mirrors_intro split: sum.split option.split)

lemma reconcile_delete [mirrors_intro]:
  "mirrors lift (tunnel_reconcileDelete (main_tunnel_reconciler c version img) t)
     (tunnel_reconcileDelete (main_tunnel_reconciler b version img) t)"
  unfolding tunnel_reconcileDelete_def main_tunnel_reconciler_def Let_def
  by (auto intro!: mirrors_intro split: sum.split)

lemma sync [mirrors_intro]:
  "mirrors lift (tunnel_sync (main_tunnel_reconciler c version img) t) (tunnel_sync (main_tunnel_reconciler b version img) t)"
  unfolding tunnel_sync_def tunnel_realise_def main_tunnel_reconciler_def Let_def
  by (auto intro!: mirrors_intro split: sum.split prod.split option.split)

lemma reconcile:
  "mirrors lift (tunnel_Reconcile (main_tunnel_reconciler c version img) k) (tunnel_Reconcile (main_tunnel_reconciler b version img) k)"
proof -
  have "rc_Client (main_tunnel_reconciler e version img) = e" for e :: "'z env" by (simp add: main_tunnel_reconciler_def)
  then show ?thesis
    unfolding tunnel_Reconcile_def add_tunnel_finalizer_def Let_def
    by (auto intro!: mirrors_intro split: sum.split prod.split)
qed

text \<open>The reconciler of TunnelRoutes.\<close>

lemma routes [mirrors_intro]:
  "mirrors lift (ListRoutes c s i) (ListRoutes b s i)" "mirrors lift (CreateRoute c s i cri) (CreateRoute b s i cri)"
  "mirrors lift (UpdateRoute c s i j u) (UpdateRoute b s i j u)" "mirrors lift (DeleteRoute c s i j) (DeleteRoute b s i j)"
  unfolding ListRoutes_def CreateRoute_def UpdateRoute_def DeleteRoute_def by (intro mirrors_intro)+

lemma route_conditions [simp]: "route_setResolved c = route_setResolved b" "route_setSynced c = route_setSynced b"
  "route_setReady c = route_setReady b" "published_status c = published_status b"
proof -
  have cond: "with_route_cond c = with_route_cond b" by (intro ext) (simp only: with_route_cond_def lib)
  show same: "route_setResolved c = route_setResolved b" "route_setSynced c = route_setSynced b" "route_setReady c = route_setReady b"
    by (intro ext, simp only: route_setResolved_def route_setSynced_def route_setReady_def cond lib)+
  show "published_status c = published_status b" by (intro ext) (simp only: published_status_def same)
qed

lemma route_finish [mirrors_intro]: "mirrors lift (route_finish c t res e) (route_finish b t res e)"
  unfolding route_finish_def Let_def by (auto intro!: mirrors_intro split: sum.split option.split)

lemma find_route [mirrors_intro]: "mirrors lift (findRoute c s rt i) (findRoute b s rt i)"
  unfolding findRoute_def by (intro mirrors_intro)

lemma ensure_route [mirrors_intro]: "mirrors lift (ensureRoute c s rt i host port) (ensureRoute b s rt i host port)"
  unfolding ensureRoute_def create_and_reconcile_def reconcile_drift_def Let_def
  by (auto intro!: mirrors_intro split: sum.split option.split prod.split)

lemma clean_up_route [mirrors_intro]: "mirrors lift (clean_up_route c s rt i) (clean_up_route b s rt i)"
  "mirrors lift (drop_route_finalizer c rt) (drop_route_finalizer b rt)"
  unfolding clean_up_route_def route_to_delete_def drop_route_finalizer_def Let_def
  by (auto intro!: mirrors_intro split: sum.split option.split)

lemma main_route [simp]: "rr_Client (main_route_reconciler e version domain) = e"
  "rr_API (main_route_reconciler e version domain) = apiClients e version"
  "rr_ClusterDomain (main_route_reconciler e version domain) = domain"
  by (simp_all add: main_route_reconciler_def)

lemma resolve [mirrors_intro]:
  "mirrors lift (resolveUpstream (main_route_reconciler c version domain) rt) (resolveUpstream (main_route_reconciler b version domain) rt)"
  unfolding resolveUpstream_def by (auto intro!: mirrors_intro split: sum.split option.split)

lemma route_sync [mirrors_intro]:
  "mirrors lift (route_sync (main_route_reconciler c version domain) rt t) (route_sync (main_route_reconciler b version domain) rt t)"
  unfolding route_sync_def route_publish_def Let_def
  by (auto intro!: mirrors_intro split: sum.split option.split prod.split)

lemma route_delete [mirrors_intro]:
  "mirrors lift (route_reconcileDelete (main_route_reconciler c version domain) rt tr)
     (route_reconcileDelete (main_route_reconciler b version domain) rt tr)"
  unfolding route_reconcileDelete_def deleteRemoteRoute_def Let_def
  by (auto intro!: mirrors_intro split: sum.split)

lemma reconcile_route:
  "mirrors lift (route_Reconcile (main_route_reconciler c version domain) k) (route_Reconcile (main_route_reconciler b version domain) k)"
  unfolding route_Reconcile_def add_route_finalizer_def Let_def
  by (auto intro!: mirrors_intro split: sum.split prod.split)

end

section \<open>The connection that does not fail\<close>

lemma unreliable_works: "unreliable err f (x, []) = apsnd (\<lambda>x. (x, [])) (f x)"
  by (simp add: unreliable_def split: prod.split)

interpretation fault_free: env_embedding e "faulty e" "\<lambda>x. (x, [])" for e
  by unfold_locales (simp_all add: faulty_def unreliable_works)

lemma fault_free_reconcile:
  assumes "run_state (tunnel_Reconcile (main_tunnel_reconciler e version img) k) w = (out, w')"
  shows "run_state (tunnel_Reconcile (main_tunnel_reconciler (faulty e) version img) k) (lifted (\<lambda>x. (x, [])) w)
      = (out, lifted (\<lambda>x. (x, [])) w')"
  by (rule mirrorsD [OF fault_free.reconcile assms])

lemma fault_free_route:
  assumes "run_state (route_Reconcile (main_route_reconciler e version domain) k) w = (out, w')"
  shows "run_state (route_Reconcile (main_route_reconciler (faulty e) version domain) k) (lifted (\<lambda>x. (x, [])) w)
      = (out, lifted (\<lambda>x. (x, [])) w')"
  by (rule mirrorsD [OF fault_free.reconcile_route assms])

end
