(* ===== verification/System_Properties.thy ===== *)
theory System_Properties
  imports System Fault_Free Convergence_Properties
begin

text \<open>
  What holds in every state the operator and its surroundings can reach, whatever failed on the way.
\<close>

section \<open>Reading the invariant\<close>

lemma reachable_sys: "reachable ep version img (x, cs) \<Longrightarrow> sys_ok ep x"
  using reachable_ok [of ep version img "(x, cs)"] by (simp add: system_ok_def)

lemma reachable_tunnel: "reachable ep version img (x, cs) \<Longrightarrow> t \<in> set (cu_Tunnels x) \<Longrightarrow> tunnel_ok ep t x"
  by (rule sys_ok_member(1) [OF reachable_sys])

lemma id_ok_plain: "id_ok i uid f \<Longrightarrow> i \<noteq> [] \<Longrightarrow> plain_id i"
  using plain_issued by (auto simp: id_ok_def)

lemma tunnel_ok_recorded:
  assumes "tunnel_ok ep t x"
  shows "recorded t (cu_Platform x)"
  using assms id_ok_plain [of "st_TunnelID (tn_Status t)"] by (auto simp: tunnel_ok_def recorded_def id_ok_def Let_def split: option.split)

lemma tunnel_ok_deletable:
  assumes "tunnel_ok ep t x"
  shows "deletable t (cu_Platform x)"
  using assms id_ok_plain [of "st_TunnelID (tn_Status t)"]
  by (auto simp: tunnel_ok_def deletable_def held_ok_def split: option.splits)

lemma tunnel_ok_token: "tunnel_ok ep t x \<Longrightarrow> token_current x t"
  by (auto simp: tunnel_ok_def token_current_def held_ok_def split: option.splits)

section \<open>A reachable state\<close>

text \<open>The sample Tunnel as a user has just created it, after an operator that could not reach the cluster.\<close>

definition empty_cluster :: "fakeAPI cluster" where
  "empty_cluster = sample_cluster\<lparr>cu_Tunnels := [], cu_Version := 0\<rparr>"

lemma sample_creatable: "creatable sample_endpoint sample_tunnel empty_cluster"
proof -
  have "platform_of sample_tunnel = sample_endpoint"
    by (simp add: platform_of_def sample_tunnel_def sample_endpoint_def TrimSuffix_def HasSuffix_def)
  moreover have "stored_token empty_cluster sample_tunnel = []" "secret_free empty_cluster sample_tunnel"
    "deployment_free empty_cluster sample_tunnel"
    by code_simp+
  moreover have "om_UID (tn_Meta sample_tunnel) \<noteq> []" "om_DeletionTimestamp (tn_Meta sample_tunnel) = None"
    "st_TunnelID (tn_Status sample_tunnel) = []"
    by (simp_all add: sample_tunnel_def sample_meta_def zero_meta_def)
  ultimately show ?thesis by (simp add: creatable_def) (simp add: empty_cluster_def)
qed

lemma sample_created: "user_create sample_tunnel empty_cluster = sample_cluster"
proof -
  have "show_nat 0 = ''0''" by code_simp
  then have "versioned sample_tunnel empty_cluster = sample_tunnel"
    by (simp add: empty_cluster_def sample_tunnel_def sample_meta_def)
  then show ?thesis by (simp add: user_create_def) (simp add: empty_cluster_def sample_cluster_def)
qed

lemma sample_reachable: "reachable sample_endpoint ''dev'' ''agent:1'' (sample_cluster, Map.empty)"
proof -
  have "initial (empty_cluster, Map.empty)" by (simp add: initial_def empty_cluster_def sample_cluster_def)
  moreover have "step sample_endpoint ''dev'' ''agent:1'' (empty_cluster, Map.empty) (sample_cluster, Map.empty)"
    using step.creates [OF sample_creatable] unfolding sample_created .
  ultimately show ?thesis unfolding reachable_def by blast
qed

text \<open>
  The state after the answer to the creation of the tunnel was lost and the operator restarted: the
  tunnel is on the platform, and neither its identifier nor its credential are in the cluster. And
  the same once the user has deleted the object.
\<close>

definition ready_check :: "string \<Rightarrow> string \<Rightarrow> Tunnel \<Rightarrow> fakeAPI cluster world \<Rightarrow> bool" where
  "ready_check ep ua t w =
     (case lookup_object sec_Meta (nn (om_Namespace (tn_Meta t)) (cr_Name (ts_Credentials (tn_Spec t)))) (cu_Secrets (ext w)) of
        Inl _ \<Rightarrow> False
      | Inr secret \<Rightarrow>
          (case config_of_secret t ua secret of
             Inl _ \<Rightarrow> False
           | Inr (cfg, key) \<Rightarrow>
               (case clients w key of
                  Some c \<Rightarrow> srv_base (cl_Tunnel c) = ep
                | None \<Rightarrow> (case New cfg of Inl _ \<Rightarrow> False | Inr c \<Rightarrow> srv_base (cl_Tunnel c) = ep))))"

lemma ready_checkD: "ready_check ep ua t w \<Longrightarrow> credential_ready ep ua t w"
proof -
  assume check: "ready_check ep ua t w"
  then obtain secret cfg key where s:
      "lookup_object sec_Meta (nn (om_Namespace (tn_Meta t)) (cr_Name (ts_Credentials (tn_Spec t)))) (cu_Secrets (ext w)) = Inr secret"
      "config_of_secret t ua secret = Inr (cfg, key)"
    by (auto simp: ready_check_def split: sum.splits)
  then have "\<exists>c. (clients w key = Some c \<or> clients w key = None \<and> New cfg = Inr c) \<and> srv_base (cl_Tunnel c) = ep"
    using check by (cases "clients w key") (auto simp: ready_check_def split: sum.splits)
  with s show ?thesis unfolding credential_ready_def by blast
qed

definition cut_short :: "fault list \<Rightarrow> (fakeAPI cluster \<times> fault list) world" where
  "cut_short faults = snd (run_state (tunnel_Reconcile (main_tunnel_reconciler (faulty sample_env) ''dev'' ''agent:1'') (nn ''team'' ''web''))
     \<lparr>ext = (sample_cluster, faults), trace = [], clients = Map.empty\<rparr>)"

definition crashed_cluster :: "fakeAPI cluster" where
  "crashed_cluster = here (cut_short [Works, Works, Works, Works, Loses, Fails])"

definition crashed_tunnel :: Tunnel where "crashed_tunnel = hd (cu_Tunnels crashed_cluster)"

definition departing_cluster :: "fakeAPI cluster" where
  "departing_cluster = user_delete ''now'' crashed_tunnel crashed_cluster"

definition departing_tunnel :: Tunnel where "departing_tunnel = hd (cu_Tunnels departing_cluster)"

text \<open>The facts about the state the proofs need, computed once.\<close>

definition state_check :: "fakeAPI cluster \<Rightarrow> bool" where
  "state_check x =
     (let t = hd (cu_Tunnels x); x' = user_delete ''now'' t x; t' = hd (cu_Tunnels x');
          ready = (\<lambda>t x. ready_check sample_endpoint (operator_user_agent ''dev'') t \<lparr>ext = x, trace = [], clients = Map.empty\<rparr>) in
      length (cu_Tunnels x) = 1 \<and> map fst (fa_tunnels (cu_Platform x)) = [''tun-1''] \<and> stored_token x t = []
      \<and> st_TunnelID (tn_Status t) = [] \<and> om_DeletionTimestamp (tn_Meta t) = None \<and> tunnel_key t = nn ''team'' ''web'' \<and> ready t x
      \<and> cr_Name (ts_Credentials (tn_Spec t)) = ''cred''
      \<and> length (cu_Tunnels x') = 1 \<and> map fst (fa_tunnels (cu_Platform x')) = [''tun-1'']
      \<and> om_DeletionTimestamp (tn_Meta t') = Some ''now'' \<and> om_Finalizers (tn_Meta t') = [TunnelFinalizer]
      \<and> tunnel_key t' = nn ''team'' ''web'' \<and> ready t' x')"

lemma state_checked: "state_check (here (cut_short [Works, Works, Works, Works, Loses, Fails]))"
  by code_simp

lemma length_one_hd: "length xs = 1 \<Longrightarrow> hd xs \<in> set xs"
  by (cases xs) auto

lemma crashed_state:
  "crashed_tunnel \<in> set (cu_Tunnels crashed_cluster)" "map fst (fa_tunnels (cu_Platform crashed_cluster)) = [''tun-1'']"
  "stored_token crashed_cluster crashed_tunnel = []" "st_TunnelID (tn_Status crashed_tunnel) = []"
  "om_DeletionTimestamp (tn_Meta crashed_tunnel) = None" "tunnel_key crashed_tunnel = nn ''team'' ''web''"
  "credential_ready sample_endpoint (operator_user_agent ''dev'') crashed_tunnel \<lparr>ext = crashed_cluster, trace = [], clients = Map.empty\<rparr>"
  "cr_Name (ts_Credentials (tn_Spec crashed_tunnel)) = ''cred''"
  using state_checked unfolding state_check_def crashed_tunnel_def crashed_cluster_def Let_def
  by (blast intro: length_one_hd ready_checkD)+

lemma departing_state:
  "departing_tunnel \<in> set (cu_Tunnels departing_cluster)" "map fst (fa_tunnels (cu_Platform departing_cluster)) = [''tun-1'']"
  "om_DeletionTimestamp (tn_Meta departing_tunnel) = Some ''now''" "om_Finalizers (tn_Meta departing_tunnel) = [TunnelFinalizer]"
  "tunnel_key departing_tunnel = nn ''team'' ''web''"
  "credential_ready sample_endpoint (operator_user_agent ''dev'') departing_tunnel \<lparr>ext = departing_cluster, trace = [], clients = Map.empty\<rparr>"
  using state_checked unfolding state_check_def departing_tunnel_def departing_cluster_def crashed_tunnel_def crashed_cluster_def Let_def
  by (blast intro: length_one_hd ready_checkD)+

lemma reachable_step: "reachable ep version img s \<Longrightarrow> step ep version img s s' \<Longrightarrow> reachable ep version img s'"
  unfolding reachable_def by (meson rtranclp.rtrancl_into_rtrancl)

lemma crashed_reachable: "reachable sample_endpoint ''dev'' ''agent:1'' (crashed_cluster, Map.empty)"
proof -
  have "step sample_endpoint ''dev'' ''agent:1'' (sample_cluster, Map.empty) (here (cut_short faults), clients (cut_short faults))" for faults
    unfolding cut_short_def by (rule step.reconciles, rule prod.collapse [symmetric])
  then show ?thesis
    unfolding crashed_cluster_def by (rule reachable_step [OF reachable_step [OF sample_reachable] step.restarts])
qed

lemma departing_reachable: "reachable sample_endpoint ''dev'' ''agent:1'' (departing_cluster, Map.empty)"
  unfolding departing_cluster_def by (rule reachable_step [OF crashed_reachable step.deletes [OF crashed_state(1)]])

section \<open>A reconcile without faults\<close>

text \<open>It is a step of the system.\<close>

lemma fault_free_step:
  assumes "run_state (tunnel_Reconcile (main_tunnel_reconciler (fake_env ep) version img) k) \<lparr>ext = x, trace = [], clients = cs\<rparr> = (out, w')"
  shows "step ep version img (x, cs) (ext w', clients w')"
proof -
  have "run_state (tunnel_Reconcile (main_tunnel_reconciler (faulty (fake_env ep)) version img) k)
      \<lparr>ext = (x, []), trace = [], clients = cs\<rparr> = (out, lifted (\<lambda>x. (x, [])) w')"
    using fault_free_reconcile [OF assms] by (simp add: lifted_def)
  from step.reconciles [OF this] show ?thesis by simp
qed

lemma run_reachable:
  assumes "reachable ep version img (x, cs)" and "t \<in> set (cu_Tunnels x)" and "om_DeletionTimestamp (tn_Meta t) = None"
    and "ext w = x" and "credential_ready ep (operator_user_agent version) t w"
  shows "\<exists>w'. run_state (tunnel_Reconcile (main_tunnel_reconciler (fake_env ep) version img) (tunnel_key t)) w
      = (Returned \<lparr>res_RequeueAfter = resyncPeriod\<rparr> None, w') \<and> realised t (ext w')"
proof -
  note ok = reachable_sys [OF assms(1)] and mine = reachable_tunnel [OF assms(1,2)]
  have "reconcilable ep (operator_user_agent version) t w"
    using ok mine sys_ok_member(2) [OF ok assms(2)] tunnel_ok_recorded [OF mine] assms(4,5)
    by (simp add: reconcilable_def tunnel_ok_def sys_ok_def)
  then show ?thesis
    using run_tunnel_Reconcile [OF _ assms(3) refl] realised_current tunnel_ok_token [OF mine] assms(4) by blast
qed

text \<open>The sample cluster once its Tunnel is realised.\<close>

definition settled_cluster :: "fakeAPI cluster" where
  "settled_cluster = ext (snd (run_state (tunnel_Reconcile sample_tunnel_reconciler (nn ''team'' ''web'')) sample_world))"

lemma settled_state:
  "realised sample_tunnel settled_cluster" "\<exists>cs. reachable sample_endpoint ''dev'' ''agent:1'' (settled_cluster, cs)"
proof -
  have t: "sample_tunnel \<in> set (cu_Tunnels sample_cluster)" "om_DeletionTimestamp (tn_Meta sample_tunnel) = None"
    "tunnel_key sample_tunnel = nn ''team'' ''web''"
    by (simp_all add: sample_cluster_def sample_tunnel_def sample_meta_def zero_meta_def key_of_def)
  obtain w' where run: "run_state (tunnel_Reconcile sample_tunnel_reconciler (nn ''team'' ''web'')) sample_world
      = (Returned \<lparr>res_RequeueAfter = resyncPeriod\<rparr> None, w')" "realised sample_tunnel (ext w')"
    using run_reachable [OF sample_reachable t(1,2) _ sample_credential_ready] t(3)
    by (auto simp: sample_tunnel_reconciler_def sample_world_def)
  then have settled: "settled_cluster = ext w'" by (simp add: settled_cluster_def)
  show "realised sample_tunnel settled_cluster" using run(2) settled by simp
  have "step sample_endpoint ''dev'' ''agent:1'' (sample_cluster, Map.empty) (ext w', clients w')"
    by (rule fault_free_step) (use run(1) in \<open>simp add: sample_tunnel_reconciler_def sample_world_def\<close>)
  then show "\<exists>cs. reachable sample_endpoint ''dev'' ''agent:1'' (settled_cluster, cs)"
    using reachable_step [OF sample_reachable] settled by auto
qed

section \<open>Safety\<close>

text \<open>
  C1. No orphans. However often reconciles were cut short, answers lost or the operator restarted,
  every tunnel on the platform belongs to a Tunnel object in the cluster that has the finalizer and
  its external id on record, so its deletion will reach the platform; and no object has two.
\<close>

theorem no_tunnel_is_orphaned:
  assumes "reachable ep version img (x, cs)"
  shows "distinct (map external_of (fa_tunnels (cu_Platform x)))
    \<and> list_all (\<lambda>e. \<exists>t \<in> set (cu_Tunnels x). om_UID (tn_Meta t) = external_of e
         \<and> TunnelFinalizer \<in> set (om_Finalizers (tn_Meta t)) \<and> st_ExternalID (tn_Status t) \<noteq> []
         \<and> st_TunnelID (tn_Status t) \<in> {[], fst e}) (fa_tunnels (cu_Platform x))"
proof -
  note ok = reachable_sys [OF assms]
  have sound: "sound_tunnels (cu_Platform x)" using ok by (simp add: sys_ok_def)
  have owner: "\<exists>t \<in> set (cu_Tunnels x). om_UID (tn_Meta t) = external_of e \<and> om_UID (tn_Meta t) \<noteq> []
      \<and> TunnelFinalizer \<in> set (om_Finalizers (tn_Meta t)) \<and> st_ExternalID (tn_Status t) \<noteq> []
      \<and> st_TunnelID (tn_Status t) \<in> {[], fst e}" if e: "e \<in> set (fa_tunnels (cu_Platform x))" for e
  proof -
    obtain t where t: "t \<in> set (cu_Tunnels x)" "om_UID (tn_Meta t) = external_of e" using sys_ok_owner [OF ok e] by blast
    note mine = sys_ok_member(1) [OF ok t(1)]
    then have "of_external (cu_Platform x) (om_UID (tn_Meta t)) = Some (fst e, snd e)"
      using external_of_held [OF sound map_of_held [OF sound e]] t(2) by (simp add: tunnel_ok_def)
    with mine t show ?thesis by (intro bexI [of _ t]) (simp_all add: tunnel_ok_def held_ok_def split: prod.splits)
  qed
  then have "filter (\<lambda>e. e \<noteq> []) (map external_of (fa_tunnels (cu_Platform x))) = map external_of (fa_tunnels (cu_Platform x))"
    by (intro filter_True) fastforce
  then have "distinct (map external_of (fa_tunnels (cu_Platform x)))" using sound by (simp add: sound_tunnels_def)
  with owner show ?thesis by (fastforce simp: list_all_iff)
qed

theorem no_tunnel_is_orphaned_witness:
  "map fst (fa_tunnels (cu_Platform crashed_cluster)) = [''tun-1''] \<and> st_TunnelID (tn_Status crashed_tunnel) = []
   \<and> list_all (\<lambda>e. \<exists>t \<in> set (cu_Tunnels crashed_cluster). om_UID (tn_Meta t) = external_of e
        \<and> TunnelFinalizer \<in> set (om_Finalizers (tn_Meta t)) \<and> st_ExternalID (tn_Status t) \<noteq> []
        \<and> st_TunnelID (tn_Status t) \<in> {[], fst e}) (fa_tunnels (cu_Platform crashed_cluster))"
  using no_tunnel_is_orphaned [OF crashed_reachable] crashed_state(2,4) by blast

text \<open>
  C4. No stale credential. In every reachable state a token held by the Secret of a Tunnel that is not
  being deleted is the one the platform expects of that Tunnel's tunnel: a lost answer can leave
  the Secret without a token, never with a wrong one.
\<close>

theorem stored_token_is_current:
  assumes "reachable ep version img (x, cs)" and "t \<in> set (cu_Tunnels x)" and "om_DeletionTimestamp (tn_Meta t) = None"
    and "stored_token x t \<noteq> []"
  shows "\<exists>i ft. of_external (cu_Platform x) (om_UID (tn_Meta t)) = Some (i, ft) \<and> ft_token ft = stored_token x t"
  using reachable_tunnel [OF assms(1,2)] assms(3,4) by (auto simp: tunnel_ok_def held_ok_def split: option.splits)

theorem stored_token_is_current_witness:
  "\<exists>t \<in> set (cu_Tunnels settled_cluster). stored_token settled_cluster t \<noteq> [] \<and> (\<exists>i ft.
     of_external (cu_Platform settled_cluster) (om_UID (tn_Meta t)) = Some (i, ft) \<and> ft_token ft = stored_token settled_cluster t)"
proof -
  obtain t i ft sec where t: "stored settled_cluster t" "same_object sample_tunnel t" "sound_tunnels (cu_Platform settled_cluster)"
      "of_external (cu_Platform settled_cluster) (om_UID (tn_Meta sample_tunnel)) = Some (i, ft)"
      "lookup_object sec_Meta (token_name sample_tunnel) (cu_Secrets settled_cluster) = Inr sec" "secret_value sec tokenSecretKey = ft_token ft"
    using settled_state(1) unfolding realised_with_def by blast
  have "ft_token ft \<noteq> []" using sound_entry(1) [OF t(3) of_external_map [OF t(3,4)]] by (simp add: wf_entry_def)
  moreover have "stored_token settled_cluster t = ft_token ft"
    using t(2,5,6) by (simp add: stored_token_def same_object_def)
  moreover have "om_DeletionTimestamp (tn_Meta t) = None"
    using t(2) by (simp add: same_object_def sample_tunnel_def sample_meta_def zero_meta_def)
  ultimately show ?thesis
    using stored_member [OF t(1)] settled_state(2) stored_token_is_current by (metis (no_types, lifting))
qed

section \<open>Recovery\<close>

text \<open>
  C2. One good reconcile recovers. From every reachable state, whatever was cut short before, a
  reconcile of a Tunnel that is not being deleted and whose credential can be read, with every
  call answered, ends without error and realises the Tunnel: one tunnel, recorded, its current
  credential in the Secret, the agent rolled to it. That reconcile is one of the system's steps.
\<close>

theorem reachable_converges:
  assumes "reachable ep version img (x, cs)" and "t \<in> set (cu_Tunnels x)" and "om_DeletionTimestamp (tn_Meta t) = None"
    and "credential_ready ep (operator_user_agent version) t \<lparr>ext = x, trace = [], clients = cs\<rparr>"
  shows "\<exists>w'. run_state (tunnel_Reconcile (main_tunnel_reconciler (fake_env ep) version img) (tunnel_key t))
        \<lparr>ext = x, trace = [], clients = cs\<rparr> = (Returned \<lparr>res_RequeueAfter = resyncPeriod\<rparr> None, w')
      \<and> realised t (ext w') \<and> step ep version img (x, cs) (ext w', clients w')"
proof -
  obtain w' where "run_state (tunnel_Reconcile (main_tunnel_reconciler (fake_env ep) version img) (tunnel_key t))
      \<lparr>ext = x, trace = [], clients = cs\<rparr> = (Returned \<lparr>res_RequeueAfter = resyncPeriod\<rparr> None, w')" "realised t (ext w')"
    using run_reachable [OF assms(1-3) _ assms(4)] by auto
  with fault_free_step show ?thesis by blast
qed

theorem reachable_converges_witness:
  "stored_token crashed_cluster crashed_tunnel = [] \<and>
   (\<exists>w'. run_state (tunnel_Reconcile sample_tunnel_reconciler (nn ''team'' ''web'')) \<lparr>ext = crashed_cluster, trace = [], clients = Map.empty\<rparr>
      = (Returned \<lparr>res_RequeueAfter = resyncPeriod\<rparr> None, w') \<and> realised crashed_tunnel (ext w'))"
  using reachable_converges [OF crashed_reachable crashed_state(1,5,7)] crashed_state(3,6)
  by (auto simp: sample_tunnel_reconciler_def)

text \<open>
  C3. One good reconcile cleans up. From every reachable state a reconcile of a Tunnel marked for
  deletion, whose credential can be read and which no finalizer but the operator's holds, with
  every call answered, takes the object away and leaves no tunnel with its external id on the
  platform. It is one of the system's steps too.
\<close>

theorem reachable_deletes:
  assumes "reachable ep version img (x, cs)" and "t \<in> set (cu_Tunnels x)" and "om_DeletionTimestamp (tn_Meta t) \<noteq> None"
    and "om_Finalizers (tn_Meta t) = [TunnelFinalizer]"
    and "credential_ready ep (operator_user_agent version) t \<lparr>ext = x, trace = [], clients = cs\<rparr>"
  shows "\<exists>w'. run_state (tunnel_Reconcile (main_tunnel_reconciler (fake_env ep) version img) (tunnel_key t))
        \<lparr>ext = x, trace = [], clients = cs\<rparr> = (Returned zero_result None, w')
      \<and> lookup_object tn_Meta (tunnel_key t) (cu_Tunnels (ext w')) = Inl NotFoundError
      \<and> list_all (\<lambda>e. external_of e \<noteq> om_UID (tn_Meta t)) (fa_tunnels (plat w'))
      \<and> step ep version img (x, cs) (ext w', clients w')"
proof -
  note ok = reachable_sys [OF assms(1)] and mine = reachable_tunnel [OF assms(1,2)]
  have "\<exists>w'. run_state (tunnel_Reconcile (main_tunnel_reconciler (fake_env ep) version img) (tunnel_key t))
        \<lparr>ext = x, trace = [], clients = cs\<rparr> = (Returned zero_result None, w')
    \<and> lookup_object tn_Meta (tunnel_key t) (cu_Tunnels (ext w')) = Inl NotFoundError
    \<and> of_external (plat w') (om_UID (tn_Meta t)) = None"
    by (rule run_tunnel_deletion [OF _ assms(3,4) _ _ _ assms(5) refl])
       (use ok mine sys_ok_member(2) [OF ok assms(2)] tunnel_ok_deletable [OF mine] in
         \<open>simp_all add: tunnel_ok_def sys_ok_def\<close>)
  then show ?thesis using fault_free_step unfolding of_external_None list_all_iff by blast
qed

theorem reachable_deletes_witness:
  "map fst (fa_tunnels (cu_Platform departing_cluster)) = [''tun-1''] \<and>
   (\<exists>w'. run_state (tunnel_Reconcile sample_tunnel_reconciler (nn ''team'' ''web'')) \<lparr>ext = departing_cluster, trace = [], clients = Map.empty\<rparr>
        = (Returned zero_result None, w')
      \<and> lookup_object tn_Meta (nn ''team'' ''web'') (cu_Tunnels (ext w')) = Inl NotFoundError
      \<and> list_all (\<lambda>e. external_of e \<noteq> om_UID (tn_Meta departing_tunnel)) (fa_tunnels (plat w')))"
proof -
  have "om_DeletionTimestamp (tn_Meta departing_tunnel) \<noteq> None" by (simp add: departing_state(3))
  from reachable_deletes [OF departing_reachable departing_state(1) this departing_state(4,6)] departing_state(2,5)
  show ?thesis by (auto simp: sample_tunnel_reconciler_def)
qed

end
