(* ===== verification/System_Routes.thy ===== *)
theory System_Routes
  imports System_Properties Tunnel_Frame
begin

text \<open>
  The two reconcilers together: what the one for TunnelRoutes does to the work of the one for
  Tunnels, and what it relies on it for, in every state the system can reach.
\<close>

section \<open>A realised Tunnel\<close>

lemma realised_harmless:
  assumes "realised t x" and "harmless x x'"
  shows "realised t x'"
proof -
  have "stored x' u = stored x u" "of_external (cu_Platform x') e = of_external (cu_Platform x) e" for u e
    using assms(2) by (simp_all add: stored_def of_external_def harmless_def undisturbed_def)
  then show ?thesis
    using assms unfolding realised_with_def harmless_def undisturbed_def routes_fit_def by (elim exE conjE) (intro exI conjI, simp_all)
qed

text \<open>What a live Tunnel has recorded is on the platform, fit to take routes.\<close>

lemma reachable_serving:
  assumes "reachable ep version img (x, cs)" and "t \<in> set (cu_Tunnels x)" and "om_DeletionTimestamp (tn_Meta t) = None"
    and i: "st_TunnelID (tn_Status t) \<noteq> []" and room: "fake_room x (st_TunnelID (tn_Status t))"
  shows "fake_ok x (st_TunnelID (tn_Status t))"
proof -
  let ?f = "cu_Platform x" and ?i = "st_TunnelID (tn_Status t)"
  have ok: "sound_tunnels ?f" "lists_ok ?f" using reachable_sys [OF assms(1)] by (simp_all add: sys_ok_def)
  have "held_ok t (stored_token x t) ?f" using reachable_tunnel [OF assms(1,2)] by (simp add: tunnel_ok_def)
  then obtain ft where "of_external ?f (om_UID (tn_Meta t)) = Some (?i, ft)"
    using i assms(3) by (auto simp: held_ok_def split: option.splits)
  then have "map_of (fa_tunnels ?f) ?i = Some ft" by (rule of_external_map [OF ok(1)])
  moreover have "plain_id ?i" by (rule sound_entry(2) [OF ok(1) calculation])
  moreover have "sound_routes (fa_nextID ?f) (fa_routes ?f ?i)"
    using ok room by (simp add: sound_routes_def sound_tunnels_def lists_ok_def listed_def fake_room_def)
  ultimately show ?thesis by (simp add: fake_ok_def)
qed

lemma run_route_harmless:
  assumes "sys_ok ep (ext w)" and "clients_ok ep (clients w)"
    and "run_state (route_Reconcile (main_route_reconciler (fake_env ep) version domain) k) w = (out, w')"
  shows "harmless (ext w) (ext w')"
proof -
  let ?w = "lifted (\<lambda>x. (x, [])) w"
  have "leaves ep (ext w) ?w" using assms(1,2) by (simp add: leaves_def harmless_refl sys_ok_def routes_fit_def)
  with guar_route_Reconcile [OF assms(1) refl, of version domain k]
  have "wp (route_Reconcile (main_route_reconciler (faulty (fake_env ep)) version domain) k) (\<lambda>_. leaves ep (ext w)) ?w"
    by (simp add: guarantees_def)
  from run_stateD [OF fault_free_route [OF assms(3)] this] show ?thesis by (simp add: leaves_def)
qed

section \<open>A reachable state with a route to publish\<close>

text \<open>
  The settled cluster once a user has made the sample route and its Service, and the platform has
  forgotten whatever routes there were.
\<close>

definition shop_cluster :: "fakeAPI cluster" where
  "shop_cluster = settled_cluster\<lparr>cu_Routes := [sample_route], cu_Services := [sample_service],
     cu_Secrets := sample_secret # cu_Secrets settled_cluster\<rparr>"

definition waiting_cluster :: "fakeAPI cluster" where
  "waiting_cluster = shop_cluster\<lparr>cu_Platform := (cu_Platform settled_cluster)\<lparr>fa_routes := \<lambda>_. []\<rparr>\<rparr>"

lemma no_token_name: "key_of (sec_Meta sample_secret) \<noteq> token_name t"
proof -
  have "length ''cred'' < length (tokenSecretName (om_Name (tn_Meta t)))" by (simp add: tokenSecretName_def)
  then have "tokenSecretName (om_Name (tn_Meta t)) \<noteq> ''cred''" by auto
  then show ?thesis by (simp add: sample_secret_def sample_meta_def key_of_def)
qed

lemma waiting_reachable: "reachable sample_endpoint ''dev'' ''agent:1'' (waiting_cluster, Map.empty)"
proof -
  obtain cs where settled: "reachable sample_endpoint ''dev'' ''agent:1'' (settled_cluster, cs)" using settled_state(2) by blast
  note ok = reachable_sys [OF settled]
  have "elsewhere settled_cluster shop_cluster"
    using ok no_token_name
    by (auto simp: elsewhere_def shop_cluster_def stored_token_def secret_free_def deployment_free_def lookup_object_def
        sys_ok_def tunnel_ok_def list_all_iff)
  then have shop: "reachable sample_endpoint ''dev'' ''agent:1'' (shop_cluster, Map.empty)"
    by (rule reachable_step [OF reachable_step [OF settled step.restarts] step.changes])
  have "sound_tunnels ((cu_Platform settled_cluster)\<lparr>fa_routes := \<lambda>_. []\<rparr>)"
    using ok by (simp add: sys_ok_def sound_tunnels_def wf_entry_def [abs_def])
  then have "same_tunnels (cu_Platform shop_cluster) ((cu_Platform settled_cluster)\<lparr>fa_routes := \<lambda>_. []\<rparr>)"
    by (simp add: same_tunnels_def shop_cluster_def lists_ok_def listed_def)
  then show ?thesis
    unfolding waiting_cluster_def by (rule reachable_step [OF shop step.serves])
qed

lemma waiting_realised: "realised sample_tunnel waiting_cluster"
proof -
  have "stored waiting_cluster u = stored settled_cluster u" "cu_Deployments waiting_cluster = cu_Deployments settled_cluster"
    "of_external (cu_Platform waiting_cluster) e = of_external (cu_Platform settled_cluster) e"
    "lookup_object sec_Meta (token_name sample_tunnel) (cu_Secrets waiting_cluster)
       = lookup_object sec_Meta (token_name sample_tunnel) (cu_Secrets settled_cluster)" for u e
    using no_token_name by (simp_all add: waiting_cluster_def shop_cluster_def stored_def of_external_def lookup_object_def)
  moreover have "sound_tunnels (cu_Platform waiting_cluster)" using reachable_sys [OF waiting_reachable] by (simp add: sys_ok_def)
  ultimately show ?thesis
    using settled_state(1) unfolding realised_with_def by (elim exE conjE) (intro exI conjI, simp_all)
qed

section \<open>The routes and the tunnels\<close>

text \<open>
  C7. Routes do not disturb tunnels. From every reachable state a reconcile of any TunnelRoute,
  with any of its calls failing or losing its answer and whatever identifiers its status holds,
  changes no Tunnel and no tunnel of the platform, and a realised Tunnel stays realised.
\<close>

theorem routes_leave_tunnels:
  assumes "reachable ep version img (x, cs)"
    and "run_state (route_Reconcile (main_route_reconciler (faulty (fake_env ep)) version domain) k)
      \<lparr>ext = (x, faults), trace = [], clients = cs\<rparr> = (out, w)"
  shows "cu_Tunnels (here w) = cu_Tunnels x \<and> fa_tunnels (cu_Platform (here w)) = fa_tunnels (cu_Platform x)
    \<and> (\<forall>t. realised t x \<longrightarrow> realised t (here w)) \<and> reachable ep version img (here w, clients w)"
proof -
  have "harmless x (here w)" by (rule publishes_ok(1) [OF reachable_ok [OF assms(1)] assms(2)])
  moreover have "reachable ep version img (here w, clients w)"
    by (rule reachable_step [OF assms(1) step.publishes [OF assms(2)]])
  ultimately show ?thesis
    using realised_harmless by (simp add: harmless_def undisturbed_def)
qed

theorem routes_leave_tunnels_witness:
  "\<exists>out w. run_state (route_Reconcile (main_route_reconciler (faulty sample_env) ''dev'' ''cluster.local'') (nn ''team'' ''shop''))
      \<lparr>ext = (waiting_cluster, [Works, Works, Works, Works, Works, Works, Loses, Fails]), trace = [], clients = Map.empty\<rparr> = (out, w)
    \<and> fa_tunnels (cu_Platform (here w)) = fa_tunnels (cu_Platform waiting_cluster) \<and> realised sample_tunnel (here w)"
proof -
  obtain out w where run: "run_state (route_Reconcile (main_route_reconciler (faulty sample_env) ''dev'' ''cluster.local'') (nn ''team'' ''shop''))
      \<lparr>ext = (waiting_cluster, [Works, Works, Works, Works, Works, Works, Loses, Fails]), trace = [], clients = Map.empty\<rparr> = (out, w)"
    by fastforce
  from routes_leave_tunnels [OF waiting_reachable run] waiting_realised run show ?thesis by blast
qed

text \<open>
  C6. One good reconcile publishes. From every reachable state a reconcile of a live TunnelRoute,
  whose Tunnel is not being deleted and has a recorded tunnel with room for a route, whose credential
  can be read and whose upstream resolves, with every call answered, publishes the route as the spec says: that the
  recorded tunnel is on the platform and its routes are told apart needs no assumption. The
  Tunnels that were realised stay so, and the reconcile is one of the system's steps.
\<close>

theorem reachable_publishes:
  assumes "reachable ep version img (x, cs)" and "stored_route x r" and "om_DeletionTimestamp (tr_Meta r) = None"
    and "lookup_object tn_Meta (nn (om_Namespace (tr_Meta r)) (rs_TunnelRef (tr_Spec r))) (cu_Tunnels x) = Inr t"
    and "om_DeletionTimestamp (tn_Meta t) = None" and "st_TunnelID (tn_Status t) \<noteq> []" and "fake_room x (st_TunnelID (tn_Status t))"
    and "credential_ready ep (operator_user_agent version) t \<lparr>ext = x, trace = [], clients = cs\<rparr>"
    and "upstream_of domain r x = Some (host, port)"
  shows "\<exists>w'. run_state (route_Reconcile (main_route_reconciler (fake_env ep) version domain) (route_key r))
        \<lparr>ext = x, trace = [], clients = cs\<rparr> = (Returned \<lparr>res_RequeueAfter = resyncPeriod\<rparr> None, w')
      \<and> published r (st_TunnelID (tn_Status t)) host port x (ext w')
      \<and> (\<forall>t. realised t x \<longrightarrow> realised t (ext w')) \<and> step ep version img (x, cs) (ext w', clients w')"
proof -
  have t: "t \<in> set (cu_Tunnels x)" using assms(4) by (auto simp: lookup_object_def find_Some_iff split: option.splits)
  have "fake_ok x (st_TunnelID (tn_Status t))" by (rule reachable_serving [OF assms(1) t assms(5-7)])
  then have "publishable ep (operator_user_agent version) domain r t host port \<lparr>ext = x, trace = [], clients = cs\<rparr>"
    using assms by (simp add: publishable_def)
  from run_route_Reconcile [OF this assms(3) refl refl] obtain w' where w':
      "run_state (route_Reconcile (main_route_reconciler (fake_env ep) version domain) (route_key r))
        \<lparr>ext = x, trace = [], clients = cs\<rparr> = (Returned \<lparr>res_RequeueAfter = resyncPeriod\<rparr> None, w')"
      "published r (st_TunnelID (tn_Status t)) host port x (ext w')"
    by auto
  have run: "run_state (route_Reconcile (main_route_reconciler (faulty (fake_env ep)) version domain) (route_key r))
      \<lparr>ext = (x, []), trace = [], clients = cs\<rparr> = (Returned \<lparr>res_RequeueAfter = resyncPeriod\<rparr> None, lifted (\<lambda>x. (x, [])) w')"
    using fault_free_route [OF w'(1)] by (simp add: lifted_def)
  have "harmless x (ext w')" using publishes_ok(1) [OF reachable_ok [OF assms(1)] run] by simp
  moreover have "step ep version img (x, cs) (ext w', clients w')" using step.publishes [OF run] by simp
  ultimately show ?thesis using w' realised_harmless by blast
qed

theorem reachable_publishes_witness:
  "\<exists>i w'. run_state (route_Reconcile sample_route_reconciler (nn ''team'' ''shop'')) \<lparr>ext = waiting_cluster, trace = [], clients = Map.empty\<rparr>
        = (Returned \<lparr>res_RequeueAfter = resyncPeriod\<rparr> None, w')
      \<and> published sample_route i shop_host 80 waiting_cluster (ext w') \<and> realised sample_tunnel (ext w')"
proof -
  obtain t i ft where t: "stored waiting_cluster t" "same_object sample_tunnel t" "st_TunnelID (tn_Status t) = i"
      "sound_tunnels (cu_Platform waiting_cluster)" "of_external (cu_Platform waiting_cluster) (om_UID (tn_Meta sample_tunnel)) = Some (i, ft)"
    using waiting_realised unfolding realised_with_def by blast
  have i: "i \<noteq> []" using sound_entry(2) [OF t(4) of_external_map [OF t(4,5)]] by (simp add: plain_id_def)
  have key: "tunnel_key t = nn ''team'' ''web''" "om_DeletionTimestamp (tn_Meta t) = None"
    using t(2) by (simp_all add: same_object_def key_of_def sample_tunnel_def sample_meta_def zero_meta_def)
  have room: "fake_room waiting_cluster i" by (simp add: fake_room_def waiting_cluster_def)
  have route: "stored_route waiting_cluster sample_route"
    by (simp add: stored_route_def waiting_cluster_def shop_cluster_def lookup_object_def)
  have "credential_ready sample_endpoint (operator_user_agent ''dev'') sample_tunnel \<lparr>ext = waiting_cluster, trace = [], clients = Map.empty\<rparr>"
    by (rule sample_credential) (simp_all add: waiting_cluster_def shop_cluster_def)
  then have ready: "credential_ready sample_endpoint (operator_user_agent ''dev'') t \<lparr>ext = waiting_cluster, trace = [], clients = Map.empty\<rparr>"
    by (rule credential_ready_same [OF _ t(2)]) (simp_all add: untouched_def)
  have upstream: "upstream_of ''cluster.local'' sample_route waiting_cluster = Some (shop_host, 80)"
    by (simp add: upstream_of_def waiting_cluster_def shop_cluster_def sample_route_def sample_service_def sample_meta_def zero_meta_def
        lookup_object_def key_of_def servicePort_def)
  have "lookup_object tn_Meta (nn (om_Namespace (tr_Meta sample_route)) (rs_TunnelRef (tr_Spec sample_route))) (cu_Tunnels waiting_cluster) = Inr t"
    using t(1) unfolding stored_def key(1) by (simp add: sample_route_sel)
  from reachable_publishes [OF waiting_reachable route sample_route_sel(3) this key(2) _ _ ready upstream] i room t(3) waiting_realised
  show ?thesis unfolding sample_route_reconciler_def sample_route_sel(4) by metis
qed

section \<open>A Tunnel and its route\<close>

text \<open>
  C5. A Tunnel and its route come up together. From every reachable state, whatever was cut short
  before, a reconcile of a live Tunnel whose credential can be read, from a Secret other than the one
  the operator keeps the token in, followed by one of a live TunnelRoute that names it and whose
  upstream resolves, both with every call answered and with room for a route on the platform, leave
  the Tunnel realised and the route published in the very tunnel it records; the first leaves alone
  all the second relies on.
\<close>

theorem reachable_settles:
  assumes "reachable ep version img (x, cs)" and "t \<in> set (cu_Tunnels x)" and "om_DeletionTimestamp (tn_Meta t) = None"
    and "stored_route x r" and "om_DeletionTimestamp (tr_Meta r) = None"
    and "nn (om_Namespace (tr_Meta r)) (rs_TunnelRef (tr_Spec r)) = tunnel_key t"
    and "credential_ready ep (operator_user_agent version) t \<lparr>ext = x, trace = [], clients = cs\<rparr>"
    and "cr_Name (ts_Credentials (tn_Spec t)) \<noteq> tokenSecretName (om_Name (tn_Meta t))"
    and "upstream_of domain r x = Some (host, port)" and "\<And>k. fake_room x k"
  shows "\<exists>w1 w2 t'. run_state (tunnel_Reconcile (main_tunnel_reconciler (fake_env ep) version img) (tunnel_key t))
        \<lparr>ext = x, trace = [], clients = cs\<rparr> = (Returned \<lparr>res_RequeueAfter = resyncPeriod\<rparr> None, w1)
      \<and> run_state (route_Reconcile (main_route_reconciler (fake_env ep) version domain) (route_key r)) w1
        = (Returned \<lparr>res_RequeueAfter = resyncPeriod\<rparr> None, w2)
      \<and> realised t (ext w2) \<and> stored (ext w2) t' \<and> same_object t t'
      \<and> published r (st_TunnelID (tn_Status t')) host port (ext w1) (ext w2)"
proof -
  let ?w = "\<lparr>ext = x, trace = [], clients = cs\<rparr>"
  note ok = reachable_sys [OF assms(1)] and mine = reachable_tunnel [OF assms(1,2)]
  obtain w1 where w1: "run_state (tunnel_Reconcile (main_tunnel_reconciler (fake_env ep) version img) (tunnel_key t)) ?w
        = (Returned \<lparr>res_RequeueAfter = resyncPeriod\<rparr> None, w1)" "realised t (ext w1)"
    using run_reachable [OF assms(1-3) _ assms(7)] by auto
  have recon: "reconcilable ep (operator_user_agent version) t ?w"
    using ok mine sys_ok_member(2) [OF ok assms(2)] tunnel_ok_recorded [OF mine] assms(7)
    by (simp add: reconcilable_def tunnel_ok_def sys_ok_def)
  from run_reconcile_around(1) [OF this assms(3) w1(1)] have frame: "around (token_name t) x (ext w1)" by simp
  have after: "reachable ep version img (ext w1, clients w1)" by (rule reachable_step [OF assms(1) fault_free_step [OF w1(1)]])
  then have ok1: "sys_ok ep (ext w1)" "clients_ok ep (clients w1)" using reachable_ok [OF after] by (simp_all add: system_ok_def)
  obtain t' i ft where t': "stored (ext w1) t'" "same_object t t'" "st_TunnelID (tn_Status t') = i"
      "sound_tunnels (cu_Platform (ext w1))" "of_external (cu_Platform (ext w1)) (om_UID (tn_Meta t)) = Some (i, ft)"
    using w1(2) unfolding realised_with_def by blast
  have i: "i \<noteq> []" using sound_entry(2) [OF t'(4) of_external_map [OF t'(4,5)]] by (simp add: plain_id_def)
  have live: "om_DeletionTimestamp (tn_Meta t') = None" and key: "tunnel_key t' = tunnel_key t"
    using t'(2) assms(3) by (simp_all add: same_object_def key_of_def)
  have room: "fake_room (ext w1) i" using assms(10) [of i] frame by (simp add: fake_room_def around_def)
  have serving: "fake_ok (ext w1) i"
    using reachable_serving [OF after stored_member [OF t'(1)] live] i room t'(3) by simp
  have ready: "credential_ready ep (operator_user_agent version) t' w1"
    by (rule run_reconcile_around(2) [OF recon assms(3) w1(1) _ t'(2)]) (use assms(8) in simp)
  have "publishable ep (operator_user_agent version) domain r t' host port w1"
    using assms(4,9) frame t'(1,3) serving room ready upstream_of_same [OF same_route_refl, of "ext w1" x domain r]
    unfolding publishable_def assms(6) by (simp add: around_def stored_route_def stored_def key)
  from run_route_Reconcile [OF this assms(5) refl refl] obtain w2 where w2:
      "run_state (route_Reconcile (main_route_reconciler (fake_env ep) version domain) (route_key r)) w1
        = (Returned \<lparr>res_RequeueAfter = resyncPeriod\<rparr> None, w2)" "published r (st_TunnelID (tn_Status t')) host port (ext w1) (ext w2)"
    by auto
  have harm: "harmless (ext w1) (ext w2)" by (rule run_route_harmless [OF ok1 w2(1)])
  then have "stored (ext w2) t'" using t'(1) by (simp add: harmless_def stored_def)
  then show ?thesis using w1(1) w2 realised_harmless [OF w1(2) harm] t'(2) by blast
qed

text \<open>The sample route and its Service made after the crash, before the Tunnel has recovered.\<close>

definition crashed_shop :: "fakeAPI cluster" where
  "crashed_shop = crashed_cluster\<lparr>cu_Routes := [sample_route], cu_Services := [sample_service]\<rparr>"

definition crashed_waiting :: "fakeAPI cluster" where
  "crashed_waiting = crashed_shop\<lparr>cu_Platform := (cu_Platform crashed_cluster)\<lparr>fa_routes := \<lambda>_. []\<rparr>\<rparr>"

lemma crashed_waiting_reachable: "reachable sample_endpoint ''dev'' ''agent:1'' (crashed_waiting, Map.empty)"
proof -
  note ok = reachable_sys [OF crashed_reachable]
  have "elsewhere crashed_cluster crashed_shop"
    using ok by (auto simp: elsewhere_def crashed_shop_def stored_token_def secret_free_def deployment_free_def
        sys_ok_def tunnel_ok_def list_all_iff)
  then have shop: "reachable sample_endpoint ''dev'' ''agent:1'' (crashed_shop, Map.empty)"
    by (rule reachable_step [OF crashed_reachable step.changes])
  have "sound_tunnels ((cu_Platform crashed_cluster)\<lparr>fa_routes := \<lambda>_. []\<rparr>)"
    using ok by (simp add: sys_ok_def sound_tunnels_def wf_entry_def [abs_def])
  then have "same_tunnels (cu_Platform crashed_shop) ((cu_Platform crashed_cluster)\<lparr>fa_routes := \<lambda>_. []\<rparr>)"
    by (simp add: same_tunnels_def crashed_shop_def lists_ok_def listed_def)
  then show ?thesis
    unfolding crashed_waiting_def by (rule reachable_step [OF shop step.serves])
qed

lemma crashed_waiting_sel:
  "cu_Tunnels crashed_waiting = cu_Tunnels crashed_cluster" "cu_Secrets crashed_waiting = cu_Secrets crashed_cluster"
  "fa_tunnels (cu_Platform crashed_waiting) = fa_tunnels (cu_Platform crashed_cluster)"
  by (simp_all add: crashed_waiting_def crashed_shop_def)

theorem reachable_settles_witness:
  "map fst (fa_tunnels (cu_Platform crashed_waiting)) = [''tun-1''] \<and> st_TunnelID (tn_Status crashed_tunnel) = []
   \<and> (\<exists>w1 w2 i. run_state (tunnel_Reconcile sample_tunnel_reconciler (nn ''team'' ''web''))
        \<lparr>ext = crashed_waiting, trace = [], clients = Map.empty\<rparr> = (Returned \<lparr>res_RequeueAfter = resyncPeriod\<rparr> None, w1)
      \<and> run_state (route_Reconcile sample_route_reconciler (nn ''team'' ''shop'')) w1
        = (Returned \<lparr>res_RequeueAfter = resyncPeriod\<rparr> None, w2)
      \<and> realised crashed_tunnel (ext w2) \<and> published sample_route i shop_host 80 (ext w1) (ext w2))"
proof -
  have t: "crashed_tunnel \<in> set (cu_Tunnels crashed_waiting)" using crashed_state(1) by (simp add: crashed_waiting_sel)
  have route: "stored_route crashed_waiting sample_route"
    by (simp add: stored_route_def crashed_waiting_def crashed_shop_def lookup_object_def)
  have ready: "credential_ready sample_endpoint (operator_user_agent ''dev'') crashed_tunnel
      \<lparr>ext = crashed_waiting, trace = [], clients = Map.empty\<rparr>"
    using crashed_state(7) by (simp add: credential_ready_def crashed_waiting_sel)
  have "length ''cred'' < length (tokenSecretName (om_Name (tn_Meta crashed_tunnel)))" by (simp add: tokenSecretName_def)
  then have cred: "cr_Name (ts_Credentials (tn_Spec crashed_tunnel)) \<noteq> tokenSecretName (om_Name (tn_Meta crashed_tunnel))"
    unfolding crashed_state(8) by (metis less_irrefl)
  have upstream: "upstream_of ''cluster.local'' sample_route crashed_waiting = Some (shop_host, 80)"
    by (simp add: upstream_of_def crashed_waiting_def crashed_shop_def sample_route_def sample_service_def sample_meta_def zero_meta_def
        lookup_object_def key_of_def servicePort_def)
  have ref: "nn (om_Namespace (tr_Meta sample_route)) (rs_TunnelRef (tr_Spec sample_route)) = tunnel_key crashed_tunnel"
    by (simp add: sample_route_sel crashed_state(6))
  have room: "fake_room crashed_waiting k" for k by (simp add: fake_room_def crashed_waiting_def)
  from reachable_settles [OF crashed_waiting_reachable t crashed_state(5) route sample_route_sel(3) ref ready cred upstream room]
  show ?thesis
    using crashed_state(2,4) unfolding sample_tunnel_reconciler_def sample_route_reconciler_def crashed_state(6) sample_route_sel(4)
      crashed_waiting_sel by blast
qed

end
