(* ===== verification/Lagging_Cache.thy ===== *)
theory Lagging_Cache
  imports Tunnel_Convergence
begin

text \<open>
  The manager's client reads from a cache that the watches fill, and \<^verbatim>\<open>cmd/main.go\<close> hands the
  reconcilers that client. Everywhere else in this development the cache is up to date. Here it is
  not: the token Secret is in the cluster and the cache has not seen it.
\<close>

section \<open>A cache that lags\<close>

definition AlreadyExistsError :: KubeError where
  "AlreadyExistsError = \<lparr>ke_Reason = ''AlreadyExists'', ke_Message = ''already exists''\<rparr>"

text \<open>
  A read of the Secret finds nothing, and \<^verbatim>\<open>CreateOrUpdate\<close>, which reads through the same cache,
  turns to a create and is refused.
\<close>

definition lagging :: "NamespacedName \<Rightarrow> 'p cluster env \<Rightarrow> 'p cluster env" where
  "lagging k env = env\<lparr>
     k_get_secret := \<lambda>k' x. if k' = k then (Inl NotFoundError, x) else k_get_secret env k' x,
     k_apply_secret := \<lambda>s f x.
       if key_of (sec_Meta s) = k \<and> \<not> isl (lookup_object sec_Meta k (cu_Secrets x)) then (Inl AlreadyExistsError, x)
       else k_apply_secret env s f x\<rparr>"

lemma lagging_request: "do_request (lagging k env) s m p b out zero = do_request env s m p b out zero"
proof -
  have "read_answer (lagging k env) s m p out zero = read_answer env s m p out zero"
    by (simp add: fun_eq_iff read_answer_def lagging_def split: sum.split option.split)
  moreover have "bad_url (lagging k env) = bad_url env" "HTTP_Do (lagging k env) = HTTP_Do env"
    by (simp_all add: fun_eq_iff HTTP_Do_def lagging_def)
  ultimately show ?thesis by (simp only: do_request_def)
qed

section \<open>What it costs\<close>

text \<open>
  A reconcile of a Tunnel whose token Secret the cache has not seen rotates the credential of the
  running agent, fails to store the new one, and leaves the old token in the Secret. From then on it
  is the state of a token that is not the platform's.
\<close>

lemma lagging_cache_burns_token:
  assumes "sound_tunnels (plat w)" and "map_of (fa_tunnels (plat w)) i = Some ft" and "stored_token (ext w) t \<noteq> []"
    and "token = ft_token ft @ ''-rotated-'' @ show_nat (Suc (fa_rotations (plat w)))"
  shows "\<exists>w'. run_state (ensureCredentialSecret (lagging (token_name t) (fake_env (srv_base s))) s t i []) w
      = (Inl (ErrKube AlreadyExistsError), w')
    \<and> stored_token (ext w') t = stored_token (ext w) t
    \<and> map_of (fa_tunnels (plat w')) i = Some (ft\<lparr>ft_token := token\<rparr>)"
proof -
  let ?env = "lagging (token_name t) (fake_env (srv_base s))"
  have missing: "run_state (Get_Secret ?env (token_name t)) w0
      = (Inl (ErrKube NotFoundError), emit (ext w0) (CGetSecret (token_name t) (Inl (ErrKube NotFoundError))) w0)" for w0
    by (simp add: Get_Secret_def run_kube_call lagging_def)
  have "kIsNotFound ?env (ErrKube NotFoundError)"
    by (simp add: lagging_def fake_env_def cluster_env_def ref_IsNotFound_def NotFoundError_def)
  moreover have there: "\<not> isl (lookup_object sec_Meta (token_name t) (cu_Secrets (ext w)))"
    using assms(3) by (auto simp: stored_token_def split: sum.splits)
  have refused: "\<exists>c. run_state (store_token ?env t tok) w0 = (Inl (ErrKube AlreadyExistsError), emit (ext w0) c w0)"
    if "cu_Secrets (ext w0) = cu_Secrets (ext w)" for w0 tok
    using there that
    by (intro exI [of _ "CApplySecret (blank_secret (om_Namespace (tn_Meta t)) (tokenSecretName (om_Name (tn_Meta t))))
        (Inl (ErrKube AlreadyExistsError))"])
       (simp add: store_token_def CreateOrUpdate_Secret_def run_kube_call lagging_def blank_secret_def key_of_def)
  let ?w1 = "emit (ext w) (CGetSecret (token_name t) (Inl (ErrKube NotFoundError))) w"
  obtain c where rotated: "run_state (RotateToken ?env s i) ?w1
      = (Inr \<lparr>rot_TunnelID = i, rot_TunnelToken = token\<rparr>, fake_step (with_token i token (plat w)) c ?w1)"
    using run_RotateToken [of ?w1 i ft token s] assms(1,2,4) by (auto simp: RotateToken_def lagging_request)
  let ?w2 = "fake_step (with_token i token (plat w)) c ?w1"
  let ?w3 = "snd (run_state (Eventf (tunnel_key t) EventTypeNormal ''CredentialRotated'' ''Rotating''
      ''Issued a new tunnel credential because none was stored'') ?w2)"
  have w3: "ext ?w3 = (ext w)\<lparr>cu_Platform := with_token i token (plat w)\<rparr>" by (simp add: Eventf_def)
  obtain c' where "run_state (store_token ?env t token) ?w3 = (Inl (ErrKube AlreadyExistsError), emit (ext ?w3) c' ?w3)"
    using refused [of ?w3 token] unfolding w3 by auto
  ultimately have "run_state (ensureCredentialSecret ?env s t i []) w = (Inl (ErrKube AlreadyExistsError), emit (ext ?w3) c' ?w3)"
    by (simp add: ensureCredentialSecret_def missing rotated split_beta Let_def)
  moreover have "map_of (fa_tunnels (with_token i token (plat w))) i = Some (ft\<lparr>ft_token := token\<rparr>)"
    using assms(2) by (simp add: with_token_def map_of_with_token)
  ultimately show ?thesis using w3 by (auto simp: stored_token_def)
qed

end
