(* ===== verification/Deep_Copy.thy ===== *)
theory Deep_Copy
  imports Api_Types
begin

text \<open>
  \<^verbatim>\<open>api/v1alpha1/zz_generated.deepcopy.go\<close> over an explicit memory. Everywhere else an object is a
  value; here it is what Go has: structs whose pointer, slice and map fields are addresses. A copy
  made by \<^verbatim>\<open>DeepCopy\<close> has the same content and shares no memory with the original, which is what
  lets a reconciler change the object it was given without changing the manager's cache. The structs
  of the Kubernetes libraries are opaque, and their \<^verbatim>\<open>DeepCopyInto\<close> is a parameter.
\<close>

section \<open>Memory\<close>

type_synonym addr = nat

text \<open>A slice is nil, or a stretch of an array: its address, where the slice starts and its length.\<close>

datatype slice = NilSlice | Slice addr nat nat

text \<open>The structs as they lie in memory; \<open>'v\<close> are the structs of the libraries.\<close>

record 'v MAgentSpec =
  ma_Image :: string
  ma_ImagePullPolicy :: string
  ma_ImagePullSecrets :: slice
  ma_Resources :: 'v
  ma_LogLevel :: string
  ma_NodeSelector :: "addr option"
  ma_Tolerations :: slice

record 'v MTunnelSpec =
  ms_Credentials :: CredentialsReference
  ms_DisplayName :: string
  ms_Agent :: "'v MAgentSpec"
  ms_Endpoints :: "addr option"

record MTunnelStatus =
  mt_TunnelID :: string
  mt_ExternalID :: string
  mt_Subdomain :: string
  mt_CNAMETarget :: string
  mt_WireGuardIP :: string
  mt_CredentialSecret :: string
  mt_OnlineStatus :: string
  mt_ObservedGeneration :: int
  mt_Conditions :: slice

record 'v MTunnel =
  mn_TypeMeta :: "string \<times> string"
  mn_Meta :: 'v
  mn_Spec :: "'v MTunnelSpec"
  mn_Status :: MTunnelStatus

record 'v MTunnelList =
  ml_TypeMeta :: "string \<times> string"
  ml_Meta :: 'v
  ml_Items :: slice

record MTunnelRouteSpec =
  mr_TunnelRef :: string
  mr_Hostname :: string
  mr_Type :: string
  mr_PathPrefix :: string
  mr_Service :: "addr option"
  mr_Upstream :: "addr option"
  mr_Scheme :: string
  mr_StripPrefix :: bool
  mr_Priority :: "addr option"
  mr_Enabled :: "addr option"

record MTunnelRouteStatus =
  mu_RouteID :: string
  mu_TunnelID :: string
  mu_UpstreamHost :: string
  mu_UpstreamPort :: int32
  mu_ObservedGeneration :: int
  mu_Conditions :: slice

record 'v MTunnelRoute =
  mo_TypeMeta :: "string \<times> string"
  mo_Meta :: 'v
  mo_Spec :: MTunnelRouteSpec
  mo_Status :: MTunnelRouteStatus

record 'v MTunnelRouteList =
  mp_TypeMeta :: "string \<times> string"
  mp_Meta :: 'v
  mp_Items :: slice

text \<open>What an address may lead to: an array, a map, or a struct or scalar behind a pointer.\<close>

datatype 'v cell =
    CPullSecrets "string list"
  | CTolerations "'v list"
  | CConditions "'v list"
  | CTunnels "'v MTunnel list"
  | CTunnelRoutes "'v MTunnelRoute list"
  | CSelector "string \<rightharpoonup> string"
  | CInt32 int32
  | CBool bool
  | CCredentials CredentialsReference
  | CEndpoints EndpointsSpec
  | CServiceTarget ServiceTarget
  | CUpstreamTarget UpstreamTarget
  | CAgentSpec "'v MAgentSpec"
  | CTunnelSpec "'v MTunnelSpec"
  | CTunnelStatus MTunnelStatus
  | CTunnel "'v MTunnel"
  | CTunnelList "'v MTunnelList"
  | CTunnelRouteSpec MTunnelRouteSpec
  | CTunnelRouteStatus MTunnelRouteStatus
  | CTunnelRoute "'v MTunnelRoute"
  | CTunnelRouteList "'v MTunnelRouteList"
  | CLibrary 'v

record 'v heap =
  cells :: "addr \<rightharpoonup> 'v cell"
  fresh :: addr

type_synonym ('v, 'a) mem = "('v heap, 'a) state"

text \<open>What lies at an address, and a new cell.\<close>

definition load :: "addr \<Rightarrow> ('v, 'v cell option) mem" where
  "load a = State (\<lambda>h. (cells h a, h))"

definition new :: "'v cell \<Rightarrow> ('v, addr) mem" where
  "new c = State (\<lambda>h. (fresh h, h\<lparr>cells := (cells h)(fresh h \<mapsto> c), fresh := Suc (fresh h)\<rparr>))"

text \<open>The type an address is used at: how a value is put in a cell and taken out of one.\<close>

record ('v, 's) cell_type =
  into :: "'s \<Rightarrow> 'v cell"
  out_of :: "'v cell \<Rightarrow> 's option"

section \<open>The steps of a generated copy\<close>

text \<open>
  \<^verbatim>\<open>if in.F != nil { *out = new(T); **out = **in }\<close>, and the same with \<^verbatim>\<open>DeepCopyInto\<close> in place of the
  assignment; a map is copied like the first, entry by entry. Go's types exclude an address that
  leads to a cell of another type.
\<close>

definition copy_pointer :: "('v, 's) cell_type \<Rightarrow> ('s \<Rightarrow> ('v, 's) mem) \<Rightarrow> addr option \<Rightarrow> ('v, addr option) mem" where
  "copy_pointer ty copy p =
     (case p of
        None \<Rightarrow> ret None
      | Some a \<Rightarrow> do {
          c \<leftarrow> load a;
          (case Option.bind c (out_of ty) of
             None \<Rightarrow> ret p
           | Some s \<Rightarrow> do {
               s' \<leftarrow> copy s;
               b \<leftarrow> new (into ty s');
               ret (Some b)
             })
        })"

text \<open>\<^verbatim>\<open>make([]T, len(*in))\<close> and a copy of each element; it is filled before anyone can see it.\<close>

primrec copy_elements :: "('s \<Rightarrow> ('v, 's) mem) \<Rightarrow> 's list \<Rightarrow> ('v, 's list) mem" where
  "copy_elements copy [] = ret []"
| "copy_elements copy (x # xs) = do {
     y \<leftarrow> copy x;
     ys \<leftarrow> copy_elements copy xs;
     ret (y # ys)
   }"

definition copy_slice :: "('v, 's list) cell_type \<Rightarrow> ('s \<Rightarrow> ('v, 's) mem) \<Rightarrow> slice \<Rightarrow> ('v, slice) mem" where
  "copy_slice ty copy sl =
     (case sl of
        NilSlice \<Rightarrow> ret NilSlice
      | Slice a off len \<Rightarrow> do {
          c \<leftarrow> load a;
          (case Option.bind c (out_of ty) of
             None \<Rightarrow> ret sl
           | Some xs \<Rightarrow> do {
               ys \<leftarrow> copy_elements copy (take len (drop off xs));
               b \<leftarrow> new (into ty ys);
               ret (Slice b 0 len)
             })
        })"

section \<open>The types of the cells\<close>

definition pull_secrets :: "('v, string list) cell_type" where
  "pull_secrets = \<lparr>into = CPullSecrets, out_of = (\<lambda>c. case c of CPullSecrets x \<Rightarrow> Some x | _ \<Rightarrow> None)\<rparr>"
definition tolerations :: "('v, 'v list) cell_type" where
  "tolerations = \<lparr>into = CTolerations, out_of = (\<lambda>c. case c of CTolerations x \<Rightarrow> Some x | _ \<Rightarrow> None)\<rparr>"
definition conditions :: "('v, 'v list) cell_type" where
  "conditions = \<lparr>into = CConditions, out_of = (\<lambda>c. case c of CConditions x \<Rightarrow> Some x | _ \<Rightarrow> None)\<rparr>"
definition tunnels :: "('v, 'v MTunnel list) cell_type" where
  "tunnels = \<lparr>into = CTunnels, out_of = (\<lambda>c. case c of CTunnels x \<Rightarrow> Some x | _ \<Rightarrow> None)\<rparr>"
definition tunnel_routes :: "('v, 'v MTunnelRoute list) cell_type" where
  "tunnel_routes = \<lparr>into = CTunnelRoutes, out_of = (\<lambda>c. case c of CTunnelRoutes x \<Rightarrow> Some x | _ \<Rightarrow> None)\<rparr>"
definition selector :: "('v, string \<rightharpoonup> string) cell_type" where
  "selector = \<lparr>into = CSelector, out_of = (\<lambda>c. case c of CSelector x \<Rightarrow> Some x | _ \<Rightarrow> None)\<rparr>"
definition int32_cell :: "('v, int32) cell_type" where
  "int32_cell = \<lparr>into = CInt32, out_of = (\<lambda>c. case c of CInt32 x \<Rightarrow> Some x | _ \<Rightarrow> None)\<rparr>"
definition bool_cell :: "('v, bool) cell_type" where
  "bool_cell = \<lparr>into = CBool, out_of = (\<lambda>c. case c of CBool x \<Rightarrow> Some x | _ \<Rightarrow> None)\<rparr>"
definition credentials_cell :: "('v, CredentialsReference) cell_type" where
  "credentials_cell = \<lparr>into = CCredentials, out_of = (\<lambda>c. case c of CCredentials x \<Rightarrow> Some x | _ \<Rightarrow> None)\<rparr>"
definition endpoints_cell :: "('v, EndpointsSpec) cell_type" where
  "endpoints_cell = \<lparr>into = CEndpoints, out_of = (\<lambda>c. case c of CEndpoints x \<Rightarrow> Some x | _ \<Rightarrow> None)\<rparr>"
definition service_target_cell :: "('v, ServiceTarget) cell_type" where
  "service_target_cell = \<lparr>into = CServiceTarget, out_of = (\<lambda>c. case c of CServiceTarget x \<Rightarrow> Some x | _ \<Rightarrow> None)\<rparr>"
definition upstream_target_cell :: "('v, UpstreamTarget) cell_type" where
  "upstream_target_cell = \<lparr>into = CUpstreamTarget, out_of = (\<lambda>c. case c of CUpstreamTarget x \<Rightarrow> Some x | _ \<Rightarrow> None)\<rparr>"
definition agent_cell :: "('v, 'v MAgentSpec) cell_type" where
  "agent_cell = \<lparr>into = CAgentSpec, out_of = (\<lambda>c. case c of CAgentSpec x \<Rightarrow> Some x | _ \<Rightarrow> None)\<rparr>"
definition tunnel_spec_cell :: "('v, 'v MTunnelSpec) cell_type" where
  "tunnel_spec_cell = \<lparr>into = CTunnelSpec, out_of = (\<lambda>c. case c of CTunnelSpec x \<Rightarrow> Some x | _ \<Rightarrow> None)\<rparr>"
definition tunnel_status_cell :: "('v, MTunnelStatus) cell_type" where
  "tunnel_status_cell = \<lparr>into = CTunnelStatus, out_of = (\<lambda>c. case c of CTunnelStatus x \<Rightarrow> Some x | _ \<Rightarrow> None)\<rparr>"
definition tunnel_cell :: "('v, 'v MTunnel) cell_type" where
  "tunnel_cell = \<lparr>into = CTunnel, out_of = (\<lambda>c. case c of CTunnel x \<Rightarrow> Some x | _ \<Rightarrow> None)\<rparr>"
definition tunnel_list_cell :: "('v, 'v MTunnelList) cell_type" where
  "tunnel_list_cell = \<lparr>into = CTunnelList, out_of = (\<lambda>c. case c of CTunnelList x \<Rightarrow> Some x | _ \<Rightarrow> None)\<rparr>"
definition route_spec_cell :: "('v, MTunnelRouteSpec) cell_type" where
  "route_spec_cell = \<lparr>into = CTunnelRouteSpec, out_of = (\<lambda>c. case c of CTunnelRouteSpec x \<Rightarrow> Some x | _ \<Rightarrow> None)\<rparr>"
definition route_status_cell :: "('v, MTunnelRouteStatus) cell_type" where
  "route_status_cell = \<lparr>into = CTunnelRouteStatus, out_of = (\<lambda>c. case c of CTunnelRouteStatus x \<Rightarrow> Some x | _ \<Rightarrow> None)\<rparr>"
definition route_cell :: "('v, 'v MTunnelRoute) cell_type" where
  "route_cell = \<lparr>into = CTunnelRoute, out_of = (\<lambda>c. case c of CTunnelRoute x \<Rightarrow> Some x | _ \<Rightarrow> None)\<rparr>"
definition route_list_cell :: "('v, 'v MTunnelRouteList) cell_type" where
  "route_list_cell = \<lparr>into = CTunnelRouteList, out_of = (\<lambda>c. case c of CTunnelRouteList x \<Rightarrow> Some x | _ \<Rightarrow> None)\<rparr>"

section \<open>Tunnel\<close>

text \<open>
  \<^verbatim>\<open>(in *T) DeepCopyInto(out *T)\<close> is a function from the struct \<open>in\<close> points to, to the struct it leaves
  in \<open>out\<close>, which starts as a copy of it. A struct without references is just assigned. \<open>dc\<close> is
  the \<^verbatim>\<open>DeepCopyInto\<close> of the library structs.
\<close>

definition CredentialsReference_DeepCopyInto :: "CredentialsReference \<Rightarrow> ('v, CredentialsReference) mem" where
  "CredentialsReference_DeepCopyInto s = ret s"

definition EndpointsSpec_DeepCopyInto :: "EndpointsSpec \<Rightarrow> ('v, EndpointsSpec) mem" where
  "EndpointsSpec_DeepCopyInto s = ret s"

definition AgentSpec_DeepCopyInto :: "('v \<Rightarrow> ('v, 'v) mem) \<Rightarrow> 'v MAgentSpec \<Rightarrow> ('v, 'v MAgentSpec) mem" where
  "AgentSpec_DeepCopyInto dc s = do {
     pulls \<leftarrow> copy_slice pull_secrets ret (ma_ImagePullSecrets s);
     res \<leftarrow> dc (ma_Resources s);
     sel \<leftarrow> copy_pointer selector ret (ma_NodeSelector s);
     tols \<leftarrow> copy_slice tolerations dc (ma_Tolerations s);
     ret (s\<lparr>ma_ImagePullSecrets := pulls, ma_Resources := res, ma_NodeSelector := sel, ma_Tolerations := tols\<rparr>)
   }"

definition TunnelSpec_DeepCopyInto :: "('v \<Rightarrow> ('v, 'v) mem) \<Rightarrow> 'v MTunnelSpec \<Rightarrow> ('v, 'v MTunnelSpec) mem" where
  "TunnelSpec_DeepCopyInto dc s = do {
     agent \<leftarrow> AgentSpec_DeepCopyInto dc (ms_Agent s);
     ends \<leftarrow> copy_pointer endpoints_cell ret (ms_Endpoints s);
     ret (s\<lparr>ms_Agent := agent, ms_Endpoints := ends\<rparr>)
   }"

definition TunnelStatus_DeepCopyInto :: "('v \<Rightarrow> ('v, 'v) mem) \<Rightarrow> MTunnelStatus \<Rightarrow> ('v, MTunnelStatus) mem" where
  "TunnelStatus_DeepCopyInto dc s = do {
     conds \<leftarrow> copy_slice conditions dc (mt_Conditions s);
     ret (s\<lparr>mt_Conditions := conds\<rparr>)
   }"

definition Tunnel_DeepCopyInto :: "('v \<Rightarrow> ('v, 'v) mem) \<Rightarrow> 'v MTunnel \<Rightarrow> ('v, 'v MTunnel) mem" where
  "Tunnel_DeepCopyInto dc s = do {
     meta \<leftarrow> dc (mn_Meta s);
     spec \<leftarrow> TunnelSpec_DeepCopyInto dc (mn_Spec s);
     status \<leftarrow> TunnelStatus_DeepCopyInto dc (mn_Status s);
     ret (s\<lparr>mn_Meta := meta, mn_Spec := spec, mn_Status := status\<rparr>)
   }"

definition TunnelList_DeepCopyInto :: "('v \<Rightarrow> ('v, 'v) mem) \<Rightarrow> 'v MTunnelList \<Rightarrow> ('v, 'v MTunnelList) mem" where
  "TunnelList_DeepCopyInto dc s = do {
     meta \<leftarrow> dc (ml_Meta s);
     items \<leftarrow> copy_slice tunnels (Tunnel_DeepCopyInto dc) (ml_Items s);
     ret (s\<lparr>ml_Meta := meta, ml_Items := items\<rparr>)
   }"

section \<open>TunnelRoute\<close>

definition ServiceTarget_DeepCopyInto :: "ServiceTarget \<Rightarrow> ('v, ServiceTarget) mem" where
  "ServiceTarget_DeepCopyInto s = ret (s\<lparr>sv_Port := sv_Port s\<rparr>)"

definition UpstreamTarget_DeepCopyInto :: "UpstreamTarget \<Rightarrow> ('v, UpstreamTarget) mem" where
  "UpstreamTarget_DeepCopyInto s = ret s"

definition TunnelRouteSpec_DeepCopyInto :: "MTunnelRouteSpec \<Rightarrow> ('v, MTunnelRouteSpec) mem" where
  "TunnelRouteSpec_DeepCopyInto s = do {
     svc \<leftarrow> copy_pointer service_target_cell ret (mr_Service s);
     ups \<leftarrow> copy_pointer upstream_target_cell ret (mr_Upstream s);
     prio \<leftarrow> copy_pointer int32_cell ret (mr_Priority s);
     on \<leftarrow> copy_pointer bool_cell ret (mr_Enabled s);
     ret (s\<lparr>mr_Service := svc, mr_Upstream := ups, mr_Priority := prio, mr_Enabled := on\<rparr>)
   }"

definition TunnelRouteStatus_DeepCopyInto :: "('v \<Rightarrow> ('v, 'v) mem) \<Rightarrow> MTunnelRouteStatus \<Rightarrow> ('v, MTunnelRouteStatus) mem" where
  "TunnelRouteStatus_DeepCopyInto dc s = do {
     conds \<leftarrow> copy_slice conditions dc (mu_Conditions s);
     ret (s\<lparr>mu_Conditions := conds\<rparr>)
   }"

definition TunnelRoute_DeepCopyInto :: "('v \<Rightarrow> ('v, 'v) mem) \<Rightarrow> 'v MTunnelRoute \<Rightarrow> ('v, 'v MTunnelRoute) mem" where
  "TunnelRoute_DeepCopyInto dc s = do {
     meta \<leftarrow> dc (mo_Meta s);
     spec \<leftarrow> TunnelRouteSpec_DeepCopyInto (mo_Spec s);
     status \<leftarrow> TunnelRouteStatus_DeepCopyInto dc (mo_Status s);
     ret (s\<lparr>mo_Meta := meta, mo_Spec := spec, mo_Status := status\<rparr>)
   }"

definition TunnelRouteList_DeepCopyInto :: "('v \<Rightarrow> ('v, 'v) mem) \<Rightarrow> 'v MTunnelRouteList \<Rightarrow> ('v, 'v MTunnelRouteList) mem" where
  "TunnelRouteList_DeepCopyInto dc s = do {
     meta \<leftarrow> dc (mp_Meta s);
     items \<leftarrow> copy_slice tunnel_routes (TunnelRoute_DeepCopyInto dc) (mp_Items s);
     ret (s\<lparr>mp_Meta := meta, mp_Items := items\<rparr>)
   }"

section \<open>Behind a pointer\<close>

text \<open>\<^verbatim>\<open>(in *T) DeepCopy()\<close>: nil for nil, else a new struct that \<^verbatim>\<open>DeepCopyInto\<close> has filled.\<close>

definition CredentialsReference_DeepCopy :: "addr option \<Rightarrow> ('v, addr option) mem" where
  "CredentialsReference_DeepCopy = copy_pointer credentials_cell CredentialsReference_DeepCopyInto"
definition EndpointsSpec_DeepCopy :: "addr option \<Rightarrow> ('v, addr option) mem" where
  "EndpointsSpec_DeepCopy = copy_pointer endpoints_cell EndpointsSpec_DeepCopyInto"
definition AgentSpec_DeepCopy :: "('v \<Rightarrow> ('v, 'v) mem) \<Rightarrow> addr option \<Rightarrow> ('v, addr option) mem" where
  "AgentSpec_DeepCopy dc = copy_pointer agent_cell (AgentSpec_DeepCopyInto dc)"
definition TunnelSpec_DeepCopy :: "('v \<Rightarrow> ('v, 'v) mem) \<Rightarrow> addr option \<Rightarrow> ('v, addr option) mem" where
  "TunnelSpec_DeepCopy dc = copy_pointer tunnel_spec_cell (TunnelSpec_DeepCopyInto dc)"
definition TunnelStatus_DeepCopy :: "('v \<Rightarrow> ('v, 'v) mem) \<Rightarrow> addr option \<Rightarrow> ('v, addr option) mem" where
  "TunnelStatus_DeepCopy dc = copy_pointer tunnel_status_cell (TunnelStatus_DeepCopyInto dc)"
definition Tunnel_DeepCopy :: "('v \<Rightarrow> ('v, 'v) mem) \<Rightarrow> addr option \<Rightarrow> ('v, addr option) mem" where
  "Tunnel_DeepCopy dc = copy_pointer tunnel_cell (Tunnel_DeepCopyInto dc)"
definition TunnelList_DeepCopy :: "('v \<Rightarrow> ('v, 'v) mem) \<Rightarrow> addr option \<Rightarrow> ('v, addr option) mem" where
  "TunnelList_DeepCopy dc = copy_pointer tunnel_list_cell (TunnelList_DeepCopyInto dc)"
definition ServiceTarget_DeepCopy :: "addr option \<Rightarrow> ('v, addr option) mem" where
  "ServiceTarget_DeepCopy = copy_pointer service_target_cell ServiceTarget_DeepCopyInto"
definition UpstreamTarget_DeepCopy :: "addr option \<Rightarrow> ('v, addr option) mem" where
  "UpstreamTarget_DeepCopy = copy_pointer upstream_target_cell UpstreamTarget_DeepCopyInto"
definition TunnelRouteSpec_DeepCopy :: "addr option \<Rightarrow> ('v, addr option) mem" where
  "TunnelRouteSpec_DeepCopy = copy_pointer route_spec_cell TunnelRouteSpec_DeepCopyInto"
definition TunnelRouteStatus_DeepCopy :: "('v \<Rightarrow> ('v, 'v) mem) \<Rightarrow> addr option \<Rightarrow> ('v, addr option) mem" where
  "TunnelRouteStatus_DeepCopy dc = copy_pointer route_status_cell (TunnelRouteStatus_DeepCopyInto dc)"
definition TunnelRoute_DeepCopy :: "('v \<Rightarrow> ('v, 'v) mem) \<Rightarrow> addr option \<Rightarrow> ('v, addr option) mem" where
  "TunnelRoute_DeepCopy dc = copy_pointer route_cell (TunnelRoute_DeepCopyInto dc)"
definition TunnelRouteList_DeepCopy :: "('v \<Rightarrow> ('v, 'v) mem) \<Rightarrow> addr option \<Rightarrow> ('v, addr option) mem" where
  "TunnelRouteList_DeepCopy dc = copy_pointer route_list_cell (TunnelRouteList_DeepCopyInto dc)"

text \<open>
  \<^verbatim>\<open>DeepCopyObject()\<close> returns an interface: nil, or a pointer together with its type. An interface that
  holds a nil pointer is not the nil interface, hence the test in the code.
\<close>

datatype runtime_object = NilObject | TunnelObject "addr option" | TunnelListObject "addr option"
  | TunnelRouteObject "addr option" | TunnelRouteListObject "addr option"

definition Tunnel_DeepCopyObject :: "('v \<Rightarrow> ('v, 'v) mem) \<Rightarrow> addr option \<Rightarrow> ('v, runtime_object) mem" where
  "Tunnel_DeepCopyObject dc p = do { c \<leftarrow> Tunnel_DeepCopy dc p; if c \<noteq> None then ret (TunnelObject c) else ret NilObject }"
definition TunnelList_DeepCopyObject :: "('v \<Rightarrow> ('v, 'v) mem) \<Rightarrow> addr option \<Rightarrow> ('v, runtime_object) mem" where
  "TunnelList_DeepCopyObject dc p = do { c \<leftarrow> TunnelList_DeepCopy dc p; if c \<noteq> None then ret (TunnelListObject c) else ret NilObject }"
definition TunnelRoute_DeepCopyObject :: "('v \<Rightarrow> ('v, 'v) mem) \<Rightarrow> addr option \<Rightarrow> ('v, runtime_object) mem" where
  "TunnelRoute_DeepCopyObject dc p = do { c \<leftarrow> TunnelRoute_DeepCopy dc p; if c \<noteq> None then ret (TunnelRouteObject c) else ret NilObject }"
definition TunnelRouteList_DeepCopyObject :: "('v \<Rightarrow> ('v, 'v) mem) \<Rightarrow> addr option \<Rightarrow> ('v, runtime_object) mem" where
  "TunnelRouteList_DeepCopyObject dc p = do { c \<leftarrow> TunnelRouteList_DeepCopy dc p; if c \<noteq> None then ret (TunnelRouteListObject c) else ret NilObject }"

end
