(* ===== verification/Deep_Copy_Laws.thy ===== *)
theory Deep_Copy_Laws
  imports Deep_Copy
begin

text \<open>
  What a deep copy owes: the copy has the content of the original, every address it reaches is new,
  and the old memory is as it was. One locale states it; the laws of the steps of a generated copy
  (a pointer, a slice, one field after the other) give it for every type of the API.
\<close>

section \<open>Views of memory\<close>

definition well :: "'v heap \<Rightarrow> bool" where
  "well h = (\<forall>a. fresh h \<le> a \<longrightarrow> cells h a = None)"

definition agree :: "addr set \<Rightarrow> 'v heap \<Rightarrow> 'v heap \<Rightarrow> bool" where
  "agree A h h' = (\<forall>a \<in> A. cells h' a = cells h a)"

text \<open>
  How a value that may hold addresses is seen: its content, with what the addresses lead to in their
  place; the addresses it reaches; and whether they lead to cells of the right types.
\<close>

record ('v, 's, 'd) view =
  content :: "'v heap \<Rightarrow> 's \<Rightarrow> 'd"
  reaches :: "'v heap \<Rightarrow> 's \<Rightarrow> addr set"
  typed :: "'v heap \<Rightarrow> 's \<Rightarrow> bool"

definition plain :: "('v, 's, 's) view" where
  "plain = \<lparr>content = (\<lambda>h s. s), reaches = (\<lambda>h s. {}), typed = (\<lambda>h s. True)\<rparr>"

definition at_cell :: "('v, 's) cell_type \<Rightarrow> 'v heap \<Rightarrow> addr \<Rightarrow> 's option" where
  "at_cell ty h a = Option.bind (cells h a) (out_of ty)"

definition behind :: "('v, 's) cell_type \<Rightarrow> ('v, 's, 'd) view \<Rightarrow> ('v, addr option, 'd option) view" where
  "behind ty v =
     \<lparr>content = (\<lambda>h p. Option.bind p (\<lambda>a. map_option (content v h) (at_cell ty h a))),
      reaches = (\<lambda>h p. case p of None \<Rightarrow> {} | Some a \<Rightarrow>
        insert a (case at_cell ty h a of None \<Rightarrow> {} | Some s \<Rightarrow> reaches v h s)),
      typed = (\<lambda>h p. case p of None \<Rightarrow> True | Some a \<Rightarrow>
        (case at_cell ty h a of None \<Rightarrow> False | Some s \<Rightarrow> typed v h s))\<rparr>"

definition listed :: "('v, 's, 'd) view \<Rightarrow> ('v, 's list, 'd list) view" where
  "listed v =
     \<lparr>content = (\<lambda>h xs. map (content v h) xs), reaches = (\<lambda>h xs. \<Union>x \<in> set xs. reaches v h x),
      typed = (\<lambda>h xs. list_all (typed v h) xs)\<rparr>"

definition sliced :: "('v, 's list) cell_type \<Rightarrow> ('v, 's, 'd) view \<Rightarrow> ('v, slice, 'd list option) view" where
  "sliced ty v =
     \<lparr>content = (\<lambda>h sl. case sl of NilSlice \<Rightarrow> None | Slice a off len \<Rightarrow>
        map_option (\<lambda>xs. content (listed v) h (take len (drop off xs))) (at_cell ty h a)),
      reaches = (\<lambda>h sl. case sl of NilSlice \<Rightarrow> {} | Slice a off len \<Rightarrow>
        insert a (case at_cell ty h a of None \<Rightarrow> {} | Some xs \<Rightarrow> reaches (listed v) h (take len (drop off xs)))),
      typed = (\<lambda>h sl. case sl of NilSlice \<Rightarrow> True | Slice a off len \<Rightarrow>
        (case at_cell ty h a of None \<Rightarrow> False
         | Some xs \<Rightarrow> off + len \<le> length xs \<and> typed (listed v) h (take len (drop off xs))))\<rparr>"

definition both :: "('v, 's, 'd) view \<Rightarrow> ('v, 't, 'e) view \<Rightarrow> ('v, 's \<times> 't, 'd \<times> 'e) view" where
  "both v w =
     \<lparr>content = (\<lambda>h (s, t). (content v h s, content w h t)), reaches = (\<lambda>h (s, t). reaches v h s \<union> reaches w h t),
      typed = (\<lambda>h (s, t). typed v h s \<and> typed w h t)\<rparr>"

text \<open>A struct: its fields that may hold addresses, and the others, which are content as they are.\<close>

definition struct :: "('s \<Rightarrow> 't) \<Rightarrow> ('s \<Rightarrow> 'r) \<Rightarrow> ('v, 't, 'd) view \<Rightarrow> ('v, 's, 'r \<times> 'd) view" where
  "struct refs rest v =
     \<lparr>content = (\<lambda>h s. (rest s, content v h (refs s))), reaches = (\<lambda>h s. reaches v h (refs s)),
      typed = (\<lambda>h s. typed v h (refs s))\<rparr>"

section \<open>The contract\<close>

locale deep_copy =
  fixes copy :: "'s \<Rightarrow> ('v, 's) mem" and v :: "('v, 's, 'd) view"
  assumes inside: "typed v h s \<Longrightarrow> reaches v h s \<subseteq> dom (cells h)"
    and own: "typed v h s \<Longrightarrow> agree (reaches v h s) h h' \<Longrightarrow>
      content v h' s = content v h s \<and> reaches v h' s = reaches v h s \<and> typed v h' s"
    and copies: "well h \<Longrightarrow> typed v h s \<Longrightarrow> run_state (copy s) h = (s', h') \<Longrightarrow>
      well h' \<and> cells h \<subseteq>\<^sub>m cells h' \<and> typed v h' s' \<and> content v h' s' = content v h s
      \<and> reaches v h' s' \<inter> dom (cells h) = {}"
begin

text \<open>What was there before stays what it is while memory grows.\<close>

lemma grown:
  assumes "typed v h s" and "cells h \<subseteq>\<^sub>m cells h'"
  shows "content v h' s = content v h s" "reaches v h' s = reaches v h s" "typed v h' s"
proof -
  have "cells h' a = cells h a" if "a \<in> reaches v h s" for a
    using inside [OF assms(1)] assms(2) that unfolding map_le_def by (metis subsetD)
  then have "agree (reaches v h s) h h'" by (simp add: agree_def)
  then show "content v h' s = content v h s" "reaches v h' s = reaches v h s" "typed v h' s"
    using own [OF assms(1)] by simp_all
qed

text \<open>Whatever happens to the memory of the copy, the original keeps its content, and the other way round.\<close>

lemma independent:
  assumes "well h" and "typed v h s" and "run_state (copy s) h = (s', h')"
  shows "agree (- reaches v h' s') h' h'' \<Longrightarrow> content v h'' s = content v h s"
    and "agree (- reaches v h s) h' h'' \<Longrightarrow> content v h'' s' = content v h s"
proof -
  have new: "cells h \<subseteq>\<^sub>m cells h'" "typed v h' s'" "content v h' s' = content v h s" "reaches v h' s' \<inter> dom (cells h) = {}"
    using copies [OF assms] by simp_all
  note old = grown [OF assms(2) new(1)]
  have apart: "reaches v h s \<inter> reaches v h' s' = {}" using inside [OF assms(2)] new(4) by blast
  show "content v h'' s = content v h s" if "agree (- reaches v h' s') h' h''"
  proof -
    have "agree (reaches v h' s) h' h''" using that apart old(2) by (auto simp: agree_def)
    then show ?thesis using own [OF old(3)] old(1) by simp
  qed
  show "content v h'' s' = content v h s" if "agree (- reaches v h s) h' h''"
  proof -
    have "agree (reaches v h' s') h' h''" using that apart by (auto simp: agree_def)
    then show ?thesis using own [OF new(2)] new(3) by simp
  qed
qed

end

section \<open>The laws of the steps\<close>

lemma run_load: "run_state (load a) h = (cells h a, h)"
  by (simp add: load_def)

lemma run_new: "run_state (new c) h = (fresh h, h\<lparr>cells := (cells h)(fresh h \<mapsto> c), fresh := Suc (fresh h)\<rparr>)"
  by (simp add: new_def)

lemma well_fresh: "well h \<Longrightarrow> cells h (fresh h) = None"
  by (simp add: well_def)

lemma new_grows: "well h \<Longrightarrow> run_state (new c) h = (b, h') \<Longrightarrow>
    well h' \<and> cells h \<subseteq>\<^sub>m cells h' \<and> cells h' b = Some c \<and> b \<notin> dom (cells h)"
  by (auto simp: run_new well_def map_le_def dom_def)

lemma ret_law: "deep_copy ret plain"
  by unfold_locales (simp_all add: plain_def)

lemma at_cell_agree: "agree A h h' \<Longrightarrow> a \<in> A \<Longrightarrow> at_cell ty h' a = at_cell ty h a"
  by (simp add: agree_def at_cell_def)

lemma agree_insert [simp]: "agree (insert a A) h h' \<longleftrightarrow> cells h' a = cells h a \<and> agree A h h'"
  "agree {} h h'" "agree (A \<union> B) h h' \<longleftrightarrow> agree A h h' \<and> agree B h h'"
  by (auto simp: agree_def)

lemma at_cell_dom: "at_cell ty h a = Some s \<Longrightarrow> a \<in> dom (cells h)"
  by (auto simp: at_cell_def bind_eq_Some_conv)

lemma at_new: "cells h b = Some (into ty s) \<Longrightarrow> out_of ty (into ty s) = Some s \<Longrightarrow> at_cell ty h b = Some s"
  by (simp add: at_cell_def)

lemma map_le_dom: "cells h \<subseteq>\<^sub>m cells h' \<Longrightarrow> dom (cells h) \<subseteq> dom (cells h')"
  by (rule map_le_implies_dom_le)

lemma apart_before: "A \<inter> dom (cells h1) = {} \<Longrightarrow> cells h \<subseteq>\<^sub>m cells h1 \<Longrightarrow> A \<inter> dom (cells h) = {}"
  using map_le_dom by blast

text \<open>A copy put in a new cell.\<close>

lemma copied_to_new:
  assumes copy: "deep_copy copy v" and "well h" and "typed v h s" and "run_state (copy s) h = (s1, h1)"
    and "run_state (new c) h1 = (b, h2)"
  shows "well h2 \<and> cells h \<subseteq>\<^sub>m cells h2 \<and> cells h2 b = Some c \<and> b \<notin> dom (cells h) \<and> typed v h2 s1
    \<and> content v h2 s1 = content v h s \<and> reaches v h2 s1 \<inter> dom (cells h) = {}"
proof -
  have one: "well h1" "cells h \<subseteq>\<^sub>m cells h1" "typed v h1 s1" "content v h1 s1 = content v h s" "reaches v h1 s1 \<inter> dom (cells h) = {}"
    using deep_copy.copies [OF copy assms(2-4)] by simp_all
  have two: "well h2" "cells h1 \<subseteq>\<^sub>m cells h2" "cells h2 b = Some c" "b \<notin> dom (cells h1)"
    using new_grows [OF one(1) assms(5)] by simp_all
  show ?thesis
    using one two deep_copy.grown [OF copy one(3) two(2)] map_le_trans [OF one(2) two(2)] map_le_dom [OF one(2)] by auto
qed

lemma pointer_law:
  assumes copy: "deep_copy copy v" and ty: "\<And>s. out_of ty (into ty s) = Some s"
  shows "deep_copy (copy_pointer ty copy) (behind ty v)"
proof
  fix h h' and p :: "addr option"
  assume t: "typed (behind ty v) h p"
  show "reaches (behind ty v) h p \<subseteq> dom (cells h)"
    using t at_cell_dom deep_copy.inside [OF copy] by (fastforce simp: behind_def split: option.splits)
  show "content (behind ty v) h' p = content (behind ty v) h p \<and> reaches (behind ty v) h' p = reaches (behind ty v) h p \<and> typed (behind ty v) h' p"
    if same: "agree (reaches (behind ty v) h p) h h'"
  proof (cases p)
    case (Some a)
    with t obtain s where s: "at_cell ty h a = Some s" "typed v h s" by (auto simp: behind_def split: option.splits)
    with same Some have "agree (insert a (reaches v h s)) h h'" by (simp add: behind_def)
    then have "at_cell ty h' a = Some s" "agree (reaches v h s) h h'" using s(1) by (simp_all add: at_cell_def)
    with deep_copy.own [OF copy s(2)] Some s show ?thesis by (simp add: behind_def)
  qed (simp add: behind_def)
next
  fix h h' and p p' :: "addr option"
  assume h: "well h" and t: "typed (behind ty v) h p" and run: "run_state (copy_pointer ty copy p) h = (p', h')"
  show "well h' \<and> cells h \<subseteq>\<^sub>m cells h' \<and> typed (behind ty v) h' p' \<and> content (behind ty v) h' p' = content (behind ty v) h p
      \<and> reaches (behind ty v) h' p' \<inter> dom (cells h) = {}"
  proof (cases p)
    case None
    with run h show ?thesis by (simp add: copy_pointer_def behind_def)
  next
    case (Some a)
    with t obtain s where s: "at_cell ty h a = Some s" "typed v h s" by (auto simp: behind_def split: option.splits)
    obtain s1 h1 where one: "run_state (copy s) h = (s1, h1)" by fastforce
    obtain b h2 where two: "run_state (new (into ty s1)) h1 = (b, h2)" by fastforce
    have p': "p' = Some b" "h' = h2"
      using run Some s(1) one two by (simp_all add: copy_pointer_def run_load at_cell_def)
    show ?thesis
      using copied_to_new [OF copy h s(2) one two] at_new [OF _ ty, of h2 b s1] Some s(1) by (simp add: p' behind_def)
  qed
qed

lemma elements_law:
  assumes copy: "deep_copy copy v"
  shows "deep_copy (copy_elements copy) (listed v)"
proof
  fix h h' xs
  assume t: "typed (listed v) h xs"
  show "reaches (listed v) h xs \<subseteq> dom (cells h)"
    using t deep_copy.inside [OF copy] by (fastforce simp: listed_def list_all_iff)
  assume same: "agree (reaches (listed v) h xs) h h'"
  have "content v h' x = content v h x \<and> reaches v h' x = reaches v h x \<and> typed v h' x" if "x \<in> set xs" for x
  proof (rule deep_copy.own [OF copy])
    show "typed v h x" using t that by (simp add: listed_def list_all_iff)
    show "agree (reaches v h x) h h'" using same that by (auto simp: listed_def agree_def)
  qed
  then show "content (listed v) h' xs = content (listed v) h xs
      \<and> reaches (listed v) h' xs = reaches (listed v) h xs \<and> typed (listed v) h' xs"
    by (simp add: listed_def list_all_iff)
next
  fix h h' and xs xs'
  assume "well h" "typed (listed v) h xs" "run_state (copy_elements copy xs) h = (xs', h')"
  then show "well h' \<and> cells h \<subseteq>\<^sub>m cells h' \<and> typed (listed v) h' xs' \<and> content (listed v) h' xs' = content (listed v) h xs
      \<and> reaches (listed v) h' xs' \<inter> dom (cells h) = {}"
  proof (induction xs arbitrary: h xs')
    case Nil
    then show ?case by (simp add: listed_def)
  next
    case (Cons x xs)
    obtain y h1 where one: "run_state (copy x) h = (y, h1)" by fastforce
    obtain ys h2 where two: "run_state (copy_elements copy xs) h1 = (ys, h2)" by fastforce
    have xs': "xs' = y # ys" "h2 = h'" using Cons.prems(3) one two by simp_all
    have x: "typed v h x" and xs: "typed (listed v) h xs" using Cons.prems(2) by (simp_all add: listed_def)
    have c1: "well h1" "cells h \<subseteq>\<^sub>m cells h1" "typed v h1 y" "content v h1 y = content v h x" "reaches v h1 y \<inter> dom (cells h) = {}"
      using deep_copy.copies [OF copy Cons.prems(1) x one] by simp_all
    have kept: "typed (listed v) h1 xs" "content (listed v) h1 xs = content (listed v) h xs"
      using xs deep_copy.grown [OF copy _ c1(2)] by (simp_all add: listed_def list_all_iff)
    have c2: "well h'" "cells h1 \<subseteq>\<^sub>m cells h'" "typed (listed v) h' ys" "content (listed v) h' ys = content (listed v) h1 xs"
      "reaches (listed v) h' ys \<inter> dom (cells h1) = {}"
      using Cons.IH [OF c1(1) kept(1)] two xs'(2) by simp_all
    show ?case
      using c1 c2 kept deep_copy.grown [OF copy c1(3) c2(2)] map_le_trans [OF c1(2) c2(2)] apart_before [OF c2(5) c1(2)]
      by (simp add: xs'(1) listed_def Int_Un_distrib2)
  qed
qed

lemma slice_law:
  assumes copy: "deep_copy copy v" and ty: "\<And>s. out_of ty (into ty s) = Some s"
  shows "deep_copy (copy_slice ty copy) (sliced ty v)"
proof
  note elements = elements_law [OF copy]
  fix h h' and sl :: slice
  assume t: "typed (sliced ty v) h sl"
  show "reaches (sliced ty v) h sl \<subseteq> dom (cells h)"
    using t at_cell_dom deep_copy.inside [OF elements] by (fastforce simp: sliced_def split: option.splits slice.splits)
  show "content (sliced ty v) h' sl = content (sliced ty v) h sl \<and> reaches (sliced ty v) h' sl = reaches (sliced ty v) h sl \<and> typed (sliced ty v) h' sl"
    if same: "agree (reaches (sliced ty v) h sl) h h'"
  proof (cases sl)
    case (Slice a off len)
    with t obtain xs where xs: "at_cell ty h a = Some xs" "typed (listed v) h (take len (drop off xs))"
      by (auto simp: sliced_def split: option.splits)
    with same Slice have "agree (insert a (reaches (listed v) h (take len (drop off xs)))) h h'" by (simp add: sliced_def)
    then have "at_cell ty h' a = Some xs" "agree (reaches (listed v) h (take len (drop off xs))) h h'"
      using xs(1) by (simp_all add: at_cell_def)
    with deep_copy.own [OF elements xs(2)] Slice xs t show ?thesis by (simp add: sliced_def)
  qed (simp add: sliced_def)
next
  note elements = elements_law [OF copy]
  fix h h' and sl sl' :: slice
  assume h: "well h" and t: "typed (sliced ty v) h sl" and run: "run_state (copy_slice ty copy sl) h = (sl', h')"
  show "well h' \<and> cells h \<subseteq>\<^sub>m cells h' \<and> typed (sliced ty v) h' sl' \<and> content (sliced ty v) h' sl' = content (sliced ty v) h sl
      \<and> reaches (sliced ty v) h' sl' \<inter> dom (cells h) = {}"
  proof (cases sl)
    case NilSlice
    with run h show ?thesis by (simp add: copy_slice_def sliced_def)
  next
    case (Slice a off len)
    with t obtain xs where xs: "at_cell ty h a = Some xs" "typed (listed v) h (take len (drop off xs))" "off + len \<le> length xs"
      by (auto simp: sliced_def split: option.splits)
    obtain ys h1 where one: "run_state (copy_elements copy (take len (drop off xs))) h = (ys, h1)" by fastforce
    obtain b h2 where two: "run_state (new (into ty ys)) h1 = (b, h2)" by fastforce
    have sl': "sl' = Slice b 0 len" "h' = h2"
      using run Slice xs(1) one two by (simp_all add: copy_slice_def run_load at_cell_def)
    note made = copied_to_new [OF elements h xs(2) one two]
    then have "map (content v h2) ys = map (content v h) (take len (drop off xs))" by (simp add: listed_def)
    then have "length ys = length (take len (drop off xs))" by (metis length_map)
    then have "length ys = len" using xs(3) by simp
    then show ?thesis
      using made at_new [OF _ ty, of h2 b ys] Slice xs(1) by (simp add: sl' sliced_def)
  qed
qed

lemma both_law:
  assumes c: "deep_copy c v" and d: "deep_copy d w"
  shows "deep_copy (\<lambda>(s, t). do { s' \<leftarrow> c s; t' \<leftarrow> d t; ret (s', t') }) (both v w)"
proof
  fix h h' st
  assume typed: "typed (both v w) h st"
  obtain s t where st: "st = (s, t)" by fastforce
  show "reaches (both v w) h st \<subseteq> dom (cells h)"
    using typed deep_copy.inside [OF c] deep_copy.inside [OF d] by (simp add: st both_def)
  show "content (both v w) h' st = content (both v w) h st \<and> reaches (both v w) h' st = reaches (both v w) h st \<and> typed (both v w) h' st"
    if "agree (reaches (both v w) h st) h h'"
    using that typed deep_copy.own [OF c, of h s h'] deep_copy.own [OF d, of h t h'] by (simp add: st both_def)
next
  fix h h' st st'
  assume h: "well h" and ty: "typed (both v w) h st"
    and run: "run_state ((\<lambda>(s, t). do { s' \<leftarrow> c s; t' \<leftarrow> d t; ret (s', t') }) st) h = (st', h')"
  obtain s t where st: "st = (s, t)" by fastforce
  have s: "typed v h s" and t: "typed w h t" using ty by (simp_all add: st both_def)
  obtain s' h1 where one: "run_state (c s) h = (s', h1)" by fastforce
  obtain t' h2 where two: "run_state (d t) h1 = (t', h2)" by fastforce
  have st': "st' = (s', t')" "h2 = h'" using run one two by (simp_all add: st)
  have c1: "well h1" "cells h \<subseteq>\<^sub>m cells h1" "typed v h1 s'" "content v h1 s' = content v h s" "reaches v h1 s' \<inter> dom (cells h) = {}"
    using deep_copy.copies [OF c h s one] by simp_all
  note kept = deep_copy.grown [OF d t c1(2)]
  have c2: "well h'" "cells h1 \<subseteq>\<^sub>m cells h'" "typed w h' t'" "content w h' t' = content w h1 t" "reaches w h' t' \<inter> dom (cells h1) = {}"
    using deep_copy.copies [OF d c1(1) kept(3)] two st'(2) by simp_all
  show "well h' \<and> cells h \<subseteq>\<^sub>m cells h' \<and> typed (both v w) h' st' \<and> content (both v w) h' st' = content (both v w) h st
      \<and> reaches (both v w) h' st' \<inter> dom (cells h) = {}"
    using c1 c2 kept deep_copy.grown [OF c c1(3) c2(2)] map_le_trans [OF c1(2) c2(2)] apart_before [OF c2(5) c1(2)]
    by (simp add: st st'(1) both_def Int_Un_distrib2)
qed

lemma struct_law:
  assumes c: "deep_copy c v" and copy: "\<And>s. copy s = State_Monad.bind (c (refs s)) (\<lambda>x. ret (put x s))"
    and refs: "\<And>x s. refs (put x s) = x" and rest: "\<And>x s. rest (put x s) = rest s"
  shows "deep_copy copy (struct refs rest v)"
proof
  fix h h' s
  assume t: "typed (struct refs rest v) h s"
  then show "reaches (struct refs rest v) h s \<subseteq> dom (cells h)"
    using deep_copy.inside [OF c] by (simp add: struct_def)
  show "content (struct refs rest v) h' s = content (struct refs rest v) h s
      \<and> reaches (struct refs rest v) h' s = reaches (struct refs rest v) h s \<and> typed (struct refs rest v) h' s"
    if "agree (reaches (struct refs rest v) h s) h h'"
    using that t deep_copy.own [OF c, of h "refs s" h'] by (simp add: struct_def)
next
  fix h h' s s'
  assume h: "well h" and t: "typed (struct refs rest v) h s" and run: "run_state (copy s) h = (s', h')"
  obtain x h1 where one: "run_state (c (refs s)) h = (x, h1)" by fastforce
  have s': "s' = put x s" "h1 = h'" using run one by (simp_all add: copy)
  have "typed v h (refs s)" using t by (simp add: struct_def)
  from deep_copy.copies [OF c h this one]
  show "well h' \<and> cells h \<subseteq>\<^sub>m cells h' \<and> typed (struct refs rest v) h' s' \<and> content (struct refs rest v) h' s' = content (struct refs rest v) h s
      \<and> reaches (struct refs rest v) h' s' \<inter> dom (cells h) = {}"
    by (simp add: s' refs rest struct_def)
qed

end
