(* ===== verification/Deep_Copy_Properties.thy ===== *)
theory Deep_Copy_Properties
  imports Deep_Copy_Laws
begin

text \<open>
  The generated copies of the API types meet the contract of a deep copy: each type is viewed as its
  plain fields with the content of its references, and its copy is put together from the laws of
  its steps.
\<close>

section \<open>The cells\<close>

lemma cell_types [simp]:
  "out_of pull_secrets (into pull_secrets a) = Some a" "out_of tolerations (into tolerations b) = Some b"
  "out_of conditions (into conditions b) = Some b" "out_of tunnels (into tunnels c) = Some c"
  "out_of tunnel_routes (into tunnel_routes d) = Some d" "out_of selector (into selector e) = Some e"
  "out_of int32_cell (into int32_cell f) = Some f" "out_of bool_cell (into bool_cell g) = Some g"
  "out_of credentials_cell (into credentials_cell i) = Some i" "out_of endpoints_cell (into endpoints_cell j) = Some j"
  "out_of service_target_cell (into service_target_cell k) = Some k"
  "out_of upstream_target_cell (into upstream_target_cell l) = Some l"
  "out_of agent_cell (into agent_cell m) = Some m" "out_of tunnel_spec_cell (into tunnel_spec_cell n) = Some n"
  "out_of tunnel_status_cell (into tunnel_status_cell p) = Some p" "out_of tunnel_cell (into tunnel_cell q) = Some q"
  "out_of tunnel_list_cell (into tunnel_list_cell r) = Some r" "out_of route_spec_cell (into route_spec_cell s) = Some s"
  "out_of route_status_cell (into route_status_cell t) = Some t" "out_of route_cell (into route_cell u) = Some u"
  "out_of route_list_cell (into route_list_cell w) = Some w"
  by (simp_all add: pull_secrets_def tolerations_def conditions_def tunnels_def tunnel_routes_def selector_def int32_cell_def
      bool_cell_def credentials_cell_def endpoints_cell_def service_target_cell_def upstream_target_cell_def agent_cell_def
      tunnel_spec_cell_def tunnel_status_cell_def tunnel_cell_def tunnel_list_cell_def route_spec_cell_def route_status_cell_def
      route_cell_def route_list_cell_def)

lemma mem_assoc: "State_Monad.bind (State_Monad.bind m f) g = State_Monad.bind m (\<lambda>x. State_Monad.bind (f x) g)"
  by (simp add: State_Monad.bind_def split_def)

lemma mem_ret: "State_Monad.bind (ret x) f = f x" "State_Monad.bind m ret = m"
  by (simp_all add: State_Monad.bind_def State_Monad.return_def)

lemmas step_laws = ret_law pointer_law slice_law both_law
lemmas in_order = mem_assoc mem_ret case_prod_conv

section \<open>Tunnel\<close>

definition agent_refs :: "'v MAgentSpec \<Rightarrow> slice \<times> 'v \<times> addr option \<times> slice" where
  "agent_refs s = (ma_ImagePullSecrets s, ma_Resources s, ma_NodeSelector s, ma_Tolerations s)"

definition agent_rest :: "'v MAgentSpec \<Rightarrow> string \<times> string \<times> string" where
  "agent_rest s = (ma_Image s, ma_ImagePullPolicy s, ma_LogLevel s)"

abbreviation agent_view where
  "agent_view lib \<equiv> struct agent_refs agent_rest
     (both (sliced pull_secrets plain) (both lib (both (behind selector plain) (sliced tolerations lib))))"

lemma agent_law:
  assumes "deep_copy dc lib"
  shows "deep_copy (AgentSpec_DeepCopyInto dc) (agent_view lib)"
  by (rule struct_law [where put = "\<lambda>(a, b, c, d) s. s\<lparr>ma_ImagePullSecrets := a, ma_Resources := b, ma_NodeSelector := c, ma_Tolerations := d\<rparr>",
        OF both_law [OF slice_law [OF ret_law] both_law [OF assms both_law [OF pointer_law [OF ret_law] slice_law [OF assms]]]]])
     (auto simp: AgentSpec_DeepCopyInto_def agent_refs_def agent_rest_def in_order)

definition tunnel_spec_refs :: "'v MTunnelSpec \<Rightarrow> 'v MAgentSpec \<times> addr option" where
  "tunnel_spec_refs s = (ms_Agent s, ms_Endpoints s)"

definition tunnel_spec_rest :: "'v MTunnelSpec \<Rightarrow> CredentialsReference \<times> string" where
  "tunnel_spec_rest s = (ms_Credentials s, ms_DisplayName s)"

abbreviation tunnel_spec_view where
  "tunnel_spec_view lib \<equiv> struct tunnel_spec_refs tunnel_spec_rest (both (agent_view lib) (behind endpoints_cell plain))"

lemma tunnel_spec_law:
  assumes "deep_copy dc lib"
  shows "deep_copy (TunnelSpec_DeepCopyInto dc) (tunnel_spec_view lib)"
  by (rule struct_law [where put = "\<lambda>(a, b) s. s\<lparr>ms_Agent := a, ms_Endpoints := b\<rparr>",
        OF both_law [OF agent_law [OF assms] pointer_law [OF ret_law]]])
     (auto simp: TunnelSpec_DeepCopyInto_def tunnel_spec_refs_def tunnel_spec_rest_def in_order)

definition tunnel_status_rest :: "MTunnelStatus \<Rightarrow> string list \<times> int" where
  "tunnel_status_rest s = ([mt_TunnelID s, mt_ExternalID s, mt_Subdomain s, mt_CNAMETarget s, mt_WireGuardIP s,
     mt_CredentialSecret s, mt_OnlineStatus s], mt_ObservedGeneration s)"

abbreviation tunnel_status_view where
  "tunnel_status_view lib \<equiv> struct mt_Conditions tunnel_status_rest (sliced conditions lib)"

lemma tunnel_status_law:
  assumes "deep_copy dc lib"
  shows "deep_copy (TunnelStatus_DeepCopyInto dc) (tunnel_status_view lib)"
  by (rule struct_law [where put = "\<lambda>a s. s\<lparr>mt_Conditions := a\<rparr>", OF slice_law [OF assms]])
     (auto simp: TunnelStatus_DeepCopyInto_def tunnel_status_rest_def)

definition tunnel_refs :: "'v MTunnel \<Rightarrow> 'v \<times> 'v MTunnelSpec \<times> MTunnelStatus" where
  "tunnel_refs s = (mn_Meta s, mn_Spec s, mn_Status s)"

abbreviation tunnel_view where
  "tunnel_view lib \<equiv> struct tunnel_refs mn_TypeMeta (both lib (both (tunnel_spec_view lib) (tunnel_status_view lib)))"

lemma tunnel_law:
  assumes "deep_copy dc lib"
  shows "deep_copy (Tunnel_DeepCopyInto dc) (tunnel_view lib)"
  by (rule struct_law [where put = "\<lambda>(a, b, c) s. s\<lparr>mn_Meta := a, mn_Spec := b, mn_Status := c\<rparr>",
        OF both_law [OF assms both_law [OF tunnel_spec_law [OF assms] tunnel_status_law [OF assms]]]])
     (auto simp: Tunnel_DeepCopyInto_def tunnel_refs_def in_order)

abbreviation tunnel_list_view where
  "tunnel_list_view lib \<equiv> struct (\<lambda>s. (ml_Meta s, ml_Items s)) ml_TypeMeta (both lib (sliced tunnels (tunnel_view lib)))"

lemma tunnel_list_law:
  assumes "deep_copy dc lib"
  shows "deep_copy (TunnelList_DeepCopyInto dc) (tunnel_list_view lib)"
  by (rule struct_law [where put = "\<lambda>(a, b) s. s\<lparr>ml_Meta := a, ml_Items := b\<rparr>",
        OF both_law [OF assms slice_law [OF tunnel_law [OF assms]]]])
     (auto simp: TunnelList_DeepCopyInto_def in_order)

section \<open>TunnelRoute\<close>

definition route_spec_refs :: "MTunnelRouteSpec \<Rightarrow> addr option \<times> addr option \<times> addr option \<times> addr option" where
  "route_spec_refs s = (mr_Service s, mr_Upstream s, mr_Priority s, mr_Enabled s)"

definition route_spec_rest :: "MTunnelRouteSpec \<Rightarrow> string list \<times> bool" where
  "route_spec_rest s = ([mr_TunnelRef s, mr_Hostname s, mr_Type s, mr_PathPrefix s, mr_Scheme s], mr_StripPrefix s)"

abbreviation route_spec_view where
  "route_spec_view \<equiv> struct route_spec_refs route_spec_rest (both (behind service_target_cell plain)
     (both (behind upstream_target_cell plain) (both (behind int32_cell plain) (behind bool_cell plain))))"

lemma route_spec_law: "deep_copy TunnelRouteSpec_DeepCopyInto route_spec_view"
  by (rule struct_law [where put = "\<lambda>(a, b, c, d) s. s\<lparr>mr_Service := a, mr_Upstream := b, mr_Priority := c, mr_Enabled := d\<rparr>",
        OF both_law [OF pointer_law [OF ret_law] both_law [OF pointer_law [OF ret_law]
             both_law [OF pointer_law [OF ret_law] pointer_law [OF ret_law]]]]])
     (auto simp: TunnelRouteSpec_DeepCopyInto_def route_spec_refs_def route_spec_rest_def in_order)

interpretation route_spec: deep_copy TunnelRouteSpec_DeepCopyInto route_spec_view
  by (rule route_spec_law)

definition route_status_rest :: "MTunnelRouteStatus \<Rightarrow> string list \<times> int32 \<times> int" where
  "route_status_rest s = ([mu_RouteID s, mu_TunnelID s, mu_UpstreamHost s], mu_UpstreamPort s, mu_ObservedGeneration s)"

abbreviation route_status_view where
  "route_status_view lib \<equiv> struct mu_Conditions route_status_rest (sliced conditions lib)"

lemma route_status_law:
  assumes "deep_copy dc lib"
  shows "deep_copy (TunnelRouteStatus_DeepCopyInto dc) (route_status_view lib)"
  by (rule struct_law [where put = "\<lambda>a s. s\<lparr>mu_Conditions := a\<rparr>", OF slice_law [OF assms]])
     (auto simp: TunnelRouteStatus_DeepCopyInto_def route_status_rest_def)

definition route_refs :: "'v MTunnelRoute \<Rightarrow> 'v \<times> MTunnelRouteSpec \<times> MTunnelRouteStatus" where
  "route_refs s = (mo_Meta s, mo_Spec s, mo_Status s)"

abbreviation route_view where
  "route_view lib \<equiv> struct route_refs mo_TypeMeta (both lib (both route_spec_view (route_status_view lib)))"

lemma route_law:
  assumes "deep_copy dc lib"
  shows "deep_copy (TunnelRoute_DeepCopyInto dc) (route_view lib)"
  by (rule struct_law [where put = "\<lambda>(a, b, c) s. s\<lparr>mo_Meta := a, mo_Spec := b, mo_Status := c\<rparr>",
        OF both_law [OF assms both_law [OF route_spec_law route_status_law [OF assms]]]])
     (auto simp: TunnelRoute_DeepCopyInto_def route_refs_def in_order)

abbreviation route_list_view where
  "route_list_view lib \<equiv> struct (\<lambda>s. (mp_Meta s, mp_Items s)) mp_TypeMeta (both lib (sliced tunnel_routes (route_view lib)))"

lemma route_list_law:
  assumes "deep_copy dc lib"
  shows "deep_copy (TunnelRouteList_DeepCopyInto dc) (route_list_view lib)"
  by (rule struct_law [where put = "\<lambda>(a, b) s. s\<lparr>mp_Meta := a, mp_Items := b\<rparr>",
        OF both_law [OF assms slice_law [OF route_law [OF assms]]]])
     (auto simp: TunnelRouteList_DeepCopyInto_def in_order)

section \<open>Behind a pointer\<close>

text \<open>The structs without references are copied by assignment.\<close>

lemma assigned: "CredentialsReference_DeepCopyInto = ret" "EndpointsSpec_DeepCopyInto = ret" "ServiceTarget_DeepCopyInto = ret"
    "UpstreamTarget_DeepCopyInto = ret"
  by (simp_all add: fun_eq_iff CredentialsReference_DeepCopyInto_def EndpointsSpec_DeepCopyInto_def
      ServiceTarget_DeepCopyInto_def UpstreamTarget_DeepCopyInto_def)

lemma assigned_law:
  "deep_copy CredentialsReference_DeepCopyInto plain" "deep_copy EndpointsSpec_DeepCopyInto plain"
  "deep_copy ServiceTarget_DeepCopyInto plain" "deep_copy UpstreamTarget_DeepCopyInto plain"
  unfolding assigned by (rule ret_law)+

interpretation credentials_pointer: deep_copy CredentialsReference_DeepCopy "behind credentials_cell plain"
  unfolding CredentialsReference_DeepCopy_def by (rule pointer_law [OF assigned_law(1)]) simp

interpretation endpoints_pointer: deep_copy EndpointsSpec_DeepCopy "behind endpoints_cell plain"
  unfolding EndpointsSpec_DeepCopy_def by (rule pointer_law [OF assigned_law(2)]) simp

interpretation service_pointer: deep_copy ServiceTarget_DeepCopy "behind service_target_cell plain"
  unfolding ServiceTarget_DeepCopy_def by (rule pointer_law [OF assigned_law(3)]) simp

interpretation upstream_pointer: deep_copy UpstreamTarget_DeepCopy "behind upstream_target_cell plain"
  unfolding UpstreamTarget_DeepCopy_def by (rule pointer_law [OF assigned_law(4)]) simp

interpretation route_spec_pointer: deep_copy TunnelRouteSpec_DeepCopy "behind route_spec_cell route_spec_view"
  unfolding TunnelRouteSpec_DeepCopy_def by (rule pointer_law [OF route_spec_law]) simp

lemma pointer_laws:
  assumes "deep_copy dc lib"
  shows "deep_copy (AgentSpec_DeepCopy dc) (behind agent_cell (agent_view lib))"
    "deep_copy (TunnelSpec_DeepCopy dc) (behind tunnel_spec_cell (tunnel_spec_view lib))"
    "deep_copy (TunnelStatus_DeepCopy dc) (behind tunnel_status_cell (tunnel_status_view lib))"
    "deep_copy (Tunnel_DeepCopy dc) (behind tunnel_cell (tunnel_view lib))"
    "deep_copy (TunnelList_DeepCopy dc) (behind tunnel_list_cell (tunnel_list_view lib))"
    "deep_copy (TunnelRouteStatus_DeepCopy dc) (behind route_status_cell (route_status_view lib))"
    "deep_copy (TunnelRoute_DeepCopy dc) (behind route_cell (route_view lib))"
    "deep_copy (TunnelRouteList_DeepCopy dc) (behind route_list_cell (route_list_view lib))"
  unfolding AgentSpec_DeepCopy_def TunnelSpec_DeepCopy_def TunnelStatus_DeepCopy_def Tunnel_DeepCopy_def TunnelList_DeepCopy_def
    TunnelRouteStatus_DeepCopy_def TunnelRoute_DeepCopy_def TunnelRouteList_DeepCopy_def
  by (simp_all add: pointer_law agent_law tunnel_spec_law tunnel_status_law tunnel_law tunnel_list_law route_status_law
      route_law route_list_law assms)

section \<open>A library and a memory to run it in\<close>

text \<open>Library structs with one pointer, as the seconds of a toleration or the time of a deletion; and their copy.\<close>

datatype lib_struct = LibStruct string "addr option"

fun lib_pointer :: "lib_struct \<Rightarrow> addr option" where
  "lib_pointer (LibStruct s p) = p"

fun lib_text :: "lib_struct \<Rightarrow> string" where
  "lib_text (LibStruct s p) = s"

definition lib_DeepCopyInto :: "lib_struct \<Rightarrow> (lib_struct, lib_struct) mem" where
  "lib_DeepCopyInto s = do { p \<leftarrow> copy_pointer int32_cell ret (lib_pointer s); ret (LibStruct (lib_text s) p) }"

abbreviation lib_view :: "(lib_struct, lib_struct, string \<times> int32 option) view" where
  "lib_view \<equiv> struct lib_pointer lib_text (behind int32_cell plain)"

interpretation lib: deep_copy lib_DeepCopyInto lib_view
  by (rule struct_law [where put = "\<lambda>p s. LibStruct (lib_text s) p", OF pointer_law [OF ret_law]])
     (simp_all add: lib_DeepCopyInto_def)

text \<open>
  A Tunnel with a node selector, two tolerations and an endpoint, whose tolerations are a slice of a
  longer array; and a list of one TunnelRoute with a Service, a priority and a condition.
\<close>

definition sample_memory :: "lib_struct heap" where
  "sample_memory =
     \<lparr>cells = [
        0 \<mapsto> CTunnel \<lparr>mn_TypeMeta = (''Tunnel'', ''v1alpha1''), mn_Meta = LibStruct ''web'' (Some 1),
          mn_Spec = \<lparr>ms_Credentials = \<lparr>cr_Name = ''cred'', cr_ClientIDKey = [], cr_ClientSecretKey = []\<rparr>,
            ms_DisplayName = ''web'',
            ms_Agent = \<lparr>ma_Image = [], ma_ImagePullPolicy = [], ma_ImagePullSecrets = NilSlice, ma_Resources = LibStruct ''cpu'' None,
              ma_LogLevel = [], ma_NodeSelector = Some 2, ma_Tolerations = Slice 3 1 2\<rparr>,
            ms_Endpoints = Some 4\<rparr>,
          mn_Status = \<lparr>mt_TunnelID = [], mt_ExternalID = [], mt_Subdomain = [], mt_CNAMETarget = [], mt_WireGuardIP = [],
            mt_CredentialSecret = [], mt_OnlineStatus = [], mt_ObservedGeneration = 0, mt_Conditions = NilSlice\<rparr>\<rparr>,
        1 \<mapsto> CInt32 7,
        2 \<mapsto> CSelector [''zone'' \<mapsto> ''a''],
        3 \<mapsto> CTolerations [LibStruct ''x'' None, LibStruct ''y'' (Some 1), LibStruct ''z'' None],
        4 \<mapsto> CEndpoints \<lparr>ep_TokenURL = [], ep_API = ''https://api.example'', ep_ProjectID = []\<rparr>,
        5 \<mapsto> CTunnelRouteList \<lparr>mp_TypeMeta = (''TunnelRouteList'', ''v1alpha1''), mp_Meta = LibStruct [] None, mp_Items = Slice 6 0 1\<rparr>,
        6 \<mapsto> CTunnelRoutes [\<lparr>mo_TypeMeta = (''TunnelRoute'', ''v1alpha1''), mo_Meta = LibStruct ''shop'' None,
          mo_Spec = \<lparr>mr_TunnelRef = ''web'', mr_Hostname = ''shop.example'', mr_Type = ''host'', mr_PathPrefix = [],
            mr_Service = Some 7, mr_Upstream = None, mr_Scheme = ''http'', mr_StripPrefix = False, mr_Priority = Some 1, mr_Enabled = None\<rparr>,
          mo_Status = \<lparr>mu_RouteID = [], mu_TunnelID = [], mu_UpstreamHost = [], mu_UpstreamPort = 0, mu_ObservedGeneration = 0,
            mu_Conditions = Slice 8 0 1\<rparr>\<rparr>],
        7 \<mapsto> CServiceTarget \<lparr>sv_Name = ''shop'', sv_Port = StrVal ''http''\<rparr>,
        8 \<mapsto> CConditions [LibStruct ''Ready'' None]],
      fresh = 9\<rparr>"

lemma sample_memory_well: "well sample_memory"
  by (simp add: well_def sample_memory_def)

lemmas sample_views = struct_def both_def behind_def sliced_def listed_def plain_def at_cell_def tunnel_refs_def tunnel_spec_refs_def
  agent_refs_def route_refs_def route_spec_refs_def tunnel_cell_def endpoints_cell_def selector_def tolerations_def int32_cell_def
  pull_secrets_def conditions_def route_list_cell_def tunnel_routes_def service_target_cell_def bool_cell_def upstream_target_cell_def

lemma sample_memory_typed:
  "typed (behind tunnel_cell (tunnel_view lib_view)) sample_memory (Some 0)"
  "typed (behind route_list_cell (route_list_view lib_view)) sample_memory (Some 5)"
  by (simp_all add: sample_views sample_memory_def)

section \<open>The copies of objects\<close>

text \<open>
  C38. A copied Tunnel is equal and shares nothing. Given that the library's copies do, \<^verbatim>\<open>DeepCopy\<close> of a
  Tunnel returns a Tunnel of the same content; whatever is then done to memory the copy reaches
  leaves the content of the original alone, and whatever is done to memory the original reaches
  leaves the copy alone. The manager's cache is safe from a reconciler that changes what it was given.
\<close>

theorem tunnel_copy_is_equal_and_separate:
  assumes "deep_copy dc lib" and "well h" and "typed (behind tunnel_cell (tunnel_view lib)) h p"
    and "run_state (Tunnel_DeepCopy dc p) h = (q, h')"
  shows "content (behind tunnel_cell (tunnel_view lib)) h' q = content (behind tunnel_cell (tunnel_view lib)) h p
    \<and> (\<forall>h''. agree (- reaches (behind tunnel_cell (tunnel_view lib)) h' q) h' h'' \<longrightarrow>
         content (behind tunnel_cell (tunnel_view lib)) h'' p = content (behind tunnel_cell (tunnel_view lib)) h p)
    \<and> (\<forall>h''. agree (- reaches (behind tunnel_cell (tunnel_view lib)) h p) h' h'' \<longrightarrow>
         content (behind tunnel_cell (tunnel_view lib)) h'' q = content (behind tunnel_cell (tunnel_view lib)) h p)"
  using deep_copy.copies [OF pointer_laws(4) [OF assms(1)] assms(2-4)]
    deep_copy.independent [OF pointer_laws(4) [OF assms(1)] assms(2-4)] by blast

theorem tunnel_copy_is_equal_and_separate_witness:
  "\<exists>b h'. run_state (Tunnel_DeepCopy lib_DeepCopyInto (Some 0)) sample_memory = (Some b, h') \<and> b \<noteq> 0
     \<and> content (behind tunnel_cell (tunnel_view lib_view)) h' (Some b)
       = content (behind tunnel_cell (tunnel_view lib_view)) sample_memory (Some 0)"
proof -
  obtain q h' where run: "run_state (Tunnel_DeepCopy lib_DeepCopyInto (Some 0)) sample_memory = (q, h')" by fastforce
  note made = deep_copy.copies [OF pointer_laws(4) [OF lib.deep_copy_axioms] sample_memory_well sample_memory_typed(1) run]
  have "content (behind tunnel_cell (tunnel_view lib_view)) sample_memory (Some 0) \<noteq> None" "0 \<in> dom (cells sample_memory)"
    by (simp_all add: behind_def at_cell_def tunnel_cell_def sample_memory_def)
  with made have "\<exists>b. q = Some b \<and> b \<noteq> 0" by (cases q) (auto simp: behind_def)
  with tunnel_copy_is_equal_and_separate [OF lib.deep_copy_axioms sample_memory_well sample_memory_typed(1) run] run
  show ?thesis by blast
qed

text \<open>
  C39. A copied list of routes is well typed in memory of its own. \<^verbatim>\<open>DeepCopyObject\<close> of a TunnelRouteList
  gives the nil interface for nil, and otherwise an object behind a new address: every address it
  reaches is new and leads to a cell of its type, its content is that of the original, and all memory
  there was is as it was.
\<close>

theorem route_list_copy_is_well_typed:
  assumes "deep_copy dc lib" and "well h" and "typed (behind route_list_cell (route_list_view lib)) h p"
    and "run_state (TunnelRouteList_DeepCopyObject dc p) h = (obj, h')"
  shows "well h' \<and> cells h \<subseteq>\<^sub>m cells h'
    \<and> (case p of
         None \<Rightarrow> obj = NilObject
       | Some a \<Rightarrow> \<exists>b. obj = TunnelRouteListObject (Some b) \<and> typed (behind route_list_cell (route_list_view lib)) h' (Some b)
           \<and> reaches (behind route_list_cell (route_list_view lib)) h' (Some b) \<inter> dom (cells h) = {}
           \<and> content (behind route_list_cell (route_list_view lib)) h' (Some b)
             = content (behind route_list_cell (route_list_view lib)) h (Some a))"
proof -
  obtain q h1 where run: "run_state (TunnelRouteList_DeepCopy dc p) h = (q, h1)" by fastforce
  have obj: "h1 = h'" "obj = (if q \<noteq> None then TunnelRouteListObject q else NilObject)"
    using assms(4) run by (auto simp: TunnelRouteList_DeepCopyObject_def split: if_splits)
  note made = deep_copy.copies [OF pointer_laws(8) [OF assms(1)] assms(2,3) run]
  show ?thesis
  proof (cases p)
    case None
    then have "q = None" using run by (simp add: TunnelRouteList_DeepCopy_def copy_pointer_def)
    then show ?thesis using made obj None by simp
  next
    case (Some a)
    then have "content (behind route_list_cell (route_list_view lib)) h p \<noteq> None"
      using assms(3) by (auto simp: behind_def split: option.splits)
    then have "q \<noteq> None" using made by (auto simp: behind_def)
    then show ?thesis using made obj Some by auto
  qed
qed

theorem route_list_copy_is_well_typed_witness:
  "\<exists>b h'. run_state (TunnelRouteList_DeepCopyObject lib_DeepCopyInto (Some 5)) sample_memory = (TunnelRouteListObject (Some b), h')
     \<and> typed (behind route_list_cell (route_list_view lib_view)) h' (Some b)
     \<and> reaches (behind route_list_cell (route_list_view lib_view)) h' (Some b) \<inter> {0, 1, 2, 3, 4, 5, 6, 7, 8} = {}"
proof -
  obtain obj h' where run: "run_state (TunnelRouteList_DeepCopyObject lib_DeepCopyInto (Some 5)) sample_memory = (obj, h')" by fastforce
  have "dom (cells sample_memory) = {0, 1, 2, 3, 4, 5, 6, 7, 8}" by (auto simp: sample_memory_def)
  with route_list_copy_is_well_typed [OF lib.deep_copy_axioms sample_memory_well sample_memory_typed(2) run] run
  show ?thesis by auto
qed

end
