(* ===== verification/Process_Properties.thy ===== *)
theory Process_Properties
  imports Sample_World
begin

text \<open>
  The process of the operator from its first line to the manager it starts: the types it registers,
  the image it insists on, the controllers it runs.
\<close>

text \<open>
  C40. The process comes up whole or not at all. Registering the types never fails, and the manager's
  scheme has the Go type of every kind a controller watches; a manager that is started runs both
  controllers, each set up in full over the one client factory, with the index the Service lookup needs
  and both checks; it is started whenever there is an agent image and no call of the library fails,
  and without an agent image never, so the image of the agent's container is not empty.
\<close>

theorem process_runs_complete:
  assumes "scheme_lib clientgo meta"
  shows "\<exists>s. main_init clientgo meta = Some s
    \<and> (let run = mr_Ran (operator_process clientgo meta lib env version f) in
        (works lib \<longrightarrow> (run = None) = (fl_defaultAgentImage f = []))
        \<and> (case run of
             None \<Rightarrow> True
           | Some m \<Rightarrow>
               mgr_Controllers m = [tunnel_controller (main_tunnel_reconciler env version (fl_defaultAgentImage f)),
                 route_controller (main_route_reconciler env version (fl_clusterDomain f))]
               \<and> list_all (\<lambda>c. list_all (\<lambda>w. knows s (watched w)) (ctl_Watches c)) (mgr_Controllers m)
               \<and> mgr_Indexes m = [(serviceNameIndex, index_service_name)] \<and> mgr_Checks m = [''healthz'', ''readyz'']
               \<and> list_all (\<lambda>c. ct_Image c \<noteq> [])
                   (pt_Containers (ds_Template (dp_Spec (buildAgentDeployment t (fl_defaultAgentImage f) v))))))"
proof -
  obtain s where s: "main_init clientgo meta = Some s" "\<And>k. knows s k"
    using scheme_lib.init_complete [OF assms] by blast
  then have proc: "operator_process clientgo meta lib env version f = main lib env s version f"
    by (simp add: operator_process_def)
  have up: "(mr_Ran (main lib env s version f) = None) = (fl_defaultAgentImage f = [])" if "works lib"
  proof (cases "fl_defaultAgentImage f = []")
    case True
    then show ?thesis by (simp add: main_def failed_def)
  next
    case False
    then show ?thesis using that main_runs [of f lib] by (simp add: works_def)
  qed
  show ?thesis
  proof (cases "mr_Ran (main lib env s version f)")
    case None
    then show ?thesis using s(1) up by (intro exI [of _ s]) (simp add: proc Let_def)
  next
    case (Some m)
    have "list_all (\<lambda>c. list_all (\<lambda>w. knows s (watched w)) (ctl_Watches c)) (mgr_Controllers m)"
      unfolding main_ran(2) [OF Some] by (simp add: s(2) tunnel_controller_def route_controller_def)
    then show ?thesis
      using s(1) up Some
        main_runs_complete [where lib = lib and env = env and s = s and version = version and f = f and t = t and v = v]
      by (intro exI [of _ s]) (simp add: proc)
  qed
qed

text \<open>A library none of whose calls fails.\<close>

definition ok_lib :: "fakeAPI cluster manager_lib" where
  "ok_lib = \<lparr>lib_IndexField = \<lambda>_ _. None, lib_Complete = \<lambda>_ _. None, lib_NewManager = \<lambda>_. None,
     lib_AddCheck = \<lambda>_ _. None, lib_Start = \<lambda>_. None\<rparr>"

abbreviation ok_process :: "string \<Rightarrow> fakeAPI cluster main_run" where
  "ok_process img \<equiv> operator_process ref_clientgo ref_meta ok_lib sample_env ''dev'' (default_flags img)"

theorem process_runs_complete_witness:
  "mr_Ran (ok_process []) = None
   \<and> (\<exists>s m. main_init ref_clientgo ref_meta = Some s \<and> mr_Ran (ok_process ''agent:1'') = Some m
       \<and> list_all (\<lambda>c. list_all (\<lambda>w. knows s (watched w)) (ctl_Watches c)) (mgr_Controllers m))"
proof -
  note main = process_runs_complete [OF ref_scheme.scheme_lib_axioms, where lib = ok_lib and env = sample_env and version = "''dev''"
    and t = sample_tunnel and v = "[]"]
  have works: "works ok_lib" and img: "fl_defaultAgentImage (default_flags i) = i" for i
    by (simp_all add: works_def ok_lib_def default_flags_def)
  have "mr_Ran (ok_process []) = None"
    using main [of "default_flags []"] works img by (auto simp: Let_def)
  moreover obtain s where s: "main_init ref_clientgo ref_meta = Some s" "mr_Ran (ok_process ''agent:1'') \<noteq> None"
      "\<And>m. mr_Ran (ok_process ''agent:1'') = Some m \<Longrightarrow>
        list_all (\<lambda>c. list_all (\<lambda>w. knows s (watched w)) (ctl_Watches c)) (mgr_Controllers m)"
    using main [of "default_flags ''agent:1''"] works img by (auto simp: Let_def split: option.splits)
  ultimately show ?thesis by auto
qed

end
