(* ===== verification/Spec2Isabelle.thy ===== *)
theory Spec2Isabelle
  imports Route_Properties Client_Properties Watch_Properties Convergence_Properties System_Routes
    Lagging_Cache Deep_Copy_Properties Process_Properties
begin

text \<open>
  Verification of the NubulusCloud operator, a Kubernetes operator that keeps tunnels and their routes
  on a remote platform in step with Tunnel and TunnelRoute objects of a cluster.

  \<^bold>\<open>The program.\<close> A Tunnel object names a credential Secret of its namespace. Its reconciler
  (\<^verbatim>\<open>internal/controller/tunnel_controller.go\<close>) creates or adopts a tunnel on the platform, stores
  the tunnel's token in a Secret it owns and runs an agent Deployment (\<^verbatim>\<open>agent.go\<close>) with it. A
  TunnelRoute object names a Tunnel and a Service or an address of its namespace; its reconciler
  (\<^verbatim>\<open>tunnelroute_controller.go\<close>) publishes the route in that tunnel. Both reach the platform through
  one factory of cached clients (\<^verbatim>\<open>apiclient.go\<close>) over the typed client of \<^verbatim>\<open>internal/nubulus\<close>,
  whose failures are classified into permanent ones and ones worth retrying (\<^verbatim>\<open>errors.go\<close>).
  \<^verbatim>\<open>cmd/main.go\<close> reads the flags and wires it all together.

  \<^bold>\<open>How it is modelled.\<close> A method that talks to the cluster or the platform is a state transformer
  over \<open>world\<close>: an abstract outside (the API server and the platform), the trace of every call made
  with the answer it got, and the factory's cache. Everything not in the repository is a field of
  the record \<open>env\<close>, an argument of the definitions that use it (theory \<^verbatim>\<open>External\<close>); what the code
  relies on of it is a law of a locale (finalizer helpers, status conditions, not-found tests,
  object names). A returned error is \<open>Inl\<close>; a Go panic is the outcome \<open>Panicked\<close>.

  \<^item> \<^verbatim>\<open>Prelude\<close>, \<^verbatim>\<open>Json\<close>, \<^verbatim>\<open>Url\<close>: what is used of Go's \<^verbatim>\<open>strings\<close>, \<^verbatim>\<open>strconv\<close>,
    \<^verbatim>\<open>encoding/json\<close> and \<^verbatim>\<open>net/url\<close>, over byte strings; the weakest-precondition view of the
    state monad and ordering predicates on traces.
  \<^item> \<^verbatim>\<open>Api_Types\<close>: \<^verbatim>\<open>api/v1alpha1/tunnel_types.go\<close>, \<^verbatim>\<open>tunnelroute_types.go\<close> and the Kubernetes
    objects in the part the operator touches; the CRD's validation rules.
  \<^item> \<^verbatim>\<open>Errors\<close>, \<^verbatim>\<open>Nubulus_Client\<close>, \<^verbatim>\<open>Tunnel_Client\<close>: \<^verbatim>\<open>internal/nubulus/errors.go\<close>,
    \<^verbatim>\<open>client.go\<close>, \<^verbatim>\<open>tunnel.go\<close>.
  \<^item> \<^verbatim>\<open>Client_Factory\<close>, \<^verbatim>\<open>Agent\<close>, \<^verbatim>\<open>Tunnel_Controller\<close>, \<^verbatim>\<open>Route_Controller\<close>: the files of
    \<^verbatim>\<open>internal/controller\<close>. \<^verbatim>\<open>Controller_Setup\<close>: the \<^verbatim>\<open>SetupWithManager\<close> of both reconcilers,
    with the field index and the watches, and the requests an event becomes through them.
    \<^verbatim>\<open>Registration\<close>: \<^verbatim>\<open>api/v1alpha1/groupversion_info.go\<close> and the \<^verbatim>\<open>init\<close> functions that register the
    types. \<^verbatim>\<open>Operator_Main\<close>: \<^verbatim>\<open>cmd/main.go\<close>; \<^verbatim>\<open>Process_Properties\<close>: the process comes up whole or not at all.
  \<^item> \<^verbatim>\<open>Deep_Copy\<close>: \<^verbatim>\<open>api/v1alpha1/zz_generated.deepcopy.go\<close> over an explicit memory. Only here are
    the objects structs with addresses in them; everywhere else they are values, which is what the
    contract of the copies (\<^verbatim>\<open>Deep_Copy_Laws\<close>, \<^verbatim>\<open>Deep_Copy_Properties\<close>) allows: a copy has the content
    of the original and shares no memory with it.
  \<^item> \<^verbatim>\<open>Fake_Api\<close>: the platform the repository's own tests run against
    (\<^verbatim>\<open>internal/controller/fakeapi_test.go\<close>), behind the same paths and JSON. \<^verbatim>\<open>Cluster\<close>: an
    API server in memory that meets the contracts of \<^verbatim>\<open>External\<close>. Together they run the operator
    (\<^verbatim>\<open>Sample_World\<close>) and instantiate every locale.

  \<^bold>\<open>What is shown.\<close>

  \<^item> Order (\<^verbatim>\<open>Tunnel_Ordering\<close>, \<^verbatim>\<open>Tunnel_Deletion\<close>, \<^verbatim>\<open>Route_Ordering\<close>), for every environment that
    keeps the contracts: the finalizer before the first request to the platform, the external id
    before the create, the upstream before the route, a rotation only when no token is stored, the
    finalizer off only after what is recorded of the object, or found for it, was deleted or is gone.
  \<^item> Isolation (\<^verbatim>\<open>Isolation\<close>): nothing outside the object's namespace is read or written.
  \<^item> Convergence of a route (\<^verbatim>\<open>Ensure_Route\<close>, \<^verbatim>\<open>Fake_Runs\<close>): one run of \<^verbatim>\<open>ensureRoute\<close> leaves a
    route as the spec wants it in place of the one it takes for it, and every other as it was, proved over an abstract platform (locale \<open>route_platform\<close>) and
    instantiated through the whole wire.
  \<^item> Convergence of whole reconciles (\<^verbatim>\<open>Cluster_Runs\<close>, \<^verbatim>\<open>Tunnel_Runs\<close>: what each call does to the
    cluster and to the platform; \<^verbatim>\<open>Tunnel_Convergence\<close>, \<^verbatim>\<open>Route_Convergence\<close>: each method of the
    reconcilers): one reconcile of a Tunnel or of a TunnelRoute whose credential can be read realises it,
    whether the platform has it already, has it unrecorded or has lost it, a second one changes
    nothing, a deletion completes. They are stated in
    \<^verbatim>\<open>Convergence_Properties\<close>, with the histories in which something is left behind: a tunnel made but
    never recorded, a token that is no longer the platform's, a route that changed its tunnel.
  \<^item> The whole system (\<^verbatim>\<open>System_Properties\<close>, \<^verbatim>\<open>System_Routes\<close>): reconciles of Tunnels and of TunnelRoutes
    in any order, any of their calls failing or taking effect and losing its answer (\<^verbatim>\<open>Faults\<close>: which ones do is a list in the
    state, and the claims are for every list, so no bound on their number is assumed), restarts that
    lose the cache, users who create, edit and delete Tunnels, changes elsewhere (\<^verbatim>\<open>System\<close>: the
    step relation). \<^verbatim>\<open>System_State\<close> has the invariant, \<^verbatim>\<open>System_Runs\<close> and \<^verbatim>\<open>System_Reconcile\<close> the
    rule of each call and each method that keeps it, \<^verbatim>\<open>Route_Faults\<close> that a reconcile of a TunnelRoute
    changes routes only and with them keeps it too, \<^verbatim>\<open>Tunnel_Frame\<close> that a reconcile of a
    live Tunnel leaves the routes, the Services and every other Secret alone, \<^verbatim>\<open>Fault_Free\<close> that a reconcile without faults
    is one of the steps. In every reachable state no tunnel is orphaned and no stored token is stale,
    and one reconcile that is answered and whose credential can be read realises a Tunnel, or removes it,
    or publishes a TunnelRoute;
    routes never disturb a Tunnel, and two reconciles, the first of the Tunnel, bring up both. Left out of the steps, since
    then it is not so (see the histories above): someone who deletes a tunnel on the platform
    directly, who writes a token Secret, or who makes a Tunnel while the Secret of an earlier one
    of its name is still there. All Tunnels of the system name the same platform.
  \<^item> Events (\<^verbatim>\<open>Watch_Properties\<close>): which objects wake which reconciler, and that a credential Secret
    wakes none.
  \<^item> The client (\<^verbatim>\<open>Client_Properties\<close>, \<^verbatim>\<open>Wire_Roundtrip\<close>): round trips of bodies and answers, paths,
    error answers, the paged listing, the factory's cache.
  \<^item> The properties, as the operator wires its parts, are in \<^verbatim>\<open>Tunnel_Properties\<close>,
    \<^verbatim>\<open>Route_Properties\<close>, \<^verbatim>\<open>Convergence_Properties\<close>, \<^verbatim>\<open>System_Properties\<close>, \<^verbatim>\<open>System_Routes\<close>,
    \<^verbatim>\<open>Watch_Properties\<close>, \<^verbatim>\<open>Client_Properties\<close>, \<^verbatim>\<open>Deep_Copy_Properties\<close>, \<^verbatim>\<open>Process_Properties\<close> and, where one component is enough, in its own theory.

  \<^bold>\<open>Bounds.\<close> The JSON parser takes fuel, two units for every byte of its input and two more
  (\<open>fuel_of\<close>): each nested value consumes a byte first, and \<^verbatim>\<open>Json_Fuel\<close> shows that more fuel
  changes no answer, on any input; nesting beyond Go's ten thousand levels is refused. \<^verbatim>\<open>ListTunnels\<close> makes at most \<open>listPageLimit\<close> requests, as the
  code does. Everything else is structural recursion or has a termination proof.

  \<^bold>\<open>Idealised.\<close> \<^verbatim>\<open>cmd/main.go\<close> hands the reconcilers the manager's client, which reads from a cache.
  The properties about order, isolation, errors and statuses hold for every environment and so
  for a cache that lags, too. Those about convergence and about the system are over \<^verbatim>\<open>Cluster\<close>,
  where a read sees the last write, and where a \<^verbatim>\<open>CreateOrUpdate\<close> is one step that writes also
  when nothing changed. What a cache that lags behind the token Secret can cost is shown in
  \<^verbatim>\<open>Lagging_Cache\<close>: the credential is rotated and the new token lost.

  \<^bold>\<open>Not modelled.\<close> Log lines, the cancellation
  of contexts and timeouts, the OAuth exchange inside the HTTP transport, and the manager's work
  queue; manifests, chart and tests are not the program. The mutex of the factory is implicit: a
  call of the factory is one step. White space beyond ASCII around an error text is not trimmed.
\<close>

end
